(* ===== verification/Go_Prelude.thy ===== *)
theory Go_Prelude
  imports Main "HOL-Library.Word" "HOL-Library.Finite_Map" "HOL-Library.Char_ord"
    "HOL-Library.List_Lexorder"
begin

text \<open>
  What the payment daemon uses of Go and of its standard library.

  \<^item> \<open>bytes\<close>: a Go string and a Go byte slice are both sequences of bytes, and HOL's
    characters are bytes, so both are \<open>string\<close>; the conversion \<open>[]byte(s)\<close> is the identity.
    Where the code tells a nil slice from an empty one the model uses an option.
  \<^item> \<open>*big.Int\<close> is \<open>int\<close>; \<open>String\<close>, \<open>SetString\<close>, \<open>Bytes\<close> and \<open>SetBytes\<close> are
    \<open>big_String\<close>, \<open>SetString\<close>, \<open>big_Bytes\<close> and \<open>SetBytes\<close>. \<open>Quo\<close> truncates towards zero.
  \<^item> \<open>uint64\<close> and \<open>uint32\<close> are words: their arithmetic wraps.
  \<^item> \<open>time.Time\<close> is an \<open>int\<close>, the nanoseconds since the zero \<open>Time\<close>; the current time
    is an argument of the operation that reads the clock.
  \<^item> a bucket of the key/value database is a finite map from byte keys to the values stored under
    them; \<open>bucket_entries\<close> lists it in the order of its keys, which is the order in which the
    database's iterators visit them. A value is stored as the record the code marshals.
  \<^item> \<open>db_update\<close> is a read-write transaction: its body's changes are kept when the body returns
    no error and dropped when it returns one.
\<close>

type_synonym bytes = string
type_synonym uint64 = "64 word"
type_synonym uint32 = "32 word"
type_synonym time = int
type_synonym 'v bucket = "(bytes, 'v) fmap"

named_theorems go_simps \<open>rewriting the library functions the components share\<close>

section \<open>Error results\<close>

text \<open>A computation that may return an error is a sum, the error on the left.\<close>

fun sum_bind :: "'e + 'a \<Rightarrow> ('a \<Rightarrow> 'e + 'b) \<Rightarrow> 'e + 'b" where
  "sum_bind (Inl e) f = Inl e"
| "sum_bind (Inr x) f = f x"

lemma sum_bind_case: "sum_bind m f = (case m of Inl e \<Rightarrow> Inl e | Inr x \<Rightarrow> f x)"
  by (cases m) simp_all

lemma sum_bind_Inr_iff [simp]:
  "sum_bind m f = Inr y \<longleftrightarrow> (\<exists>x. m = Inr x \<and> f x = Inr y)"
  by (cases m) auto

lemma sum_bind_Inl_iff:
  "sum_bind m f = Inl e \<longleftrightarrow> m = Inl e \<or> (\<exists>x. m = Inr x \<and> f x = Inl e)"
  by (cases m) auto

definition guard_err :: "bool \<Rightarrow> 'e \<Rightarrow> 'e + unit" where
  "guard_err bad e = (if bad then Inl e else Inr ())"

lemma guard_err_Inr [simp]: "guard_err bad e = Inr u \<longleftrightarrow> \<not> bad"
  by (simp add: guard_err_def)

lemma guard_err_Inl [simp]: "guard_err bad e = Inl e' \<longleftrightarrow> bad \<and> e' = e"
  by (auto simp: guard_err_def)

text \<open>A transaction body maps the database to an error or to the new database and a result.\<close>

definition db_update :: "('s \<Rightarrow> 'e + 's \<times> 'a) \<Rightarrow> 's \<Rightarrow> 's \<times> ('e + 'a)" where
  "db_update body s = (case body s of Inl e \<Rightarrow> (s, Inl e) | Inr (s', r) \<Rightarrow> (s', Inr r))"

lemma db_update_Inr [simp]:
  "db_update body s = (s', Inr r) \<longleftrightarrow> body s = Inr (s', r)"
  by (auto simp: db_update_def split: sum.splits)

lemma db_update_Inl [simp]:
  "db_update body s = (s', Inl e) \<longleftrightarrow> body s = Inl e \<and> s' = s"
  by (auto simp: db_update_def split: sum.splits)

lemma db_update_cases:
  obtains (failed) e where "body s = Inl e" "db_update body s = (s, Inl e)"
  | (committed) s' r where "body s = Inr (s', r)" "db_update body s = (s', Inr r)"
  by (cases "body s") (auto simp: db_update_def)

section \<open>Bytes, hexadecimal and big-endian numbers\<close>

text \<open>A separator that does not occur in the first part splits a concatenation in one way.\<close>

lemma append_sep_eq_iff:
  "x \<notin> set xs \<Longrightarrow> x \<notin> set xs' \<Longrightarrow> xs @ x # ys = xs' @ x # ys' \<longleftrightarrow> xs = xs' \<and> ys = ys'"
proof (induction xs arbitrary: xs')
  case Nil
  then show ?case by (cases xs') auto
next
  case (Cons a xs)
  then show ?case by (cases xs') auto
qed

definition byte_of_nat :: "nat \<Rightarrow> char" where
  "byte_of_nat n = char_of n"

abbreviation nat_of_byte :: "char \<Rightarrow> nat" where
  "nat_of_byte c \<equiv> of_char c"

lemma nat_of_byte_lt [simp]: "nat_of_byte c < 256"
  by (metis char_of_def nat_of_char_less_256)

lemma nat_of_byte_of_nat [simp]: "nat_of_byte (byte_of_nat n) = n mod 256"
  by (simp add: byte_of_nat_def)

lemma byte_of_nat_of_byte [simp]: "byte_of_nat (nat_of_byte c) = c"
  by (simp add: byte_of_nat_def)

lemma byte_of_nat_eq_iff: "byte_of_nat m = byte_of_nat n \<longleftrightarrow> m mod 256 = n mod 256"
  by (metis byte_of_nat_of_byte nat_of_byte_of_nat)

lemma eq_byte_of_nat_iff: "c = byte_of_nat n \<longleftrightarrow> nat_of_byte c = n mod 256"
  by (metis byte_of_nat_of_byte nat_of_byte_of_nat byte_of_nat_eq_iff mod_mod_trivial)

definition hex_digit :: "nat \<Rightarrow> char" where
  "hex_digit d = (if d < 10 then byte_of_nat (48 + d) else byte_of_nat (87 + d))"

fun hex_encode :: "bytes \<Rightarrow> string" where
  "hex_encode [] = []"
| "hex_encode (c # cs) =
     hex_digit (nat_of_byte c div 16) # hex_digit (nat_of_byte c mod 16) # hex_encode cs"

lemma hex_digit_inj: "hex_digit a = hex_digit b \<Longrightarrow> a < 16 \<Longrightarrow> b < 16 \<Longrightarrow> a = b"
  by (auto simp: hex_digit_def byte_of_nat_eq_iff split: if_splits)

lemma hex_digit_nonzero: "d < 16 \<Longrightarrow> hex_digit d \<noteq> byte_of_nat 0"
  by (auto simp: hex_digit_def byte_of_nat_eq_iff split: if_splits)

lemma hex_encode_no_nul: "byte_of_nat 0 \<notin> set (hex_encode cs)"
proof (induction cs)
  case (Cons c cs)
  have "nat_of_byte c div 16 < 16"
    using nat_of_byte_lt [of c] by linarith
  with Cons show ?case
    using hex_digit_nonzero [of "nat_of_byte c div 16"] hex_digit_nonzero [of "nat_of_byte c mod 16"]
    by auto
qed simp

lemma hex_encode_inj: "hex_encode xs = hex_encode ys \<longleftrightarrow> xs = ys"
proof (induction xs arbitrary: ys)
  case Nil
  then show ?case by (cases ys) auto
next
  case (Cons x xs)
  show ?case
  proof (cases ys)
    case (Cons y zs)
    have hi: "nat_of_byte x div 16 < 16" "nat_of_byte y div 16 < 16"
      using nat_of_byte_lt [of x] nat_of_byte_lt [of y] by linarith+
    have "x = y" if "hex_digit (nat_of_byte x div 16) = hex_digit (nat_of_byte y div 16)"
      and "hex_digit (nat_of_byte x mod 16) = hex_digit (nat_of_byte y mod 16)"
    proof -
      have "nat_of_byte x div 16 = nat_of_byte y div 16"
        using that(1) hi by (rule hex_digit_inj)
      moreover have "nat_of_byte x mod 16 = nat_of_byte y mod 16"
        using that(2) by (rule hex_digit_inj) simp_all
      ultimately have "nat_of_byte x = nat_of_byte y"
        by (metis div_mult_mod_eq)
      then show ?thesis by (metis byte_of_nat_of_byte)
    qed
    with Cons.IH [of zs] \<open>ys = y # zs\<close> show ?thesis by auto
  qed auto
qed

lemma hex_encode_empty [simp]: "hex_encode b = [] \<longleftrightarrow> b = []"
  by (cases b) simp_all

lemma length_hex_encode [simp]: "length (hex_encode cs) = 2 * length cs"
  by (induction cs) auto

text \<open>\<open>be_bytes k n\<close>: the \<open>k\<close> low bytes of \<open>n\<close>, most significant first
  (\<open>binary.BigEndian.PutUint32\<close> with \<open>k = 4\<close>, \<open>PutUint64\<close> with \<open>k = 8\<close>).\<close>

fun be_bytes :: "nat \<Rightarrow> nat \<Rightarrow> bytes" where
  "be_bytes 0 n = []"
| "be_bytes (Suc k) n = be_bytes k (n div 256) @ [byte_of_nat (n mod 256)]"

definition be_value :: "bytes \<Rightarrow> nat" where
  "be_value bs = foldl (\<lambda>a c. a * 256 + nat_of_byte c) 0 bs"

lemma length_be_bytes [simp]: "length (be_bytes k n) = k"
  by (induction k arbitrary: n) auto

lemma be_value_snoc [simp]: "be_value (bs @ [c]) = be_value bs * 256 + nat_of_byte c"
  by (simp add: be_value_def)

lemma be_value_Nil [simp]: "be_value [] = 0"
  by (simp add: be_value_def)

lemma be_value_be_bytes: "be_value (be_bytes k n) = n mod 256 ^ k"
proof (induction k arbitrary: n)
  case (Suc k)
  have "be_value (be_bytes (Suc k) n) = (n div 256 mod 256 ^ k) * 256 + n mod 256"
    by (simp add: Suc)
  also have "\<dots> = n mod 256 ^ Suc k"
    by (simp add: mod_mult2_eq mult.commute)
  finally show ?case .
qed simp

lemma be_bytes_inj:
  "be_bytes k m = be_bytes k n \<Longrightarrow> m < 256 ^ k \<Longrightarrow> n < 256 ^ k \<Longrightarrow> m = n"
  by (metis be_value_be_bytes mod_less)

lemma list_less_snoc:
  fixes xs ys :: "'a::linorder list"
  assumes "length xs = length ys"
  shows "xs @ [a] < ys @ [b] \<longleftrightarrow> xs < ys \<or> (xs = ys \<and> a < b)"
  using assms by (induction xs ys rule: list_induct2) auto

lemma less_div_mod_iff:
  fixes m n d :: nat
  shows "m < n \<longleftrightarrow> m div d < n div d \<or> (m div d = n div d \<and> m mod d < n mod d)"
proof (cases "m div d = n div d")
  case True
  have "m = m div d * d + m mod d" "n = n div d * d + n mod d" by simp_all
  with True have "m < n \<longleftrightarrow> n div d * d + m mod d < n div d * d + n mod d" by metis
  then show ?thesis using True by (simp only: nat_add_left_cancel_less simp_thms less_irrefl)
next
  case False
  then show ?thesis using div_le_mono [of m n d] div_le_mono [of n m d] by linarith
qed

lemma be_bytes_less:
  "m < 256 ^ k \<Longrightarrow> n < 256 ^ k \<Longrightarrow> be_bytes k m < be_bytes k n \<longleftrightarrow> m < n"
proof (induction k arbitrary: m n)
  case (Suc k)
  have bounds: "m div 256 < 256 ^ k" "n div 256 < 256 ^ k"
    using Suc.prems by (simp_all add: less_mult_imp_div_less mult.commute)
  have "be_bytes (Suc k) m < be_bytes (Suc k) n \<longleftrightarrow>
      m div 256 < n div 256 \<or> (m div 256 = n div 256 \<and> m mod 256 < n mod 256)"
    using bounds Suc.IH [OF bounds] be_bytes_inj [of k "m div 256" "n div 256"]
    by (auto simp: list_less_snoc less_char_def)
  also have "\<dots> \<longleftrightarrow> m < n" by (rule less_div_mod_iff [symmetric])
  finally show ?case .
qed simp

text \<open>Incrementing a counter that is not at its maximum makes it larger.\<close>

lemma word_less_Suc:
  fixes c :: "'a :: len word"
  assumes "c \<noteq> - 1"
  shows "c < c + 1"
proof -
  have "uint c \<noteq> uint (- 1 :: 'a word)" using assms word_uint_eqI by blast
  moreover have "uint c < 2 ^ LENGTH('a)" by (rule uint_lt2p)
  moreover have "uint (- 1 :: 'a word) = 2 ^ LENGTH('a) - 1"
    by (simp add: unsigned_minus_1_eq_mask mask_eq_exp_minus_1)
  moreover have "uint (1 :: 'a word) = 1" by simp
  ultimately have "uint c + uint (1 :: 'a word) < 2 ^ size c" unfolding word_size by linarith
  then have "c \<le> c + 1" using no_plus_overflow_uint_size [of c 1] by simp
  moreover have "c \<noteq> c + 1" by simp
  ultimately show ?thesis by (simp add: order_less_le)
qed

section \<open>Arbitrary-precision integers\<close>

definition digit_char :: "nat \<Rightarrow> char" where
  "digit_char d = byte_of_nat (48 + d)"

fun nat_decimal :: "nat \<Rightarrow> string" where
  "nat_decimal n =
     (if n < 10 then [digit_char n] else nat_decimal (n div 10) @ [digit_char (n mod 10)])"

declare nat_decimal.simps [simp del]

definition is_digit :: "char \<Rightarrow> bool" where
  "is_digit c \<longleftrightarrow> 48 \<le> nat_of_byte c \<and> nat_of_byte c \<le> 57"

definition decimal_nat :: "string \<Rightarrow> nat option" where
  "decimal_nat s =
     (if s \<noteq> [] \<and> list_all is_digit s
      then Some (foldl (\<lambda>a c. a * 10 + (nat_of_byte c - 48)) 0 s) else None)"

text \<open>\<open>(*big.Int).String\<close> and \<open>new(big.Int).SetString(s, 10)\<close>: an optional sign and at
  least one digit, and nothing else.\<close>

definition big_String :: "int \<Rightarrow> string" where
  "big_String i = (if i < 0 then CHR ''-'' # nat_decimal (nat (- i)) else nat_decimal (nat i))"

definition SetString :: "string \<Rightarrow> int option" where
  "SetString s =
     (case s of [] \<Rightarrow> None
      | c # cs \<Rightarrow>
          if c = CHR ''-'' then map_option (\<lambda>n. - int n) (decimal_nat cs)
          else if c = CHR ''+'' then map_option int (decimal_nat cs)
          else map_option int (decimal_nat s))"

lemma is_digit_digit_char [simp]: "d < 10 \<Longrightarrow> is_digit (digit_char d)"
  by (simp add: is_digit_def digit_char_def)

lemma digit_char_value [simp]: "d < 10 \<Longrightarrow> nat_of_byte (digit_char d) = 48 + d"
  by (simp add: digit_char_def)

lemma nat_decimal_digits: "list_all is_digit (nat_decimal n)"
proof (induction n rule: nat_decimal.induct)
  case (1 n)
  then show ?case by (cases "n < 10") (simp_all add: nat_decimal.simps [of n])
qed

lemma nat_decimal_not_Nil [simp]: "nat_decimal n \<noteq> []"
  by (subst nat_decimal.simps) simp

lemma nat_decimal_value:
  "foldl (\<lambda>a c. a * 10 + (nat_of_byte c - 48)) 0 (nat_decimal n) = n"
proof (induction n rule: nat_decimal.induct)
  case (1 n)
  then show ?case by (cases "n < 10") (simp_all add: nat_decimal.simps [of n])
qed

lemma decimal_nat_nat_decimal [simp]: "decimal_nat (nat_decimal n) = Some n"
  by (simp add: decimal_nat_def nat_decimal_digits nat_decimal_value)

lemma zero_padded_value:
  "foldl (\<lambda>a c. a * 10 + (nat_of_byte c - 48)) 0 (replicate k (CHR ''0'') @ nat_decimal n) = n"
proof -
  have "foldl (\<lambda>a c. a * 10 + (nat_of_byte c - 48)) 0 (replicate k (CHR ''0'')) = 0"
    by (induction k) simp_all
  then show ?thesis by (simp add: nat_decimal_value)
qed

lemma length_nat_decimal: "n < 10 ^ k \<Longrightarrow> 0 < k \<Longrightarrow> length (nat_decimal n) \<le> k"
proof (induction k arbitrary: n)
  case (Suc k)
  show ?case
  proof (cases "n < 10")
    case True
    then show ?thesis by (simp add: nat_decimal.simps [of n])
  next
    case False
    with Suc.prems have "n div 10 < 10 ^ k" "0 < k"
      by (auto simp: less_mult_imp_div_less mult.commute intro: gr0I)
    with Suc.IH [of "n div 10"] False show ?thesis by (simp add: nat_decimal.simps [of n])
  qed
qed simp

lemma nat_decimal_hd:
  obtains c cs where "nat_decimal n = c # cs" "is_digit c"
  using nat_decimal_digits [of n] nat_decimal_not_Nil [of n]
  by (cases "nat_decimal n") auto

lemma is_digit_not_sign [simp]: "\<not> is_digit (CHR ''-'')" "\<not> is_digit (CHR ''+'')"
  by (simp_all add: is_digit_def)

text \<open>Printing and parsing are inverse to each other.\<close>

lemma SetString_big_String [simp, go_simps]: "SetString (big_String i) = Some i"
proof (cases "i < 0")
  case True
  then show ?thesis by (simp add: big_String_def SetString_def)
next
  case False
  obtain c cs where c: "nat_decimal (nat i) = c # cs" "is_digit c"
    by (rule nat_decimal_hd)
  then have "c \<noteq> CHR ''-''" "c \<noteq> CHR ''+''" by auto
  moreover have "decimal_nat (c # cs) = Some (nat i)"
    using decimal_nat_nat_decimal [of "nat i"] c(1) by simp
  ultimately show ?thesis using False c(1) by (simp add: big_String_def SetString_def)
qed

lemma big_String_not_Nil [simp]: "big_String i \<noteq> []"
  by (simp add: big_String_def)

lemma big_String_inj [simp]: "big_String i = big_String j \<longleftrightarrow> i = j"
  by (metis SetString_big_String option.inject)

lemma SetString_Nil [simp]: "SetString [] = None"
  by (simp add: SetString_def)

text \<open>\<open>Bytes\<close> is the big-endian magnitude without leading zeros: the sign is not part of it.
  \<open>SetBytes\<close> reads such a magnitude.\<close>

fun nat_Bytes :: "nat \<Rightarrow> bytes" where
  "nat_Bytes n = (if n = 0 then [] else nat_Bytes (n div 256) @ [byte_of_nat (n mod 256)])"

declare nat_Bytes.simps [simp del]

definition big_Bytes :: "int \<Rightarrow> bytes" where
  "big_Bytes i = nat_Bytes (nat \<bar>i\<bar>)"

definition SetBytes :: "bytes \<Rightarrow> int" where
  "SetBytes bs = int (be_value bs)"

lemma be_value_nat_Bytes: "be_value (nat_Bytes n) = n"
proof (induction n rule: nat_Bytes.induct)
  case (1 n)
  then show ?case by (cases "n = 0") (simp_all add: nat_Bytes.simps [of n] nat_Bytes.simps [of 0])
qed

lemma SetBytes_big_Bytes [simp]: "SetBytes (big_Bytes i) = \<bar>i\<bar>"
  by (simp add: SetBytes_def big_Bytes_def be_value_nat_Bytes)

lemma SetBytes_Nil [simp]: "SetBytes [] = 0"
  by (simp add: SetBytes_def be_value_def)

lemma SetBytes_nonneg [simp]: "0 \<le> SetBytes bs"
  by (simp add: SetBytes_def)

lemma nat_Bytes_inj: "nat_Bytes m = nat_Bytes n \<longleftrightarrow> m = n"
  by (metis be_value_nat_Bytes)

lemma big_Bytes_inj: "0 \<le> i \<Longrightarrow> 0 \<le> j \<Longrightarrow> big_Bytes i = big_Bytes j \<longleftrightarrow> i = j"
  by (auto simp: big_Bytes_def nat_Bytes_inj)

text \<open>\<open>Quo\<close> and \<open>QuoRem\<close> truncate towards zero; \<open>ceil_quo\<close> is the code's idiom of adding one to the
  quotient when the remainder is not zero.\<close>

definition Quo :: "int \<Rightarrow> int \<Rightarrow> int" where
  "Quo a b = sgn a * sgn b * (\<bar>a\<bar> div \<bar>b\<bar>)"

definition Rem :: "int \<Rightarrow> int \<Rightarrow> int" where
  "Rem a b = a - b * Quo a b"

lemma Quo_nonneg [simp]: "0 \<le> a \<Longrightarrow> 0 < b \<Longrightarrow> Quo a b = a div b"
  by (cases "a = 0") (simp_all add: Quo_def)

lemma Rem_nonneg [simp]: "0 \<le> a \<Longrightarrow> 0 < b \<Longrightarrow> Rem a b = a mod b"
  by (simp add: Rem_def minus_mult_div_eq_mod)

definition ceil_quo :: "int \<Rightarrow> int \<Rightarrow> int" where
  "ceil_quo a b = (if Rem a b \<noteq> 0 then Quo a b + 1 else Quo a b)"

text \<open>The rounded-up quotient is the least integer whose product with the denominator covers the
  numerator.\<close>

lemma ceil_quo_le_iff:
  assumes "0 \<le> a" "0 < b"
  shows "ceil_quo a b \<le> n \<longleftrightarrow> a \<le> n * b"
proof (cases "a mod b = 0")
  case True
  then obtain q where "a = q * b" by (metis dvd_def mod_eq_0_iff_dvd mult.commute)
  with assms show ?thesis by (simp add: ceil_quo_def)
next
  case False
  moreover have "a div b * b + a mod b = a" "0 \<le> a mod b" "a mod b < b"
    using assms by simp_all
  ultimately have lt: "(a div b) * b < a" "a < (a div b + 1) * b"
    unfolding distrib_right by linarith+
  have "a \<le> n * b \<longleftrightarrow> a div b + 1 \<le> n"
  proof
    assume "a \<le> n * b"
    with lt(1) have "(a div b) * b < n * b" by linarith
    with assms(2) have "a div b < n" by (simp add: mult_less_cancel_right)
    then show "a div b + 1 \<le> n" by linarith
  next
    assume "a div b + 1 \<le> n"
    with assms(2) have "(a div b + 1) * b \<le> n * b" by simp
    with lt(2) show "a \<le> n * b" by linarith
  qed
  with assms False show ?thesis by (simp add: ceil_quo_def)
qed

lemma ceil_quo_nonneg: "0 \<le> a \<Longrightarrow> 0 < b \<Longrightarrow> 0 \<le> ceil_quo a b"
  by (simp add: ceil_quo_def pos_imp_zdiv_nonneg_iff)

lemma ceil_quo_mono:
  assumes "0 \<le> a" "a \<le> a'" "0 < b"
  shows "ceil_quo a b \<le> ceil_quo a' b"
proof -
  have "a' \<le> ceil_quo a' b * b"
    using assms ceil_quo_le_iff [of a' b "ceil_quo a' b"] by simp
  with assms have "a \<le> ceil_quo a' b * b" by linarith
  with assms show ?thesis by (simp add: ceil_quo_le_iff)
qed

section \<open>Buckets\<close>

text \<open>A cursor walks a bucket in the byte order of its keys.\<close>

definition bucket_entries :: "'v bucket \<Rightarrow> (bytes \<times> 'v) list" where
  "bucket_entries m = map (\<lambda>k. (k, the (fmlookup m k))) (sorted_list_of_fset (fmdom m))"

lemma set_bucket_entries:
  "(k, v) \<in> set (bucket_entries m) \<longleftrightarrow> fmlookup m k = Some v"
  by (auto simp: bucket_entries_def image_iff fmlookup_dom_iff sorted_list_of_fset.rep_eq)

lemma sorted_bucket_entries: "sorted (map fst (bucket_entries m))"
  by (simp add: bucket_entries_def sorted_list_of_fset.rep_eq comp_def)

lemma distinct_bucket_entries: "distinct (map fst (bucket_entries m))"
  by (simp add: bucket_entries_def sorted_list_of_fset.rep_eq comp_def)

text \<open>A write above every key goes to the end of the walk; a deletion takes its entry out.\<close>

lemma sorted_list_of_fset_empty [simp]: "sorted_list_of_fset {||} = []"
  by (simp add: sorted_list_of_fset.rep_eq)

lemma bucket_entries_empty [simp]: "bucket_entries fmempty = []"
  by (simp add: bucket_entries_def)

lemma sorted_list_of_fset_facts:
  fixes A :: "'a :: linorder fset"
  shows "set (sorted_list_of_fset A) = fset A" "sorted (sorted_list_of_fset A)"
    "distinct (sorted_list_of_fset A)"
  by (simp_all add: sorted_list_of_fset.rep_eq)

lemma sorted_fset_upd_max:
  fixes A :: "'a :: linorder fset"
  assumes "\<And>x. x |\<in>| A \<Longrightarrow> x < k"
  shows "sorted_list_of_fset (finsert k A) = sorted_list_of_fset A @ [k]"
proof (rule sorted_distinct_set_unique)
  show "sorted (sorted_list_of_fset A @ [k])" "distinct (sorted_list_of_fset A @ [k])"
    using assms by (auto simp: sorted_append sorted_list_of_fset_facts less_imp_le)
  show "set (sorted_list_of_fset (finsert k A)) = set (sorted_list_of_fset A @ [k])"
    unfolding sorted_list_of_fset_facts set_append by auto
qed (rule sorted_list_of_fset_facts)+

lemma bucket_entries_upd_max:
  assumes "\<And>x v. fmlookup m x = Some v \<Longrightarrow> x < k"
  shows "bucket_entries (fmupd k v m) = bucket_entries m @ [(k, v)]"
proof -
  have lt: "x < k" if "x |\<in>| fmdom m" for x using assms that by (auto simp: fmlookup_dom_iff)
  then have "sorted_list_of_fset (fmdom (fmupd k v m)) = sorted_list_of_fset (fmdom m) @ [k]"
    unfolding fmdom_fmupd by (rule sorted_fset_upd_max)
  moreover have "x \<noteq> k" if "x \<in> set (sorted_list_of_fset (fmdom m))" for x
    using lt that by (auto simp: sorted_list_of_fset_facts)
  ultimately show ?thesis by (auto simp: bucket_entries_def)
qed

lemma bucket_entries_drop:
  "bucket_entries (fmdrop k m) = filter (\<lambda>kv. fst kv \<noteq> k) (bucket_entries m)"
proof -
  have "sorted_list_of_fset (fmdom (fmdrop k m)) = filter (\<lambda>x. x \<noteq> k) (sorted_list_of_fset (fmdom m))"
    by (rule sorted_distinct_set_unique)
      (auto simp: sorted_list_of_fset_facts sorted_wrt_filter)
  then show ?thesis by (simp add: bucket_entries_def filter_map comp_def)
qed

lemma fmlookup_fold_fmdrop:
  "fmlookup (fold fmdrop ks m) k = (if k \<in> set ks then None else fmlookup m k)"
  by (induction ks arbitrary: m) auto

text \<open>Sums over a bucket, and how one write moves them.\<close>

definition fmsum :: "('k \<Rightarrow> 'v \<Rightarrow> int) \<Rightarrow> ('k, 'v) fmap \<Rightarrow> int" where
  "fmsum f m = (\<Sum>k\<in>fset (fmdom m). f k (the (fmlookup m k)))"

definition fmval :: "('k \<Rightarrow> 'v \<Rightarrow> int) \<Rightarrow> ('k, 'v) fmap \<Rightarrow> 'k \<Rightarrow> int" where
  "fmval f m k = (case fmlookup m k of None \<Rightarrow> 0 | Some v \<Rightarrow> f k v)"

lemma fmsum_empty [simp]: "fmsum f fmempty = 0"
  by (simp add: fmsum_def)

lemma fmsum_rest:
  "(\<Sum>j\<in>fset (fmdom m) - {k}. f j (the (fmlookup m j))) = fmsum f m - fmval f m k"
  by (cases "fmlookup m k")
    (simp_all add: fmsum_def fmval_def sum_diff1 fmlookup_dom_iff fmdom_notI fmdomI)

lemma fmsum_upd: "fmsum f (fmupd k v m) = fmsum f m - fmval f m k + f k v"
proof -
  have "fmsum f (fmupd k v m) =
      f k v + (\<Sum>j\<in>fset (fmdom m) - {k}. f j (the (fmlookup (fmupd k v m) j)))"
    by (simp add: fmsum_def sum.insert_remove)
  also have "(\<Sum>j\<in>fset (fmdom m) - {k}. f j (the (fmlookup (fmupd k v m) j))) =
      (\<Sum>j\<in>fset (fmdom m) - {k}. f j (the (fmlookup m j)))"
    by (rule sum.cong) auto
  finally show ?thesis by (simp add: fmsum_rest)
qed

lemma fmsum_drop: "fmsum f (fmdrop k m) = fmsum f m - fmval f m k"
proof -
  have "fmsum f (fmdrop k m) = (\<Sum>j\<in>fset (fmdom m) - {k}. f j (the (fmlookup m j)))"
    unfolding fmsum_def by (rule sum.cong) auto
  then show ?thesis by (simp add: fmsum_rest)
qed

lemma fmval_upd [simp]: "fmval f (fmupd k v m) j = (if j = k then f k v else fmval f m j)"
  by (simp add: fmval_def)

lemma fmsum_nonneg: "(\<And>k v. fmlookup m k = Some v \<Longrightarrow> 0 \<le> f k v) \<Longrightarrow> 0 \<le> fmsum f m"
  unfolding fmsum_def by (rule sum_nonneg) (auto simp: fmlookup_dom_iff)

lemma fmsum_ge_member:
  assumes "\<And>k v. fmlookup m k = Some v \<Longrightarrow> 0 \<le> f k v" and "fmlookup m k = Some v"
  shows "f k v \<le> fmsum f m"
proof -
  have "0 \<le> fmsum f (fmdrop k m)"
    using assms(1) by (intro fmsum_nonneg) (auto split: if_splits)
  then show ?thesis using assms(2) by (simp add: fmsum_drop fmval_def)
qed

lemma fmsum_cong:
  "(\<And>k v. fmlookup m k = Some v \<Longrightarrow> f k v = g k v) \<Longrightarrow> fmsum f m = fmsum g m"
  unfolding fmsum_def by (rule sum.cong) (auto simp: fmlookup_dom_iff)

lemma sum_bucket_entries: "sum_list (map (\<lambda>kv. f (fst kv) (snd kv)) (bucket_entries m)) = fmsum f m"
proof -
  have "sum_list (map (\<lambda>kv. f (fst kv) (snd kv)) (bucket_entries m)) =
      sum_list (map (\<lambda>k. f k (the (fmlookup m k))) (sorted_list_of_fset (fmdom m)))"
    by (simp add: bucket_entries_def comp_def)
  also have "\<dots> = fmsum f m"
    by (simp add: fmsum_def sum_list_distinct_conv_sum_set sorted_list_of_fset_facts)
  finally show ?thesis .
qed

text \<open>How many entries of a bucket satisfy a predicate.\<close>

definition fmcount :: "('k \<Rightarrow> 'v \<Rightarrow> bool) \<Rightarrow> ('k, 'v) fmap \<Rightarrow> int" where
  "fmcount P = fmsum (\<lambda>k v. if P k v then 1 else 0)"

lemma fmcount_zero_iff:
  "fmcount P m = 0 \<longleftrightarrow> (\<forall>k v. fmlookup m k = Some v \<longrightarrow> \<not> P k v)"
proof
  assume z: "fmcount P m = 0"
  show "\<forall>k v. fmlookup m k = Some v \<longrightarrow> \<not> P k v"
  proof (intro allI impI notI)
    fix k v assume "fmlookup m k = Some v" "P k v"
    then have "1 \<le> fmcount P m"
      using fmsum_ge_member [of m "\<lambda>k v. if P k v then 1 else 0" k v]
      by (simp add: fmcount_def)
    with z show False by simp
  qed
next
  assume "\<forall>k v. fmlookup m k = Some v \<longrightarrow> \<not> P k v"
  then show "fmcount P m = 0"
    unfolding fmcount_def fmsum_def by (intro sum.neutral) (auto simp: fmlookup_dom_iff)
qed

end
