(* ===== verification/Payment_Types.thy ===== *)
theory Payment_Types
  imports Complex_Main Go_Prelude
begin

text \<open>
  The pure data and arithmetic shared by sender, receiver, escrow and settlement
  (\<open>payment-daemon/internal/types\<close>) and the stateless ticket validator
  (\<open>internal/service/receiver/validator\<close>).

  Keccak-256, the zero padding helper, the EIP-191 digest and public-key recovery come from
  go-ethereum. They are the fields of the record \<open>eth\<close>, an argument of every definition
  that reaches them; what a theorem needs of them is one of its hypotheses.

  A \<open>*big.Int\<close> that the code compares with nil is an \<open>int option\<close>.
\<close>

section \<open>Data\<close>

record TicketExpirationParams =
  CreationRound :: int
  CreationRoundBlockHash :: bytes

record TicketParams =
  tp_WholesaleAccountID :: string
  tp_TicketStreamID :: string
  tp_SettlementDomainID :: string
  tp_Recipient :: bytes
  tp_FaceValue :: "int option"
  tp_WinProb :: "int option"
  tp_RecipientRandHash :: bytes
  tp_Seed :: bytes
  tp_ExpirationBlock :: "int option"
  tp_ExpirationParams :: "TicketExpirationParams option"
  tp_HighestSeenNonce :: uint32
  tp_HasSeenNonces :: bool

record Ticket =
  Recipient :: bytes
  Sender :: bytes
  FaceValue :: "int option"
  WinProb :: "int option"
  SenderNonce :: uint32
  RecipientRandHash :: bytes
  tk_CreationRound :: int
  CreationRoundHash :: bytes

record SignedTicket =
  st_Ticket :: Ticket
  st_Sig :: bytes
  st_RecipientRand :: "int option"

record TicketSenderParams =
  sp_SenderNonce :: uint32
  sp_Sig :: bytes

record PriceInfo =
  PricePerUnit :: int
  PixelsPerUnit :: int
  Capability :: uint32
  Constraint :: string

record TicketBatch =
  tb_TicketParams :: "TicketParams option"
  tb_Sender :: bytes
  tb_ExpirationParams :: "TicketExpirationParams option"
  tb_TicketSenderParams :: "TicketSenderParams list"
  tb_ExpectedPrice :: "PriceInfo option"

record RedemptionInclusion =
  ri_TxHash :: bytes
  BlockNumber :: uint64
  BlockHash :: bytes
  ri_Round :: int
  ObservedHead :: uint64
  ObservedHeadHash :: bytes
  CheckedAt :: time

record RevenueCoverage =
  Head :: uint64
  HeadHash :: bytes
  FinalizedBlock :: uint64
  FinalizedBlockHash :: bytes
  CompleteThroughRound :: int
  ObservedAt :: time

text \<open>The wire messages these structs are converted to and from: numbers travel as big-endian
  magnitudes.\<close>

record pb_TicketParams =
  pb_recipient :: bytes
  pb_face_value :: bytes
  pb_win_prob :: bytes
  pb_recipient_rand_hash :: bytes
  pb_seed :: bytes
  pb_expiration_block :: bytes
  pb_expiration_params :: "TicketExpirationParams option"

record pb_Payment =
  pb_ticket_params :: "pb_TicketParams option"
  pb_sender :: bytes
  pb_pay_expiration_params :: "TicketExpirationParams option"
  pb_ticket_sender_params :: "TicketSenderParams list"
  pb_expected_price :: "PriceInfo option"

section \<open>Expected value\<close>

definition MaxWinProb :: int where
  "MaxWinProb = 2 ^ 256 - 1"

definition EV :: "int option \<Rightarrow> int option \<Rightarrow> rat option" where
  "EV faceValue winProb =
     (case (faceValue, winProb) of
        (Some f, Some w) \<Rightarrow> Some (of_int (f * w) / of_int MaxWinProb)
      | _ \<Rightarrow> None)"

definition CreditedEV :: "int option \<Rightarrow> int option \<Rightarrow> int" where
  "CreditedEV faceValue winProb =
     (case (faceValue, winProb) of
        (Some f, Some w) \<Rightarrow> Quo (f * w) MaxWinProb
      | _ \<Rightarrow> 0)"

section \<open>Wire conversion\<close>

definition bigIntBytes :: "int option \<Rightarrow> bytes" where
  "bigIntBytes n = (case n of None \<Rightarrow> [] | Some i \<Rightarrow> big_Bytes i)"

definition ticketParamsToWire :: "TicketParams option \<Rightarrow> pb_TicketParams option" where
  "ticketParamsToWire op =
     (case op of None \<Rightarrow> None
      | Some p \<Rightarrow> Some
         \<lparr>pb_recipient = tp_Recipient p,
          pb_face_value = bigIntBytes (tp_FaceValue p),
          pb_win_prob = bigIntBytes (tp_WinProb p),
          pb_recipient_rand_hash = tp_RecipientRandHash p,
          pb_seed = tp_Seed p,
          pb_expiration_block = bigIntBytes (tp_ExpirationBlock p),
          pb_expiration_params = tp_ExpirationParams p\<rparr>)"

definition TicketParamsFromWire :: "pb_TicketParams option \<Rightarrow> TicketParams option" where
  "TicketParamsFromWire oin =
     (case oin of None \<Rightarrow> None
      | Some p \<Rightarrow> Some
         \<lparr>tp_WholesaleAccountID = [], tp_TicketStreamID = [], tp_SettlementDomainID = [],
          tp_Recipient = pb_recipient p,
          tp_FaceValue = Some (SetBytes (pb_face_value p)),
          tp_WinProb = Some (SetBytes (pb_win_prob p)),
          tp_RecipientRandHash = pb_recipient_rand_hash p,
          tp_Seed = pb_seed p,
          tp_ExpirationBlock = Some (SetBytes (pb_expiration_block p)),
          tp_ExpirationParams = pb_expiration_params p,
          tp_HighestSeenNonce = 0, tp_HasSeenNonces = False\<rparr>)"

definition ToWirePayment :: "TicketBatch option \<Rightarrow> pb_Payment option" where
  "ToWirePayment ob =
     (case ob of None \<Rightarrow> None
      | Some b \<Rightarrow> Some
         \<lparr>pb_ticket_params = ticketParamsToWire (tb_TicketParams b),
          pb_sender = tb_Sender b,
          pb_pay_expiration_params = tb_ExpirationParams b,
          pb_ticket_sender_params = tb_TicketSenderParams b,
          pb_expected_price = tb_ExpectedPrice b\<rparr>)"

datatype face_value_error = FaceValueEmpty | FaceValueTooLong nat

definition ParseFaceValue :: "bytes \<Rightarrow> face_value_error + int" where
  "ParseFaceValue raw =
     (if length raw = 0 then Inl FaceValueEmpty
      else if 32 < length raw then Inl (FaceValueTooLong (length raw))
      else Inr (SetBytes raw))"

section \<open>Ticket hash\<close>

record eth =
  Keccak256 :: "bytes \<Rightarrow> bytes"
  LeftPadBytes :: "bytes \<Rightarrow> nat \<Rightarrow> bytes"
  TextHash :: "bytes \<Rightarrow> bytes"
  SigToPub :: "bytes \<Rightarrow> bytes \<Rightarrow> bytes option"
  PubkeyToAddress :: "bytes \<Rightarrow> bytes"

definition addressSize :: nat where "addressSize = 20"
definition uint256Size :: nat where "uint256Size = 32"
definition bytes32Size :: nat where "bytes32Size = 32"

abbreviation NUL :: char where
  "NUL \<equiv> byte_of_nat 0"

definition allZero :: "bytes \<Rightarrow> bool" where
  "allZero b \<longleftrightarrow> list_all (\<lambda>v. v = NUL) b"

definition leftPad :: "bytes \<Rightarrow> nat \<Rightarrow> bytes" where
  "leftPad b n =
     (if n \<le> length b then drop (length b - n) b else replicate (n - length b) NUL @ b)"

definition safeBytes :: "int option \<Rightarrow> bytes" where
  "safeBytes v = (case v of None \<Rightarrow> [] | Some i \<Rightarrow> big_Bytes i)"

definition AuxData :: "eth \<Rightarrow> Ticket \<Rightarrow> bytes" where
  "AuxData E t =
     (if tk_CreationRound t = 0 \<and> allZero (CreationRoundHash t) then []
      else LeftPadBytes E (big_Bytes (tk_CreationRound t)) uint256Size @
           LeftPadBytes E (take bytes32Size (CreationRoundHash t)) bytes32Size)"

definition flatten :: "eth \<Rightarrow> Ticket \<Rightarrow> bytes" where
  "flatten E t =
     leftPad (Recipient t) addressSize @
     leftPad (Sender t) addressSize @
     LeftPadBytes E (safeBytes (FaceValue t)) uint256Size @
     LeftPadBytes E (safeBytes (WinProb t)) uint256Size @
     LeftPadBytes E (big_Bytes (uint (SenderNonce t))) uint256Size @
     leftPad (RecipientRandHash t) bytes32Size @
     AuxData E t"

definition Ticket_Hash :: "eth \<Rightarrow> Ticket \<Rightarrow> bytes" where
  "Ticket_Hash E t = Keccak256 E (flatten E t)"

definition HashRecipientRand :: "eth \<Rightarrow> int option \<Rightarrow> bytes" where
  "HashRecipientRand E rand =
     Keccak256 E (LeftPadBytes E (big_Bytes (case rand of None \<Rightarrow> 0 | Some r \<Rightarrow> r)) uint256Size)"

definition WinningHash :: "eth \<Rightarrow> bytes \<Rightarrow> int option \<Rightarrow> int" where
  "WinningHash E sig rand =
     SetBytes (Keccak256 E
       (sig @ LeftPadBytes E (big_Bytes (case rand of None \<Rightarrow> 0 | Some r \<Rightarrow> r)) uint256Size))"

section \<open>Validator\<close>

datatype validator_error =
  ErrInvalidRecipient | ErrInvalidSender | ErrInvalidRecipientRand | ErrInvalidSignature

definition secp256k1halfN :: int where
  "secp256k1halfN = 0xfffffffffffffffffffffffffffffffebaaedce6af48a03bbfd25e8cd0364141 div 2"

definition isZeroAddr :: "bytes \<Rightarrow> bool" where
  "isZeroAddr b \<longleftrightarrow> length b = 0 \<or> list_all (\<lambda>v. v = NUL) b"

definition verifySig :: "eth \<Rightarrow> bytes \<Rightarrow> bytes \<Rightarrow> bytes \<Rightarrow> bool" where
  "verifySig E addr msg sig =
     (if length sig \<noteq> 65 then False
      else if secp256k1halfN < SetBytes (take 32 (drop 32 sig)) then False
      else if nat_of_byte (sig ! 64) \<noteq> 27 \<and> nat_of_byte (sig ! 64) \<noteq> 28 then False
      else
        let ethSig = sig[64 := byte_of_nat (nat_of_byte (sig ! 64) - 27)] in
        case SigToPub E (TextHash E msg) ethSig of
          None \<Rightarrow> False
        | Some pub \<Rightarrow> PubkeyToAddress E pub = addr)"

definition Validate ::
  "eth \<Rightarrow> bytes \<Rightarrow> Ticket \<Rightarrow> bytes \<Rightarrow> int option \<Rightarrow> validator_error option" where
  "Validate E recipient ticket sig recipientRand =
     (if Recipient ticket \<noteq> recipient then Some ErrInvalidRecipient
      else if isZeroAddr (Sender ticket) then Some ErrInvalidSender
      else if HashRecipientRand E recipientRand \<noteq> RecipientRandHash ticket
        then Some ErrInvalidRecipientRand
      else if \<not> verifySig E (Sender ticket) (Ticket_Hash E ticket) sig
        then Some ErrInvalidSignature
      else None)"

text \<open>Comparing with a nil \<open>WinProb\<close> panics; that is the result None.\<close>

definition IsWinning :: "eth \<Rightarrow> Ticket \<Rightarrow> bytes \<Rightarrow> int option \<Rightarrow> bool option" where
  "IsWinning E ticket sig recipientRand =
     (case WinProb ticket of None \<Rightarrow> None
      | Some w \<Rightarrow> Some (WinningHash E sig recipientRand < w))"

section \<open>Zero padding\<close>

text \<open>What a left-padding function promises, and what follows for the fixed-width fields of the
  ticket layout. The development's own \<open>leftPad\<close> is one; go-ethereum's \<open>LeftPadBytes\<close> is
  documented to be another.\<close>

lemma be_value_replicate_NUL [simp]: "be_value (replicate k NUL @ b) = be_value b"
  by (induction k) (simp_all add: be_value_def)

lemma length_nat_Bytes: "n < 256 ^ k \<Longrightarrow> length (nat_Bytes n) \<le> k"
proof (induction k arbitrary: n)
  case (Suc k)
  then have "n div 256 < 256 ^ k" by (simp add: less_mult_imp_div_less mult.commute)
  then show ?case using Suc.IH by (simp add: nat_Bytes.simps [of n])
qed (simp add: nat_Bytes.simps)

lemma length_big_Bytes: "\<bar>i\<bar> < 256 ^ k \<Longrightarrow> length (big_Bytes i) \<le> k"
proof -
  assume "\<bar>i\<bar> < 256 ^ k"
  then have "nat \<bar>i\<bar> < 256 ^ k" by (simp add: nat_less_iff)
  then show ?thesis by (simp add: big_Bytes_def length_nat_Bytes)
qed

locale zero_padding =
  fixes pad :: "bytes \<Rightarrow> nat \<Rightarrow> bytes"
  assumes pad_short: "length b \<le> n \<Longrightarrow> pad b n = replicate (n - length b) NUL @ b"
begin

lemma length_pad: "length b \<le> n \<Longrightarrow> length (pad b n) = n"
  by (simp add: pad_short)

lemma pad_exact: "length b = n \<Longrightarrow> pad b n = b"
  by (simp add: pad_short)

lemma SetBytes_pad: "length b \<le> n \<Longrightarrow> SetBytes (pad b n) = SetBytes b"
  by (simp add: pad_short SetBytes_def)

text \<open>A padded magnitude of at most \<open>n\<close> bytes has exactly \<open>n\<close> bytes and determines the number.\<close>

lemma length_pad_big: "\<bar>i\<bar> < 256 ^ n \<Longrightarrow> length (pad (big_Bytes i) n) = n"
  by (simp add: length_pad length_big_Bytes)

lemma SetBytes_pad_big: "\<bar>i\<bar> < 256 ^ n \<Longrightarrow> SetBytes (pad (big_Bytes i) n) = \<bar>i\<bar>"
  by (simp add: SetBytes_pad length_big_Bytes)

end

interpretation lp: zero_padding leftPad
  by unfold_locales (auto simp: leftPad_def)

section \<open>The flattened ticket determines the ticket\<close>

definition u256 :: "int option \<Rightarrow> bool" where
  "u256 v \<longleftrightarrow> (\<exists>i. v = Some i \<and> 0 \<le> i \<and> i < 2 ^ 256)"

text \<open>Every field has the width the contract gives it.\<close>

definition sized_ticket :: "Ticket \<Rightarrow> bool" where
  "sized_ticket t \<longleftrightarrow>
     length (Recipient t) = addressSize \<and> length (Sender t) = addressSize \<and>
     u256 (FaceValue t) \<and> u256 (WinProb t) \<and>
     length (RecipientRandHash t) = bytes32Size \<and>
     0 \<le> tk_CreationRound t \<and> tk_CreationRound t < 2 ^ 63 \<and>
     length (CreationRoundHash t) = bytes32Size"

lemma pow256: "(256::int) ^ 32 = 2 ^ 256"
  by simp

lemma allZero_eq: "allZero b \<Longrightarrow> allZero c \<Longrightarrow> length b = length c \<Longrightarrow> b = c"
  by (rule nth_equalityI) (simp_all add: allZero_def list_all_length)

lemma u256_pad:
  assumes "zero_padding pad" "u256 v"
  shows "length (pad (safeBytes v) 32) = 32"
    and "Some (SetBytes (pad (safeBytes v) 32)) = v"
  using assms zero_padding.length_pad_big [of pad _ 32] zero_padding.SetBytes_pad_big [of pad _ 32]
  by (auto simp: u256_def safeBytes_def pow256)

lemma u256_pad_inj:
  assumes "zero_padding pad" "u256 v" "u256 w"
  shows "pad (safeBytes v) 32 = pad (safeBytes w) 32 \<longleftrightarrow> v = w"
  using u256_pad(2) [OF assms(1,2)] u256_pad(2) [OF assms(1,3)] by metis

lemma nonce_bound:
  fixes w :: uint32
  shows "\<bar>uint w\<bar> < 256 ^ 32"
proof -
  have "uint w < 2 ^ 32" using uint_lt2p [of w] by simp
  also have "\<dots> < (256::int) ^ 32" by simp
  finally show ?thesis by simp
qed

lemma nonce_pad_inj:
  fixes v w :: uint32
  assumes "zero_padding pad"
  shows "pad (big_Bytes (uint v)) 32 = pad (big_Bytes (uint w)) 32 \<longleftrightarrow> v = w"
  using zero_padding.SetBytes_pad_big [OF assms nonce_bound, of v]
    zero_padding.SetBytes_pad_big [OF assms nonce_bound, of w]
  by (metis abs_of_nonneg uint_ge_0 uint_word_of_int_eq word_of_int_uint)

lemma AuxData_inj:
  assumes "zero_padding (LeftPadBytes E)" "sized_ticket t" "sized_ticket u"
    and "AuxData E t = AuxData E u"
  shows "tk_CreationRound t = tk_CreationRound u \<and> CreationRoundHash t = CreationRoundHash u"
proof -
  have round: "\<bar>tk_CreationRound x\<bar> < 256 ^ 32" if "sized_ticket x" for x
  proof -
    have "(2::int) ^ 63 < 256 ^ 32" by simp
    then show ?thesis using that unfolding sized_ticket_def by linarith
  qed
  note len = zero_padding.length_pad_big [OF assms(1) round [OF assms(2)]]
    zero_padding.length_pad_big [OF assms(1) round [OF assms(3)]]
  note val = zero_padding.SetBytes_pad_big [OF assms(1) round [OF assms(2)]]
    zero_padding.SetBytes_pad_big [OF assms(1) round [OF assms(3)]]
  have hash: "length (CreationRoundHash t) = 32" "length (CreationRoundHash u) = 32"
    "0 \<le> tk_CreationRound t" "0 \<le> tk_CreationRound u"
    using assms by (simp_all add: sized_ticket_def bytes32Size_def)
  have aux: "AuxData E x =
      (if tk_CreationRound x = 0 \<and> allZero (CreationRoundHash x) then []
       else LeftPadBytes E (big_Bytes (tk_CreationRound x)) 32 @ CreationRoundHash x)"
    if "length (CreationRoundHash x) = 32" for x
    using that assms(1) by (simp add: AuxData_def zero_padding.pad_exact uint256Size_def bytes32Size_def)
  show ?thesis
  proof (cases "AuxData E t = []")
    case True
    with assms(4) hash show ?thesis
      by (auto simp: aux split: if_splits intro: allZero_eq)
  next
    case False
    with assms(4) hash have eq: "LeftPadBytes E (big_Bytes (tk_CreationRound t)) 32 @ CreationRoundHash t =
        LeftPadBytes E (big_Bytes (tk_CreationRound u)) 32 @ CreationRoundHash u"
      by (simp add: aux split: if_splits)
    then have "CreationRoundHash t = CreationRoundHash u" using hash by simp
    moreover from eq have "LeftPadBytes E (big_Bytes (tk_CreationRound t)) 32 =
        LeftPadBytes E (big_Bytes (tk_CreationRound u)) 32" using hash by simp
    then have "\<bar>tk_CreationRound t\<bar> = \<bar>tk_CreationRound u\<bar>" using val by metis
    then have "tk_CreationRound t = tk_CreationRound u" using hash(3,4) by linarith
    ultimately show ?thesis by simp
  qed
qed

text \<open>C34: the byte layout that a ticket's hash is taken over loses nothing. Two tickets whose
  fields have the widths of the on-chain contract and that flatten to the same bytes are the same
  ticket, whether or not they carry the optional creation-round block; the only thing assumed of
  go-ethereum is that \<open>LeftPadBytes\<close> pads with zero bytes on the left.\<close>

theorem flatten_determines_ticket:
  assumes "zero_padding (LeftPadBytes E)" "sized_ticket t" "sized_ticket u"
    and "flatten E t = flatten E u"
  shows "t = u"
proof -
  note u = u256_pad(1) [OF assms(1)] and n = zero_padding.length_pad_big [OF assms(1) nonce_bound]
  have "AuxData E t = AuxData E u \<and> Recipient t = Recipient u \<and> Sender t = Sender u \<and>
      FaceValue t = FaceValue u \<and> WinProb t = WinProb u \<and> SenderNonce t = SenderNonce u \<and>
      RecipientRandHash t = RecipientRandHash u"
    using assms(2-4)
    by (simp add: flatten_def sized_ticket_def uint256Size_def bytes32Size_def addressSize_def
        lp.pad_exact u n u256_pad_inj [OF assms(1)] nonce_pad_inj [OF assms(1)])
  with AuxData_inj [OF assms(1-3)] show ?thesis by simp
qed

definition sample_eth :: eth where
  "sample_eth =
     \<lparr>Keccak256 = (\<lambda>b. leftPad b 32), LeftPadBytes = leftPad, TextHash = (\<lambda>m. m),
      SigToPub = (\<lambda>d s. Some (take 20 s)), PubkeyToAddress = (\<lambda>p. p)\<rparr>"

definition sample_ticket :: Ticket where
  "sample_ticket =
     \<lparr>Recipient = replicate 20 (CHR ''r''), Sender = replicate 20 (CHR ''s''),
      FaceValue = Some 1000, WinProb = Some 77, SenderNonce = 3,
      RecipientRandHash = replicate 32 (CHR ''h''), tk_CreationRound = 5,
      CreationRoundHash = replicate 32 (CHR ''b'')\<rparr>"

theorem flatten_determines_ticket_witness:
  "zero_padding (LeftPadBytes sample_eth) \<and> sized_ticket sample_ticket \<and>
   sized_ticket (sample_ticket\<lparr>SenderNonce := 2 ^ 32 + 3\<rparr>) \<and>
   flatten sample_eth sample_ticket = flatten sample_eth (sample_ticket\<lparr>SenderNonce := 2 ^ 32 + 3\<rparr>) \<and>
   sample_ticket = sample_ticket\<lparr>SenderNonce := 2 ^ 32 + 3\<rparr>"
proof -
  have "zero_padding (LeftPadBytes sample_eth)"
    by (simp add: sample_eth_def lp.zero_padding_axioms)
  moreover have "sized_ticket (sample_ticket\<lparr>SenderNonce := n\<rparr>)" "sized_ticket sample_ticket" for n
    by (simp_all add: sized_ticket_def sample_ticket_def u256_def addressSize_def bytes32Size_def)
  moreover have "flatten sample_eth sample_ticket =
      flatten sample_eth (sample_ticket\<lparr>SenderNonce := 2 ^ 32 + 3\<rparr>)"
    by (simp add: sample_ticket_def flatten_def AuxData_def)
  ultimately show ?thesis
    using flatten_determines_ticket [of sample_eth sample_ticket
        "sample_ticket\<lparr>SenderNonce := 2 ^ 32 + 3\<rparr>"] by blast
qed

section \<open>Credit, wire round trip, signatures\<close>

lemma MaxWinProb_pos [simp]: "0 < MaxWinProb"
  by (simp add: MaxWinProb_def)

text \<open>What survives the conversion of ticket parameters to the wire form and back. The address,
  hash, seed and expiration parameters are kept, numbers keep their magnitude but not their sign, a
  nil number becomes zero, and the account, stream and domain identifiers and the payee's nonce
  report are not carried.\<close>

theorem TicketParams_wire_roundtrip:
  "TicketParamsFromWire (ticketParamsToWire (Some p)) =
     Some (p\<lparr>tp_WholesaleAccountID := [], tp_TicketStreamID := [], tp_SettlementDomainID := [],
             tp_FaceValue := Some \<bar>case tp_FaceValue p of None \<Rightarrow> 0 | Some i \<Rightarrow> i\<bar>,
             tp_WinProb := Some \<bar>case tp_WinProb p of None \<Rightarrow> 0 | Some i \<Rightarrow> i\<bar>,
             tp_ExpirationBlock := Some \<bar>case tp_ExpirationBlock p of None \<Rightarrow> 0 | Some i \<Rightarrow> i\<bar>,
             tp_HighestSeenNonce := 0, tp_HasSeenNonces := False\<rparr>)"
proof -
  have "SetBytes (bigIntBytes v) = \<bar>case v of None \<Rightarrow> 0 | Some i \<Rightarrow> i\<bar>" for v
    by (cases v) (simp_all add: bigIntBytes_def)
  then show ?thesis by (simp add: TicketParamsFromWire_def ticketParamsToWire_def)
qed

definition secp256k1_n :: int where
  "secp256k1_n = 0xfffffffffffffffffffffffffffffffebaaedce6af48a03bbfd25e8cd0364141"

abbreviation sig_s :: "bytes \<Rightarrow> int" where
  "sig_s sig \<equiv> SetBytes (take 32 (drop 32 sig))"

text \<open>A signature cannot be reused in its other form. Negating \<open>s\<close> modulo the group order turns
  an ECDSA signature into a second valid one for the same message and key; whenever a signature is
  accepted, every byte string that carries the negated \<open>s\<close> is refused, whatever message, address
  and recovery function it is checked with.\<close>

theorem verifySig_rejects_malleated_twin:
  assumes "verifySig E addr msg sig" "sig_s twin = secp256k1_n - sig_s sig"
  shows "\<not> verifySig E' addr' msg' twin"
  using assms by (simp add: verifySig_def secp256k1_n_def secp256k1halfN_def split: if_splits)

definition sample_sig :: bytes where
  "sample_sig = replicate 32 (CHR ''s'') @ be_bytes 32 1 @ [byte_of_nat 27]"

definition sample_twin :: bytes where
  "sample_twin = replicate 32 (CHR ''s'') @ be_bytes 32 (nat (secp256k1_n - 1)) @ [byte_of_nat 28]"

theorem verifySig_rejects_malleated_twin_witness:
  "verifySig sample_eth (replicate 20 (CHR ''s'')) [] sample_sig \<and>
   sig_s sample_twin = secp256k1_n - sig_s sample_sig \<and>
   \<not> verifySig sample_eth (replicate 20 (CHR ''s'')) [] sample_twin"
proof -
  have s: "sig_s sample_sig = 1"
    by (simp add: sample_sig_def SetBytes_def be_value_be_bytes)
  have t: "sig_s sample_twin = secp256k1_n - sig_s sample_sig"
    unfolding s
    by (simp add: sample_twin_def SetBytes_def be_value_be_bytes secp256k1_n_def)
  have l: "length sample_sig = 65" "sample_sig ! 64 = byte_of_nat 27"
    "take 20 sample_sig = replicate 20 (CHR ''s'')"
    by (simp_all add: sample_sig_def nth_append)
  have v: "verifySig sample_eth (replicate 20 (CHR ''s'')) [] sample_sig"
    using s l by (simp add: verifySig_def sample_eth_def secp256k1halfN_def Let_def)
  show ?thesis using v t verifySig_rejects_malleated_twin [OF v t] by blast
qed

end
