(* ===== verification/Sha256.thy ===== *)
theory Sha256
  imports Go_Prelude
begin

unbundle bit_operations_syntax

text \<open>
  The standard library's \<open>crypto/sha256\<close>, which the ledger uses for its storage keys. Words are
  32 bits wide and their additions wrap. \<open>sha256\<close> is \<open>sha256.Sum256\<close>; a hash object that has
  been written several slices has the sum of their concatenation.

  Nothing in the development assumes that the function is injective, which it is not; where a
  theorem needs two keys to be different, that is one of its hypotheses.
\<close>

type_synonym w32 = "32 word"

definition sha_K :: "w32 list" where
  "sha_K =
    [0x428a2f98, 0x71374491, 0xb5c0fbcf, 0xe9b5dba5, 0x3956c25b, 0x59f111f1, 0x923f82a4, 0xab1c5ed5,
     0xd807aa98, 0x12835b01, 0x243185be, 0x550c7dc3, 0x72be5d74, 0x80deb1fe, 0x9bdc06a7, 0xc19bf174,
     0xe49b69c1, 0xefbe4786, 0x0fc19dc6, 0x240ca1cc, 0x2de92c6f, 0x4a7484aa, 0x5cb0a9dc, 0x76f988da,
     0x983e5152, 0xa831c66d, 0xb00327c8, 0xbf597fc7, 0xc6e00bf3, 0xd5a79147, 0x06ca6351, 0x14292967,
     0x27b70a85, 0x2e1b2138, 0x4d2c6dfc, 0x53380d13, 0x650a7354, 0x766a0abb, 0x81c2c92e, 0x92722c85,
     0xa2bfe8a1, 0xa81a664b, 0xc24b8b70, 0xc76c51a3, 0xd192e819, 0xd6990624, 0xf40e3585, 0x106aa070,
     0x19a4c116, 0x1e376c08, 0x2748774c, 0x34b0bcb5, 0x391c0cb3, 0x4ed8aa4a, 0x5b9cca4f, 0x682e6ff3,
     0x748f82ee, 0x78a5636f, 0x84c87814, 0x8cc70208, 0x90befffa, 0xa4506ceb, 0xbef9a3f7, 0xc67178f2]"

definition sha_H0 :: "w32 list" where
  "sha_H0 = [0x6a09e667, 0xbb67ae85, 0x3c6ef372, 0xa54ff53a,
             0x510e527f, 0x9b05688c, 0x1f83d9ab, 0x5be0cd19]"

definition bsig0 :: "w32 \<Rightarrow> w32" where
  "bsig0 x = word_rotr 2 x XOR word_rotr 13 x XOR word_rotr 22 x"

definition bsig1 :: "w32 \<Rightarrow> w32" where
  "bsig1 x = word_rotr 6 x XOR word_rotr 11 x XOR word_rotr 25 x"

definition ssig0 :: "w32 \<Rightarrow> w32" where
  "ssig0 x = word_rotr 7 x XOR word_rotr 18 x XOR drop_bit 3 x"

definition ssig1 :: "w32 \<Rightarrow> w32" where
  "ssig1 x = word_rotr 17 x XOR word_rotr 19 x XOR drop_bit 10 x"

definition sha_ch :: "w32 \<Rightarrow> w32 \<Rightarrow> w32 \<Rightarrow> w32" where
  "sha_ch x y z = (x AND y) XOR (NOT x AND z)"

definition sha_maj :: "w32 \<Rightarrow> w32 \<Rightarrow> w32 \<Rightarrow> w32" where
  "sha_maj x y z = (x AND y) XOR (x AND z) XOR (y AND z)"

text \<open>The message schedule, newest word first: word \<open>t\<close> is computed from the words 2, 7, 15 and 16
  positions before it.\<close>

fun sha_schedule :: "nat \<Rightarrow> w32 list \<Rightarrow> w32 list" where
  "sha_schedule 0 ws = ws"
| "sha_schedule (Suc n) ws =
     sha_schedule n ((ssig1 (ws ! 1) + ws ! 6 + ssig0 (ws ! 14) + ws ! 15) # ws)"

fun sha_round :: "w32 list \<Rightarrow> w32 \<times> w32 \<Rightarrow> w32 list" where
  "sha_round [a, b, c, d, e, f, g, h] (k, w) =
     (let t1 = h + bsig1 e + sha_ch e f g + k + w;
          t2 = bsig0 a + sha_maj a b c
      in [t1 + t2, a, b, c, d + t1, e, f, g])"
| "sha_round st _ = st"

definition word_of_bytes :: "bytes \<Rightarrow> w32" where
  "word_of_bytes bs = word_of_nat (be_value bs)"

fun sha_words :: "bytes \<Rightarrow> w32 list" where
  "sha_words (a # b # c # d # bs) = word_of_bytes [a, b, c, d] # sha_words bs"
| "sha_words _ = []"

definition sha_block :: "w32 list \<Rightarrow> bytes \<Rightarrow> w32 list" where
  "sha_block st blk =
     (let ws = rev (sha_schedule 48 (rev (sha_words blk)));
          st' = foldl sha_round st (zip sha_K ws)
      in map2 (+) st st')"

definition sha_pad :: "bytes \<Rightarrow> bytes" where
  "sha_pad msg =
     msg @ [byte_of_nat 128] @ replicate ((119 - length msg mod 64) mod 64) (byte_of_nat 0) @
     be_bytes 8 (8 * length msg)"

function sha_blocks :: "w32 list \<Rightarrow> bytes \<Rightarrow> w32 list" where
  "sha_blocks st bs =
     (if length bs < 64 then st else sha_blocks (sha_block st (take 64 bs)) (drop 64 bs))"
  by pat_completeness auto
termination by (relation "measure (\<lambda>(st, bs). length bs)") auto

declare sha_blocks.simps [simp del]

definition sha256 :: "bytes \<Rightarrow> bytes" where
  "sha256 msg = concat (map (\<lambda>w. be_bytes 4 (unat w)) (sha_blocks sha_H0 (sha_pad msg)))"

lemma length_sha_round [simp]: "length (sha_round st kw) = length st"
  by (induction st kw rule: sha_round.induct) (simp_all add: Let_def)

lemma length_foldl_sha_round [simp]: "length (foldl sha_round st kws) = length st"
  by (induction kws arbitrary: st) simp_all

lemma length_sha_block [simp]: "length (sha_block st blk) = length st"
  by (simp add: sha_block_def Let_def)

lemma length_sha_blocks [simp]: "length (sha_blocks st bs) = length st"
proof (induction st bs rule: sha_blocks.induct)
  case (1 st bs)
  then show ?case by (cases "length bs < 64") (simp_all add: sha_blocks.simps [of st bs])
qed

text \<open>A digest has 32 bytes.\<close>

lemma length_sha256 [simp]: "length (sha256 msg) = 32"
proof -
  have "length (concat (map (\<lambda>w. be_bytes 4 (unat w)) ws)) = 4 * length ws" for ws :: "w32 list"
    by (induction ws) simp_all
  moreover have "length sha_H0 = 8" by (simp add: sha_H0_def)
  ultimately show ?thesis by (simp add: sha256_def)
qed

end
