(* ===== verification/Store_Types.thy ===== *)
theory Store_Types
  imports Payment_Types Sha256
begin

text \<open>
  The database of the payment daemon (\<open>payment-daemon/internal/store\<close>): the records it holds, its
  buckets as the fields of one record \<open>store\<close>, and the errors its operations return.

  The operations of the following theories are functions
  \<open>store \<Rightarrow> store \<times> (store_error + 'r)\<close>, or \<open>store \<Rightarrow> store_error + 'r\<close> where the code only
  opens a read-only transaction. A field of a record holds what the code puts in the struct: amounts
  are decimal strings where the struct has a string. An empty byte slice and a nil one are the same
  value here, as they are after a round trip through the JSON the code stores. Failures of the disk,
  of JSON decoding and the database's own refusals (an empty or over-long key) are not modelled.

  Two buckets are markers whose mere existence matters, \<open>source_fence\<close> and
  \<open>settlement_domain\<close>: None is the absent bucket, Some None a bucket without its record. The bucket
  \<open>wholesale_totals\<close> has two fixed keys with values of different types and is two fields.
\<close>

datatype store_error =
    ErrPricingConflict | ErrPricingUnset | ErrNotFound | ErrClosed | ErrSenderMismatch
  | ErrNonceAlreadySeen | ErrTooManyNonces
  | ErrMintFingerprintMismatch | ErrMintExpired | ErrMintIncomplete
  | ErrAuthorizationFingerprint | ErrAuthorizationNotFound | ErrAuthorizationState
  | ErrAuthorizationSettlement | ErrInsufficientWholesale
  | ErrAuthorizationCanceled | ErrRevisionPredecessor | ErrRevisionLimits
  | ErrReservationExceedsRemaining
  | ErrOther string

text \<open>\<open>errors.Is(err, target)\<close>: four sentinels wrap \<open>ErrAuthorizationState\<close>.\<close>

definition errors_Is :: "store_error \<Rightarrow> store_error \<Rightarrow> bool" where
  "errors_Is err target \<longleftrightarrow>
     err = target \<or>
     (target = ErrAuthorizationState \<and>
      err \<in> {ErrAuthorizationCanceled, ErrRevisionPredecessor, ErrRevisionLimits,
             ErrReservationExceedsRemaining})"

section \<open>Sessions\<close>

record Session =
  ss_WholesaleAccountID :: string
  ss_TicketStreamID :: string
  ss_WorkID :: string
  ss_Sender :: bytes
  ss_Recipient :: bytes
  ss_Capability :: string
  ss_Offering :: string
  ss_PricePerWorkUnitWei :: string
  ss_PerUnits :: uint64
  ss_WorkUnit :: string
  ss_DebitedUnits :: uint64
  ss_BalanceWei :: string
  ss_Closed :: bool
  ss_OpenedAt :: time
  ss_ClosedAt :: time
  ss_RecipientRand :: string
  ss_FaceValueWei :: string
  ss_WinProb :: string

record TicketSessionKey =
  tk_WholesaleAccountID :: string
  tk_TicketStreamID :: string
  tk_Sender :: bytes
  tk_Recipient :: bytes
  tk_Capability :: string
  tk_Offering :: string

section \<open>Redemptions\<close>

record StoredTicket =
  stk_Recipient :: bytes
  stk_Sender :: bytes
  stk_FaceValue :: "int option"
  stk_WinProb :: "int option"
  stk_SenderNonce :: uint32
  stk_RecipientRandHash :: bytes
  stk_CreationRound :: int
  stk_CreationRoundHash :: bytes
  stk_Sig :: bytes
  stk_RecipientRand :: "int option"

record PendingRedemption =
  pr_Seq :: uint64
  pr_Ticket :: StoredTicket
  pr_Hash :: bytes

record RedeemedRedemption =
  rr_DrainReason :: string
  rr_Inclusion :: "RedemptionInclusion option"
  rr_TicketHash :: bytes
  rr_TxHash :: bytes
  rr_Sender :: bytes
  rr_FaceValueWei :: string
  rr_CreationRound :: int
  rr_RedeemedRound :: int
  rr_ConfirmedOnChain :: bool

text \<open>Older databases hold only the raw 32-byte transaction hash of a redeemed ticket.\<close>

datatype redeemed_value = LegacyTxHash bytes | RedeemedRecord RedeemedRedemption

section \<open>Mints\<close>

record MintRecord =
  mr_Fingerprint :: bytes
  mr_PaymentBytes :: bytes
  mr_TicketsCreated :: uint32
  mr_ExpectedValue :: bytes
  mr_FundedValueWei :: bytes
  mr_AccountShortfallWei :: bytes
  mr_QuoteRefJSON :: bytes
  mr_WorkID :: string
  mr_CreatedAt :: time

record mintTombstone =
  mt_Fingerprint :: bytes
  mt_FirstSeenAt :: time
  mt_Completed :: bool

section \<open>Wholesale accounts and authorizations\<close>

record WholesaleAccount =
  wa_WholesaleAccountID :: string
  wa_Payer :: bytes
  wa_Payee :: bytes
  wa_CreditedWei :: string
  wa_ReservedWei :: string
  wa_DebitedWei :: string
  wa_Version :: uint64
  wa_UpdatedAt :: time

record WholesaleTotals =
  wt_CreditedWei :: string
  wt_ReservedWei :: string
  wt_DebitedWei :: string

record WholesaleAuthorizationSeed =
  sd_WholesaleAccountID :: string
  sd_ID :: string
  sd_Fingerprint :: bytes
  sd_Payer :: bytes
  sd_Payee :: bytes
  sd_RequestID :: string
  sd_SessionID :: string
  sd_Protocol :: string
  sd_Capability :: string
  sd_Offering :: string
  sd_PriceWei :: string
  sd_PerUnits :: uint64
  sd_WorkUnit :: string
  sd_MaxDebitWei :: string
  sd_MaxTotalUnits :: uint64
  sd_ExpiresAt :: time
  sd_Revision :: uint64
  sd_PredecessorID :: string

text \<open>The states are the strings the code stores; they are a datatype with one constructor per
  constant, and \<open>UnknownState\<close> for a record decoded with anything else.\<close>

datatype authorization_state =
    AuthorizationAdmitted | AuthorizationSettled | AuthorizationExpiredUnused
  | AuthorizationSuperseded | AuthorizationCanceledUnused | UnknownState string

record WholesaleAuthorization =
  au_WholesaleAccountID :: string
  au_ID :: string
  au_Fingerprint :: bytes
  au_Payer :: bytes
  au_Payee :: bytes
  au_RequestID :: string
  au_SessionID :: string
  au_Protocol :: string
  au_Capability :: string
  au_Offering :: string
  au_PriceWei :: string
  au_PerUnits :: uint64
  au_WorkUnit :: string
  au_MaxDebitWei :: string
  au_MaxTotalUnits :: uint64
  au_State :: authorization_state
  au_ActualUnits :: uint64
  au_BilledWei :: string
  au_ReleasedWei :: string
  au_ReservedWei :: string
  au_SettlementSeq :: uint64
  au_ExpiresAt :: time
  au_UpdatedAt :: time
  au_Revision :: uint64
  au_PredecessorID :: string

record FundingReceipt =
  fr_FundingID :: string
  fr_Account :: "WholesaleAccount option"
  fr_CreditedWei :: string

record canceledAdmission =
  ca_Payee :: bytes
  ca_Fingerprint :: bytes
  ca_At :: time

record unexecutedFence =
  uf_Reason :: string
  uf_At :: time

record SourceFence =
  sf_Frozen :: bool
  sf_Reason :: string
  sf_FrozenAt :: time

record settlementDomain =
  dom_ID :: string
  dom_ChainID :: uint64
  dom_Payee :: string

section \<open>The database\<close>

record store =
  sessions :: "Session bucket"
  debit_seqs :: "string bucket"
  capability_index :: "bytes bucket"
  ticket_session_index :: "bytes bucket"
  nonces :: "bytes bucket"
  sender_nonces :: "bytes bucket"
  mints :: "MintRecord bucket"
  mint_tombstones :: "mintTombstone bucket"
  redemptions_pending :: "StoredTicket bucket"
  redemptions_by_hash :: "bytes bucket"
  redemptions_redeemed :: "redeemed_value bucket"
  redemptions_meta :: "bytes bucket"
  wholesale_accounts :: "WholesaleAccount bucket"
  spend_authorizations :: "WholesaleAuthorization bucket"
  wholesale_totals :: "WholesaleTotals option"
  settlement_domain_format :: "bytes option"
  wholesale_advance_history :: "WholesaleAuthorization bucket"
  wholesale_funding_receipts :: "FundingReceipt bucket"
  canceled_admissions :: "canceledAdmission bucket"
  unexecuted_fences :: "unexecutedFence bucket"
  source_fence :: "SourceFence option option"
  settlement_domain :: "settlementDomain option option"
  ticket_stream_id :: "bytes option"

type_synonym 'r store_op = "store \<Rightarrow> store \<times> (store_error + 'r)"
type_synonym 'r store_tx = "store \<Rightarrow> store_error + store \<times> 'r"

text \<open>\<open>Open\<close> on a new file: every bucket exists and is empty.\<close>

definition Open :: store where
  "Open =
     \<lparr>sessions = fmempty, debit_seqs = fmempty, capability_index = fmempty,
      ticket_session_index = fmempty, nonces = fmempty, sender_nonces = fmempty,
      mints = fmempty, mint_tombstones = fmempty, redemptions_pending = fmempty,
      redemptions_by_hash = fmempty, redemptions_redeemed = fmempty, redemptions_meta = fmempty,
      wholesale_accounts = fmempty, spend_authorizations = fmempty, wholesale_totals = None,
      settlement_domain_format = None, wholesale_advance_history = fmempty,
      wholesale_funding_receipts = fmempty, canceled_admissions = fmempty,
      unexecuted_fences = fmempty, source_fence = None, settlement_domain = None,
      ticket_stream_id = None\<rparr>"

definition parseDecimalBig :: "string \<Rightarrow> int" where
  "parseDecimalBig s =
     (if s = [] then 0 else case SetString s of None \<Rightarrow> 0 | Some v \<Rightarrow> v)"

lemma parseDecimalBig_String [simp]: "parseDecimalBig (big_String i) = i"
  by (simp add: parseDecimalBig_def)

lemma parseDecimalBig_Nil [simp]: "parseDecimalBig [] = 0"
  by (simp add: parseDecimalBig_def)

lemma SetString_zero [simp]: "SetString ''0'' = Some 0"
  by (simp add: SetString_def decimal_nat_def is_digit_def)

lemma parseDecimalBig_zero [simp]: "parseDecimalBig ''0'' = 0"
  by (simp add: parseDecimalBig_def)

end
