(* ===== verification/Ledger_Laws.thy ===== *)
theory Ledger_Laws
  imports Main
begin

text \<open>
  The contracts several parts of the ledger share, stated once.

  An operation of a component takes the state to a state and an answer; a history is a list of
  operations. \<open>guarded_machine\<close>, \<open>invariant_machine\<close>: what every operation of a class, or every
  operation, preserves holds after every history of them.
  \<open>once_only\<close>: operations may report the key on which they took effect; the laws say that a key
  takes effect only while it has not been seen and is seen ever after, and then no history makes
  one key take effect twice. \<open>billing_curve\<close>: a monotone cumulative bill, charged as differences.
  Each is interpreted on the operations of the components that promise it.
\<close>

section \<open>Histories\<close>

primrec run :: "('s \<Rightarrow> 'o \<Rightarrow> 's \<times> 'r) \<Rightarrow> 's \<Rightarrow> 'o list \<Rightarrow> 's" where
  "run step s [] = s"
| "run step s (op # ops) = run step (fst (step s op)) ops"

primrec answers :: "('s \<Rightarrow> 'o \<Rightarrow> 's \<times> 'r) \<Rightarrow> 's \<Rightarrow> 'o list \<Rightarrow> 'r list" where
  "answers step s [] = []"
| "answers step s (op # ops) = snd (step s op) # answers step (fst (step s op)) ops"

lemma run_append: "run step s (xs @ ys) = run step (run step s xs) ys"
  by (induction xs arbitrary: s) simp_all

lemma answers_append:
  "answers step s (xs @ ys) = answers step s xs @ answers step (run step s xs) ys"
  by (induction xs arbitrary: s) simp_all

lemma length_answers [simp]: "length (answers step s ops) = length ops"
  by (induction ops arbitrary: s) simp_all

text \<open>The keys on which the operations of a history took effect, in order.\<close>

definition effects :: "('s \<Rightarrow> 'o \<Rightarrow> 's \<times> 'k option) \<Rightarrow> 's \<Rightarrow> 'o list \<Rightarrow> 'k list" where
  "effects step s ops = map the (filter (\<lambda>r. r \<noteq> None) (answers step s ops))"

lemma effects_Nil [simp]: "effects step s [] = []"
  by (simp add: effects_def)

lemma effects_Cons [simp]:
  "effects step s (op # ops) =
     (case snd (step s op) of None \<Rightarrow> effects step (fst (step s op)) ops
      | Some k \<Rightarrow> k # effects step (fst (step s op)) ops)"
  by (simp add: effects_def split: option.split)

lemma run_cong: "(\<And>s op. fst (f s op) = fst (g s op)) \<Longrightarrow> run f s ops = run g s ops"
  by (induction ops arbitrary: s) simp_all

section \<open>Invariants\<close>

text \<open>An invariant kept by the operations of a class, and one kept by every operation.\<close>

locale guarded_machine =
  fixes step :: "'s \<Rightarrow> 'o \<Rightarrow> 's \<times> 'r" and inv :: "'s \<Rightarrow> bool" and good :: "'o \<Rightarrow> bool"
  assumes guarded_step: "inv s \<Longrightarrow> good op \<Longrightarrow> inv (fst (step s op))"
begin

lemma guarded_run: "inv s \<Longrightarrow> \<forall>op \<in> set ops. good op \<Longrightarrow> inv (run step s ops)"
  by (induction ops arbitrary: s) (simp_all add: guarded_step)

end

locale invariant_machine =
  fixes step :: "'s \<Rightarrow> 'o \<Rightarrow> 's \<times> 'r" and inv :: "'s \<Rightarrow> bool"
  assumes inv_step: "inv s \<Longrightarrow> inv (fst (step s op))"
begin

lemma inv_run: "inv s \<Longrightarrow> inv (run step s ops)"
  by (induction ops arbitrary: s) (simp_all add: inv_step)

end

sublocale invariant_machine \<subseteq> any: guarded_machine step inv "\<lambda>_. True"
  by unfold_locales (rule inv_step)

section \<open>Keys that take effect at most once\<close>

locale once_only = invariant_machine step inv
  for step :: "'s \<Rightarrow> 'o \<Rightarrow> 's \<times> 'k option" and inv :: "'s \<Rightarrow> bool" +
  fixes seen :: "'s \<Rightarrow> 'k \<Rightarrow> bool"
  assumes effect_unseen: "inv s \<Longrightarrow> snd (step s op) = Some k \<Longrightarrow> \<not> seen s k"
    and effect_seen: "inv s \<Longrightarrow> snd (step s op) = Some k \<Longrightarrow> seen (fst (step s op)) k"
    and seen_kept: "inv s \<Longrightarrow> seen s j \<Longrightarrow> seen (fst (step s op)) j"
begin

lemma seen_run: "inv s \<Longrightarrow> seen s k \<Longrightarrow> seen (run step s ops) k"
  by (induction ops arbitrary: s) (simp_all add: inv_step seen_kept)

lemma effects_were_unseen: "inv s \<Longrightarrow> k \<in> set (effects step s ops) \<Longrightarrow> \<not> seen s k"
proof (induction ops arbitrary: s)
  case (Cons op ops)
  then show ?case
    using inv_step [OF Cons.prems(1), of op] seen_kept [OF Cons.prems(1), of k op]
      effect_unseen [OF Cons.prems(1), of op k]
    by (auto split: option.splits)
qed simp

lemma effects_become_seen: "inv s \<Longrightarrow> k \<in> set (effects step s ops) \<Longrightarrow> seen (run step s ops) k"
proof (induction ops arbitrary: s)
  case (Cons op ops)
  then show ?case
    using inv_step [OF Cons.prems(1), of op] effect_seen [OF Cons.prems(1), of op k]
      seen_run [of "fst (step s op)" k ops]
    by (auto split: option.splits)
qed simp

lemma distinct_effects: "inv s \<Longrightarrow> distinct (effects step s ops)"
proof (induction ops arbitrary: s)
  case (Cons op ops)
  then have "distinct (effects step (fst (step s op)) ops)" by (simp add: inv_step)
  moreover have "k \<notin> set (effects step (fst (step s op)) ops)" if "snd (step s op) = Some k" for k
    using that effects_were_unseen [of "fst (step s op)" k ops] effect_seen [OF Cons.prems, of op k]
      inv_step [OF Cons.prems, of op] by blast
  ultimately show ?case by (simp split: option.split)
qed simp

end

section \<open>Cumulative bills\<close>

text \<open>A bill for a running total of units, starting at nothing and never falling. Charging each
  increment the difference of two bills charges, over any sequence of increments, exactly one bill
  for the sum; no increment is charged a negative amount.\<close>

primrec charges :: "(nat \<Rightarrow> int) \<Rightarrow> nat \<Rightarrow> nat list \<Rightarrow> int list" where
  "charges bill u [] = []"
| "charges bill u (d # ds) = (bill (u + d) - bill u) # charges bill (u + d) ds"

locale billing_curve =
  fixes bill :: "nat \<Rightarrow> int"
  assumes bill_zero: "bill 0 = 0"
    and bill_mono: "u \<le> v \<Longrightarrow> bill u \<le> bill v"
begin

lemma bill_nonneg: "0 \<le> bill u"
  using bill_mono [of 0 u] bill_zero by simp

lemma charges_telescope: "sum_list (charges bill u ds) = bill (u + sum_list ds) - bill u"
  by (induction ds arbitrary: u) (simp_all add: add.assoc)

lemma charges_nonneg: "c \<in> set (charges bill u ds) \<Longrightarrow> 0 \<le> c"
  by (induction ds arbitrary: u) (auto simp: bill_mono)

lemma charges_total: "sum_list (charges bill 0 ds) = bill (sum_list ds)"
  by (simp add: charges_telescope bill_zero)

end

end
