(* ===== verification/Nonce_Store.thy ===== *)
theory Nonce_Store
  imports Store_Types Ledger_Laws
begin

text \<open>
  The payee's nonce ledger (\<open>internal/store/nonces.go\<close>) and the payer's nonce watermark
  (\<open>internal/store/noncewatermark.go\<close>).

  The ledger's key is the hexadecimal recipient rand, a zero byte and the nonce as four big-endian
  bytes; counting and deleting walk a cursor from the first key not below the prefix for as long as
  the prefix matches. The lemmas show that such a walk visits exactly the nonces of one rand, that
  no nonce is recorded twice and no rand has more than \<open>MaxSenderNonces\<close> of them, and that the
  watermark only ever rises.
\<close>

section \<open>Cursor walks\<close>

definition hasPrefix :: "bytes \<Rightarrow> bytes \<Rightarrow> bool" where
  "hasPrefix b pre \<longleftrightarrow> \<not> length b < length pre \<and> take (length pre) b = pre"

text \<open>\<open>for k := c.Seek(pre); k != nil && hasPrefix(k, pre); k = c.Next()\<close>: the keys visited.\<close>

definition scan_prefix :: "'v bucket \<Rightarrow> bytes \<Rightarrow> bytes list" where
  "scan_prefix m pre =
     takeWhile (\<lambda>k. hasPrefix k pre) (dropWhile (\<lambda>k. k < pre) (sorted_list_of_fset (fmdom m)))"

section \<open>The payee's ledger\<close>

definition MaxSenderNonces :: nat where
  "MaxSenderNonces = 600"

definition randHex :: "int option \<Rightarrow> bytes" where
  "randHex recipientRand =
     (case recipientRand of None \<Rightarrow> [] | Some r \<Rightarrow> hex_encode (big_Bytes r))"

definition nonce_prefix :: "int option \<Rightarrow> bytes" where
  "nonce_prefix recipientRand = randHex recipientRand @ [NUL]"

definition nonceKey :: "int option \<Rightarrow> uint32 \<Rightarrow> bytes" where
  "nonceKey recipientRand nonce = nonce_prefix recipientRand @ be_bytes 4 (unat nonce)"

definition NonceSeen :: "int option \<Rightarrow> uint32 \<Rightarrow> store \<Rightarrow> bool" where
  "NonceSeen recipientRand nonce s \<longleftrightarrow> fmlookup (nonces s) (nonceKey recipientRand nonce) \<noteq> None"

definition NonceCount :: "int option \<Rightarrow> store \<Rightarrow> nat" where
  "NonceCount recipientRand s = length (scan_prefix (nonces s) (nonce_prefix recipientRand))"

text \<open>The counting loop of \<open>recordNonce\<close>: True when it returns \<open>ErrTooManyNonces\<close>.\<close>

fun nonce_cap_loop :: "nat \<Rightarrow> bytes list \<Rightarrow> bool" where
  "nonce_cap_loop count [] = False"
| "nonce_cap_loop count (k # ks) =
     (let count' = count + 1 in
      if MaxSenderNonces \<le> count' then True else nonce_cap_loop count' ks)"

definition recordNonce :: "int option \<Rightarrow> uint32 \<Rightarrow> unit store_tx" where
  "recordNonce recipientRand nonce s =
     (let key = nonceKey recipientRand nonce in
      if fmlookup (nonces s) key \<noteq> None then Inl ErrNonceAlreadySeen
      else if nonce_cap_loop 0 (scan_prefix (nonces s) (nonce_prefix recipientRand))
        then Inl ErrTooManyNonces
      else Inr (s\<lparr>nonces := fmupd key [byte_of_nat 1] (nonces s)\<rparr>, ()))"

definition RecordNonce :: "int option \<Rightarrow> uint32 \<Rightarrow> unit store_op" where
  "RecordNonce recipientRand nonce = db_update (recordNonce recipientRand nonce)"

definition deleteNonceLedger :: "bytes bucket \<Rightarrow> int option \<Rightarrow> bytes bucket" where
  "deleteNonceLedger bucket recipientRand =
     (if recipientRand = None then bucket
      else fold fmdrop (scan_prefix bucket (nonce_prefix recipientRand)) bucket)"

definition highest_step :: "bytes \<Rightarrow> uint32 \<times> bool \<Rightarrow> bytes \<Rightarrow> uint32 \<times> bool" where
  "highest_step pre acc k =
     (if length k < length pre + 4 then acc
      else
        let n = word_of_nat (be_value (take 4 (drop (length pre) k))) in
        if \<not> snd acc \<or> fst acc < n then (n, True) else acc)"

definition HighestSenderNonce :: "int option \<Rightarrow> store \<Rightarrow> uint32 \<times> bool" where
  "HighestSenderNonce recipientRand s =
     (let pre = nonce_prefix recipientRand in
      foldl (highest_step pre) (0, False) (scan_prefix (nonces s) pre))"

section \<open>The payer's watermark\<close>

definition watermark :: "string \<Rightarrow> store \<Rightarrow> uint32" where
  "watermark workID s =
     (case fmlookup (sender_nonces s) workID of
        Some raw \<Rightarrow> if length raw = 4 then word_of_nat (be_value raw) else 0
      | None \<Rightarrow> 0)"

definition NextSenderNonce :: "string \<Rightarrow> uint32 store_op" where
  "NextSenderNonce workID s =
     (if workID = [] then (s, Inl (ErrOther ''store: empty work_id''))
      else db_update (\<lambda>s.
        let current = watermark workID s in
        if current = NOT 0 then Inl (ErrOther ''store: nonce space exhausted'')
        else
          let next = current + 1 in
          Inr (s\<lparr>sender_nonces := fmupd workID (be_bytes 4 (unat next)) (sender_nonces s)\<rparr>, next)) s)"

definition SenderNoncesUsed :: "string \<Rightarrow> store \<Rightarrow> store_error + uint32" where
  "SenderNoncesUsed workID s =
     (if workID = [] then Inl (ErrOther ''store: empty work_id'') else Inr (watermark workID s))"

definition ForgetSenderNonces :: "string \<Rightarrow> unit store_op" where
  "ForgetSenderNonces workID s =
     (if workID = [] then (s, Inl (ErrOther ''store: empty work_id''))
      else db_update (\<lambda>s. Inr (s\<lparr>sender_nonces := fmdrop workID (sender_nonces s)\<rparr>, ())) s)"

definition ResyncSenderNonces :: "string \<Rightarrow> uint32 \<Rightarrow> bool store_op" where
  "ResyncSenderNonces workID seen s =
     (if workID = [] then (s, Inl (ErrOther ''store: empty work_id''))
      else db_update (\<lambda>s.
        if seen \<le> watermark workID s then Inr (s, False)
        else Inr (s\<lparr>sender_nonces := fmupd workID (be_bytes 4 (unat seen)) (sender_nonces s)\<rparr>, True)) s)"

section \<open>A walk visits exactly the keys with the prefix\<close>

lemma hasPrefix_iff: "hasPrefix b pre \<longleftrightarrow> (\<exists>r. b = pre @ r)"
  by (metis append_eq_conv_conj append_take_drop_id hasPrefix_def length_append linorder_not_less
      not_add_less1)

lemma prefix_le: "(pre :: bytes) \<le> pre @ r"
  by (induction pre) simp_all

lemma between_prefix:
  fixes pre k r :: bytes
  shows "pre \<le> k \<Longrightarrow> k \<le> pre @ r \<Longrightarrow> \<exists>x. k = pre @ x"
proof (induction pre arbitrary: k)
  case (Cons c pre)
  then obtain d ks where k: "k = d # ks" by (cases k) auto
  with Cons.prems have "d = c" by auto
  with Cons.prems k have "pre \<le> ks" "ks \<le> pre @ r" by simp_all
  with Cons.IH k \<open>d = c\<close> show ?case by simp
qed simp

lemma takeWhile_dropWhile_prefix:
  assumes "sorted ks"
  shows "set (takeWhile (\<lambda>k. hasPrefix k pre) (dropWhile (\<lambda>k. k < pre) ks)) =
    {k \<in> set ks. hasPrefix k pre}" (is "set (?take (?drop ks)) = _")
  using assms
proof (induction ks)
  case (Cons k ks)
  show ?case
  proof (cases "k < pre")
    case True
    then have "\<not> hasPrefix k pre" by (metis hasPrefix_iff leD prefix_le)
    with True Cons show ?thesis by auto
  next
    case False
    then have ge: "pre \<le> k" by simp
    show ?thesis
    proof (cases "hasPrefix k pre")
      case True
      have "dropWhile (\<lambda>k. k < pre) ks = ks"
        using Cons.prems ge by (cases ks) (auto dest: order_trans)
      with True False Cons show ?thesis by auto
    next
      case np: False
      have "\<not> hasPrefix k' pre" if "k' \<in> set ks" for k'
        using that Cons.prems ge np between_prefix [of pre k] by (auto simp: hasPrefix_iff)
      with np False show ?thesis by auto
    qed
  qed
qed simp

lemma set_scan_prefix:
  "set (scan_prefix m pre) = {k. fmlookup m k \<noteq> None \<and> hasPrefix k pre}"
proof -
  have "set (scan_prefix m pre) = {k \<in> set (sorted_list_of_fset (fmdom m)). hasPrefix k pre}"
    unfolding scan_prefix_def
    by (rule takeWhile_dropWhile_prefix) (simp add: sorted_list_of_fset.rep_eq)
  then show ?thesis
    by (auto simp: sorted_list_of_fset.rep_eq fmlookup_dom_iff fmdomI)
qed

lemma distinct_scan_prefix: "distinct (scan_prefix m pre)"
  by (simp add: scan_prefix_def sorted_list_of_fset.rep_eq)

lemma length_scan_prefix:
  "length (scan_prefix m pre) = card {k. fmlookup m k \<noteq> None \<and> hasPrefix k pre}"
  by (metis distinct_card distinct_scan_prefix set_scan_prefix)

lemma nonce_cap_loop_iff: "nonce_cap_loop c ks \<longleftrightarrow> ks \<noteq> [] \<and> MaxSenderNonces \<le> c + length ks"
proof (induction ks arbitrary: c)
  case (Cons k ks)
  then show ?case by (cases ks) (auto simp: Let_def)
qed simp

section \<open>Keys\<close>

text \<open>The ledger sees a rand through its magnitude.\<close>

definition rand_mag :: "int option \<Rightarrow> int" where
  "rand_mag r = (case r of None \<Rightarrow> 0 | Some i \<Rightarrow> \<bar>i\<bar>)"

lemma randHex_rand_mag: "randHex r = hex_encode (big_Bytes (rand_mag r))"
  by (cases r) (simp_all add: randHex_def rand_mag_def big_Bytes_def nat_Bytes.simps [of 0])

lemma rand_mag_nonneg [simp]: "0 \<le> rand_mag r"
  by (simp add: rand_mag_def split: option.split)

lemma randHex_eq_iff: "randHex r = randHex r' \<longleftrightarrow> rand_mag r = rand_mag r'"
  by (simp add: randHex_rand_mag hex_encode_inj big_Bytes_inj)

lemma NUL_notin_randHex [simp]: "NUL \<notin> set (randHex r)"
  by (simp add: randHex_rand_mag hex_encode_no_nul)

lemma unat_less_256_pow: "unat (n :: uint32) < 256 ^ 4"
  using unsigned_less [where 'a = nat, of n] by simp

lemma be_bytes_unat_eq_iff: "be_bytes 4 (unat n) = be_bytes 4 (unat n') \<longleftrightarrow> n = (n' :: uint32)"
  using be_bytes_inj [OF _ unat_less_256_pow unat_less_256_pow, of n n']
  by (auto simp: word_unat_eq_iff)

lemma hasPrefix_nonceKey:
  "hasPrefix (nonceKey r n) (nonce_prefix r') \<longleftrightarrow> rand_mag r = rand_mag r'"
proof -
  have "(\<exists>x. randHex r @ NUL # be_bytes 4 (unat n) = randHex r' @ NUL # x) \<longleftrightarrow>
      randHex r = randHex r'"
    by (simp add: append_sep_eq_iff)
  then show ?thesis
    by (simp add: hasPrefix_iff nonceKey_def nonce_prefix_def randHex_eq_iff)
qed

lemma nonceKey_eq_iff:
  "nonceKey r n = nonceKey r' n' \<longleftrightarrow> rand_mag r = rand_mag r' \<and> n = n'"
  by (simp add: nonceKey_def nonce_prefix_def append_sep_eq_iff randHex_eq_iff be_bytes_unat_eq_iff)

section \<open>The ledger as a set of pairs\<close>

definition nonces_ok :: "store \<Rightarrow> bool" where
  "nonces_ok s \<longleftrightarrow> (\<forall>k. fmlookup (nonces s) k \<noteq> None \<longrightarrow> (\<exists>r n. k = nonceKey r n))"

lemma scan_nonces:
  assumes "nonces_ok s"
  shows "set (scan_prefix (nonces s) (nonce_prefix r)) = nonceKey r ` {n. NonceSeen r n s}"
proof -
  have "\<exists>n. k = nonceKey r n" if "fmlookup (nonces s) k \<noteq> None" "hasPrefix k (nonce_prefix r)" for k
  proof -
    from assms that(1) obtain r' n where "k = nonceKey r' n" by (auto simp: nonces_ok_def)
    with that(2) have "k = nonceKey r n" by (simp add: hasPrefix_nonceKey nonceKey_eq_iff)
    then show ?thesis ..
  qed
  then show ?thesis
    by (fastforce simp: set_scan_prefix NonceSeen_def hasPrefix_nonceKey)
qed

lemma NonceCount_card:
  assumes "nonces_ok s"
  shows "NonceCount r s = card {n. NonceSeen r n s}"
proof -
  have "NonceCount r s = card (nonceKey r ` {n. NonceSeen r n s})"
    unfolding NonceCount_def scan_nonces [OF assms, symmetric]
    by (simp add: distinct_card distinct_scan_prefix)
  also have "\<dots> = card {n. NonceSeen r n s}"
    by (rule card_image) (simp add: inj_on_def nonceKey_eq_iff)
  finally show ?thesis .
qed

lemma nonce_cap_NonceCount:
  "nonce_cap_loop 0 (scan_prefix (nonces s) (nonce_prefix r)) \<longleftrightarrow> MaxSenderNonces \<le> NonceCount r s"
  by (auto simp: nonce_cap_loop_iff NonceCount_def MaxSenderNonces_def)

lemma RecordNonce_cases:
  "RecordNonce r n s =
     (if NonceSeen r n s then (s, Inl ErrNonceAlreadySeen)
      else if MaxSenderNonces \<le> NonceCount r s then (s, Inl ErrTooManyNonces)
      else (s\<lparr>nonces := fmupd (nonceKey r n) [byte_of_nat 1] (nonces s)\<rparr>, Inr ()))"
  by (simp add: RecordNonce_def recordNonce_def db_update_def nonce_cap_NonceCount NonceSeen_def Let_def)

lemma NonceSeen_upd:
  "NonceSeen r' n' (s\<lparr>nonces := fmupd (nonceKey r n) v (nonces s)\<rparr>) \<longleftrightarrow>
     (rand_mag r' = rand_mag r \<and> n' = n) \<or> NonceSeen r' n' s"
  by (auto simp: NonceSeen_def nonceKey_eq_iff)

lemma nonces_ok_upd:
  "nonces_ok s \<Longrightarrow> nonces_ok (s\<lparr>nonces := fmupd (nonceKey r n) v (nonces s)\<rparr>)"
  by (auto simp: nonces_ok_def)

lemma NonceCount_upd:
  assumes "nonces_ok s" "\<not> NonceSeen r n s"
  shows "NonceCount r' (s\<lparr>nonces := fmupd (nonceKey r n) v (nonces s)\<rparr>) =
    (if rand_mag r' = rand_mag r then Suc (NonceCount r' s) else NonceCount r' s)"
proof (cases "rand_mag r' = rand_mag r")
  case True
  have "{m. NonceSeen r' m (s\<lparr>nonces := fmupd (nonceKey r n) v (nonces s)\<rparr>)} =
      insert n {m. NonceSeen r' m s}" using True by (auto simp: NonceSeen_upd)
  moreover have "\<not> NonceSeen r' n s"
    using assms(2) True by (simp add: NonceSeen_def nonceKey_def nonce_prefix_def randHex_rand_mag)
  ultimately show ?thesis using True assms(1)
    by (simp add: NonceCount_card nonces_ok_upd)
next
  case False
  then show ?thesis using assms(1) by (simp add: NonceCount_card nonces_ok_upd NonceSeen_upd)
qed

section \<open>Histories of the ledger\<close>

definition nonce_step :: "store \<Rightarrow> int option \<times> uint32 \<Rightarrow> store \<times> (int \<times> uint32) option" where
  "nonce_step s op =
     (case RecordNonce (fst op) (snd op) s of
        (s', Inr _) \<Rightarrow> (s', Some (rand_mag (fst op), snd op))
      | (s', Inl _) \<Rightarrow> (s', None))"

definition nonces_capped :: "store \<Rightarrow> bool" where
  "nonces_capped s \<longleftrightarrow> nonces_ok s \<and> (\<forall>r. NonceCount r s \<le> MaxSenderNonces)"

lemma nonce_prefix_cong: "rand_mag r = rand_mag r' \<Longrightarrow> nonce_prefix r = nonce_prefix r'"
  by (simp add: nonce_prefix_def randHex_rand_mag)

lemma rand_mag_Some_mag [simp]: "rand_mag (Some (rand_mag r)) = rand_mag r"
  by (simp add: rand_mag_def split: option.split)

lemma NonceSeen_mag: "NonceSeen (Some (rand_mag r)) n s = NonceSeen r n s"
  by (simp add: NonceSeen_def nonceKey_def nonce_prefix_cong [of "Some (rand_mag r)" r])

lemma NonceCount_mag: "rand_mag r = rand_mag r' \<Longrightarrow> NonceCount r s = NonceCount r' s"
  by (simp add: NonceCount_def nonce_prefix_cong [of r r'])

lemma nonces_capped_upd:
  assumes "nonces_capped s" "\<not> NonceSeen r n s" "\<not> MaxSenderNonces \<le> NonceCount r s"
  shows "nonces_capped (s\<lparr>nonces := fmupd (nonceKey r n) v (nonces s)\<rparr>)"
  unfolding nonces_capped_def
proof (intro conjI allI)
  show "nonces_ok (s\<lparr>nonces := fmupd (nonceKey r n) v (nonces s)\<rparr>)"
    using assms(1) by (simp add: nonces_capped_def nonces_ok_upd)
  fix r'
  have "rand_mag r' = rand_mag r \<longrightarrow> NonceCount r' s < MaxSenderNonces"
    using assms(3) NonceCount_mag [of r' r s] by linarith
  then show "NonceCount r' (s\<lparr>nonces := fmupd (nonceKey r n) v (nonces s)\<rparr>) \<le> MaxSenderNonces"
    using assms(1,2) by (simp add: nonces_capped_def NonceCount_upd Suc_leI)
qed

interpretation nonce_ledger: once_only nonce_step nonces_capped
  "\<lambda>s (m, n). NonceSeen (Some m) n s"
proof unfold_locales
  fix s op assume "nonces_capped s"
  then show "nonces_capped (fst (nonce_step s op))"
    by (simp add: nonce_step_def RecordNonce_cases nonces_capped_upd)
next
  fix s op k assume "snd (nonce_step s op) = Some k"
  then show "\<not> (case k of (m, n) \<Rightarrow> NonceSeen (Some m) n s)"
    by (auto simp: nonce_step_def RecordNonce_cases NonceSeen_mag split: if_splits)
next
  fix s op k assume "snd (nonce_step s op) = Some k"
  then show "case k of (m, n) \<Rightarrow> NonceSeen (Some m) n (fst (nonce_step s op))"
    by (auto simp: nonce_step_def RecordNonce_cases NonceSeen_mag NonceSeen_upd split: if_splits)
next
  fix s j op assume "case j of (m, n) \<Rightarrow> NonceSeen (Some m) n s"
  then show "case j of (m, n) \<Rightarrow> NonceSeen (Some m) n (fst (nonce_step s op))"
    by (auto simp: nonce_step_def RecordNonce_cases NonceSeen_upd)
qed

text \<open>C12: the nonce ledger over any history of \<open>RecordNonce\<close> calls. Starting from a ledger within
  the cap, no (rand, nonce) pair is accepted twice, a pair that was already recorded is never
  accepted, and at the end every rand has at most \<open>MaxSenderNonces\<close> recorded nonces, the count being
  exactly the number of distinct nonces recorded under that rand and no other.\<close>

theorem nonce_ledger_history:
  assumes "nonces_capped s"
  shows "distinct (effects nonce_step s ops) \<and>
    (\<forall>(m, n) \<in> set (effects nonce_step s ops). \<not> NonceSeen (Some m) n s) \<and>
    NonceCount r (run nonce_step s ops) = card {n. NonceSeen r n (run nonce_step s ops)} \<and>
    NonceCount r (run nonce_step s ops) \<le> MaxSenderNonces"
  using assms nonce_ledger.distinct_effects [of s ops] nonce_ledger.inv_run [of s ops]
    nonce_ledger.effects_were_unseen [of s _ ops]
  by (auto simp: nonces_capped_def NonceCount_card)

lemma nonces_capped_Open: "nonces_capped Open"
  by (auto simp: nonces_capped_def nonces_ok_def Open_def NonceCount_def length_scan_prefix)

theorem nonce_ledger_history_witness:
  "nonces_capped Open \<and>
   effects nonce_step Open [(Some 7, 1), (Some 7, 1)] = [(7, 1)] \<and>
   distinct (effects nonce_step Open [(Some 7, 1), (Some 7, 1)])"
proof -
  let ?s = "Open\<lparr>nonces := fmupd (nonceKey (Some 7) 1) [byte_of_nat 1] (nonces Open)\<rparr>"
  have "NonceCount (Some 7) Open = 0" "\<not> NonceSeen (Some 7) 1 Open"
    by (simp_all add: NonceCount_def length_scan_prefix Open_def NonceSeen_def)
  then have 1: "nonce_step Open (Some 7, 1) = (?s, Some (7, 1))"
    by (simp add: nonce_step_def RecordNonce_cases rand_mag_def MaxSenderNonces_def)
  have 2: "nonce_step ?s (Some 7, 1) = (?s, None)"
    by (simp add: nonce_step_def RecordNonce_cases NonceSeen_upd)
  have "effects nonce_step Open [(Some 7, 1), (Some 7, 1)] = [(7, 1)]"
    using 1 2 by (simp only: effects_Cons effects_Nil fst_conv snd_conv option.case)
  then show ?thesis
    using nonces_capped_Open nonce_ledger_history
      [OF nonces_capped_Open, of "[(Some 7, 1), (Some 7, 1)]" None] by blast
qed

text \<open>Retiring a rand forgets exactly that rand. After \<open>deleteNonceLedger\<close> none of its nonces is
  recorded, and what is recorded under every other rand is unchanged.\<close>

theorem deleteNonceLedger_exact:
  "NonceSeen r' n (s\<lparr>nonces := deleteNonceLedger (nonces s) (Some r)\<rparr>) \<longleftrightarrow>
     NonceSeen r' n s \<and> rand_mag r' \<noteq> \<bar>r\<bar>"
proof -
  have "hasPrefix (nonceKey r' n) (nonce_prefix (Some r)) \<longleftrightarrow> rand_mag r' = \<bar>r\<bar>"
    by (simp add: hasPrefix_nonceKey rand_mag_def)
  then show ?thesis
    by (auto simp: NonceSeen_def deleteNonceLedger_def fmlookup_fold_fmdrop set_scan_prefix)
qed

section \<open>The highest nonce\<close>

lemma highest_step_nonceKey:
  "highest_step (nonce_prefix r) acc (nonceKey r n) =
     (if \<not> snd acc \<or> fst acc < n then (n, True) else acc)"
proof -
  have "unat n mod 256 ^ 4 = unat n" by (rule mod_less) (rule unat_less_256_pow)
  then have "(word_of_nat (be_value (be_bytes 4 (unat n))) :: uint32) = n"
    by (simp add: be_value_be_bytes)
  then show ?thesis by (simp add: highest_step_def nonceKey_def Let_def)
qed

lemma foldl_highest:
  assumes "\<And>k. k \<in> set ks \<Longrightarrow> \<exists>n \<in> N. k = nonceKey r n" and "snd acc \<Longrightarrow> fst acc \<in> N"
  shows "(snd (foldl (highest_step (nonce_prefix r)) acc ks) \<longleftrightarrow> snd acc \<or> ks \<noteq> []) \<and>
    (snd (foldl (highest_step (nonce_prefix r)) acc ks) \<longrightarrow>
       fst (foldl (highest_step (nonce_prefix r)) acc ks) \<in> N \<and>
       (snd acc \<longrightarrow> fst acc \<le> fst (foldl (highest_step (nonce_prefix r)) acc ks)) \<and>
       (\<forall>n. nonceKey r n \<in> set ks \<longrightarrow> n \<le> fst (foldl (highest_step (nonce_prefix r)) acc ks)))"
  using assms
proof (induction ks arbitrary: acc)
  case (Cons k ks)
  from Cons.prems(1) [of k] obtain m where m: "m \<in> N" "k = nonceKey r m" by auto
  define acc' where "acc' = (if \<not> snd acc \<or> fst acc < m then (m, True) else acc)"
  have acc': "snd acc'" "fst acc' \<in> N" "m \<le> fst acc'" "snd acc \<longrightarrow> fst acc \<le> fst acc'"
    using Cons.prems(2) m(1) by (auto simp: acc'_def)
  have step: "foldl (highest_step (nonce_prefix r)) acc (k # ks) =
      foldl (highest_step (nonce_prefix r)) acc' ks"
    by (simp add: m(2) highest_step_nonceKey acc'_def)
  have IH: "snd (foldl (highest_step (nonce_prefix r)) acc' ks)"
    "fst (foldl (highest_step (nonce_prefix r)) acc' ks) \<in> N"
    "fst acc' \<le> fst (foldl (highest_step (nonce_prefix r)) acc' ks)"
    "\<forall>n. nonceKey r n \<in> set ks \<longrightarrow> n \<le> fst (foldl (highest_step (nonce_prefix r)) acc' ks)"
    using Cons.IH [of acc'] Cons.prems(1) acc' by (simp_all add: list.set_intros)
  show ?case unfolding step
    using IH acc' by (auto simp: m(2) nonceKey_eq_iff)
qed simp

lemma HighestSenderNonce_is_max:
  assumes "nonces_ok s"
  shows "(snd (HighestSenderNonce r s) \<longleftrightarrow> (\<exists>n. NonceSeen r n s)) \<and>
    (snd (HighestSenderNonce r s) \<longrightarrow>
       NonceSeen r (fst (HighestSenderNonce r s)) s \<and>
       (\<forall>n. NonceSeen r n s \<longrightarrow> n \<le> fst (HighestSenderNonce r s)))"
proof -
  let ?ks = "scan_prefix (nonces s) (nonce_prefix r)"
  have ks: "set ?ks = nonceKey r ` {n. NonceSeen r n s}" by (rule scan_nonces [OF assms])
  then have "?ks \<noteq> [] \<longleftrightarrow> (\<exists>n. NonceSeen r n s)" by (metis Collect_empty_eq image_is_empty set_empty)
  moreover have "nonceKey r n \<in> set ?ks \<longleftrightarrow> NonceSeen r n s" for n
    by (auto simp: ks nonceKey_eq_iff)
  ultimately show ?thesis
    using foldl_highest [of ?ks "{n. NonceSeen r n s}" r "(0, False)"] ks
    by (simp add: HighestSenderNonce_def Let_def) blast
qed

text \<open>\<open>HighestSenderNonce\<close> is the maximum of the nonces recorded under the rand, and reports that
  there is none exactly when none is recorded.\<close>

theorem HighestSenderNonce_is_maximum:
  assumes "nonces_ok s"
  shows "(snd (HighestSenderNonce r s) \<longleftrightarrow> (\<exists>n. NonceSeen r n s)) \<and>
    (snd (HighestSenderNonce r s) \<longrightarrow>
       fst (HighestSenderNonce r s) = Max {n. NonceSeen r n s})"
  using HighestSenderNonce_is_max [OF assms, of r]
  by (auto intro!: Max_eqI [symmetric])

definition one_nonce :: store where
  "one_nonce = Open\<lparr>nonces := fmupd (nonceKey (Some 7) 5) [byte_of_nat 1] (nonces Open)\<rparr>"

lemma one_nonce_ok: "nonces_ok one_nonce" "NonceSeen (Some 7) n one_nonce \<longleftrightarrow> n = 5"
  using nonces_capped_Open
  by (auto simp: one_nonce_def nonces_ok_upd nonces_capped_def NonceSeen_upd)
    (simp add: NonceSeen_def Open_def)

theorem HighestSenderNonce_is_maximum_witness:
  "nonces_ok one_nonce \<and> HighestSenderNonce (Some 7) one_nonce = (5, True)"
  using HighestSenderNonce_is_maximum [OF one_nonce_ok(1), of "Some 7"] one_nonce_ok
  by (simp add: prod_eq_iff)

section \<open>The watermark only rises\<close>

datatype watermark_op = OpNext string | OpResync string uint32

text \<open>A history of the payer's allocations and resynchronisations; the answer is the work id and
  nonce that \<open>NextSenderNonce\<close> handed out.\<close>

fun watermark_step :: "store \<Rightarrow> watermark_op \<Rightarrow> store \<times> (string \<times> uint32) option" where
  "watermark_step s (OpNext w) =
     (case NextSenderNonce w s of (s', Inr n) \<Rightarrow> (s', Some (w, n)) | (s', Inl _) \<Rightarrow> (s', None))"
| "watermark_step s (OpResync w seen) = (fst (ResyncSenderNonces w seen s), None)"

lemma watermark_put_raw:
  "watermark w (s\<lparr>sender_nonces := fmupd v (be_bytes 4 k) m\<rparr>) =
     (if w = v then word_of_nat (k mod 256 ^ 4) else watermark w (s\<lparr>sender_nonces := m\<rparr>))"
  by (simp add: watermark_def be_value_be_bytes)

lemma watermark_put:
  "watermark w (s\<lparr>sender_nonces := fmupd v (be_bytes 4 (unat n)) (sender_nonces s)\<rparr>) =
     (if w = v then n else watermark w s)"
  using mod_less [OF unat_less_256_pow [of n]] by (simp add: watermark_def be_value_be_bytes)

lemma not_max_less_Suc: "c \<noteq> NOT 0 \<Longrightarrow> c < c + (1 :: uint32)"
  by (simp add: word_less_Suc)

lemma NextSenderNonce_cases:
  "NextSenderNonce w s =
     (if w = [] then (s, Inl (ErrOther ''store: empty work_id''))
      else if watermark w s = NOT 0 then (s, Inl (ErrOther ''store: nonce space exhausted''))
      else (s\<lparr>sender_nonces := fmupd w (be_bytes 4 (unat (watermark w s + 1))) (sender_nonces s)\<rparr>,
            Inr (watermark w s + 1)))"
  by (simp add: NextSenderNonce_def db_update_def Let_def)

lemma ResyncSenderNonces_cases:
  "ResyncSenderNonces w seen s =
     (if w = [] then (s, Inl (ErrOther ''store: empty work_id''))
      else if seen \<le> watermark w s then (s, Inr False)
      else (s\<lparr>sender_nonces := fmupd w (be_bytes 4 (unat seen)) (sender_nonces s)\<rparr>, Inr True))"
  by (simp add: ResyncSenderNonces_def db_update_def)

lemma watermark_step_mono: "watermark w s \<le> watermark w (fst (watermark_step s op))"
  by (cases op) (auto simp: NextSenderNonce_cases ResyncSenderNonces_cases watermark_put
      less_imp_le not_max_less_Suc)

lemma watermark_step_issue:
  "snd (watermark_step s op) = Some (w, n) \<Longrightarrow>
     watermark w s < n \<and> watermark w (fst (watermark_step s op)) = n"
  by (cases op) (auto simp: NextSenderNonce_cases watermark_put not_max_less_Suc split: if_splits)

lemma issued_above_watermark:
  "(w, n) \<in> set (effects watermark_step s ops) \<Longrightarrow> watermark w s < n"
proof (induction ops arbitrary: s)
  case (Cons op ops)
  then show ?case
    using watermark_step_mono [of w s op] watermark_step_issue [of s op w n]
    by (auto split: option.splits intro: order_le_less_trans)
qed simp

text \<open>C32: over every history of allocations and resynchronisations, whatever nonces the payee
  reports, the nonces issued for one work id strictly increase, so none is ever issued twice, and
  each lies above the watermark the history started from.\<close>

theorem sender_nonces_strictly_increase:
  "sorted_wrt (<) (map snd (filter (\<lambda>e. fst e = w) (effects watermark_step s ops))) \<and>
   (\<forall>n \<in> set (map snd (filter (\<lambda>e. fst e = w) (effects watermark_step s ops))). watermark w s < n)"
proof (induction ops arbitrary: s)
  case (Cons op ops)
  have "watermark w (fst (watermark_step s op)) < n"
    if "(w, n) \<in> set (effects watermark_step (fst (watermark_step s op)) ops)" for n
    using issued_above_watermark [OF that] .
  then show ?case
    using Cons.IH [of "fst (watermark_step s op)"] watermark_step_issue [of s op w]
      watermark_step_mono [of w s op]
    by (fastforce split: option.splits intro: order_le_less_trans)
qed simp

lemma watermark_Open [simp]: "watermark w Open = 0"
  by (simp add: watermark_def Open_def)

theorem sender_nonces_strictly_increase_witness:
  "effects watermark_step Open [OpNext ''w'', OpResync ''w'' 8, OpNext ''w''] = [(''w'', 1), (''w'', 9)] \<and>
   sorted_wrt (<) (map snd (filter (\<lambda>e. fst e = ''w'')
     (effects watermark_step Open [OpNext ''w'', OpResync ''w'' 8, OpNext ''w''])))"
proof -
  have "effects watermark_step Open [OpNext ''w'', OpResync ''w'' 8, OpNext ''w''] = [(''w'', 1), (''w'', 9)]"
    by (simp add: NextSenderNonce_cases ResyncSenderNonces_cases watermark_put_raw word_le_def)
  then show ?thesis using sender_nonces_strictly_increase by blast
qed

text \<open>C30: a payer that lost its counter recovers from what the payee reports. When the payer
  raises its watermark to the payee's highest recorded nonce and then allocates, the payee has not
  seen the nonce it gets: recording it fails only if the rand's nonce budget is used up.\<close>

theorem resync_heals_lost_counter:
  assumes "nonces_ok payee" and "snd (HighestSenderNonce r payee)"
    and "NextSenderNonce w (fst (ResyncSenderNonces w (fst (HighestSenderNonce r payee)) payer)) = (payer', Inr n)"
  shows "\<not> NonceSeen r n payee \<and> snd (RecordNonce r n payee) \<noteq> Inl ErrNonceAlreadySeen"
proof -
  let ?h = "fst (HighestSenderNonce r payee)"
  let ?p = "fst (ResyncSenderNonces w ?h payer)"
  have "w \<noteq> []" using assms(3) by (auto simp: NextSenderNonce_cases split: if_splits)
  then have "?h \<le> watermark w ?p" by (simp add: ResyncSenderNonces_cases watermark_put)
  also have "watermark w ?p < n"
    using assms(3) by (auto simp: NextSenderNonce_cases not_max_less_Suc split: if_splits)
  finally have "?h < n" .
  then have "\<not> NonceSeen r n payee"
    using HighestSenderNonce_is_max assms(1,2) by fastforce
  then show ?thesis by (simp add: RecordNonce_cases)
qed

theorem resync_heals_lost_counter_witness:
  "nonces_ok one_nonce \<and> snd (HighestSenderNonce (Some 7) one_nonce) \<and>
   snd (NextSenderNonce ''w'' (fst (ResyncSenderNonces ''w'' (fst (HighestSenderNonce (Some 7) one_nonce)) Open)))
     = Inr 6 \<and>
   \<not> NonceSeen (Some 7) 6 one_nonce"
proof -
  have h: "HighestSenderNonce (Some 7) one_nonce = (5, True)"
    using HighestSenderNonce_is_max [OF one_nonce_ok(1), of "Some 7"] one_nonce_ok(2)
    by (simp add: prod_eq_iff)
  have "\<exists>p. NextSenderNonce ''w'' (fst (ResyncSenderNonces ''w'' (fst (HighestSenderNonce (Some 7) one_nonce)) Open))
      = (p, Inr 6)"
    unfolding h by (simp add: NextSenderNonce_cases ResyncSenderNonces_cases watermark_put_raw)
  then obtain p where p: "NextSenderNonce ''w''
      (fst (ResyncSenderNonces ''w'' (fst (HighestSenderNonce (Some 7) one_nonce)) Open)) = (p, Inr 6)" ..
  show ?thesis
    using resync_heals_lost_counter [OF one_nonce_ok(1) _ p] h p one_nonce_ok(1) by simp
qed

end
