(* ===== verification/Session_Store.thy ===== *)
theory Session_Store
  imports Nonce_Store
begin

text \<open>
  The receiver's session ledger (\<open>internal/store/store.go\<close>): opening, pricing, sealing, crediting,
  debiting, rotating and closing payment sessions.

  An operation that reads the clock takes the time as its argument \<open>now\<close>. The lemmas show what a
  debit charges (one rounded-up bill over the running total), that a debit sequence number is
  charged once, that rotation has exactly one winner, that a session's price never moves once an
  offering set it, and where sealing leaves the work-id index.
\<close>

section \<open>Billing\<close>

definition BillFor :: "int option \<Rightarrow> uint64 \<Rightarrow> uint64 \<Rightarrow> int" where
  "BillFor price perUnits units =
     (case price of None \<Rightarrow> 0
      | Some p \<Rightarrow>
          if p = 0 \<or> units = 0 then 0
          else
            let perUnits = (if perUnits = 0 then 1 else perUnits);
                total = p * uint units;
                denom = uint perUnits;
                quo = Quo total denom;
                rem = Rem total denom
            in if rem \<noteq> 0 then quo + 1 else quo)"

section \<open>Keys\<close>

definition compositeKey :: "bytes \<Rightarrow> string \<Rightarrow> bytes" where
  "compositeKey sender workID =
     byte_of_nat (length sender) # sender @ CHR '':'' # workID"

text \<open>\<open>%020d\<close> pads the decimal with zeros to twenty digits.\<close>

definition debitSeqBytes :: "uint64 \<Rightarrow> bytes" where
  "debitSeqBytes seq =
     ('':seq:'' @
      replicate (20 - length (nat_decimal (unat seq))) (CHR ''0'') @ nat_decimal (unat seq))"

definition isUnsealedSentinel :: "bytes \<Rightarrow> bool" where
  "isUnsealedSentinel b \<longleftrightarrow> length b = 0"

subsection \<open>JSON of a ticket session key\<close>

text \<open>\<open>encoding/json\<close> on strings: printable ASCII stands for itself except for the quote, the
  backslash and the three HTML characters; an invalid UTF-8 byte becomes the replacement character;
  the line and paragraph separators are escaped.\<close>

definition is_cont :: "char \<Rightarrow> bool" where
  "is_cont c \<longleftrightarrow> 128 \<le> nat_of_byte c \<and> nat_of_byte c \<le> 191"

definition byte_in :: "nat \<Rightarrow> nat \<Rightarrow> char \<Rightarrow> bool" where
  "byte_in lo hi c \<longleftrightarrow> lo \<le> nat_of_byte c \<and> nat_of_byte c \<le> hi"

definition utf8_size :: "bytes \<Rightarrow> nat option" where
  "utf8_size s =
     (case s of
        a # b # r \<Rightarrow>
          if byte_in 194 223 a then (if is_cont b then Some 2 else None)
          else if byte_in 224 239 a then
            (case r of
               c # _ \<Rightarrow>
                 if is_cont c \<and>
                    (if nat_of_byte a = 224 then byte_in 160 191 b
                     else if nat_of_byte a = 237 then byte_in 128 159 b else is_cont b)
                 then Some 3 else None
             | [] \<Rightarrow> None)
          else if byte_in 240 244 a then
            (case r of
               c # d # _ \<Rightarrow>
                 if is_cont c \<and> is_cont d \<and>
                    (if nat_of_byte a = 240 then byte_in 144 191 b
                     else if nat_of_byte a = 244 then byte_in 128 143 b else is_cont b)
                 then Some 4 else None
             | _ \<Rightarrow> None)
          else None
      | _ \<Rightarrow> None)"

definition bslash :: char where "bslash = byte_of_nat 92"
definition dquote :: char where "dquote = byte_of_nat 34"

definition json_ascii :: "char \<Rightarrow> bytes" where
  "json_ascii c =
     (let b = nat_of_byte c in
      if b = 34 \<or> b = 92 then [bslash, c]
      else if b = 8 then [bslash, CHR ''b'']
      else if b = 12 then [bslash, CHR ''f'']
      else if b = 10 then [bslash, CHR ''n'']
      else if b = 13 then [bslash, CHR ''r'']
      else if b = 9 then [bslash, CHR ''t'']
      else if b < 32 \<or> b = 60 \<or> b = 62 \<or> b = 38
        then bslash # ''u00'' @ [hex_digit (b div 16), hex_digit (b mod 16)]
      else [c])"

fun json_chars :: "bytes \<Rightarrow> bytes" where
  "json_chars [] = []"
| "json_chars (c # cs) =
     (if nat_of_byte c < 128 then json_ascii c @ json_chars cs
      else case utf8_size (c # cs) of
        None \<Rightarrow> bslash # ''ufffd'' @ json_chars cs
      | Some n \<Rightarrow>
          (if take 2 (c # cs) = [byte_of_nat 226, byte_of_nat 128] \<and>
              n = 3 \<and> nat_of_byte ((c # cs) ! 2) \<in> {168, 169}
           then bslash # ''u202'' @ [hex_digit (nat_of_byte ((c # cs) ! 2) mod 16)]
           else take n (c # cs)) @ json_chars (drop (n - 1) cs))"

definition json_string :: "bytes \<Rightarrow> bytes" where
  "json_string s = dquote # json_chars s @ [dquote]"

definition b64_char :: "nat \<Rightarrow> char" where
  "b64_char n =
     (''ABCDEFGHIJKLMNOPQRSTUVWXYZabcdefghijklmnopqrstuvwxyz0123456789+/'' ! n)"

fun base64 :: "bytes \<Rightarrow> bytes" where
  "base64 [] = []"
| "base64 [a] =
     (let x = nat_of_byte a in [b64_char (x div 4), b64_char (x mod 4 * 16), CHR ''='', CHR ''=''])"
| "base64 [a, b] =
     (let x = nat_of_byte a; y = nat_of_byte b in
      [b64_char (x div 4), b64_char (x mod 4 * 16 + y div 16), b64_char (y mod 16 * 4), CHR ''=''])"
| "base64 (a # b # c # r) =
     (let x = nat_of_byte a; y = nat_of_byte b; z = nat_of_byte c in
      [b64_char (x div 4), b64_char (x mod 4 * 16 + y div 16),
       b64_char (y mod 16 * 4 + z div 64), b64_char (z mod 64)] @ base64 r)"

text \<open>A nil slice is encoded as null; the code never has an empty slice that is not nil here.\<close>

definition json_bytes :: "bytes \<Rightarrow> bytes" where
  "json_bytes b = (if b = [] then ''null'' else dquote # base64 b @ [dquote])"

definition json_field :: "string \<Rightarrow> bytes \<Rightarrow> bytes" where
  "json_field name v = dquote # name @ dquote # CHR '':'' # v"

definition ticketSessionIndexKey :: "TicketSessionKey \<Rightarrow> bytes" where
  "ticketSessionIndexKey key =
     (if tk_WholesaleAccountID key \<noteq> [] \<or> tk_TicketStreamID key \<noteq> [] then
        NUL # ''{'' @
        json_field ''WholesaleAccountID'' (json_string (tk_WholesaleAccountID key)) @ '','' @
        json_field ''TicketStreamID'' (json_string (tk_TicketStreamID key)) @ '','' @
        json_field ''Sender'' (json_bytes (tk_Sender key)) @ '','' @
        json_field ''Recipient'' (json_bytes (tk_Recipient key)) @ '','' @
        json_field ''Capability'' (json_string (tk_Capability key)) @ '','' @
        json_field ''Offering'' (json_string (tk_Offering key)) @ ''}''
      else
        byte_of_nat (length (tk_Sender key)) # tk_Sender key @ CHR '':'' #
        byte_of_nat (length (tk_Recipient key)) # tk_Recipient key @ CHR '':'' #
        tk_Capability key @ CHR '':'' # tk_Offering key)"

section \<open>Opening and pricing\<close>

definition PricingUnset :: string where
  "PricingUnset = []"

definition unsealedSentinel :: bytes where
  "unsealedSentinel = []"

definition openFresh :: "Session \<Rightarrow> store \<Rightarrow> store" where
  "openFresh seed s =
     s\<lparr>sessions := fmupd (compositeKey [] (ss_WorkID seed)) seed (sessions s),
       capability_index := fmupd (ss_WorkID seed) unsealedSentinel (capability_index s)\<rparr>"

definition OpenSession :: "Session \<Rightarrow> time \<Rightarrow> (Session \<times> bool) store_op" where
  "OpenSession seed0 now s =
     (if ss_WorkID seed0 = [] then (s, Inl (ErrOther ''work_id is required''))
      else
        let seed = seed0\<lparr>ss_Sender := [], ss_OpenedAt := now,
              ss_BalanceWei := (if ss_BalanceWei seed0 = [] then ''0'' else ss_BalanceWei seed0)\<rparr>
        in db_update (\<lambda>s.
          case fmlookup (capability_index s) (ss_WorkID seed) of
            Some existing \<Rightarrow>
              (let senderForLookup = (if isUnsealedSentinel existing then [] else existing);
                   rawKey = compositeKey senderForLookup (ss_WorkID seed)
               in case fmlookup (sessions s) rawKey of
                    None \<Rightarrow> Inr (openFresh seed s, (seed, False))
                  | Some found \<Rightarrow>
                      if ss_PricePerWorkUnitWei found = PricingUnset then
                        let found' = found\<lparr>
                              ss_PricePerWorkUnitWei := ss_PricePerWorkUnitWei seed,
                              ss_PerUnits := ss_PerUnits seed,
                              ss_WorkUnit := ss_WorkUnit seed,
                              ss_Capability := ss_Capability seed,
                              ss_Offering := ss_Offering seed\<rparr>
                        in Inr (s\<lparr>sessions := fmupd rawKey found' (sessions s)\<rparr>, (found', True))
                      else if ss_PricePerWorkUnitWei found \<noteq> ss_PricePerWorkUnitWei seed \<or>
                              ss_PerUnits found \<noteq> ss_PerUnits seed
                        then Inl ErrPricingConflict
                      else Inr (s, (found, True)))
          | None \<Rightarrow> Inr (openFresh seed s, (seed, False))) s)"

section \<open>Ticket sessions and their rotation\<close>

definition TicketSessionFor :: "TicketSessionKey \<Rightarrow> store \<Rightarrow> Session option" where
  "TicketSessionFor key s =
     (case fmlookup (ticket_session_index s) (ticketSessionIndexKey key) of
        None \<Rightarrow> None
      | Some workID \<Rightarrow> fmlookup (sessions s) (compositeKey (tk_Sender key) workID))"

definition GetOrCreateTicketSession ::
  "TicketSessionKey \<Rightarrow> Session \<Rightarrow> time \<Rightarrow> (Session \<times> bool) store_op" where
  "GetOrCreateTicketSession key seed0 now s =
     (if ss_WorkID seed0 = [] then (s, Inl (ErrOther ''work_id is required''))
      else
        let seed = seed0\<lparr>ss_Sender := tk_Sender key, ss_Recipient := tk_Recipient key,
              ss_Capability := tk_Capability key, ss_Offering := tk_Offering key,
              ss_WholesaleAccountID := tk_WholesaleAccountID key,
              ss_TicketStreamID := tk_TicketStreamID key, ss_OpenedAt := now,
              ss_BalanceWei := (if ss_BalanceWei seed0 = [] then ''0'' else ss_BalanceWei seed0)\<rparr>;
            indexKey = ticketSessionIndexKey key;
            create = (\<lambda>s. s\<lparr>
              sessions := fmupd (compositeKey (tk_Sender key) (ss_WorkID seed)) seed (sessions s),
              capability_index := fmupd (ss_WorkID seed) (tk_Sender key) (capability_index s),
              ticket_session_index := fmupd indexKey (ss_WorkID seed) (ticket_session_index s)\<rparr>);
            drop_index = (\<lambda>s. s\<lparr>ticket_session_index := fmdrop indexKey (ticket_session_index s)\<rparr>)
        in db_update (\<lambda>s.
          case fmlookup (ticket_session_index s) indexKey of
            None \<Rightarrow> Inr (create s, (seed, False))
          | Some workID \<Rightarrow>
              (case fmlookup (sessions s) (compositeKey (tk_Sender key) workID) of
                 None \<Rightarrow> Inr (create (drop_index s), (seed, False))
               | Some found \<Rightarrow>
                   if ss_Closed found then Inr (create (drop_index s), (seed, False))
                   else Inr (s, (found, True)))) s)"

definition retireIndexedSession ::
  "TicketSessionKey \<Rightarrow> string \<Rightarrow> time \<Rightarrow> unit store_tx" where
  "retireIndexedSession key workID now s =
     (let drop_index = (\<lambda>s. s\<lparr>ticket_session_index :=
            fmdrop (ticketSessionIndexKey key) (ticket_session_index s)\<rparr>)
      in case fmlookup (sessions s) (compositeKey (tk_Sender key) workID) of
           None \<Rightarrow> Inr (drop_index s, ())
         | Some sess \<Rightarrow>
             let sess' = sess\<lparr>ss_Closed := True, ss_ClosedAt := now\<rparr>;
                 s1 = drop_index
                   (s\<lparr>sessions := fmupd (compositeKey (tk_Sender key) workID) sess' (sessions s)\<rparr>)
             in if ss_RecipientRand sess' \<noteq> [] then
                  (case SetString (ss_RecipientRand sess') of
                     None \<Rightarrow> Inl (ErrOther ''session rand corrupt'')
                   | Some randInt \<Rightarrow>
                       Inr (s1\<lparr>nonces := deleteNonceLedger (nonces s1) (Some randInt)\<rparr>, ()))
                else Inr (s1, ()))"

definition ResetTicketSessionIfCurrent :: "TicketSessionKey \<Rightarrow> string \<Rightarrow> time \<Rightarrow> bool store_op" where
  "ResetTicketSessionIfCurrent key expectedWorkID now s =
     (if expectedWorkID = [] then (s, Inl (ErrOther ''store: expected work_id is required''))
      else db_update (\<lambda>s.
        if fmlookup (ticket_session_index s) (ticketSessionIndexKey key) \<noteq> Some expectedWorkID
        then Inr (s, False)
        else sum_bind (retireIndexedSession key expectedWorkID now s) (\<lambda>(s', _). Inr (s', True))) s)"

definition ResetTicketSession :: "TicketSessionKey \<Rightarrow> time \<Rightarrow> (string \<times> bool) store_op" where
  "ResetTicketSession key now s =
     (let indexKey = ticketSessionIndexKey key in
      db_update (\<lambda>s.
        case fmlookup (ticket_session_index s) indexKey of
          None \<Rightarrow> Inr (s, ([], False))
        | Some oldWorkID \<Rightarrow>
            (case fmlookup (sessions s) (compositeKey (tk_Sender key) oldWorkID) of
               None \<Rightarrow>
                 Inr (s\<lparr>ticket_session_index := fmdrop indexKey (ticket_session_index s)\<rparr>,
                      (oldWorkID, False))
             | Some sess \<Rightarrow>
                 let sess' = sess\<lparr>ss_Closed := True, ss_ClosedAt := now\<rparr>;
                     s1 = s\<lparr>sessions := fmupd (compositeKey (tk_Sender key) oldWorkID) sess' (sessions s),
                            ticket_session_index := fmdrop indexKey (ticket_session_index s)\<rparr>
                 in if ss_RecipientRand sess' \<noteq> [] then
                      (case SetString (ss_RecipientRand sess') of
                         None \<Rightarrow> Inl (ErrOther ''session rand corrupt'')
                       | Some randInt \<Rightarrow>
                           Inr (s1\<lparr>nonces := deleteNonceLedger (nonces s1) (Some randInt)\<rparr>,
                                (oldWorkID, True)))
                    else Inr (s1, (oldWorkID, True)))) s)"

section \<open>Sealing\<close>

text \<open>The scan keeps the last record with the work id and no sender.\<close>

definition scanByWorkID :: "Session bucket \<Rightarrow> string \<Rightarrow> (Session \<times> bytes) option" where
  "scanByWorkID bucket workID =
     foldl (\<lambda>acc (k, sess).
         if ss_WorkID sess = workID \<and> length (ss_Sender sess) = 0 then Some (sess, k) else acc)
       None (bucket_entries bucket)"

definition SealSender :: "string \<Rightarrow> bytes \<Rightarrow> unit store_op" where
  "SealSender workID sender = db_update (\<lambda>s.
     let existing = fmlookup (capability_index s) workID;
         senderKey = (case existing of None \<Rightarrow> sender | Some e \<Rightarrow> e);
         s1 = (case existing of
                 None \<Rightarrow> s\<lparr>capability_index := fmupd workID sender (capability_index s)\<rparr>
               | Some _ \<Rightarrow> s);
         composite = compositeKey senderKey workID
     in sum_bind
          (case fmlookup (sessions s1) composite of
             Some sess \<Rightarrow> Inr (sess, composite)
           | None \<Rightarrow> (case scanByWorkID (sessions s1) workID of
                         None \<Rightarrow> Inl ErrNotFound
                       | Some found \<Rightarrow> Inr found))
          (\<lambda>(sess, composite).
             if 0 < length (ss_Sender sess) \<and> ss_Sender sess \<noteq> sender then Inl ErrSenderMismatch
             else
               let sess' = sess\<lparr>ss_Sender := sender\<rparr>;
                   newComposite = compositeKey sender workID;
                   moved = (if composite \<noteq> newComposite then fmdrop composite (sessions s1)
                            else sessions s1)
               in Inr (s1\<lparr>sessions := fmupd newComposite sess' moved\<rparr>, ())))"

section \<open>Balances\<close>

definition mutate :: "bytes \<Rightarrow> string \<Rightarrow> (Session \<Rightarrow> store_error + Session \<times> 'r) \<Rightarrow> 'r store_op" where
  "mutate sender workID fn = db_update (\<lambda>s.
     let composite = compositeKey sender workID in
     case fmlookup (sessions s) composite of
       None \<Rightarrow> Inl ErrNotFound
     | Some sess \<Rightarrow>
         sum_bind (fn sess) (\<lambda>(sess', r).
           Inr (s\<lparr>sessions := fmupd composite sess' (sessions s)\<rparr>, r)))"

definition CreditBalance :: "bytes \<Rightarrow> string \<Rightarrow> int option \<Rightarrow> int store_op" where
  "CreditBalance sender workID weiToCredit s =
     (case weiToCredit of
        None \<Rightarrow> (s, Inl (ErrOther ''weiToCredit is nil''))
      | Some wei \<Rightarrow>
          mutate sender workID (\<lambda>sess.
            let bal = parseDecimalBig (ss_BalanceWei sess) + wei in
            Inr (sess\<lparr>ss_BalanceWei := big_String bal\<rparr>, bal)) s)"

record DebitResult =
  dr_Balance :: int
  dr_DebitedWei :: int
  dr_CumulativeUnits :: uint64
  dr_Replayed :: bool

definition debit_key :: "bytes \<Rightarrow> string \<Rightarrow> uint64 \<Rightarrow> bytes" where
  "debit_key sender workID debitSeq = compositeKey sender workID @ debitSeqBytes debitSeq"

definition DebitBalance :: "bytes \<Rightarrow> string \<Rightarrow> int \<Rightarrow> uint64 \<Rightarrow> DebitResult store_op" where
  "DebitBalance sender workID workUnits debitSeq s =
     (if workUnits < 0 then (s, Inl (ErrOther ''work_units must be >= 0''))
      else db_update (\<lambda>s.
        let composite = compositeKey sender workID;
            seqKey = debit_key sender workID debitSeq
        in
        if fmlookup (debit_seqs s) seqKey \<noteq> None then
          (case fmlookup (sessions s) composite of
             None \<Rightarrow> Inl ErrNotFound
           | Some sess \<Rightarrow>
               Inr (s, \<lparr>dr_Balance = parseDecimalBig (ss_BalanceWei sess), dr_DebitedWei = 0,
                        dr_CumulativeUnits = ss_DebitedUnits sess, dr_Replayed = True\<rparr>))
        else
          (case fmlookup (sessions s) composite of
             None \<Rightarrow> Inl ErrNotFound
           | Some sess \<Rightarrow>
               if ss_Closed sess then Inl ErrClosed
               else if ss_PricePerWorkUnitWei sess = PricingUnset then Inl ErrPricingUnset
               else
                 let price = parseDecimalBig (ss_PricePerWorkUnitWei sess);
                     before = BillFor (Some price) (ss_PerUnits sess) (ss_DebitedUnits sess);
                     debited = ss_DebitedUnits sess + word_of_int workUnits;
                     debitWei = BillFor (Some price) (ss_PerUnits sess) debited - before;
                     bal = parseDecimalBig (ss_BalanceWei sess) - debitWei;
                     sess' = sess\<lparr>ss_DebitedUnits := debited, ss_BalanceWei := big_String bal\<rparr>
                 in Inr (s\<lparr>sessions := fmupd composite sess' (sessions s),
                          debit_seqs := fmupd seqKey (big_String workUnits) (debit_seqs s)\<rparr>,
                         \<lparr>dr_Balance = bal, dr_DebitedWei = debitWei,
                          dr_CumulativeUnits = debited, dr_Replayed = False\<rparr>))) s)"

definition Store_Get :: "bytes \<Rightarrow> string \<Rightarrow> store \<Rightarrow> store_error + Session" where
  "Store_Get sender workID s =
     (case fmlookup (sessions s) (compositeKey sender workID) of
        None \<Rightarrow> Inl ErrNotFound | Some sess \<Rightarrow> Inr sess)"

definition GetBalance :: "bytes \<Rightarrow> string \<Rightarrow> store \<Rightarrow> store_error + int" where
  "GetBalance sender workID s =
     sum_bind (Store_Get sender workID s) (\<lambda>sess. Inr (parseDecimalBig (ss_BalanceWei sess)))"

definition GetByWorkID :: "string \<Rightarrow> store \<Rightarrow> store_error + Session" where
  "GetByWorkID workID s =
     (case fmlookup (capability_index s) workID of
        None \<Rightarrow> Inl ErrNotFound
      | Some v \<Rightarrow>
          let sender = (if isUnsealedSentinel v then [] else v) in
          case fmlookup (sessions s) (compositeKey sender workID) of
            Some sess \<Rightarrow> Inr sess
          | None \<Rightarrow> (case scanByWorkID (sessions s) workID of
                        None \<Rightarrow> Inl ErrNotFound | Some (sess, _) \<Rightarrow> Inr sess))"

definition session_index_key :: "Session \<Rightarrow> TicketSessionKey" where
  "session_index_key sess =
     \<lparr>tk_WholesaleAccountID = ss_WholesaleAccountID sess, tk_TicketStreamID = ss_TicketStreamID sess,
      tk_Sender = ss_Sender sess, tk_Recipient = ss_Recipient sess,
      tk_Capability = ss_Capability sess, tk_Offering = ss_Offering sess\<rparr>"

text \<open>\<open>string(idx.Get(k))\<close> is the empty string for a missing key.\<close>

definition CloseSession :: "bytes \<Rightarrow> string \<Rightarrow> time \<Rightarrow> bool store_op" where
  "CloseSession sender workID now = db_update (\<lambda>s.
     sum_bind
       (case fmlookup (sessions s) (compositeKey sender workID) of
          Some sess \<Rightarrow> Inr (compositeKey sender workID, sess)
        | None \<Rightarrow> (case fmlookup (sessions s) (compositeKey [] workID) of
                      None \<Rightarrow> Inl ErrNotFound
                    | Some sess \<Rightarrow> Inr (compositeKey [] workID, sess)))
       (\<lambda>(composite, sess).
          if ss_Closed sess then Inr (s, True)
          else
            let sess' = sess\<lparr>ss_Closed := True, ss_ClosedAt := now\<rparr>;
                s1 = s\<lparr>sessions := fmupd composite sess' (sessions s)\<rparr>;
                indexKey = ticketSessionIndexKey (session_index_key sess')
            in if 0 < length (ss_Sender sess') \<and> 0 < length (ss_Recipient sess') \<and>
                  (case fmlookup (ticket_session_index s1) indexKey of
                     None \<Rightarrow> [] | Some w \<Rightarrow> w) = ss_WorkID sess'
               then Inr (s1\<lparr>ticket_session_index := fmdrop indexKey (ticket_session_index s1)\<rparr>, False)
               else Inr (s1, False)))"

section \<open>The bill\<close>

text \<open>The bill over a running total that is not confined to 64 bits.\<close>

definition bill :: "int \<Rightarrow> uint64 \<Rightarrow> nat \<Rightarrow> int" where
  "bill price perUnits u = ceil_quo (price * int u) (uint (if perUnits = 0 then 1 else perUnits))"

lemma denom_pos: "0 < uint (if q = 0 then 1 else q :: uint64)"
  using uint_ge_0 [of q] uint_0_iff [of q] by (simp add: order_less_le)

lemma BillFor_bill: "BillFor (Some p) q u = bill p q (unat u)"
proof (cases "p = 0 \<or> u = 0")
  case True
  then have "p * int (unat u) = 0" by auto
  then show ?thesis using True denom_pos [of q]
    by (auto simp: BillFor_def bill_def ceil_quo_def)
next
  case False
  then show ?thesis by (auto simp: BillFor_def bill_def ceil_quo_def Let_def uint_nat [symmetric])
qed

interpretation bill_curve: billing_curve "bill (int p) q" for p q
proof unfold_locales
  show "bill (int p) q 0 = 0" using denom_pos [of q] by (simp add: bill_def ceil_quo_def)
next
  fix u v :: nat assume "u \<le> v"
  then have "int p * int u \<le> int p * int v" by (simp add: mult_left_mono)
  then show "bill (int p) q u \<le> bill (int p) q v"
    unfolding bill_def using denom_pos [of q] by (intro ceil_quo_mono) simp_all
qed

text \<open>The bill for a running total is the least amount that covers it. For a price that is not
  negative, \<open>BillFor\<close> is at most \<open>n\<close> exactly when \<open>n\<close> times the price denominator covers units
  times price, with a denominator of zero read as one; so the payee is never left short and the
  payer never pays a whole wei too much.\<close>

theorem BillFor_least_cover:
  assumes "0 \<le> p"
  shows "BillFor (Some p) q u \<le> n \<longleftrightarrow>
    p * uint u \<le> n * uint (if q = 0 then 1 else q)"
  using assms denom_pos [of q] by (simp add: BillFor_bill bill_def ceil_quo_le_iff)

theorem BillFor_least_cover_witness:
  "(0::int) \<le> 7 \<and> (BillFor (Some 7) 3 2 \<le> 5 \<longleftrightarrow> (7::int) * 2 \<le> 5 * 3) \<and> BillFor (Some 7) 3 2 = 5"
  using BillFor_least_cover [of 7 3 2 5]
  by (simp add: BillFor_def Quo_def Rem_def)

section \<open>Debits\<close>

lemma debitSeqBytes_inj: "debitSeqBytes a = debitSeqBytes b \<longleftrightarrow> a = b"
proof
  assume "debitSeqBytes a = debitSeqBytes b"
  then have "unat a = unat b"
    unfolding debitSeqBytes_def append_Cons append_Nil list.inject by (metis zero_padded_value)
  then show "a = b" by (simp add: word_unat_eq_iff)
qed simp

lemma length_debitSeqBytes [simp]: "length (debitSeqBytes q) = 25"
proof -
  have "unat q < 2 ^ 64" using unsigned_less [where 'a = nat, of q] by simp
  also have "\<dots> < (10::nat) ^ 20" by simp
  finally have "length (nat_decimal (unat q)) \<le> 20" by (rule length_nat_decimal) simp
  then show ?thesis by (simp add: debitSeqBytes_def)
qed

lemma compositeKey_inj:
  "length a < 256 \<Longrightarrow> length b < 256 \<Longrightarrow> compositeKey a v = compositeKey b w \<longleftrightarrow> a = b \<and> v = w"
  by (auto simp: compositeKey_def byte_of_nat_eq_iff)

lemma debit_key_inj:
  assumes "length a < 256" "length b < 256"
  shows "debit_key a v q = debit_key b w r \<longleftrightarrow> a = b \<and> v = w \<and> q = r"
proof -
  have "debit_key a v q = debit_key b w r \<longleftrightarrow>
      compositeKey a v = compositeKey b w \<and> debitSeqBytes q = debitSeqBytes r"
    unfolding debit_key_def by (rule append_eq_append_conv) (simp)
  then show ?thesis using assms by (simp add: compositeKey_inj debitSeqBytes_inj)
qed

lemma debit_key_same_session: "debit_key a v q = debit_key a v r \<longleftrightarrow> q = r"
  by (simp add: debit_key_def debitSeqBytes_inj)

lemma DebitBalance_fresh:
  assumes "fmlookup (sessions s) (compositeKey a w) = Some sess" "\<not> ss_Closed sess"
    and "ss_PricePerWorkUnitWei sess \<noteq> PricingUnset"
    and "fmlookup (debit_seqs s) (debit_key a w q) = None" "0 \<le> u"
  shows "DebitBalance a w u q s =
    (let d = ss_DebitedUnits sess + word_of_int u;
         p = Some (parseDecimalBig (ss_PricePerWorkUnitWei sess));
         c = BillFor p (ss_PerUnits sess) d - BillFor p (ss_PerUnits sess) (ss_DebitedUnits sess);
         b = parseDecimalBig (ss_BalanceWei sess) - c
     in (s\<lparr>sessions := fmupd (compositeKey a w)
              (sess\<lparr>ss_DebitedUnits := d, ss_BalanceWei := big_String b\<rparr>) (sessions s),
          debit_seqs := fmupd (debit_key a w q) (big_String u) (debit_seqs s)\<rparr>,
         Inr \<lparr>dr_Balance = b, dr_DebitedWei = c, dr_CumulativeUnits = d, dr_Replayed = False\<rparr>))"
  using assms by (simp add: DebitBalance_def db_update_def Let_def)

lemma uint64_add_no_wrap:
  fixes d :: uint64
  assumes "0 \<le> u" "unat d + nat u < 2 ^ 64"
  shows "unat (d + word_of_int u) = unat d + nat u"
proof -
  have "uint (word_of_int u :: uint64) = u"
    using assms by (simp add: uint_word_of_int_eq take_bit_int_eq_self)
  then have "unat (word_of_int u :: uint64) = nat u" by (simp add: unat_eq_nat_uint)
  then show ?thesis using assms by (simp add: unat_word_ariths)
qed

lemma uint64_add_wrap:
  fixes d :: uint64
  assumes "0 \<le> u" "u < 2 ^ 63" "2 ^ 64 \<le> unat d + nat u"
  shows "unat (d + word_of_int u) = unat d + nat u - 2 ^ 64"
proof -
  have "uint (word_of_int u :: uint64) = u"
    using assms by (simp add: uint_word_of_int_eq take_bit_int_eq_self)
  then have u: "unat (word_of_int u :: uint64) = nat u" by (simp add: unat_eq_nat_uint)
  have "unat d < 2 ^ 64" using unsigned_less [where 'a = nat, of d] by simp
  then have "unat d + nat u < 2 ^ 64 + 2 ^ 64" using assms(2) by simp
  then have "(unat d + nat u) mod 2 ^ 64 = unat d + nat u - 2 ^ 64"
    using assms(3) by (simp add: mod_if)
  then show ?thesis by (simp add: unat_word_ariths u)
qed

definition debit_step :: "bytes \<Rightarrow> string \<Rightarrow> store \<Rightarrow> int \<times> uint64 \<Rightarrow> store \<times> (store_error + DebitResult)" where
  "debit_step a w s op = DebitBalance a w (fst op) (snd op) s"

text \<open>An open session an offering has priced, with a given running total and balance.\<close>

definition priced_session :: "store \<Rightarrow> bytes \<Rightarrow> string \<Rightarrow> nat \<Rightarrow> uint64 \<Rightarrow> nat \<Rightarrow> int \<Rightarrow> bool" where
  "priced_session s a w p q u b \<longleftrightarrow>
     (\<exists>sess. fmlookup (sessions s) (compositeKey a w) = Some sess \<and> \<not> ss_Closed sess \<and>
        ss_PricePerWorkUnitWei sess \<noteq> PricingUnset \<and>
        parseDecimalBig (ss_PricePerWorkUnitWei sess) = int p \<and> ss_PerUnits sess = q \<and>
        unat (ss_DebitedUnits sess) = u \<and> parseDecimalBig (ss_BalanceWei sess) = b)"

lemma debit_step_fresh:
  assumes "priced_session s a w p q u b" and "fmlookup (debit_seqs s) (debit_key a w n) = None"
    and "0 \<le> x" "u + nat x < 2 ^ 64"
  shows "\<exists>s' d. debit_step a w s (x, n) = (s', Inr d) \<and> dr_DebitedWei d = bill p q (u + nat x) - bill p q u \<and>
    priced_session s' a w p q (u + nat x) (b - dr_DebitedWei d) \<and> dr_Balance d = b - dr_DebitedWei d \<and>
    debit_seqs s' = fmupd (debit_key a w n) (big_String x) (debit_seqs s)"
proof -
  obtain sess where sess: "fmlookup (sessions s) (compositeKey a w) = Some sess" "\<not> ss_Closed sess"
    "ss_PricePerWorkUnitWei sess \<noteq> PricingUnset" "parseDecimalBig (ss_PricePerWorkUnitWei sess) = int p"
    "ss_PerUnits sess = q" "unat (ss_DebitedUnits sess) = u" "parseDecimalBig (ss_BalanceWei sess) = b"
    using assms(1) by (auto simp: priced_session_def)
  have "unat (ss_DebitedUnits sess + word_of_int x) = u + nat x"
    using uint64_add_no_wrap [of x "ss_DebitedUnits sess"] assms(3,4) sess(6) by simp
  then show ?thesis
    using sess assms(2,3)
    by (simp add: debit_step_def DebitBalance_fresh priced_session_def BillFor_bill Let_def)
qed

text \<open>C13: cumulative billing. On an open, priced session, any sequence of debits with distinct unused
  sequence numbers whose units do not overflow the 64-bit total is accepted; each is charged the
  difference of two bills, which is never negative, and together they are charged exactly one
  rounded-up bill over the whole total, however the work was split into debits.\<close>

theorem debits_charge_one_bill:
  assumes "priced_session s a w p q u b"
    and "\<forall>(x, n) \<in> set ops. 0 \<le> x \<and> fmlookup (debit_seqs s) (debit_key a w n) = None"
    and "distinct (map snd ops)" and "u + sum_list (map (\<lambda>op. nat (fst op)) ops) < 2 ^ 64"
  shows "\<exists>ds. answers (debit_step a w) s ops = map Inr ds \<and>
    map dr_DebitedWei ds = charges (bill p q) u (map (\<lambda>op. nat (fst op)) ops) \<and>
    (\<forall>d \<in> set ds. 0 \<le> dr_DebitedWei d \<and> \<not> dr_Replayed d) \<and>
    priced_session (run (debit_step a w) s ops) a w p q (u + sum_list (map (\<lambda>op. nat (fst op)) ops))
      (b - (bill p q (u + sum_list (map (\<lambda>op. nat (fst op)) ops)) - bill p q u))"
  using assms
proof (induction ops arbitrary: s u b)
  case (Cons op ops)
  obtain x n where op: "op = (x, n)" by (cases op)
  from Cons.prems have x: "0 \<le> x" "fmlookup (debit_seqs s) (debit_key a w n) = None" "u + nat x < 2 ^ 64"
    by (auto simp: op)
  from debit_step_fresh [OF Cons.prems(1) x(2,1,3)] obtain s' d where
    d: "debit_step a w s (x, n) = (s', Inr d)" "dr_DebitedWei d = bill p q (u + nat x) - bill p q u"
      "priced_session s' a w p q (u + nat x) (b - dr_DebitedWei d)"
      "debit_seqs s' = fmupd (debit_key a w n) (big_String x) (debit_seqs s)" by blast
  have "\<not> dr_Replayed d" using d(1) x(2) assms
    by (auto simp: debit_step_def DebitBalance_def db_update_def Let_def split: option.splits if_splits sum.splits)
  moreover have "0 \<le> dr_DebitedWei d" using d(2) bill_curve.bill_mono [of u "u + nat x" p q] by simp
  moreover have "\<forall>(y, m) \<in> set ops. 0 \<le> y \<and> fmlookup (debit_seqs s') (debit_key a w m) = None"
    using Cons.prems(2,3) by (force simp: op d(4) debit_key_same_session)
  moreover from this Cons.IH [OF d(3)] Cons.prems(3,4) obtain ds where
    ds: "answers (debit_step a w) s' ops = map Inr ds"
      "map dr_DebitedWei ds = charges (bill p q) (u + nat x) (map (\<lambda>op. nat (fst op)) ops)"
      "\<forall>d \<in> set ds. 0 \<le> dr_DebitedWei d \<and> \<not> dr_Replayed d"
      "priced_session (run (debit_step a w) s' ops) a w p q (u + nat x + sum_list (map (\<lambda>op. nat (fst op)) ops))
        (b - dr_DebitedWei d - (bill p q (u + nat x + sum_list (map (\<lambda>op. nat (fst op)) ops)) - bill p q (u + nat x)))"
    by (auto simp: op add.assoc)
  ultimately show ?case
    using d(1,2) by (intro exI [of _ "d # ds"]) (simp add: op algebra_simps)
qed simp

definition sample_session :: Session where
  "sample_session =
     \<lparr>ss_WholesaleAccountID = [], ss_TicketStreamID = [], ss_WorkID = ''w'',
      ss_Sender = ''payer'', ss_Recipient = ''payee'', ss_Capability = ''c'', ss_Offering = ''o'',
      ss_PricePerWorkUnitWei = ''7'', ss_PerUnits = 3, ss_WorkUnit = ''token'',
      ss_DebitedUnits = 0, ss_BalanceWei = ''9'', ss_Closed = False,
      ss_OpenedAt = 1, ss_ClosedAt = 0, ss_RecipientRand = ''5'', ss_FaceValueWei = ''1'',
      ss_WinProb = ''1''\<rparr>"

definition sample_sessions :: store where
  "sample_sessions =
     Open\<lparr>sessions := fmupd (compositeKey ''payer'' ''w'') sample_session fmempty\<rparr>"

lemma parse_digit [simp]: "parseDecimalBig ''7'' = 7" "parseDecimalBig ''9'' = 9"
  by (simp_all add: parseDecimalBig_def SetString_def decimal_nat_def is_digit_def)

lemma sample_priced: "priced_session sample_sessions ''payer'' ''w'' 7 3 0 9"
  by (simp add: priced_session_def sample_sessions_def sample_session_def PricingUnset_def)

definition debit_sample :: "(int \<times> uint64) list" where
  "debit_sample = [(2, 1), (1, 2)]"

theorem debits_charge_one_bill_witness:
  "priced_session sample_sessions ''payer'' ''w'' 7 3 0 9 \<and>
   (\<exists>ds. answers (debit_step ''payer'' ''w'') sample_sessions debit_sample = map Inr ds \<and>
      map dr_DebitedWei ds = charges (bill 7 3) 0 [2, 1]) \<and>
   charges (bill 7 3) 0 [2, 1] = [5, 2]"
proof -
  have "\<exists>ds. answers (debit_step ''payer'' ''w'') sample_sessions debit_sample = map Inr ds \<and>
      map dr_DebitedWei ds = charges (bill (int 7) 3) 0 (map (\<lambda>op. nat (fst op)) debit_sample) \<and>
      (\<forall>d \<in> set ds. 0 \<le> dr_DebitedWei d \<and> \<not> dr_Replayed d) \<and>
      priced_session (run (debit_step ''payer'' ''w'') sample_sessions debit_sample) ''payer'' ''w'' 7 3
        (0 + sum_list (map (\<lambda>op. nat (fst op)) debit_sample))
        (9 - (bill (int 7) 3 (0 + sum_list (map (\<lambda>op. nat (fst op)) debit_sample)) - bill (int 7) 3 0))"
    by (rule debits_charge_one_bill [OF sample_priced])
      (simp_all add: sample_sessions_def Open_def debit_sample_def)
  moreover have "charges (bill 7 3) 0 [2, 1] = [5, 2]"
    by (simp add: bill_def ceil_quo_def Quo_def Rem_def)
  moreover have "map (\<lambda>op. nat (fst op)) debit_sample = [2, 1]" by (simp add: debit_sample_def)
  ultimately show ?thesis using sample_priced by (simp only:) (metis of_nat_numeral)
qed

section \<open>Histories of the session ledger\<close>

datatype session_op =
    SOpen Session time | SGetOrCreate TicketSessionKey Session time
  | SResetIf TicketSessionKey string time | SReset TicketSessionKey time
  | SSeal string bytes | SCredit bytes string "int option"
  | SDebit bytes string int uint64 | SClose bytes string time

text \<open>The answer is the session and sequence number of a debit that was charged, not replayed.\<close>

fun session_step :: "store \<Rightarrow> session_op \<Rightarrow> store \<times> (bytes \<times> string \<times> uint64) option" where
  "session_step s (SOpen seed now) = (fst (OpenSession seed now s), None)"
| "session_step s (SGetOrCreate key seed now) = (fst (GetOrCreateTicketSession key seed now s), None)"
| "session_step s (SResetIf key w now) = (fst (ResetTicketSessionIfCurrent key w now s), None)"
| "session_step s (SReset key now) = (fst (ResetTicketSession key now s), None)"
| "session_step s (SSeal w a) = (fst (SealSender w a s), None)"
| "session_step s (SCredit a w wei) = (fst (CreditBalance a w wei s), None)"
| "session_step s (SDebit a w u q) =
     (case DebitBalance a w u q s of
        (s', Inr d) \<Rightarrow> (s', if dr_Replayed d then None else Some (a, w, q))
      | (s', Inl _) \<Rightarrow> (s', None))"
| "session_step s (SClose a w now) = (fst (CloseSession a w now s), None)"

lemmas session_op_defs =
  OpenSession_def GetOrCreateTicketSession_def ResetTicketSessionIfCurrent_def
  retireIndexedSession_def ResetTicketSession_def SealSender_def CreditBalance_def mutate_def
  DebitBalance_def CloseSession_def openFresh_def db_update_def

lemma debit_seqs_frame:
  "debit_seqs (fst (OpenSession seed now s)) = debit_seqs s"
  "debit_seqs (fst (GetOrCreateTicketSession key seed now s)) = debit_seqs s"
  "debit_seqs (fst (ResetTicketSessionIfCurrent key w now s)) = debit_seqs s"
  "debit_seqs (fst (ResetTicketSession key now s)) = debit_seqs s"
  "debit_seqs (fst (SealSender w a s)) = debit_seqs s"
  "debit_seqs (fst (CreditBalance a w wei s)) = debit_seqs s"
  "debit_seqs (fst (CloseSession a w now s)) = debit_seqs s"
  by (simp_all add: session_op_defs sum_bind_case Let_def split: sum.split option.split prod.split)

lemma DebitBalance_charged:
  assumes "DebitBalance a w u q s = (s', Inr d)" "\<not> dr_Replayed d"
  shows "fmlookup (debit_seqs s) (debit_key a w q) = None"
    and "fmlookup (debit_seqs s') (debit_key a w q) \<noteq> None"
  using assms
  by (auto simp: DebitBalance_def db_update_def Let_def split: if_splits option.splits sum.splits)

lemma DebitBalance_keeps_seqs:
  "fmlookup (debit_seqs s) k \<noteq> None \<Longrightarrow> fmlookup (debit_seqs (fst (DebitBalance a w u q s))) k \<noteq> None"
  by (auto simp: DebitBalance_def db_update_def Let_def split: if_splits option.splits sum.splits)

lemma fst_session_step_debit: "fst (session_step s (SDebit a w u q)) = fst (DebitBalance a w u q s)"
  by (simp split: prod.split sum.split)

lemma session_step_keeps_seqs:
  "fmlookup (debit_seqs s) k \<noteq> None \<Longrightarrow> fmlookup (debit_seqs (fst (session_step s op))) k \<noteq> None"
  using DebitBalance_keeps_seqs [of s k]
  by (cases op) (simp_all add: debit_seqs_frame fst_session_step_debit del: session_step.simps(7))

interpretation debit_ledger: once_only session_step "\<lambda>_. True"
  "\<lambda>s (a, w, q). fmlookup (debit_seqs s) (debit_key a w q) \<noteq> None"
proof unfold_locales
  fix s op and k :: "bytes \<times> string \<times> uint64" assume "snd (session_step s op) = Some k"
  then show "\<not> (case k of (a, w, q) \<Rightarrow> fmlookup (debit_seqs s) (debit_key a w q) \<noteq> None)"
    by (cases op) (auto split: prod.splits sum.splits if_splits dest: DebitBalance_charged)
next
  fix s op and k :: "bytes \<times> string \<times> uint64" assume "snd (session_step s op) = Some k"
  then show "case k of (a, w, q) \<Rightarrow> fmlookup (debit_seqs (fst (session_step s op))) (debit_key a w q) \<noteq> None"
    by (cases op) (auto split: prod.splits sum.splits if_splits dest: DebitBalance_charged)
next
  fix s :: store and op and j :: "bytes \<times> string \<times> uint64"
  assume "case j of (a, w, q) \<Rightarrow> fmlookup (debit_seqs s) (debit_key a w q) \<noteq> None"
  then show "case j of (a, w, q) \<Rightarrow> fmlookup (debit_seqs (fst (session_step s op))) (debit_key a w q) \<noteq> None"
    using session_step_keeps_seqs by (simp split: prod.splits)
qed simp

text \<open>C25: a debit is charged at most once. Over any interleaving of opening, pricing, rotating,
  sealing, crediting, closing and debiting sessions, no (sender, work id, sequence number) is
  charged twice; every later delivery of that debit is answered as a replay or with an error.\<close>

theorem debit_charged_at_most_once:
  "distinct (effects session_step s ops)"
  by (rule debit_ledger.distinct_effects) simp

text \<open>A replayed debit changes nothing and charges nothing.\<close>

lemma DebitBalance_replay:
  assumes "fmlookup (debit_seqs s) (debit_key a w q) \<noteq> None" "0 \<le> u"
    and "fmlookup (sessions s) (compositeKey a w) = Some sess"
  shows "DebitBalance a w u q s =
    (s, Inr \<lparr>dr_Balance = parseDecimalBig (ss_BalanceWei sess), dr_DebitedWei = 0,
             dr_CumulativeUnits = ss_DebitedUnits sess, dr_Replayed = True\<rparr>)"
  using assms by (auto simp: DebitBalance_def db_update_def Let_def)

end
