(* ===== verification/Session_Laws.thy ===== *)
theory Session_Laws
  imports Session_Store
begin

text \<open>
  Further properties of the session ledger: rotation of a ticket session, reuse of the indexed
  session, the price of a session, and what sealing a sender does to the work-id index.
\<close>

section \<open>Rotation\<close>

datatype rotate_op = Rotate time | Fetch Session time

text \<open>Callers that try to rotate the same session, interleaved with callers that fetch or create the
  current one. The answer reports a caller that observed \<open>rotated = true\<close>.\<close>

fun rotate_step :: "TicketSessionKey \<Rightarrow> string \<Rightarrow> store \<Rightarrow> rotate_op \<Rightarrow> store \<times> unit option" where
  "rotate_step key w s (Rotate now) =
     (case ResetTicketSessionIfCurrent key w now s of
        (s', Inr True) \<Rightarrow> (s', Some ()) | (s', _) \<Rightarrow> (s', None))"
| "rotate_step key w s (Fetch seed now) = (fst (GetOrCreateTicketSession key seed now s), None)"

definition indexed :: "TicketSessionKey \<Rightarrow> store \<Rightarrow> string option" where
  "indexed key s = fmlookup (ticket_session_index s) (ticketSessionIndexKey key)"

definition live_session :: "TicketSessionKey \<Rightarrow> string \<Rightarrow> store \<Rightarrow> bool" where
  "live_session key w s \<longleftrightarrow>
     indexed key s = Some w \<and>
     (\<exists>sess. fmlookup (sessions s) (compositeKey (tk_Sender key) w) = Some sess \<and> \<not> ss_Closed sess \<and>
        (ss_RecipientRand sess = [] \<or> SetString (ss_RecipientRand sess) \<noteq> None))"

lemma rotate_not_current:
  "indexed key s \<noteq> Some w \<Longrightarrow> rotate_step key w s (Rotate now) = (s, None)"
  by (simp add: ResetTicketSessionIfCurrent_def db_update_def indexed_def)

lemma fetch_not_current:
  "indexed key s \<noteq> Some w \<Longrightarrow> ss_WorkID seed \<noteq> w \<Longrightarrow>
     indexed key (fst (rotate_step key w s (Fetch seed now))) \<noteq> Some w"
  by (auto simp: GetOrCreateTicketSession_def db_update_def indexed_def Let_def
      split: option.split)

lemma fetch_answers_None: "snd (rotate_step key w s (Fetch seed now)) = None"
  by simp

lemma no_winner_once_rotated:
  assumes "indexed key s \<noteq> Some w" "\<forall>op \<in> set ops. \<forall>seed now. op = Fetch seed now \<longrightarrow> ss_WorkID seed \<noteq> w"
  shows "effects (rotate_step key w) s ops = []"
  using assms
proof (induction ops arbitrary: s)
  case (Cons op ops)
  then show ?case
    by (cases op) (simp_all add: rotate_not_current fetch_not_current fetch_answers_None
        del: rotate_step.simps)
qed simp

lemma rotate_current:
  assumes "live_session key w s" "w \<noteq> []"
  shows "snd (rotate_step key w s (Rotate now)) = Some ()"
    and "indexed key (fst (rotate_step key w s (Rotate now))) = None"
  using assms
  by (auto simp: live_session_def ResetTicketSessionIfCurrent_def retireIndexedSession_def
      db_update_def indexed_def Let_def split: option.splits)

lemma fetch_current:
  "live_session key w s \<Longrightarrow> fst (rotate_step key w s (Fetch seed now)) = s"
  by (auto simp: live_session_def GetOrCreateTicketSession_def db_update_def indexed_def Let_def)

text \<open>C29: rotation has exactly one winner. When any number of callers try to rotate the same live
  session, in any order and interleaved with callers that fetch or create the tuple's current
  session, exactly one of them observes that it rotated it, if there is one at all; the sessions the
  others create in between carry new work ids and are not retired by the late callers.\<close>

theorem rotation_has_one_winner:
  assumes "live_session key w s" "w \<noteq> []"
    and "\<forall>op \<in> set ops. \<forall>seed now. op = Fetch seed now \<longrightarrow> ss_WorkID seed \<noteq> w"
  shows "length (effects (rotate_step key w) s ops) = (if \<exists>now. Rotate now \<in> set ops then 1 else 0)"
  using assms
proof (induction ops)
  case (Cons op ops)
  show ?case
  proof (cases op)
    case (Rotate now)
    let ?s = "fst (rotate_step key w s (Rotate now))"
    have "effects (rotate_step key w) ?s ops = []"
      by (rule no_winner_once_rotated)
        (use rotate_current(2) [OF Cons.prems(1,2)] Cons.prems(3) in \<open>auto simp del: rotate_step.simps\<close>)
    then show ?thesis
      using rotate_current(1) [OF Cons.prems(1,2)] Rotate by (auto simp del: rotate_step.simps)
  next
    case (Fetch seed now)
    then show ?thesis
      using fetch_current [OF Cons.prems(1), of seed now] fetch_answers_None [of key w s seed now] Cons
      by (simp del: rotate_step.simps)
  qed
qed simp

definition sample_key :: TicketSessionKey where
  "sample_key =
     \<lparr>tk_WholesaleAccountID = [], tk_TicketStreamID = [], tk_Sender = ''payer'',
      tk_Recipient = ''payee'', tk_Capability = ''c'', tk_Offering = ''o''\<rparr>"

definition sample_live :: store where
  "sample_live = sample_sessions\<lparr>
     ticket_session_index := fmupd (ticketSessionIndexKey sample_key) ''w'' fmempty\<rparr>"

lemma sample_live_session: "live_session sample_key ''w'' sample_live"
  by (simp add: live_session_def indexed_def sample_live_def sample_sessions_def sample_key_def
      sample_session_def SetString_def decimal_nat_def is_digit_def)

definition sample_next :: Session where
  "sample_next = sample_session\<lparr>ss_WorkID := ''v''\<rparr>"

theorem rotation_has_one_winner_witness:
  "live_session sample_key ''w'' sample_live \<and>
   length (effects (rotate_step sample_key ''w'') sample_live
     [Rotate 3, Fetch sample_next 4, Rotate 5]) = 1"
  using rotation_has_one_winner [OF sample_live_session, of "[Rotate 3, Fetch sample_next 4, Rotate 5]"]
    sample_live_session
  by (auto simp: sample_next_def simp del: rotate_step.simps effects_Cons)

section \<open>Fetching is idempotent\<close>

text \<open>The session that \<open>GetOrCreateTicketSession\<close> returns is the one indexed from then on.
  It is open, \<open>TicketSessionFor\<close> finds it, and every further call for the same tuple returns it
  unchanged and leaves the ledger alone, whatever seed it offers.\<close>

theorem GetOrCreateTicketSession_idempotent:
  assumes "GetOrCreateTicketSession key seed now s = (s1, Inr (x, b))" "\<not> ss_Closed seed"
  shows "TicketSessionFor key s1 = Some x \<and> \<not> ss_Closed x \<and>
    (ss_WorkID seed' \<noteq> [] \<longrightarrow> GetOrCreateTicketSession key seed' now' s1 = (s1, Inr (x, True)))"
  using assms
  by (auto simp: GetOrCreateTicketSession_def TicketSessionFor_def db_update_def Let_def
      split: if_splits option.splits)

theorem GetOrCreateTicketSession_idempotent_witness:
  "\<exists>s1 x. GetOrCreateTicketSession sample_key sample_session 7 Open = (s1, Inr (x, False)) \<and>
     TicketSessionFor sample_key s1 = Some x \<and>
     GetOrCreateTicketSession sample_key sample_next 8 s1 = (s1, Inr (x, True))"
proof -
  obtain s1 x where c: "GetOrCreateTicketSession sample_key sample_session 7 Open = (s1, Inr (x, False))"
    by (simp add: GetOrCreateTicketSession_def db_update_def Let_def Open_def sample_session_def)
  have "\<not> ss_Closed sample_session" "ss_WorkID sample_next \<noteq> []"
    by (simp_all add: sample_session_def sample_next_def)
  with GetOrCreateTicketSession_idempotent [OF c, of sample_next 8] c show ?thesis by blast
qed

section \<open>A price is set once\<close>

text \<open>Every record is stored under the key built from its own sender and work id, and the index of a
  record without a sender is the unsealed sentinel.\<close>

definition sessions_wf :: "store \<Rightarrow> bool" where
  "sessions_wf s \<longleftrightarrow>
     (\<forall>k x. fmlookup (sessions s) k = Some x \<longrightarrow>
        length (ss_Sender x) < 256 \<and> k = compositeKey (ss_Sender x) (ss_WorkID x) \<and>
        (ss_Sender x = [] \<longrightarrow> fmlookup (capability_index s) (ss_WorkID x) = Some unsealedSentinel))"

text \<open>The operations that leave the identity of a session alone: all but creating a ticket session
  and sealing a sender.\<close>

fun keeps_identity :: "session_op \<Rightarrow> bool" where
  "keeps_identity (SGetOrCreate _ _ _) = False"
| "keeps_identity (SSeal _ _) = False"
| "keeps_identity _ = True"

definition priced_at :: "bytes \<Rightarrow> string \<Rightarrow> uint64 \<Rightarrow> string \<Rightarrow> store \<Rightarrow> bool" where
  "priced_at k p q unit s \<longleftrightarrow>
     (\<exists>x. fmlookup (sessions s) k = Some x \<and> ss_PricePerWorkUnitWei x = p \<and> ss_PerUnits x = q \<and>
        ss_WorkUnit x = unit)"

text \<open>What an operation may do to the sessions bucket: rewrite one record, keeping who it is for,
  and keeping its price if it had one.\<close>

definition same_terms :: "Session \<Rightarrow> Session \<Rightarrow> bool" where
  "same_terms x y \<longleftrightarrow>
     ss_Sender y = ss_Sender x \<and> ss_WorkID y = ss_WorkID x \<and>
     (ss_PricePerWorkUnitWei x \<noteq> PricingUnset \<longrightarrow>
        ss_PricePerWorkUnitWei y = ss_PricePerWorkUnitWei x \<and> ss_PerUnits y = ss_PerUnits x \<and>
        ss_WorkUnit y = ss_WorkUnit x)"

definition rewrites_one :: "store \<Rightarrow> store \<Rightarrow> bool" where
  "rewrites_one s s' \<longleftrightarrow>
     capability_index s' = capability_index s \<and>
     (sessions s' = sessions s \<or>
      (\<exists>k x y. fmlookup (sessions s) k = Some x \<and> same_terms x y \<and> sessions s' = fmupd k y (sessions s)))"

lemma rewrites_one_refl [simp]: "rewrites_one s s"
  by (simp add: rewrites_one_def)

lemma rewrites_one_upd [simp]:
  "(case fmlookup (sessions s) k of None \<Rightarrow> False | Some x \<Rightarrow> same_terms x y) \<Longrightarrow>
     rewrites_one s (s\<lparr>sessions := fmupd k y (sessions s)\<rparr>)"
  by (auto simp: rewrites_one_def split: option.splits)

lemma rewrites_one_frame [simp]:
  "rewrites_one s (s'\<lparr>debit_seqs := d\<rparr>) = rewrites_one s s'"
  "rewrites_one s (s'\<lparr>ticket_session_index := t\<rparr>) = rewrites_one s s'"
  "rewrites_one s (s'\<lparr>nonces := n\<rparr>) = rewrites_one s s'"
  by (simp_all add: rewrites_one_def)

lemma rewrites_one_wf: "rewrites_one s s' \<Longrightarrow> sessions_wf s \<Longrightarrow> sessions_wf s'"
  by (auto simp: rewrites_one_def sessions_wf_def same_terms_def split: if_splits)

lemma rewrites_one_priced:
  assumes "rewrites_one s s'" "p \<noteq> PricingUnset" "priced_at k p q u s"
  shows "priced_at k p q u s'"
  using assms unfolding rewrites_one_def priced_at_def same_terms_def by (metis fmupd_lookup option.inject)

lemma CreditBalance_rewrites: "rewrites_one s (fst (CreditBalance a w wei s))"
  by (auto simp: CreditBalance_def mutate_def db_update_def Let_def same_terms_def split: option.split)

lemma DebitBalance_rewrites: "rewrites_one s (fst (DebitBalance a w u q s))"
  by (auto simp: DebitBalance_def db_update_def Let_def same_terms_def split: option.split)

lemma CloseSession_rewrites: "rewrites_one s (fst (CloseSession a w now s))"
  by (auto simp: CloseSession_def db_update_def sum_bind_case Let_def same_terms_def
      split: option.split)

lemma retire_rewrites: "retireIndexedSession key w now s = Inr (s', r) \<Longrightarrow> rewrites_one s s'"
  by (auto simp: retireIndexedSession_def Let_def same_terms_def split: option.splits if_splits)

lemma ResetIf_rewrites: "rewrites_one s (fst (ResetTicketSessionIfCurrent key w now s))"
  by (auto simp: ResetTicketSessionIfCurrent_def db_update_def sum_bind_case
      split: sum.split dest: retire_rewrites)

lemma Reset_rewrites: "rewrites_one s (fst (ResetTicketSession key now s))"
  by (auto simp: ResetTicketSession_def db_update_def Let_def same_terms_def
      split: option.split sum.split)

definition opens_fresh :: "store \<Rightarrow> store \<Rightarrow> bool" where
  "opens_fresh s s' \<longleftrightarrow>
     (\<exists>x. s' = openFresh x s \<and> ss_Sender x = [] \<and>
        fmlookup (sessions s) (compositeKey [] (ss_WorkID x)) = None)"

lemma opens_freshI:
  "ss_Sender x = [] \<Longrightarrow> fmlookup (sessions s) (compositeKey [] (ss_WorkID x)) = None \<Longrightarrow>
     opens_fresh s (openFresh x s)"
  by (auto simp: opens_fresh_def)

lemma unsealed_indexed:
  assumes "sessions_wf s" "fmlookup (capability_index s) w \<noteq> Some []"
  shows "fmlookup (sessions s) (compositeKey [] w) = None"
proof (rule ccontr)
  assume "fmlookup (sessions s) (compositeKey [] w) \<noteq> None"
  then obtain x where x: "fmlookup (sessions s) (compositeKey [] w) = Some x" by auto
  with assms(1) have "ss_Sender x = [] \<and> ss_WorkID x = w"
    unfolding sessions_wf_def by (metis compositeKey_inj list.size(3) zero_less_numeral)
  with assms x show False by (auto simp: sessions_wf_def unsealedSentinel_def)
qed

lemma OpenSession_effect:
  assumes "sessions_wf s"
  shows "rewrites_one s (fst (OpenSession seed now s)) \<or> opens_fresh s (fst (OpenSession seed now s))"
  using unsealed_indexed [OF assms, of "ss_WorkID seed"]
  by (cases "fmlookup (capability_index s) (ss_WorkID seed) = Some []")
    (auto simp: OpenSession_def db_update_def Let_def same_terms_def isUnsealedSentinel_def
      split: option.split intro: opens_freshI)

lemma opens_fresh_wf: "sessions_wf s \<Longrightarrow> opens_fresh s s' \<Longrightarrow> sessions_wf s'"
  by (auto simp: sessions_wf_def opens_fresh_def openFresh_def split: if_splits)

lemma opens_fresh_priced: "priced_at k p q u s \<Longrightarrow> opens_fresh s s' \<Longrightarrow> priced_at k p q u s'"
  by (auto simp: priced_at_def opens_fresh_def openFresh_def)

lemma keeps_identity_effect:
  assumes "sessions_wf s" "keeps_identity op"
  shows "rewrites_one s (fst (session_step s op)) \<or> opens_fresh s (fst (session_step s op))"
  using assms OpenSession_effect CreditBalance_rewrites DebitBalance_rewrites CloseSession_rewrites
    ResetIf_rewrites Reset_rewrites
  by (cases op) (simp_all add: fst_session_step_debit del: session_step.simps(7))

lemma keeps_identity_step:
  assumes "sessions_wf s" "keeps_identity op"
  shows "sessions_wf (fst (session_step s op)) \<and>
    (p \<noteq> PricingUnset \<longrightarrow> priced_at k p q u s \<longrightarrow> priced_at k p q u (fst (session_step s op)))"
  using keeps_identity_effect [OF assms] assms(1) opens_fresh_wf [of s] opens_fresh_priced [of k p q u s]
    rewrites_one_wf [of s] rewrites_one_priced [of s _ p k q u] by blast

text \<open>A session's price never moves while its work id is not sealed again. Starting from a consistent
  ledger, over every history of opening, crediting, debiting, rotating and closing sessions, with
  whatever prices the openings propose, a session that an offering has priced keeps that price,
  denominator and work unit. Sealing is left out of these histories: it can replace a session, as
  shown below.\<close>

theorem session_price_never_moves:
  assumes "sessions_wf s" "\<forall>op \<in> set ops. keeps_identity op"
    and "priced_at k p q u s" "p \<noteq> PricingUnset"
  shows "priced_at k p q u (run session_step s ops)"
  using assms
proof (induction ops arbitrary: s)
  case (Cons op ops)
  then show ?case using keeps_identity_step [of s op p k q u] by simp
qed simp

lemma sample_sessions_wf: "sessions_wf sample_sessions"
  by (simp add: sessions_wf_def sample_sessions_def sample_session_def)

definition sample_reprice :: "session_op list" where
  "sample_reprice =
     [SOpen (sample_session\<lparr>ss_PricePerWorkUnitWei := ''9''\<rparr>) 3, SDebit ''payer'' ''w'' 4 1]"

theorem session_price_never_moves_witness:
  "sessions_wf sample_sessions \<and> priced_at (compositeKey ''payer'' ''w'') ''7'' 3 ''token'' sample_sessions \<and>
   priced_at (compositeKey ''payer'' ''w'') ''7'' 3 ''token'' (run session_step sample_sessions sample_reprice)"
proof -
  have "priced_at (compositeKey ''payer'' ''w'') ''7'' 3 ''token'' sample_sessions"
    by (simp add: priced_at_def sample_sessions_def sample_session_def)
  then show ?thesis
    using session_price_never_moves [of sample_sessions sample_reprice] sample_sessions_wf
    by (simp add: sample_reprice_def PricingUnset_def del: run.simps)
qed

section \<open>The index key of a ticket session\<close>

text \<open>Without an account or stream id the key is a concatenation with colons. It determines the tuple
  as long as the capability has no colon in it, and not otherwise.\<close>

definition legacy_key :: "TicketSessionKey \<Rightarrow> bool" where
  "legacy_key key \<longleftrightarrow> tk_WholesaleAccountID key = [] \<and> tk_TicketStreamID key = [] \<and>
     length (tk_Sender key) = 20 \<and> length (tk_Recipient key) = 20"

text \<open>Two tuples of 20-byte principals share a ticket session only if they are the same tuple,
  provided their capabilities contain no colon; the session index cannot mix up senders, recipients,
  capabilities or offerings of such tuples.\<close>

theorem ticketSessionIndexKey_legacy_inj:
  assumes "legacy_key a" "legacy_key b" "CHR '':'' \<notin> set (tk_Capability a)" "CHR '':'' \<notin> set (tk_Capability b)"
    and "ticketSessionIndexKey a = ticketSessionIndexKey b"
  shows "a = b"
  using assms
  by (simp add: ticketSessionIndexKey_def legacy_key_def append_sep_eq_iff)

definition colon_key :: "string \<Rightarrow> string \<Rightarrow> TicketSessionKey" where
  "colon_key c o' =
     \<lparr>tk_WholesaleAccountID = [], tk_TicketStreamID = [], tk_Sender = replicate 20 (CHR ''s''),
      tk_Recipient = replicate 20 (CHR ''r''), tk_Capability = c, tk_Offering = o'\<rparr>"

theorem ticketSessionIndexKey_legacy_inj_witness:
  "legacy_key (colon_key ''c'' ''x:y'') \<and> CHR '':'' \<notin> set (tk_Capability (colon_key ''c'' ''x:y'')) \<and>
   ticketSessionIndexKey (colon_key ''c'' ''x:y'') = ticketSessionIndexKey (colon_key (''c'') (''x'' @ '':y'')) \<and>
   colon_key ''c'' ''x:y'' = colon_key (''c'') (''x'' @ '':y'')"
  using ticketSessionIndexKey_legacy_inj [of "colon_key ''c'' ''x:y''" "colon_key (''c'') (''x'' @ '':y'')"]
  by (simp add: legacy_key_def colon_key_def)

lemma ticketSessionIndexKey_colon_collision:
  "ticketSessionIndexKey (colon_key ''c:x'' ''y'') = ticketSessionIndexKey (colon_key ''c'' ''x:y'')"
  by (simp add: ticketSessionIndexKey_def colon_key_def)

section \<open>Sealing\<close>

lemma foldl_no_match:
  "\<forall>kx \<in> set kxs. \<not> P (snd kx) \<Longrightarrow>
     foldl (\<lambda>acc (k, x). if P x then Some (x, k) else acc) acc kxs = acc"
  by (induction kxs arbitrary: acc) (auto simp: case_prod_beta)

lemma scanByWorkID_None:
  assumes "\<And>k x. fmlookup m k = Some x \<Longrightarrow> ss_WorkID x = w \<Longrightarrow> ss_Sender x \<noteq> []"
  shows "scanByWorkID m w = None"
  unfolding scanByWorkID_def
  by (rule foldl_no_match) (use assms in \<open>auto simp: set_bucket_entries\<close>)

text \<open>Opening a new work id and sealing a sender to it.\<close>

definition open_and_seal :: "Session \<Rightarrow> time \<Rightarrow> bytes \<Rightarrow> store \<Rightarrow> store" where
  "open_and_seal seed now a s = fst (SealSender (ss_WorkID seed) a (fst (OpenSession seed now s)))"

definition fresh_work_id :: "string \<Rightarrow> store \<Rightarrow> bool" where
  "fresh_work_id w s \<longleftrightarrow> w \<noteq> [] \<and> fmlookup (capability_index s) w = None \<and>
     (\<forall>k x. fmlookup (sessions s) k = Some x \<longrightarrow> ss_WorkID x \<noteq> w)"

definition opened :: "Session \<Rightarrow> time \<Rightarrow> bytes \<Rightarrow> Session" where
  "opened seed now a = seed\<lparr>ss_Sender := a, ss_OpenedAt := now,
     ss_BalanceWei := (if ss_BalanceWei seed = [] then ''0'' else ss_BalanceWei seed)\<rparr>"

lemma opened_seal:
  "ss_Sender (opened seed now a) = a" "ss_WorkID (opened seed now a) = ss_WorkID seed"
  "(opened seed now b)\<lparr>ss_Sender := a\<rparr> = opened seed now a"
  by (cases seed, simp add: opened_def)+

lemma open_and_seal_state:
  assumes "fresh_work_id (ss_WorkID seed) s" "a \<noteq> []" "length a < 256"
  shows "sessions (open_and_seal seed now a s) =
      fmupd (compositeKey a (ss_WorkID seed)) (opened seed now a)
        (fmdrop (compositeKey [] (ss_WorkID seed)) (sessions s))"
    and "capability_index (open_and_seal seed now a s) =
      fmupd (ss_WorkID seed) unsealedSentinel (capability_index s)"
    and "snd (SealSender (ss_WorkID seed) a (fst (OpenSession seed now s))) = Inr ()"
proof -
  let ?w = "ss_WorkID seed"
  have ne: "compositeKey [] ?w \<noteq> compositeKey a ?w" using assms by (simp add: compositeKey_inj)
  have o1: "fst (OpenSession seed now s) = openFresh (opened seed now []) s"
    using assms(1) by (simp add: OpenSession_def db_update_def fresh_work_id_def opened_def Let_def)
  show "sessions (open_and_seal seed now a s) = fmupd (compositeKey a ?w) (opened seed now a)
        (fmdrop (compositeKey [] ?w) (sessions s))"
    and "capability_index (open_and_seal seed now a s) = fmupd ?w unsealedSentinel (capability_index s)"
    and "snd (SealSender ?w a (fst (OpenSession seed now s))) = Inr ()"
    unfolding open_and_seal_def o1 using ne
    by (simp_all add: SealSender_def db_update_def openFresh_def unsealedSentinel_def Let_def
        fmdrop_fmupd opened_seal)
qed

text \<open>C37: what sealing leaves behind. After a new work id has been opened and a sender sealed to it,
  the session is found under the sender, but the work-id index still holds the unsealed sentinel:
  looking the session up by work id finds nothing, sealing the same sender a second time fails, and
  opening the work id again creates a second, unsealed session instead of returning the first.\<close>

theorem sealing_leaves_work_id_unindexed:
  assumes "fresh_work_id (ss_WorkID seed) s" "a \<noteq> []" "length a < 256"
  shows "Store_Get a (ss_WorkID seed) (open_and_seal seed now a s) = Inr (opened seed now a) \<and>
    fmlookup (capability_index (open_and_seal seed now a s)) (ss_WorkID seed) = Some unsealedSentinel \<and>
    GetByWorkID (ss_WorkID seed) (open_and_seal seed now a s) = Inl ErrNotFound \<and>
    snd (SealSender (ss_WorkID seed) a (open_and_seal seed now a s)) = Inl ErrNotFound \<and>
    snd (OpenSession seed now' (open_and_seal seed now a s)) = Inr (opened seed now' [], False)"
proof -
  let ?w = "ss_WorkID seed" and ?s = "open_and_seal seed now a s"
  note st = open_and_seal_state [OF assms]
  have nil: "fmlookup (sessions ?s) (compositeKey [] ?w) = None"
    using assms by (simp add: st compositeKey_inj)
  have scan: "scanByWorkID (sessions ?s) ?w = None"
    by (rule scanByWorkID_None) (use assms in \<open>auto simp: st fresh_work_id_def opened_def split: if_splits\<close>)
  have idx: "fmlookup (capability_index ?s) ?w = Some []" by (simp add: st unsealedSentinel_def)
  have "Store_Get a ?w ?s = Inr (opened seed now a)" by (simp add: Store_Get_def st)
  moreover have "GetByWorkID ?w ?s = Inl ErrNotFound"
    by (simp add: GetByWorkID_def idx nil scan isUnsealedSentinel_def Let_def)
  moreover have "snd (SealSender ?w a ?s) = Inl ErrNotFound"
    by (simp add: SealSender_def db_update_def idx nil scan Let_def)
  moreover have "snd (OpenSession seed now' ?s) = Inr (opened seed now' [], False)"
    using assms(1)
    by (simp add: OpenSession_def db_update_def idx nil isUnsealedSentinel_def opened_def fresh_work_id_def Let_def)
  ultimately show ?thesis by (simp add: idx unsealedSentinel_def)
qed

lemma fresh_work_id_Open: "fresh_work_id (ss_WorkID sample_session) Open"
  by (simp add: fresh_work_id_def Open_def sample_session_def)

theorem sealing_leaves_work_id_unindexed_witness:
  "fresh_work_id (ss_WorkID sample_session) Open \<and>
   GetByWorkID (ss_WorkID sample_session) (open_and_seal sample_session 1 ''payer'' Open) = Inl ErrNotFound \<and>
   snd (SealSender (ss_WorkID sample_session) ''payer'' (open_and_seal sample_session 1 ''payer'' Open)) = Inl ErrNotFound"
  using sealing_leaves_work_id_unindexed [OF fresh_work_id_Open, of "''payer''" 1] fresh_work_id_Open
  by simp

lemma reopen_and_seal:
  assumes "fmlookup (capability_index s) (ss_WorkID seed) = Some unsealedSentinel"
    and "fmlookup (sessions s) (compositeKey [] (ss_WorkID seed)) = None"
    and "ss_WorkID seed \<noteq> []" "a \<noteq> []" "length a < 256"
  shows "snd (OpenSession seed now s) = Inr (opened seed now [], False)"
    "snd (SealSender (ss_WorkID seed) a (fst (OpenSession seed now s))) = Inr ()"
    "Store_Get a (ss_WorkID seed) (open_and_seal seed now a s) = Inr (opened seed now a)"
proof -
  let ?w = "ss_WorkID seed"
  have ne: "compositeKey [] ?w \<noteq> compositeKey a ?w" using assms by (simp add: compositeKey_inj)
  have o1: "OpenSession seed now s = (openFresh (opened seed now []) s, Inr (opened seed now [], False))"
    using assms(1-3)
    by (simp add: OpenSession_def db_update_def opened_def isUnsealedSentinel_def unsealedSentinel_def Let_def)
  then show "snd (OpenSession seed now s) = Inr (opened seed now [], False)" by simp
  show "snd (SealSender ?w a (fst (OpenSession seed now s))) = Inr ()"
    "Store_Get a ?w (open_and_seal seed now a s) = Inr (opened seed now a)"
    using ne
    by (simp_all add: o1 open_and_seal_def SealSender_def db_update_def openFresh_def unsealedSentinel_def Let_def
        opened_seal Store_Get_def)
qed

text \<open>C38: sealing a work id again throws the paid session away. After a new work id has been opened and
  sealed to a sender, and the session has been credited with any amount, the work id can be opened
  again at any other price, without a pricing conflict, and sealed to the same sender. The session
  found from then on is the second one: the price of the first, its balance with everything that was
  credited to it, and its count of debited units are gone.\<close>

theorem resealing_replaces_the_session:
  assumes "fresh_work_id w s" "a \<noteq> []" "length a < 256" "ss_WorkID first = w" "ss_WorkID second = w"
  shows "let paid = fst (CreditBalance a w (Some c) (open_and_seal first now a s)) in
    GetBalance a w paid = Inr (parseDecimalBig (ss_BalanceWei (opened first now a)) + c) \<and>
    snd (OpenSession second now' paid) = Inr (opened second now' [], False) \<and>
    snd (SealSender w a (fst (OpenSession second now' paid))) = Inr () \<and>
    Store_Get a w (open_and_seal second now' a paid) = Inr (opened second now' a)"
proof -
  let ?s = "open_and_seal first now a s"
  let ?paid = "fst (CreditBalance a w (Some c) ?s)"
  note st = open_and_seal_state [of first s a now, unfolded assms(4), OF assms(1-3)]
  have k: "compositeKey [] w \<noteq> compositeKey a w" using assms(2,3) by (simp add: compositeKey_inj)
  have "capability_index ?paid = capability_index ?s"
    "fmlookup (sessions ?paid) (compositeKey [] w) = fmlookup (sessions ?s) (compositeKey [] w)"
    using k by (auto simp: CreditBalance_def mutate_def db_update_def Let_def split: option.split)
  then have p: "fmlookup (capability_index ?paid) w = Some unsealedSentinel"
    "fmlookup (sessions ?paid) (compositeKey [] w) = None" "w \<noteq> []"
    using assms(1) k by (simp_all add: st fresh_work_id_def)
  have "GetBalance a w ?paid = Inr (parseDecimalBig (ss_BalanceWei (opened first now a)) + c)"
    by (simp add: GetBalance_def Store_Get_def CreditBalance_def mutate_def db_update_def st Let_def)
  with reopen_and_seal [of ?paid second a now', unfolded assms(5), OF p assms(2,3)] show ?thesis by (simp add: Let_def)
qed

theorem resealing_replaces_the_session_witness:
  "let paid = fst (CreditBalance ''payer'' ''w'' (Some 100) (open_and_seal sample_session 1 ''payer'' Open));
       dear = sample_session\<lparr>ss_PricePerWorkUnitWei := ''9''\<rparr>
   in GetBalance ''payer'' ''w'' paid = Inr (parseDecimalBig (ss_BalanceWei (opened sample_session 1 ''payer'')) + 100) \<and>
      Store_Get ''payer'' ''w'' (open_and_seal dear 2 ''payer'' paid) = Inr (opened dear 2 ''payer'')"
proof -
  have "ss_WorkID sample_session = ''w''" by (simp add: sample_session_def)
  with resealing_replaces_the_session [of "''w''" Open "''payer''" sample_session
      "sample_session\<lparr>ss_PricePerWorkUnitWei := ''9''\<rparr>" 100 1 2] fresh_work_id_Open
  show ?thesis by (simp add: Let_def)
qed

section \<open>The 64-bit total\<close>

text \<open>C40: the running total of debited units is not protected against overflow. When a debit carries
  the 64-bit total past its end, the total wraps, the charge is the bill for the wrapped total minus
  the bill for the old one, and the balance grows by the difference.\<close>

theorem debit_overflow_refunds:
  assumes "fmlookup (sessions s) (compositeKey a w) = Some sess" "\<not> ss_Closed sess"
    and "ss_PricePerWorkUnitWei sess \<noteq> PricingUnset" "parseDecimalBig (ss_PricePerWorkUnitWei sess) = int p"
    and "fmlookup (debit_seqs s) (debit_key a w q) = None" "0 \<le> u" "u < 2 ^ 63"
    and "2 ^ 64 \<le> unat (ss_DebitedUnits sess) + nat u"
  shows "\<exists>s' d. DebitBalance a w u q s = (s', Inr d) \<and>
    dr_DebitedWei d = bill (int p) (ss_PerUnits sess) (unat (ss_DebitedUnits sess) + nat u - 2 ^ 64)
      - bill (int p) (ss_PerUnits sess) (unat (ss_DebitedUnits sess)) \<and>
    dr_DebitedWei d \<le> 0 \<and> dr_Balance d = parseDecimalBig (ss_BalanceWei sess) - dr_DebitedWei d"
proof -
  have wrap: "unat (ss_DebitedUnits sess + word_of_int u) = unat (ss_DebitedUnits sess) + nat u - 2 ^ 64"
    by (rule uint64_add_wrap) (use assms in simp_all)
  have "bill (int p) (ss_PerUnits sess) (unat (ss_DebitedUnits sess) + nat u - 2 ^ 64)
      \<le> bill (int p) (ss_PerUnits sess) (unat (ss_DebitedUnits sess))"
  proof (rule bill_curve.bill_mono)
    have "nat u \<le> 2 ^ 64" using assms(7) by simp
    then show "unat (ss_DebitedUnits sess) + nat u - 2 ^ 64 \<le> unat (ss_DebitedUnits sess)" by linarith
  qed
  then show ?thesis
    using assms by (simp add: DebitBalance_fresh BillFor_bill wrap Let_def)
qed

definition overflow_store :: store where
  "overflow_store = Open\<lparr>sessions := fmupd (compositeKey ''payer'' ''w'')
     (sample_session\<lparr>ss_DebitedUnits := - 1\<rparr>) fmempty\<rparr>"

theorem debit_overflow_refunds_witness:
  "\<exists>s' d. DebitBalance ''payer'' ''w'' 1 1 overflow_store = (s', Inr d) \<and> dr_DebitedWei d < 0"
proof -
  let ?x = "sample_session\<lparr>ss_DebitedUnits := - 1\<rparr>"
  have m1: "unat (- 1 :: uint64) = 2 ^ 64 - 1" by (simp add: unsigned_minus_1_eq_mask mask_eq_exp_minus_1)
  have "\<exists>s' d. DebitBalance ''payer'' ''w'' 1 1 overflow_store = (s', Inr d) \<and>
    dr_DebitedWei d = bill (int 7) (ss_PerUnits ?x) (unat (ss_DebitedUnits ?x) + nat 1 - 2 ^ 64)
      - bill (int 7) (ss_PerUnits ?x) (unat (ss_DebitedUnits ?x)) \<and>
    dr_DebitedWei d \<le> 0 \<and> dr_Balance d = parseDecimalBig (ss_BalanceWei ?x) - dr_DebitedWei d"
    by (rule debit_overflow_refunds)
      (simp_all add: overflow_store_def sample_session_def PricingUnset_def Open_def m1)
  moreover have "bill (int 7) (ss_PerUnits ?x) (unat (ss_DebitedUnits ?x) + nat 1 - 2 ^ 64)
      - bill (int 7) (ss_PerUnits ?x) (unat (ss_DebitedUnits ?x)) < 0"
    by (simp add: m1 sample_session_def bill_def ceil_quo_def Quo_def Rem_def)
  ultimately show ?thesis by auto
qed

end
