(* ===== verification/Mint_Store.thy ===== *)
theory Mint_Store
  imports Store_Types Ledger_Laws
begin

text \<open>
  Idempotency of minting on the payer's side (\<open>internal/store/mints.go\<close>): a mint id is reserved
  before anything is signed, its response is recorded afterwards, and recorded responses may be
  evicted while the reservation stays for ever.

  The lemmas show that an id is granted for minting at most once in the life of the database, that a
  replay is the response recorded for the same id and the same request content, and how each retry
  is answered.
\<close>

section \<open>Operations\<close>

definition MintKey :: "bytes \<Rightarrow> string \<Rightarrow> bytes" where
  "MintKey sender mintRequestID = sha256 (sender @ [NUL] @ mintRequestID)"

text \<open>The result None is the code's \<open>(nil, nil)\<close>: reserved by this call, go mint.\<close>

definition MintReserve :: "bytes \<Rightarrow> string \<Rightarrow> bytes \<Rightarrow> time \<Rightarrow> MintRecord option store_op" where
  "MintReserve sender mintRequestID fingerprint now =
     (let key = MintKey sender mintRequestID in
      db_update (\<lambda>s.
        case fmlookup (mint_tombstones s) key of
          Some tomb \<Rightarrow>
            if mt_Fingerprint tomb \<noteq> fingerprint then Inl ErrMintFingerprintMismatch
            else (case fmlookup (mints s) key of
                    None \<Rightarrow> Inl (if mt_Completed tomb then ErrMintExpired else ErrMintIncomplete)
                  | Some rec \<Rightarrow> Inr (s, Some rec))
        | None \<Rightarrow>
            Inr (s\<lparr>mint_tombstones := fmupd key
                   \<lparr>mt_Fingerprint = fingerprint, mt_FirstSeenAt = now, mt_Completed = False\<rparr>
                   (mint_tombstones s)\<rparr>, None)))"

definition MintRecall :: "bytes \<Rightarrow> string \<Rightarrow> bytes \<Rightarrow> store \<Rightarrow> store_error + MintRecord option" where
  "MintRecall sender mintRequestID fingerprint s =
     (let key = MintKey sender mintRequestID in
      case fmlookup (mint_tombstones s) key of
        None \<Rightarrow> Inr None
      | Some tomb \<Rightarrow>
          if mt_Fingerprint tomb \<noteq> fingerprint then Inl ErrMintFingerprintMismatch
          else (case fmlookup (mints s) key of
                  None \<Rightarrow> Inl ErrMintExpired
                | Some rec \<Rightarrow> Inr (Some rec)))"

definition Store_MintRecord :: "bytes \<Rightarrow> string \<Rightarrow> MintRecord \<Rightarrow> time \<Rightarrow> unit store_op" where
  "Store_MintRecord sender mintRequestID rec0 now =
     (let key = MintKey sender mintRequestID;
          rec = rec0\<lparr>mr_CreatedAt := now\<rparr>
      in db_update (\<lambda>s.
           Inr (s\<lparr>mint_tombstones := fmupd key
                    \<lparr>mt_Fingerprint = mr_Fingerprint rec, mt_FirstSeenAt = mr_CreatedAt rec,
                     mt_Completed = True\<rparr> (mint_tombstones s),
                  mints := fmupd key rec (mints s)\<rparr>, ())))"

definition EvictMints :: "time \<Rightarrow> nat store_op" where
  "EvictMints cutoff = db_update (\<lambda>s.
     let evict = map fst (filter (\<lambda>kv. mr_CreatedAt (snd kv) < cutoff) (bucket_entries (mints s)))
     in Inr (s\<lparr>mints := fold fmdrop evict (mints s)\<rparr>, length evict))"

section \<open>What eviction leaves\<close>

lemma EvictMints_lookup:
  "fmlookup (mints (fst (EvictMints cutoff s))) k =
     (case fmlookup (mints s) k of
        None \<Rightarrow> None | Some rec \<Rightarrow> if mr_CreatedAt rec < cutoff then None else Some rec)"
proof -
  have "k \<in> set (map fst (filter (\<lambda>kv. mr_CreatedAt (snd kv) < cutoff) (bucket_entries (mints s)))) \<longleftrightarrow>
      (\<exists>rec. fmlookup (mints s) k = Some rec \<and> mr_CreatedAt rec < cutoff)"
    unfolding set_map set_filter image_iff Bex_def mem_Collect_eq
    by (metis set_bucket_entries prod.collapse fst_conv snd_conv)
  then show ?thesis
    by (auto simp: EvictMints_def db_update_def fmlookup_fold_fmdrop Let_def split: option.splits)
qed

lemma EvictMints_tombstones [simp]: "mint_tombstones (fst (EvictMints cutoff s)) = mint_tombstones s"
  by (simp add: EvictMints_def db_update_def Let_def)

section \<open>Histories\<close>

datatype mint_op =
    MReserve bytes string bytes time | MRecord bytes string MintRecord time | MEvict time

text \<open>The answer is the key that a reservation granted for minting.\<close>

fun mint_step :: "store \<Rightarrow> mint_op \<Rightarrow> store \<times> bytes option" where
  "mint_step s (MReserve a i fp now) =
     (case MintReserve a i fp now s of
        (s', Inr None) \<Rightarrow> (s', Some (MintKey a i)) | (s', _) \<Rightarrow> (s', None))"
| "mint_step s (MRecord a i rec now) = (fst (Store_MintRecord a i rec now s), None)"
| "mint_step s (MEvict cutoff) = (fst (EvictMints cutoff s), None)"

text \<open>Every recorded response has a completed tombstone with the same fingerprint.\<close>

definition mints_ok :: "store \<Rightarrow> bool" where
  "mints_ok s \<longleftrightarrow>
     (\<forall>k rec. fmlookup (mints s) k = Some rec \<longrightarrow>
        (\<exists>tomb. fmlookup (mint_tombstones s) k = Some tomb \<and>
           mt_Fingerprint tomb = mr_Fingerprint rec \<and> mt_Completed tomb))"

lemma mints_okD:
  "mints_ok s \<Longrightarrow> fmlookup (mints s) k = Some rec \<Longrightarrow> fmlookup (mint_tombstones s) k = Some tomb \<Longrightarrow>
     mt_Fingerprint tomb = mr_Fingerprint rec"
  unfolding mints_ok_def by fastforce

lemma mints_ok_step: "mints_ok s \<Longrightarrow> mints_ok (fst (mint_step s op))"
proof (cases op)
  case (MReserve a i fp now)
  assume "mints_ok s"
  then show ?thesis
    by (auto simp: MReserve MintReserve_def db_update_def mints_ok_def Let_def split: option.split)
next
  case (MEvict cutoff)
  assume "mints_ok s"
  then show ?thesis
    by (auto simp: MEvict mints_ok_def EvictMints_lookup split: option.splits if_splits)
qed (auto simp: Store_MintRecord_def db_update_def mints_ok_def Let_def)

interpretation mint_ledger: once_only mint_step mints_ok "\<lambda>s k. fmlookup (mint_tombstones s) k \<noteq> None"
proof unfold_locales
  fix s op assume "mints_ok s"
  then show "mints_ok (fst (mint_step s op))" by (rule mints_ok_step)
next
  fix s op k assume "snd (mint_step s op) = Some k"
  then show "\<not> fmlookup (mint_tombstones s) k \<noteq> None" "fmlookup (mint_tombstones (fst (mint_step s op))) k \<noteq> None"
    by (cases op; auto simp: MintReserve_def db_update_def Let_def split: option.splits if_splits)+
next
  fix s :: store and k op assume "fmlookup (mint_tombstones s) k \<noteq> None"
  then show "fmlookup (mint_tombstones (fst (mint_step s op))) k \<noteq> None"
    by (cases op) (auto simp: MintReserve_def Store_MintRecord_def db_update_def Let_def split: option.split)
qed

text \<open>C33: a mint id is granted at most once, and a replay is faithful. Over any history of
  reservations, recorded responses and evictions, however old the evicted responses, no key is
  granted for minting twice; and whenever a reservation at the end of the history is answered with
  a recorded response, that response was recorded for the same request content.\<close>

theorem mint_granted_at_most_once:
  assumes "mints_ok s"
  shows "distinct (effects mint_step s ops) \<and>
    (snd (MintReserve a i fp now (run mint_step s ops)) = Inr (Some rec) \<longrightarrow> mr_Fingerprint rec = fp) \<and>
    (MintKey a i \<in> set (effects mint_step s ops) \<longrightarrow>
       snd (MintReserve a i fp now (run mint_step s ops)) \<noteq> Inr None)"
proof (intro conjI impI)
  have ok: "mints_ok (run mint_step s ops)" using assms by (rule mint_ledger.inv_run)
  show "distinct (effects mint_step s ops)" using assms by (rule mint_ledger.distinct_effects)
  show "mr_Fingerprint rec = fp" if "snd (MintReserve a i fp now (run mint_step s ops)) = Inr (Some rec)"
    using that mints_okD [OF ok, of "MintKey a i"]
    by (auto simp: MintReserve_def db_update_def Let_def split: option.splits if_splits)
  show "snd (MintReserve a i fp now (run mint_step s ops)) \<noteq> Inr None"
    if "MintKey a i \<in> set (effects mint_step s ops)"
    using mint_ledger.effects_become_seen [OF assms that]
    by (auto simp: MintReserve_def db_update_def Let_def split: option.splits)
qed

lemma mints_ok_Open: "mints_ok Open"
  by (simp add: mints_ok_def Open_def)

definition sample_mint :: MintRecord where
  "sample_mint =
     \<lparr>mr_Fingerprint = ''f'', mr_PaymentBytes = ''p'', mr_TicketsCreated = 1, mr_ExpectedValue = [],
      mr_FundedValueWei = [], mr_AccountShortfallWei = [], mr_QuoteRefJSON = [], mr_WorkID = ''w'',
      mr_CreatedAt = 0\<rparr>"

theorem mint_granted_at_most_once_witness:
  "mints_ok Open \<and>
   effects mint_step Open [MReserve ''a'' ''i'' ''f'' 1, MReserve ''a'' ''i'' ''f'' 2] = [MintKey ''a'' ''i''] \<and>
   snd (MintReserve ''a'' ''i'' ''f'' 3
     (run mint_step Open [MReserve ''a'' ''i'' ''f'' 1, MReserve ''a'' ''i'' ''f'' 2])) \<noteq> Inr None"
proof -
  have "effects mint_step Open [MReserve ''a'' ''i'' ''f'' 1, MReserve ''a'' ''i'' ''f'' 2] = [MintKey ''a'' ''i'']"
    by (simp add: MintReserve_def db_update_def Open_def Let_def)
  then show ?thesis
    using mint_granted_at_most_once [OF mints_ok_Open,
        of "[MReserve ''a'' ''i'' ''f'' 1, MReserve ''a'' ''i'' ''f'' 2]" "''a''" "''i''" "''f''" 3]
      mints_ok_Open by simp
qed

text \<open>How a retry is answered. After a response has been recorded, a reservation with the same id
  replays it verbatim and changes nothing, one with other content is refused as a mismatch, and
  after an eviction with a later cutoff it is refused as expired; a reservation whose response was
  never recorded is refused as incomplete. None of them is granted.\<close>

theorem mint_retry_outcomes:
  "let s1 = fst (Store_MintRecord a i rec t s);
       s2 = fst (EvictMints cutoff s1)
   in MintReserve a i fp now s1 =
        (s1, if fp = mr_Fingerprint rec then Inr (Some (rec\<lparr>mr_CreatedAt := t\<rparr>))
             else Inl ErrMintFingerprintMismatch) \<and>
      MintReserve a i (mr_Fingerprint rec) now s2 =
        (s2, if t < cutoff then Inl ErrMintExpired else Inr (Some (rec\<lparr>mr_CreatedAt := t\<rparr>))) \<and>
      (case MintReserve a i fp now s of
         (s3, Inr None) \<Rightarrow> fmlookup (mints s) (MintKey a i) = None \<longrightarrow>
             MintReserve a i fp now' s3 = (s3, Inl ErrMintIncomplete)
       | _ \<Rightarrow> True)"
  by (auto simp: Let_def MintReserve_def db_update_def Store_MintRecord_def EvictMints_lookup
      split: option.splits sum.split)

theorem mint_retry_outcomes_witness:
  "snd (MintReserve ''a'' ''i'' ''f'' 5 (fst (Store_MintRecord ''a'' ''i'' sample_mint 3 Open))) =
     Inr (Some (sample_mint\<lparr>mr_CreatedAt := 3\<rparr>)) \<and>
   snd (MintReserve ''a'' ''i'' ''f'' 5
     (fst (EvictMints 4 (fst (Store_MintRecord ''a'' ''i'' sample_mint 3 Open))))) = Inl ErrMintExpired"
  using mint_retry_outcomes [of "''a''" "''i''" sample_mint 3 Open 4 "''f''" 5]
  by (simp add: Let_def sample_mint_def)

end
