(* ===== verification/Redemption_Store.thy ===== *)
theory Redemption_Store
  imports Store_Types Ledger_Laws
begin

text \<open>
  The queue of winning tickets (\<open>internal/store/redemptions.go\<close>): enqueueing, draining, and the
  records of what left the queue.

  The queue is three buckets: tickets by sequence number, sequence numbers by ticket hash, and the
  records of redeemed tickets. The lemmas show that the three agree, that the walk of the pending
  bucket is a first-in first-out queue, and that a ticket which has left it never comes back.
\<close>

section \<open>Operations\<close>

definition seqBytes :: "uint64 \<Rightarrow> bytes" where
  "seqBytes n = be_bytes 8 (unat n)"

definition readSeq :: "bytes \<Rightarrow> uint64" where
  "readSeq b = (if length b < 8 then 0 else word_of_nat (be_value (take 8 b)))"

definition isAllZero :: "bytes \<Rightarrow> bool" where
  "isAllZero b \<longleftrightarrow> list_all (\<lambda>v. v = NUL) b"

definition metaNextSeq :: bytes where
  "metaNextSeq = ''next_seq''"

text \<open>\<open>readSeq(meta.Get(metaNextSeq))\<close>: a missing value is a nil slice.\<close>

definition next_seq :: "store \<Rightarrow> uint64" where
  "next_seq s = readSeq (case fmlookup (redemptions_meta s) metaNextSeq of None \<Rightarrow> [] | Some b \<Rightarrow> b)"

definition enqueueRedemption :: "bytes \<Rightarrow> StoredTicket \<Rightarrow> bool store_tx" where
  "enqueueRedemption ticketHash t s =
     (if (case fmlookup (redemptions_by_hash s) ticketHash of
            None \<Rightarrow> False | Some v \<Rightarrow> 0 < length v) then Inr (s, False)
      else if fmlookup (redemptions_redeemed s) ticketHash \<noteq> None then Inr (s, False)
      else
        let seq = next_seq s + 1 in
        Inr (s\<lparr>redemptions_meta := fmupd metaNextSeq (seqBytes seq) (redemptions_meta s),
               redemptions_pending := fmupd (seqBytes seq) t (redemptions_pending s),
               redemptions_by_hash := fmupd ticketHash (seqBytes seq) (redemptions_by_hash s)\<rparr>, True))"

definition EnqueueRedemption :: "bytes \<Rightarrow> StoredTicket option \<Rightarrow> bool store_op" where
  "EnqueueRedemption ticketHash ot s =
     (if length ticketHash \<noteq> 32 then (s, Inl (ErrOther ''ticketHash must be 32 bytes''))
      else case ot of
        None \<Rightarrow> (s, Inl (ErrOther ''nil ticket''))
      | Some t \<Rightarrow> db_update (enqueueRedemption ticketHash t) s)"

definition seqToHash :: "store \<Rightarrow> uint64 \<Rightarrow> bytes option" where
  "seqToHash s =
     foldl (\<lambda>m kv. m(readSeq (snd kv) \<mapsto> fst kv)) Map.empty (bucket_entries (redemptions_by_hash s))"

definition PendingRedemptions :: "store \<Rightarrow> PendingRedemption list" where
  "PendingRedemptions s =
     map (\<lambda>(k, t). \<lparr>pr_Seq = readSeq k, pr_Ticket = t,
            pr_Hash = (case seqToHash s (readSeq k) of None \<Rightarrow> [] | Some h \<Rightarrow> h)\<rparr>)
       (bucket_entries (redemptions_pending s))"

text \<open>\<open>(*big.Int).String\<close> of a nil pointer is \<open><nil>\<close>.\<close>

definition big_ptr_String :: "int option \<Rightarrow> string" where
  "big_ptr_String v = (case v of None \<Rightarrow> ''<nil>'' | Some i \<Rightarrow> big_String i)"

definition stamp_tx :: "bytes \<Rightarrow> bytes" where
  "stamp_tx txHash = take 32 txHash @ replicate (32 - length txHash) NUL"

definition markRedeemed ::
  "bytes \<Rightarrow> bytes \<Rightarrow> StoredTicket option \<Rightarrow> int \<Rightarrow> RedemptionInclusion option \<Rightarrow> string \<Rightarrow> unit store_op" where
  "markRedeemed ticketHash txHash oticket redeemedRound evidence drainReason s =
     (if length ticketHash \<noteq> 32 then (s, Inl (ErrOther ''ticketHash must be 32 bytes''))
      else case oticket of
        None \<Rightarrow> (s, Inl (ErrOther ''ticket is nil''))
      | Some ticket \<Rightarrow>
          let stamped = stamp_tx txHash;
              rec = \<lparr>rr_DrainReason = drainReason, rr_Inclusion = evidence,
                     rr_TicketHash = ticketHash, rr_TxHash = stamped,
                     rr_Sender = stk_Sender ticket,
                     rr_FaceValueWei = big_ptr_String (stk_FaceValue ticket),
                     rr_CreationRound = stk_CreationRound ticket,
                     rr_RedeemedRound = redeemedRound,
                     rr_ConfirmedOnChain = (\<not> isAllZero stamped)\<rparr>
          in db_update (\<lambda>s.
               let s1 = (case fmlookup (redemptions_by_hash s) ticketHash of
                           None \<Rightarrow> s
                         | Some seq \<Rightarrow>
                             if 0 < length seq then
                               s\<lparr>redemptions_pending := fmdrop seq (redemptions_pending s),
                                 redemptions_by_hash := fmdrop ticketHash (redemptions_by_hash s)\<rparr>
                             else s)
               in Inr (s1\<lparr>redemptions_redeemed :=
                     fmupd ticketHash (RedeemedRecord rec) (redemptions_redeemed s1)\<rparr>, ())) s)"

definition MarkRedeemed :: "bytes \<Rightarrow> bytes \<Rightarrow> StoredTicket option \<Rightarrow> int \<Rightarrow> unit store_op" where
  "MarkRedeemed ticketHash txHash ticket redeemedRound =
     markRedeemed ticketHash txHash ticket redeemedRound None []"

definition MarkRedeemedWithInclusion ::
  "bytes \<Rightarrow> StoredTicket option \<Rightarrow> RedemptionInclusion option \<Rightarrow> unit store_op" where
  "MarkRedeemedWithInclusion ticketHash ticket oe s =
     (case oe of
        None \<Rightarrow> (s, Inl (ErrOther ''invalid inclusion evidence''))
      | Some e \<Rightarrow>
          if length (ri_TxHash e) \<noteq> 32 \<or> isAllZero (ri_TxHash e) \<or> length (BlockHash e) \<noteq> 32 \<or>
             ri_Round e \<le> 0
          then (s, Inl (ErrOther ''invalid inclusion evidence''))
          else markRedeemed ticketHash (ri_TxHash e) ticket (ri_Round e) (Some e) [] s)"

definition MarkDrained :: "bytes \<Rightarrow> StoredTicket option \<Rightarrow> int \<Rightarrow> string \<Rightarrow> unit store_op" where
  "MarkDrained hash ticket rnd reason =
     markRedeemed hash (replicate 32 NUL) ticket rnd None reason"

definition RedeemedTxHash :: "bytes \<Rightarrow> store \<Rightarrow> bytes option" where
  "RedeemedTxHash ticketHash s =
     (case fmlookup (redemptions_redeemed s) ticketHash of
        None \<Rightarrow> None
      | Some (LegacyTxHash v) \<Rightarrow> Some v
      | Some (RedeemedRecord rec) \<Rightarrow> Some (rr_TxHash rec))"

fun round_revenue_loop ::
  "int \<Rightarrow> redeemed_value list \<Rightarrow> int \<times> uint64 \<Rightarrow> store_error + int \<times> uint64" where
  "round_revenue_loop roundID [] acc = Inr acc"
| "round_revenue_loop roundID (LegacyTxHash _ # vs) acc = round_revenue_loop roundID vs acc"
| "round_revenue_loop roundID (RedeemedRecord rec # vs) acc =
     (if \<not> rr_ConfirmedOnChain rec \<or> rr_RedeemedRound rec \<noteq> roundID
      then round_revenue_loop roundID vs acc
      else case SetString (rr_FaceValueWei rec) of
        None \<Rightarrow> Inl (ErrOther ''invalid redeemed face value'')
      | Some faceValue \<Rightarrow>
          round_revenue_loop roundID vs (fst acc + faceValue, snd acc + 1))"

definition RoundRevenue :: "int \<Rightarrow> store \<Rightarrow> store_error + int \<times> uint64" where
  "RoundRevenue roundID s =
     round_revenue_loop roundID (map snd (bucket_entries (redemptions_redeemed s))) (0, 0)"

fun pending_history ::
  "StoredTicket bucket \<Rightarrow> (bytes \<times> bytes) list \<Rightarrow> store_error + PendingRedemption list" where
  "pending_history pend [] = Inr []"
| "pending_history pend ((hash, seq) # r) =
     (case fmlookup pend seq of
        None \<Rightarrow> Inl (ErrOther ''redemption index is incomplete'')
      | Some ticket \<Rightarrow>
          sum_bind (pending_history pend r) (\<lambda>ps.
            Inr (\<lparr>pr_Seq = readSeq seq, pr_Ticket = ticket, pr_Hash = hash\<rparr> # ps)))"

definition RedemptionHistory ::
  "store \<Rightarrow> store_error + PendingRedemption list \<times> RedeemedRedemption list \<times> bool" where
  "RedemptionHistory s =
     sum_bind (pending_history (redemptions_pending s) (bucket_entries (redemptions_by_hash s)))
       (\<lambda>pending.
          let vs = map snd (bucket_entries (redemptions_redeemed s)) in
          Inr (pending,
               concat (map (\<lambda>v. case v of LegacyTxHash _ \<Rightarrow> [] | RedeemedRecord r \<Rightarrow> [r]) vs),
               list_ex (\<lambda>v. case v of LegacyTxHash _ \<Rightarrow> True | RedeemedRecord _ \<Rightarrow> False) vs))"

section \<open>The contract of the queue\<close>

text \<open>What the settlement loop relies on: a queue of hashed items in arrival order from which an item
  is taken by its hash, and a record of everything that was taken out. \<open>room\<close> says that the supply of
  sequence numbers is not used up.\<close>

locale redemption_queue =
  fixes enq :: "'h \<Rightarrow> 't \<Rightarrow> 's \<Rightarrow> 's \<times> bool"
    and take_out :: "'h \<Rightarrow> 's \<Rightarrow> 's"
    and contents :: "'s \<Rightarrow> ('h \<times> 't) list"
    and taken :: "'s \<Rightarrow> 'h \<Rightarrow> bool"
    and valid :: "'h \<Rightarrow> bool"
    and qinv :: "'s \<Rightarrow> bool"
    and room :: "'s \<Rightarrow> bool"
  assumes enq_inv: "qinv s \<Longrightarrow> room s \<Longrightarrow> qinv (fst (enq h t s))"
    and take_inv: "qinv s \<Longrightarrow> qinv (take_out h s)"
    and enq_new: "qinv s \<Longrightarrow> room s \<Longrightarrow> valid h \<Longrightarrow> h \<notin> fst ` set (contents s) \<Longrightarrow> \<not> taken s h \<Longrightarrow>
        contents (fst (enq h t s)) = contents s @ [(h, t)] \<and> snd (enq h t s)"
    and enq_old: "qinv s \<Longrightarrow> \<not> valid h \<or> h \<in> fst ` set (contents s) \<or> taken s h \<Longrightarrow> enq h t s = (s, False)"
    and enq_taken: "qinv s \<Longrightarrow> taken (fst (enq h t s)) = taken s"
    and take_contents: "qinv s \<Longrightarrow> valid h \<Longrightarrow> contents (take_out h s) = filter (\<lambda>e. fst e \<noteq> h) (contents s)"
    and take_taken: "qinv s \<Longrightarrow> valid h \<Longrightarrow> taken (take_out h s) j \<longleftrightarrow> j = h \<or> taken s j"
    and contents_distinct: "qinv s \<Longrightarrow> distinct (map fst (contents s))"
    and contents_valid: "qinv s \<Longrightarrow> (h, t) \<in> set (contents s) \<Longrightarrow> valid h \<and> \<not> taken s h"
begin

text \<open>An item that was taken out cannot be enqueued again.\<close>

lemma taken_never_requeued:
  assumes "qinv s" "taken s h"
  shows "enq h t s = (s, False)" "h \<notin> fst ` set (contents s)"
  using assms enq_old contents_valid by force+

text \<open>Enqueueing twice is enqueueing once.\<close>

lemma enq_idem:
  assumes "qinv s" "room s"
  shows "enq h t' (fst (enq h t s)) = (fst (enq h t s), False)"
proof (cases "\<not> valid h \<or> h \<in> fst ` set (contents s) \<or> taken s h")
  case True
  then show ?thesis using assms enq_old by simp
next
  case False
  then have "(h, t) \<in> set (contents (fst (enq h t s)))" using assms enq_new by simp
  then show ?thesis using assms enq_inv enq_old by (metis fst_conv image_eqI)
qed

text \<open>Taking an item out never changes the order of the others.\<close>

lemma take_keeps_order:
  assumes "qinv s" "contents s = xs @ [(h, t)] @ ys"
  shows "contents (take_out h s) = xs @ ys"
proof -
  have "valid h" using assms contents_valid [of s h t] by simp
  moreover have "filter (\<lambda>e. fst e \<noteq> h) xs = xs" "filter (\<lambda>e. fst e \<noteq> h) ys = ys"
    using contents_distinct [OF assms(1)] assms(2) by (auto simp: filter_id_conv)
  ultimately show ?thesis using assms by (simp add: take_contents)
qed

end

section \<open>Sequence numbers\<close>

lemma unat64_less [simp]: "unat (n :: uint64) < 256 ^ 8"
  using unsigned_less [where 'a = nat, of n] by simp

lemma length_seqBytes [simp]: "length (seqBytes n) = 8"
  by (simp add: seqBytes_def)

lemma seqBytes_not_Nil [simp]: "seqBytes n \<noteq> []" "[] \<noteq> seqBytes n"
  by (metis length_seqBytes list.size(3) zero_neq_numeral)+

lemma readSeq_seqBytes [simp]: "readSeq (seqBytes n) = n"
proof -
  have "unat n mod 256 ^ 8 = unat n" by (rule mod_less) (rule unat64_less)
  then show ?thesis by (simp add: readSeq_def seqBytes_def be_value_be_bytes)
qed

lemma seqBytes_inj [simp]: "seqBytes m = seqBytes n \<longleftrightarrow> m = n"
  by (metis readSeq_seqBytes)

lemma seqBytes_less: "seqBytes m < seqBytes n \<longleftrightarrow> m < n"
  unfolding seqBytes_def word_less_nat_alt by (rule be_bytes_less) (rule unat64_less)+

lemma next_seq_upd [simp]:
  "next_seq (s\<lparr>redemptions_meta := fmupd metaNextSeq (seqBytes n) m\<rparr>) = n"
  by (simp add: next_seq_def)

section \<open>The three buckets agree\<close>

definition redemption_inv :: "store \<Rightarrow> bool" where
  "redemption_inv s \<longleftrightarrow>
     (\<forall>h v. fmlookup (redemptions_by_hash s) h = Some v \<longrightarrow>
        length h = 32 \<and> (\<exists>n. v = seqBytes n \<and> n \<le> next_seq s) \<and>
        fmlookup (redemptions_pending s) v \<noteq> None \<and> fmlookup (redemptions_redeemed s) h = None) \<and>
     (\<forall>h h' v. fmlookup (redemptions_by_hash s) h = Some v \<longrightarrow>
        fmlookup (redemptions_by_hash s) h' = Some v \<longrightarrow> h = h') \<and>
     (\<forall>k. fmlookup (redemptions_pending s) k \<noteq> None \<longrightarrow>
        (\<exists>h. fmlookup (redemptions_by_hash s) h = Some k))"

lemma by_hash_seq:
  "redemption_inv s \<Longrightarrow> fmlookup (redemptions_by_hash s) h = Some v \<Longrightarrow>
     (\<exists>n. v = seqBytes n \<and> n \<le> next_seq s) \<and> length h = 32 \<and>
     fmlookup (redemptions_redeemed s) h = None \<and> fmlookup (redemptions_pending s) v \<noteq> None"
  unfolding redemption_inv_def by blast

lemma by_hash_inj:
  "redemption_inv s \<Longrightarrow> fmlookup (redemptions_by_hash s) h = Some v \<Longrightarrow>
     fmlookup (redemptions_by_hash s) h' = Some v \<Longrightarrow> h = h'"
  unfolding redemption_inv_def by blast

lemma pending_by_hash:
  "redemption_inv s \<Longrightarrow> fmlookup (redemptions_pending s) k \<noteq> None \<Longrightarrow>
     \<exists>h. fmlookup (redemptions_by_hash s) h = Some k"
  unfolding redemption_inv_def by blast

text \<open>The queue as its users see it: ticket hashes with tickets, oldest first.\<close>

definition queue_contents :: "store \<Rightarrow> (bytes \<times> StoredTicket) list" where
  "queue_contents s = map (\<lambda>p. (pr_Hash p, pr_Ticket p)) (PendingRedemptions s)"

definition is_redeemed :: "store \<Rightarrow> bytes \<Rightarrow> bool" where
  "is_redeemed s h \<longleftrightarrow> fmlookup (redemptions_redeemed s) h \<noteq> None"

definition seq_room :: "store \<Rightarrow> bool" where
  "seq_room s \<longleftrightarrow> next_seq s \<noteq> - 1"

lemma seqToHash_unique:
  assumes "\<And>a b. a \<in> set kvs \<Longrightarrow> b \<in> set kvs \<Longrightarrow> f (snd a) = f (snd b) \<Longrightarrow> fst a = fst b"
    and "(h, v) \<in> set kvs"
  shows "foldl (\<lambda>m kv. m(f (snd kv) \<mapsto> fst kv)) m0 kvs (f v) = Some h"
  using assms
proof (induction kvs rule: rev_induct)
  case (snoc kv kvs)
  show ?case
  proof (cases "f (snd kv) = f v")
    case True
    then show ?thesis using snoc.prems(1) [of kv "(h, v)"] snoc.prems(2) by simp
  next
    case False
    then show ?thesis using snoc by auto
  qed
qed simp

lemma seqToHash_by_hash:
  assumes "redemption_inv s" "fmlookup (redemptions_by_hash s) h = Some (seqBytes n)"
  shows "seqToHash s n = Some h"
proof -
  have "seqToHash s (readSeq (seqBytes n)) = Some h"
    unfolding seqToHash_def
  proof (rule seqToHash_unique)
    fix a b assume ab: "a \<in> set (bucket_entries (redemptions_by_hash s))"
      "b \<in> set (bucket_entries (redemptions_by_hash s))" "readSeq (snd a) = readSeq (snd b)"
    then have "fmlookup (redemptions_by_hash s) (fst a) = Some (snd a)"
      "fmlookup (redemptions_by_hash s) (fst b) = Some (snd b)"
      by (simp_all flip: set_bucket_entries)
    moreover from this ab(3) have "snd a = snd b"
      using by_hash_seq [OF assms(1)] by (metis readSeq_seqBytes)
    ultimately show "fst a = fst b" using by_hash_inj [OF assms(1)] by metis
  next
    show "(h, seqBytes n) \<in> set (bucket_entries (redemptions_by_hash s))"
      using assms(2) by (simp add: set_bucket_entries)
  qed
  then show ?thesis by simp
qed

text \<open>The hash under which a pending entry is queued.\<close>

definition hash_of :: "store \<Rightarrow> bytes \<Rightarrow> bytes" where
  "hash_of s k = (case seqToHash s (readSeq k) of None \<Rightarrow> [] | Some h \<Rightarrow> h)"

lemma hash_of_by_hash:
  assumes "redemption_inv s" "fmlookup (redemptions_by_hash s) h = Some k"
  shows "hash_of s k = h"
proof -
  from assms obtain n where "k = seqBytes n" using by_hash_seq by blast
  with assms seqToHash_by_hash [of s h n] show ?thesis by (simp add: hash_of_def)
qed

lemma by_hash_hash_of:
  assumes "redemption_inv s" "fmlookup (redemptions_pending s) k \<noteq> None"
  shows "fmlookup (redemptions_by_hash s) (hash_of s k) = Some k"
  using pending_by_hash [OF assms] hash_of_by_hash [OF assms(1)] by auto

lemma queue_contents_entries:
  "queue_contents s = map (\<lambda>(k, t). (hash_of s k, t)) (bucket_entries (redemptions_pending s))"
  by (simp add: queue_contents_def PendingRedemptions_def hash_of_def comp_def case_prod_beta)

lemma queued_iff:
  assumes "redemption_inv s"
  shows "h \<in> fst ` set (queue_contents s) \<longleftrightarrow> fmlookup (redemptions_by_hash s) h \<noteq> None"
proof
  assume "h \<in> fst ` set (queue_contents s)"
  then obtain k t where "h = hash_of s k" "fmlookup (redemptions_pending s) k = Some t"
    by (auto simp: queue_contents_entries set_bucket_entries)
  then show "fmlookup (redemptions_by_hash s) h \<noteq> None"
    using by_hash_hash_of [OF assms, of k] by simp
next
  assume "fmlookup (redemptions_by_hash s) h \<noteq> None"
  then obtain k where k: "fmlookup (redemptions_by_hash s) h = Some k" by auto
  with assms obtain t where "fmlookup (redemptions_pending s) k = Some t" using by_hash_seq by blast
  then have "(k, t) \<in> set (bucket_entries (redemptions_pending s))" by (simp add: set_bucket_entries)
  then show "h \<in> fst ` set (queue_contents s)"
    using hash_of_by_hash [OF assms k] by (force simp: queue_contents_entries)
qed

section \<open>The store keeps the contract\<close>

definition enq_ticket :: "bytes \<Rightarrow> StoredTicket \<Rightarrow> store \<Rightarrow> store \<times> bool" where
  "enq_ticket h t s =
     (case EnqueueRedemption h (Some t) s of (s', Inr b) \<Rightarrow> (s', b) | (s', Inl _) \<Rightarrow> (s', False))"

definition valid_hash :: "bytes \<Rightarrow> bool" where
  "valid_hash h \<longleftrightarrow> length h = 32"

lemma by_hash_length:
  assumes "redemption_inv s"
  shows "(case fmlookup (redemptions_by_hash s) h of None \<Rightarrow> False | Some v \<Rightarrow> 0 < length v) \<longleftrightarrow>
    fmlookup (redemptions_by_hash s) h \<noteq> None"
  using by_hash_seq [OF assms, of h] by (auto split: option.split)

definition enqueued :: "bytes \<Rightarrow> StoredTicket \<Rightarrow> store \<Rightarrow> store" where
  "enqueued h t s = s\<lparr>
     redemptions_meta := fmupd metaNextSeq (seqBytes (next_seq s + 1)) (redemptions_meta s),
     redemptions_pending := fmupd (seqBytes (next_seq s + 1)) t (redemptions_pending s),
     redemptions_by_hash := fmupd h (seqBytes (next_seq s + 1)) (redemptions_by_hash s)\<rparr>"

lemma enq_ticket_cases:
  assumes "redemption_inv s"
  shows "enq_ticket h t s =
    (if \<not> valid_hash h \<or> h \<in> fst ` set (queue_contents s) \<or> is_redeemed s h then (s, False)
     else (enqueued h t s, True))"
  using by_hash_length [OF assms, of h]
  by (simp add: enq_ticket_def EnqueueRedemption_def db_update_def enqueueRedemption_def Let_def
      queued_iff [OF assms] is_redeemed_def valid_hash_def enqueued_def)

lemma next_seq_less: "seq_room s \<Longrightarrow> n \<le> next_seq s \<Longrightarrow> n < next_seq s + 1"
  using word_less_Suc [of "next_seq s"] by (simp add: seq_room_def)

lemma redemption_inv_enqueued:
  assumes inv: "redemption_inv s" and "seq_room s" and h: "valid_hash h"
    "fmlookup (redemptions_by_hash s) h = None" "\<not> is_redeemed s h"
  shows "redemption_inv (enqueued h t s)"
proof -
  have fresh: "v \<noteq> seqBytes (next_seq s + 1)" if "fmlookup (redemptions_by_hash s) j = Some v" for j v
    using by_hash_seq [OF inv that] next_seq_less [OF assms(2)] by (metis order_less_irrefl seqBytes_inj)
  have le: "n \<le> next_seq s + 1" if "n \<le> next_seq s" for n
    using next_seq_less [OF assms(2) that] by simp
  have nx: "next_seq (enqueued h t s) = next_seq s + 1" by (simp add: enqueued_def next_seq_def)
  show ?thesis
    unfolding redemption_inv_def nx
  proof (intro conjI allI impI)
    fix j v assume "fmlookup (redemptions_by_hash (enqueued h t s)) j = Some v"
    then show "length j = 32" "\<exists>n. v = seqBytes n \<and> n \<le> next_seq s + 1"
      "fmlookup (redemptions_pending (enqueued h t s)) v \<noteq> None"
      "fmlookup (redemptions_redeemed (enqueued h t s)) j = None"
      using by_hash_seq [OF inv, of j v] le h
      by (auto simp: enqueued_def valid_hash_def is_redeemed_def split: if_splits)
  next
    fix j j' v assume "fmlookup (redemptions_by_hash (enqueued h t s)) j = Some v"
      "fmlookup (redemptions_by_hash (enqueued h t s)) j' = Some v"
    then show "j = j'"
      using fresh [of j v] fresh [of j' v] by_hash_inj [OF inv, of j v j']
      by (auto simp: enqueued_def split: if_splits)
  next
    fix k assume k: "fmlookup (redemptions_pending (enqueued h t s)) k \<noteq> None"
    show "\<exists>j. fmlookup (redemptions_by_hash (enqueued h t s)) j = Some k"
    proof (cases "k = seqBytes (next_seq s + 1)")
      case True
      then show ?thesis by (auto simp: enqueued_def intro: exI [of _ h])
    next
      case False
      with k obtain j where "fmlookup (redemptions_by_hash s) j = Some k"
        using pending_by_hash [OF inv, of k] by (auto simp: enqueued_def)
      then show ?thesis using h(2) by (auto simp: enqueued_def intro: exI [of _ j])
    qed
  qed
qed

lemma queue_contents_enqueued:
  assumes inv: "redemption_inv s" and room: "seq_room s" and h: "valid_hash h"
    "fmlookup (redemptions_by_hash s) h = None" "\<not> is_redeemed s h"
  shows "queue_contents (enqueued h t s) = queue_contents s @ [(h, t)]"
proof -
  let ?s = "enqueued h t s" and ?k = "seqBytes (next_seq s + 1)"
  note inv' = redemption_inv_enqueued [OF assms]
  have lt: "x < ?k" if "fmlookup (redemptions_pending s) x = Some v" for x v
  proof -
    from that obtain j where "fmlookup (redemptions_by_hash s) j = Some x"
      using pending_by_hash [OF inv, of x] by auto
    then obtain n where "x = seqBytes n" "n \<le> next_seq s" using by_hash_seq [OF inv] by blast
    then show ?thesis using next_seq_less [OF room] by (simp add: seqBytes_less)
  qed
  have "bucket_entries (redemptions_pending ?s) = bucket_entries (redemptions_pending s) @ [(?k, t)]"
    using bucket_entries_upd_max [OF lt] by (simp add: enqueued_def)
  moreover have "hash_of ?s ?k = h"
    by (rule hash_of_by_hash [OF inv']) (simp add: enqueued_def)
  moreover have "hash_of ?s k = hash_of s k" if "(k, u) \<in> set (bucket_entries (redemptions_pending s))" for k u
  proof (rule hash_of_by_hash [OF inv'])
    have "fmlookup (redemptions_pending s) k = Some u" using that by (simp add: set_bucket_entries)
    then have "fmlookup (redemptions_by_hash s) (hash_of s k) = Some k" using by_hash_hash_of [OF inv] by simp
    then show "fmlookup (redemptions_by_hash ?s) (hash_of s k) = Some k" using h(2) by (auto simp: enqueued_def)
  qed
  ultimately show ?thesis by (auto simp: queue_contents_entries)
qed

text \<open>Leaving the queue, for whatever reason and with whatever record.\<close>

definition take_ticket ::
  "bytes \<Rightarrow> StoredTicket \<Rightarrow> int \<Rightarrow> RedemptionInclusion option \<Rightarrow> string \<Rightarrow> bytes \<Rightarrow> store \<Rightarrow> store" where
  "take_ticket tx t rnd e reason h s = fst (markRedeemed h tx (Some t) rnd e reason s)"

lemma take_ticket_buckets:
  assumes "redemption_inv s" "valid_hash h"
  shows "redemptions_by_hash (take_ticket tx t rnd e reason h s) = fmdrop h (redemptions_by_hash s)"
    and "redemptions_pending (take_ticket tx t rnd e reason h s) =
      (case fmlookup (redemptions_by_hash s) h of None \<Rightarrow> redemptions_pending s
       | Some k \<Rightarrow> fmdrop k (redemptions_pending s))"
    and "next_seq (take_ticket tx t rnd e reason h s) = next_seq s"
    and "is_redeemed (take_ticket tx t rnd e reason h s) j \<longleftrightarrow> j = h \<or> is_redeemed s j"
proof -
  have drop: "fmdrop h m = m" if "fmlookup m h = None" for m :: "bytes bucket"
    using that by (intro fmap_ext) simp
  show "redemptions_by_hash (take_ticket tx t rnd e reason h s) = fmdrop h (redemptions_by_hash s)"
    and "redemptions_pending (take_ticket tx t rnd e reason h s) =
      (case fmlookup (redemptions_by_hash s) h of None \<Rightarrow> redemptions_pending s
       | Some k \<Rightarrow> fmdrop k (redemptions_pending s))"
    and "next_seq (take_ticket tx t rnd e reason h s) = next_seq s"
    and "is_redeemed (take_ticket tx t rnd e reason h s) j \<longleftrightarrow> j = h \<or> is_redeemed s j"
    using assms(2) by_hash_seq [OF assms(1), of h] drop [of "redemptions_by_hash s"]
    by (auto simp: take_ticket_def markRedeemed_def db_update_def valid_hash_def Let_def next_seq_def
        is_redeemed_def split: option.splits)
qed

lemma redemption_inv_take:
  assumes inv: "redemption_inv s" and h: "valid_hash h"
  shows "redemption_inv (take_ticket tx t rnd e reason h s)"
proof -
  let ?s = "take_ticket tx t rnd e reason h s"
  note b = take_ticket_buckets [OF assms, of tx t rnd e reason]
  have red: "fmlookup (redemptions_redeemed ?s) j = None"
    if "j \<noteq> h" "fmlookup (redemptions_redeemed s) j = None" for j
    using b(4) [of j] that by (simp add: is_redeemed_def)
  show ?thesis
    unfolding redemption_inv_def b(1,3)
  proof (intro conjI allI impI)
    fix j v assume "fmlookup (fmdrop h (redemptions_by_hash s)) j = Some v"
    then have j: "j \<noteq> h" "fmlookup (redemptions_by_hash s) j = Some v" by (auto split: if_splits)
    then show "length j = 32" "\<exists>n. v = seqBytes n \<and> n \<le> next_seq s"
      "fmlookup (redemptions_redeemed ?s) j = None"
      using by_hash_seq [OF inv j(2)] red by auto
    show "fmlookup (redemptions_pending ?s) v \<noteq> None"
      using by_hash_seq [OF inv j(2)] by_hash_inj [OF inv j(2), of h] j(1)
      by (auto simp: b(2) split: option.splits)
  next
    fix j j' v assume "fmlookup (fmdrop h (redemptions_by_hash s)) j = Some v"
      "fmlookup (fmdrop h (redemptions_by_hash s)) j' = Some v"
    then show "j = j'" using by_hash_inj [OF inv, of j v j'] by (auto split: if_splits)
  next
    fix k assume "fmlookup (redemptions_pending ?s) k \<noteq> None"
    then have k: "fmlookup (redemptions_pending s) k \<noteq> None" "fmlookup (redemptions_by_hash s) h \<noteq> Some k"
      by (auto simp: b(2) split: option.splits if_splits)
    then obtain j where "fmlookup (redemptions_by_hash s) j = Some k" using pending_by_hash [OF inv] by blast
    then show "\<exists>j. fmlookup (fmdrop h (redemptions_by_hash s)) j = Some k"
      using k(2) by (intro exI [of _ j]) auto
  qed
qed

lemma queue_contents_take:
  assumes inv: "redemption_inv s" and h: "valid_hash h"
  shows "queue_contents (take_ticket tx t rnd e reason h s) =
    filter (\<lambda>x. fst x \<noteq> h) (queue_contents s)"
proof -
  let ?s = "take_ticket tx t rnd e reason h s"
  note b = take_ticket_buckets [OF assms, of tx t rnd e reason]
  note inv' = redemption_inv_take [OF assms, of tx t rnd e reason]
  have ent: "bucket_entries (redemptions_pending ?s) =
      filter (\<lambda>kt. hash_of s (fst kt) \<noteq> h) (bucket_entries (redemptions_pending s))"
  proof (cases "fmlookup (redemptions_by_hash s) h")
    case None
    have "hash_of s k \<noteq> h" if "(k, u) \<in> set (bucket_entries (redemptions_pending s))" for k u
      using that by_hash_hash_of [OF inv, of k] None by (auto simp: set_bucket_entries)
    then have "\<forall>kt \<in> set (bucket_entries (redemptions_pending s)). hash_of s (fst kt) \<noteq> h"
      by (metis prod.collapse)
    then show ?thesis by (simp add: b(2) None)
  next
    case (Some kh)
    have "hash_of s k \<noteq> h \<longleftrightarrow> k \<noteq> kh" if "(k, u) \<in> set (bucket_entries (redemptions_pending s))" for k u
    proof -
      have "fmlookup (redemptions_pending s) k \<noteq> None" using that by (simp add: set_bucket_entries)
      then show ?thesis
        using by_hash_hash_of [OF inv] hash_of_by_hash [OF inv Some] Some by (metis option.inject)
    qed
    then have "filter (\<lambda>kt. fst kt \<noteq> kh) (bucket_entries (redemptions_pending s)) =
        filter (\<lambda>kt. hash_of s (fst kt) \<noteq> h) (bucket_entries (redemptions_pending s))"
      by (intro filter_cong) (metis prod.collapse)+
    then show ?thesis by (simp add: b(2) Some bucket_entries_drop)
  qed
  have "hash_of ?s k = hash_of s k"
    if "(k, u) \<in> set (bucket_entries (redemptions_pending s))" "hash_of s k \<noteq> h" for k u
    by (rule hash_of_by_hash [OF inv'])
      (use that by_hash_hash_of [OF inv, of k] in \<open>auto simp: b(1) set_bucket_entries\<close>)
  then show ?thesis
    by (auto simp: queue_contents_entries ent filter_map comp_def case_prod_beta)
qed

lemma queue_contents_distinct:
  assumes "redemption_inv s"
  shows "distinct (map fst (queue_contents s))"
proof -
  have "inj_on (hash_of s) (fst ` set (bucket_entries (redemptions_pending s)))"
  proof (rule inj_onI)
    fix k k' assume k: "k \<in> fst ` set (bucket_entries (redemptions_pending s))"
      "k' \<in> fst ` set (bucket_entries (redemptions_pending s))" "hash_of s k = hash_of s k'"
    then have "fmlookup (redemptions_pending s) k \<noteq> None" "fmlookup (redemptions_pending s) k' \<noteq> None"
      by (auto simp: set_bucket_entries)
    then have "fmlookup (redemptions_by_hash s) (hash_of s k) = Some k"
      "fmlookup (redemptions_by_hash s) (hash_of s k') = Some k'"
      using by_hash_hash_of [OF assms] by blast+
    then show "k = k'" unfolding k(3) by simp
  qed
  then have "distinct (map (hash_of s) (map fst (bucket_entries (redemptions_pending s))))"
    using distinct_bucket_entries [of "redemptions_pending s"]
    unfolding distinct_map [of "hash_of s"] by (simp only: set_map) 
  then show ?thesis by (simp add: queue_contents_entries comp_def case_prod_beta)
qed

lemma markRedeemed_invalid: "\<not> valid_hash h \<Longrightarrow> take_ticket tx t rnd e reason h s = s"
  by (simp add: take_ticket_def markRedeemed_def valid_hash_def)

lemma is_redeemed_enqueued [simp]: "is_redeemed (enqueued h t s) = is_redeemed s"
  by (simp add: is_redeemed_def enqueued_def fun_eq_iff)

interpretation store_queue: redemption_queue enq_ticket "take_ticket tx u rnd e reason"
  queue_contents is_redeemed valid_hash redemption_inv seq_room for tx u rnd e reason
proof unfold_locales
  fix s :: store and h j :: bytes and t :: StoredTicket
  assume inv: "redemption_inv s"
  show "redemption_inv (fst (enq_ticket h t s))" if "seq_room s"
    using inv that by (simp add: enq_ticket_cases queued_iff redemption_inv_enqueued)
  show "redemption_inv (take_ticket tx u rnd e reason h s)"
    using inv redemption_inv_take markRedeemed_invalid by (cases "valid_hash h") simp_all
  show "queue_contents (fst (enq_ticket h t s)) = queue_contents s @ [(h, t)] \<and> snd (enq_ticket h t s)"
    if "seq_room s" "valid_hash h" "h \<notin> fst ` set (queue_contents s)" "\<not> is_redeemed s h"
    using that inv queue_contents_enqueued [OF inv that(1,2)] by (simp add: enq_ticket_cases queued_iff)
  show "enq_ticket h t s = (s, False)"
    if "\<not> valid_hash h \<or> h \<in> fst ` set (queue_contents s) \<or> is_redeemed s h"
    using that inv by (auto simp: enq_ticket_cases)
  show "is_redeemed (fst (enq_ticket h t s)) = is_redeemed s"
    using inv by (simp add: enq_ticket_cases)
  show "queue_contents (take_ticket tx u rnd e reason h s) = filter (\<lambda>e. fst e \<noteq> h) (queue_contents s)"
    if "valid_hash h" using that inv by (simp add: queue_contents_take)
  show "is_redeemed (take_ticket tx u rnd e reason h s) j \<longleftrightarrow> j = h \<or> is_redeemed s j"
    if "valid_hash h" using that inv by (simp add: take_ticket_buckets)
  show "distinct (map fst (queue_contents s))" using inv by (rule queue_contents_distinct)
  show "valid_hash h \<and> \<not> is_redeemed s h" if "(h, t) \<in> set (queue_contents s)"
  proof -
    have "h \<in> fst ` set (queue_contents s)" using that by force
    then obtain k where "fmlookup (redemptions_by_hash s) h = Some k" using queued_iff [OF inv] by auto
    then show ?thesis using by_hash_seq [OF inv] by (auto simp: valid_hash_def is_redeemed_def)
  qed
qed

section \<open>Histories of the queue\<close>

datatype queue_op = QEnqueue bytes StoredTicket | QTake bytes bytes StoredTicket int "RedemptionInclusion option" string

text \<open>The answer is the hash of a ticket that entered the queue.\<close>

fun queue_step :: "store \<Rightarrow> queue_op \<Rightarrow> store \<times> bytes option" where
  "queue_step s (QEnqueue h t) = (fst (enq_ticket h t s), if snd (enq_ticket h t s) then Some h else None)"
| "queue_step s (QTake h tx t rnd e reason) = (take_ticket tx t rnd e reason h s, None)"

lemma next_seq_enq:
  assumes "redemption_inv s" "unat (next_seq s) + Suc n < 2 ^ 64"
  shows "seq_room s \<and> unat (next_seq (fst (queue_step s op))) + n < 2 ^ 64"
proof -
  have room: "seq_room s"
  proof (rule ccontr)
    assume "\<not> seq_room s"
    then have "unat (next_seq s) = 2 ^ 64 - 1"
      by (simp add: seq_room_def unsigned_minus_1_eq_mask mask_eq_exp_minus_1)
    with assms(2) show False by simp
  qed
  have "unat (next_seq s + 1) = unat (next_seq s) + 1"
    using assms(2) by (simp add: unat_word_ariths)
  then show ?thesis
    using assms room
    by (cases op) (auto simp: enq_ticket_cases enqueued_def next_seq_def take_ticket_def markRedeemed_def
        db_update_def Let_def split: option.split)
qed

definition ticket_known :: "store \<Rightarrow> bytes \<Rightarrow> bool" where
  "ticket_known s h \<longleftrightarrow>
     (case fmlookup (redemptions_by_hash s) h of None \<Rightarrow> False | Some v \<Rightarrow> 0 < length v) \<or> is_redeemed s h"

lemma enq_ticket_known:
  "enq_ticket h t s = (if \<not> valid_hash h \<or> ticket_known s h then (s, False) else (enqueued h t s, True))"
  by (simp add: enq_ticket_def EnqueueRedemption_def db_update_def enqueueRedemption_def Let_def
      ticket_known_def is_redeemed_def valid_hash_def enqueued_def)

lemma ticket_known_take: "ticket_known s j \<Longrightarrow> ticket_known (take_ticket tx t rnd e reason h s) j"
  by (auto simp: ticket_known_def take_ticket_def markRedeemed_def db_update_def Let_def is_redeemed_def
      split: option.splits if_splits)

lemma ticket_known_enqueued: "ticket_known (enqueued h t s) j \<longleftrightarrow> j = h \<or> ticket_known s j"
  by (auto simp: ticket_known_def enqueued_def is_redeemed_def)

interpretation queue_once: once_only queue_step "\<lambda>_. True" ticket_known
proof unfold_locales
  fix s op k assume "snd (queue_step s op) = Some k"
  then show "\<not> ticket_known s k" "ticket_known (fst (queue_step s op)) k"
    by (cases op; simp add: enq_ticket_known ticket_known_enqueued split: if_splits)+
next
  fix s j op assume "ticket_known s j"
  then show "ticket_known (fst (queue_step s op)) j"
    by (cases op) (simp_all add: enq_ticket_known ticket_known_enqueued ticket_known_take)
qed simp

lemma is_redeemed_run: "is_redeemed s h \<Longrightarrow> is_redeemed (run queue_step s ops) h"
proof (induction ops arbitrary: s)
  case (Cons op ops)
  have "is_redeemed (fst (queue_step s op)) h"
    using Cons.prems
    by (cases op) (auto simp: enq_ticket_known take_ticket_def markRedeemed_def db_update_def Let_def
        is_redeemed_def enqueued_def split: option.split)
  then show ?case using Cons.IH by simp
qed simp

lemma contents_not_redeemed:
  "redemption_inv s \<Longrightarrow> filter (\<lambda>h. \<not> is_redeemed s h) (map fst (queue_contents s)) = map fst (queue_contents s)"
  using store_queue.contents_valid [of s] by (auto simp: filter_id_conv)

text \<open>C10: the redemption queue is first-in first-out and loses nothing. Over any history of
  enqueueing and taking out tickets, from a consistent queue and while sequence numbers last, a
  ticket hash enters the queue at most once, also after it has been redeemed or drained; at the end
  the buckets are consistent, and the pending tickets in the order in which \<open>PendingRedemptions\<close>
  returns them are exactly the tickets that were pending or entered, in that order, without those
  that have been taken out.\<close>

theorem redemption_queue_is_fifo:
  assumes "redemption_inv s" "unat (next_seq s) + length ops < 2 ^ 64"
  shows "distinct (effects queue_step s ops) \<and> redemption_inv (run queue_step s ops) \<and>
    map pr_Hash (PendingRedemptions (run queue_step s ops)) =
      filter (\<lambda>h. \<not> is_redeemed (run queue_step s ops) h)
        (map pr_Hash (PendingRedemptions s) @ effects queue_step s ops)"
proof -
  have "redemption_inv (run queue_step s ops) \<and>
    map fst (queue_contents (run queue_step s ops)) =
      filter (\<lambda>h. \<not> is_redeemed (run queue_step s ops) h) (map fst (queue_contents s) @ effects queue_step s ops)"
    using assms
  proof (induction ops arbitrary: s)
    case (Cons op ops)
    let ?s = "fst (queue_step s op)"
    have room: "seq_room s" "unat (next_seq ?s) + length ops < 2 ^ 64"
      using next_seq_enq [of s "length ops" op] Cons.prems by simp_all
    show ?case
    proof (cases op)
      case (QEnqueue h t)
      have "redemption_inv ?s"
        using QEnqueue Cons.prems(1) room(1) store_queue.enq_inv by simp
      moreover have "map fst (queue_contents ?s) @ effects queue_step ?s ops =
          map fst (queue_contents s) @ effects queue_step s (op # ops)"
        using QEnqueue Cons.prems(1) room(1) store_queue.enq_new [of s h t]
        by (auto simp: enq_ticket_cases)
      ultimately show ?thesis using Cons.IH [of ?s] room(2) by simp
    next
      case (QTake h tx t rnd e reason)
      have inv: "redemption_inv ?s" using QTake Cons.prems(1) store_queue.take_inv by simp
      have "filter (\<lambda>j. \<not> is_redeemed (run queue_step ?s ops) j) (map fst (queue_contents ?s)) =
          filter (\<lambda>j. \<not> is_redeemed (run queue_step ?s ops) j) (map fst (queue_contents s))"
      proof (cases "valid_hash h")
        case True
        then have "is_redeemed (run queue_step ?s ops) h"
          using QTake Cons.prems(1) is_redeemed_run store_queue.take_taken by simp
        then show ?thesis
          using QTake True Cons.prems(1)
          by (simp add: queue_contents_take filter_map comp_def)
            (rule arg_cong [where f = "map fst"], rule filter_cong, auto)
      qed (simp add: QTake markRedeemed_invalid)
      then show ?thesis using Cons.IH [OF inv] room(2) QTake by simp
    qed
  qed (simp add: contents_not_redeemed)
  then show ?thesis
    using queue_once.distinct_effects [of s ops] by (simp add: queue_contents_def comp_def)
qed

lemma redemption_inv_Open: "redemption_inv Open"
  by (simp add: redemption_inv_def Open_def)

lemma next_seq_Open [simp]: "next_seq Open = 0"
  by (simp add: next_seq_def Open_def readSeq_def)

lemma ticket_known_Open: "\<not> ticket_known Open h"
  by (simp add: ticket_known_def Open_def is_redeemed_def)

definition sample_stored :: StoredTicket where
  "sample_stored =
     \<lparr>stk_Recipient = ''payee'', stk_Sender = ''payer'', stk_FaceValue = Some 5, stk_WinProb = Some 1,
      stk_SenderNonce = 1, stk_RecipientRandHash = ''h'', stk_CreationRound = 3,
      stk_CreationRoundHash = ''b'', stk_Sig = ''s'', stk_RecipientRand = Some 9\<rparr>"

definition sample_hash :: "char \<Rightarrow> bytes" where
  "sample_hash c = replicate 32 c"

definition sample_queue_ops :: "queue_op list" where
  "sample_queue_ops =
     [QEnqueue (sample_hash CHR ''b'') sample_stored, QEnqueue (sample_hash CHR ''a'') sample_stored,
      QEnqueue (sample_hash CHR ''b'') sample_stored]"

theorem redemption_queue_is_fifo_witness:
  "redemption_inv Open \<and>
   effects queue_step Open sample_queue_ops = [sample_hash CHR ''b'', sample_hash CHR ''a''] \<and>
   map pr_Hash (PendingRedemptions (run queue_step Open sample_queue_ops)) =
     [sample_hash CHR ''b'', sample_hash CHR ''a'']"
proof -
  have e: "effects queue_step Open sample_queue_ops = [sample_hash CHR ''b'', sample_hash CHR ''a'']"
    by (simp add: sample_queue_ops_def enq_ticket_known ticket_known_enqueued valid_hash_def sample_hash_def
        ticket_known_Open)
  have p: "PendingRedemptions Open = []"
    by (simp add: PendingRedemptions_def bucket_entries_def Open_def sorted_list_of_fset.rep_eq)
  have "\<not> is_redeemed (run queue_step Open sample_queue_ops) h" for h
    by (simp add: sample_queue_ops_def enq_ticket_known is_redeemed_def enqueued_def Open_def)
  then show ?thesis
    using redemption_queue_is_fifo [OF redemption_inv_Open, of sample_queue_ops] e p redemption_inv_Open
    by (simp add: sample_queue_ops_def del: run.simps effects_Cons)
qed

section \<open>Revenue\<close>

text \<open>The face value that a redeemed record counts for a round.\<close>

definition counts_for :: "int \<Rightarrow> redeemed_value \<Rightarrow> bool" where
  "counts_for r v \<longleftrightarrow>
     (case v of LegacyTxHash _ \<Rightarrow> False
      | RedeemedRecord rec \<Rightarrow> rr_ConfirmedOnChain rec \<and> rr_RedeemedRound rec = r)"

definition counted_value :: "redeemed_value \<Rightarrow> int" where
  "counted_value v =
     (case v of LegacyTxHash _ \<Rightarrow> 0
      | RedeemedRecord rec \<Rightarrow> (case SetString (rr_FaceValueWei rec) of None \<Rightarrow> 0 | Some i \<Rightarrow> i))"

definition revenue_value :: "int \<Rightarrow> bytes \<Rightarrow> redeemed_value \<Rightarrow> int" where
  "revenue_value r h v = (if counts_for r v then counted_value v else 0)"

definition revenue_count :: "int \<Rightarrow> bytes \<Rightarrow> redeemed_value \<Rightarrow> int" where
  "revenue_count r h v = (if counts_for r v then 1 else 0)"

definition parseable :: "int \<Rightarrow> redeemed_value \<Rightarrow> bool" where
  "parseable r v \<longleftrightarrow>
     (case v of LegacyTxHash _ \<Rightarrow> True
      | RedeemedRecord rec \<Rightarrow> counts_for r v \<longrightarrow> SetString (rr_FaceValueWei rec) \<noteq> None)"

lemma revenue_simps [simp]:
  "counts_for r (LegacyTxHash x) = False"
  "counts_for r (RedeemedRecord rec) \<longleftrightarrow> rr_ConfirmedOnChain rec \<and> rr_RedeemedRound rec = r"
  "parseable r (LegacyTxHash x) = True"
  "parseable r (RedeemedRecord rec) \<longleftrightarrow>
     (rr_ConfirmedOnChain rec \<and> rr_RedeemedRound rec = r \<longrightarrow> SetString (rr_FaceValueWei rec) \<noteq> None)"
  "counted_value (RedeemedRecord rec) =
     (case SetString (rr_FaceValueWei rec) of None \<Rightarrow> 0 | Some i \<Rightarrow> i)"
  "revenue_value r h (LegacyTxHash x) = 0" "revenue_count r h (LegacyTxHash x) = 0"
  "revenue_value r h (RedeemedRecord rec) =
     (if rr_ConfirmedOnChain rec \<and> rr_RedeemedRound rec = r then counted_value (RedeemedRecord rec) else 0)"
  "revenue_count r h (RedeemedRecord rec) =
     (if rr_ConfirmedOnChain rec \<and> rr_RedeemedRound rec = r then 1 else 0)"
  by (simp_all add: counts_for_def parseable_def counted_value_def revenue_value_def revenue_count_def)

lemma round_revenue_loop_sum:
  "round_revenue_loop r vs acc =
     (if \<forall>v \<in> set vs. parseable r v
      then Inr (fst acc + sum_list (map (revenue_value r h) vs),
                snd acc + word_of_int (sum_list (map (revenue_count r h) vs)))
      else Inl (ErrOther ''invalid redeemed face value''))"
proof (induction vs arbitrary: acc)
  case (Cons v vs)
  then show ?case
    by (cases v) (auto simp: add.assoc split: option.split)
qed simp

lemma RoundRevenue_fmsum:
  "RoundRevenue r s =
     (if \<forall>h v. fmlookup (redemptions_redeemed s) h = Some v \<longrightarrow> parseable r v
      then Inr (fmsum (revenue_value r) (redemptions_redeemed s),
                word_of_int (fmsum (revenue_count r) (redemptions_redeemed s)))
      else Inl (ErrOther ''invalid redeemed face value''))"
proof -
  let ?m = "redemptions_redeemed s"
  have "sum_list (map (revenue_value r h) (map snd (bucket_entries ?m))) = fmsum (revenue_value r) ?m" for h
    unfolding sum_bucket_entries [symmetric] by (simp add: comp_def revenue_value_def)
  moreover have "sum_list (map (revenue_count r h) (map snd (bucket_entries ?m))) = fmsum (revenue_count r) ?m" for h
    unfolding sum_bucket_entries [symmetric] by (simp add: comp_def revenue_count_def)
  moreover have "(\<forall>v \<in> set (map snd (bucket_entries ?m)). parseable r v) \<longleftrightarrow>
      (\<forall>h v. fmlookup ?m h = Some v \<longrightarrow> parseable r v)"
    by (force simp flip: set_bucket_entries)
  ultimately show ?thesis by (simp add: RoundRevenue_def round_revenue_loop_sum [where h = "[]"])
qed

lemma markRedeemed_record:
  assumes "valid_hash h" "stk_FaceValue ticket = Some fv"
  shows "\<exists>rec. redemptions_redeemed (fst (markRedeemed h tx (Some ticket) rr e reason s)) =
      fmupd h (RedeemedRecord rec) (redemptions_redeemed s) \<and>
    rr_ConfirmedOnChain rec = (\<not> isAllZero (stamp_tx tx)) \<and> rr_RedeemedRound rec = rr \<and>
    rr_FaceValueWei rec = big_String fv"
proof -
  have "redemptions_redeemed (case x of None \<Rightarrow> s | Some q \<Rightarrow>
      if 0 < length q then s\<lparr>redemptions_pending := fmdrop q p, redemptions_by_hash := b\<rparr> else s)
    = redemptions_redeemed s" for x p b by (simp split: option.split)
  then show ?thesis
    using assms by (auto simp: markRedeemed_def db_update_def valid_hash_def Let_def big_ptr_String_def
        intro!: exI)
qed

lemma take_ticket_revenue:
  assumes "RoundRevenue r s = Inr (tot, cnt)" "\<not> is_redeemed s h" "valid_hash h" "stk_FaceValue t = Some fv"
  shows "RoundRevenue r (take_ticket tx t rnd e reason h s) =
    Inr (if \<not> isAllZero (stamp_tx tx) \<and> rnd = r then (tot + fv, cnt + 1) else (tot, cnt))"
proof -
  from markRedeemed_record [OF assms(3,4), of tx rnd e reason s] obtain rec where
    "redemptions_redeemed (take_ticket tx t rnd e reason h s) =
       fmupd h (RedeemedRecord rec) (redemptions_redeemed s)"
    "rr_ConfirmedOnChain rec = (\<not> isAllZero (stamp_tx tx))" "rr_RedeemedRound rec = rnd"
    "rr_FaceValueWei rec = big_String fv"
    by (auto simp: take_ticket_def)
  moreover have "fmlookup (redemptions_redeemed s) h = None" using assms(2) by (simp add: is_redeemed_def)
  ultimately show ?thesis
    using assms(1) by (simp add: RoundRevenue_fmsum fmsum_upd fmval_def split: if_splits)
qed

lemma isAllZero_drained [simp]: "isAllZero (stamp_tx (replicate 32 NUL))"
  by (simp add: stamp_tx_def isAllZero_def list_all_iff)

text \<open>C31: a round's revenue counts each confirmed redemption once. Recording the confirmed redemption
  of a ticket that was not recorded before adds exactly its face value, and one, to the revenue of
  the round it was redeemed in, and nothing to any other round; recording a drained ticket adds
  nothing to any round.\<close>

theorem round_revenue_counts_once:
  assumes "RoundRevenue r s = Inr (tot, cnt)" "\<not> is_redeemed s h" "valid_hash h"
    and "stk_FaceValue ticket = Some fv" "length tx = 32" "\<not> isAllZero tx"
  shows "RoundRevenue r (fst (MarkRedeemed h tx (Some ticket) rr s)) =
      Inr (if rr = r then (tot + fv, cnt + 1) else (tot, cnt)) \<and>
    RoundRevenue r (fst (MarkDrained h (Some ticket) rr reason s)) = Inr (tot, cnt)"
  using take_ticket_revenue [OF assms(1-4)] assms(5,6)
  by (simp add: take_ticket_def MarkRedeemed_def MarkDrained_def stamp_tx_def isAllZero_def list_all_iff)

theorem round_revenue_counts_once_witness:
  "RoundRevenue 7 Open = Inr (0, 0) \<and>
   RoundRevenue 7 (fst (MarkRedeemed (sample_hash CHR ''a'') (sample_hash CHR ''x'') (Some sample_stored) 7 Open)) =
     Inr (5, 1)"
proof -
  have 0: "RoundRevenue 7 Open = Inr (0, 0)" by (simp add: RoundRevenue_fmsum Open_def)
  have h: "\<not> is_redeemed Open (sample_hash CHR ''a'')" "valid_hash (sample_hash CHR ''a'')"
    "stk_FaceValue sample_stored = Some 5" "length (sample_hash CHR ''x'') = 32" "\<not> isAllZero (sample_hash CHR ''x'')"
    by (simp_all add: is_redeemed_def Open_def valid_hash_def sample_hash_def sample_stored_def isAllZero_def
        list_all_iff eq_byte_of_nat_iff)
  show ?thesis using round_revenue_counts_once [OF 0 h, of 7] 0 by simp
qed

end
