(* ===== verification/Chain_Errors.thy ===== *)
theory Chain_Errors
  imports Go_Prelude
begin

text \<open>
  Error values and their classification, as \<open>chain-commons/errors/errors.go\<close> has it.

  A Go error is a tree: a sentinel made once by \<open>errors.New\<close>, a message made by \<open>fmt.Errorf\<close> that
  wraps the errors given to its \<open>%w\<close> verbs, or a classified \<open>*Error\<close> that may wrap a cause. An
  \<open>Errorf\<close> node carries the formatted message. \<open>strings.ToLower\<close> is modelled on ASCII, which is
  what the messages compared here are written in.
\<close>

section \<open>Errors\<close>

datatype ErrorClass =
    ClassUnknown | ClassTransient | ClassPermanent | ClassReverted | ClassNoncePast
  | ClassInsufficientFunds | ClassReorged | ClassCircuitOpen | ClassNotFound

datatype sentinel =
    EthereumNotFound
  | BrokerErrTicketAlreadyUsed | BrokerErrRedemptionReverted
  | ErrTicketUsed | ErrTicketExpired | ErrFaceValueTooLow | ErrInsufficientFunds

datatype go_error =
    Sentinel sentinel
  | Errorf string "go_error list"
  | Error ErrorClass string string "go_error option"

primrec ErrorClass_String :: "ErrorClass \<Rightarrow> string" where
  "ErrorClass_String ClassUnknown = ''unknown''"
| "ErrorClass_String ClassTransient = ''transient''"
| "ErrorClass_String ClassPermanent = ''permanent''"
| "ErrorClass_String ClassReverted = ''reverted''"
| "ErrorClass_String ClassNoncePast = ''nonce_past''"
| "ErrorClass_String ClassInsufficientFunds = ''insufficient_funds''"
| "ErrorClass_String ClassReorged = ''reorged''"
| "ErrorClass_String ClassCircuitOpen = ''circuit_open''"
| "ErrorClass_String ClassNotFound = ''not_found''"

primrec sentinel_text :: "sentinel \<Rightarrow> string" where
  "sentinel_text EthereumNotFound = ''not found''"
| "sentinel_text BrokerErrTicketAlreadyUsed = ''broker: ticket already used on-chain''"
| "sentinel_text BrokerErrRedemptionReverted = ''broker: redemption transaction reverted''"
| "sentinel_text ErrTicketUsed = ''settlement: ticket already used on-chain''"
| "sentinel_text ErrTicketExpired = ''settlement: ticket creationRound past validity window''"
| "sentinel_text ErrFaceValueTooLow = ''settlement: face value below tx cost''"
| "sentinel_text ErrInsufficientFunds = ''settlement: insufficient sender funds''"

fun Error_Error :: "go_error \<Rightarrow> string" where
  "Error_Error (Sentinel t) = sentinel_text t"
| "Error_Error (Errorf m _) = m"
| "Error_Error (Error _ code msg None) = code @ '': '' @ msg"
| "Error_Error (Error _ code msg (Some cause)) = code @ '': '' @ msg @ '': '' @ Error_Error cause"

text \<open>\<open>errors.Is\<close> against a sentinel. The \<open>Is\<close> method of \<open>*Error\<close> matches other \<open>*Error\<close> values
  only, so it never matches one.\<close>

fun error_is :: "go_error \<Rightarrow> sentinel \<Rightarrow> bool" where
  "error_is (Sentinel t) target \<longleftrightarrow> t = target"
| "error_is (Errorf _ es) target \<longleftrightarrow> (\<exists>e \<in> set es. error_is e target)"
| "error_is (Error _ _ _ None) target \<longleftrightarrow> False"
| "error_is (Error _ _ _ (Some cause)) target \<longleftrightarrow> error_is cause target"

text \<open>\<open>errors.As\<close> with an \<open>*Error\<close> target: the first classified error, depth first.\<close>

fun error_as :: "go_error \<Rightarrow> go_error option"
  and first_as :: "go_error list \<Rightarrow> go_error option" where
  "error_as (Sentinel _) = None"
| "error_as (Errorf _ es) = first_as es"
| "error_as (Error c code msg cause) = Some (Error c code msg cause)"
| "first_as [] = None"
| "first_as (e # es) = (case error_as e of None \<Rightarrow> first_as es | Some x \<Rightarrow> Some x)"

definition Error_Is :: "go_error \<Rightarrow> go_error \<Rightarrow> bool" where
  "Error_Is e target =
     (case (e, error_as target) of
        (Error _ code _ _, Some (Error _ code' _ _)) \<Rightarrow> code = code'
      | _ \<Rightarrow> False)"

primrec ErrClass :: "go_error \<Rightarrow> ErrorClass" where
  "ErrClass (Error c _ _ _) = c"
| "ErrClass (Sentinel _) = ClassUnknown"
| "ErrClass (Errorf _ _) = ClassUnknown"

section \<open>Strings\<close>

fun has_prefix :: "string \<Rightarrow> string \<Rightarrow> bool" where
  "has_prefix _ [] \<longleftrightarrow> True"
| "has_prefix [] (_ # _) \<longleftrightarrow> False"
| "has_prefix (c # s) (d # p) \<longleftrightarrow> c = d \<and> has_prefix s p"

fun strings_Contains :: "string \<Rightarrow> string \<Rightarrow> bool" where
  "strings_Contains [] sub \<longleftrightarrow> sub = []"
| "strings_Contains (c # s) sub \<longleftrightarrow> has_prefix (c # s) sub \<or> strings_Contains s sub"

definition lower_char :: "char \<Rightarrow> char" where
  "lower_char c =
     (if 65 \<le> nat_of_byte c \<and> nat_of_byte c \<le> 90 then byte_of_nat (nat_of_byte c + 32) else c)"

definition strings_ToLower :: "string \<Rightarrow> string" where
  "strings_ToLower s = map lower_char s"

section \<open>Classification\<close>

definition Wrap :: "ErrorClass \<Rightarrow> string \<Rightarrow> string \<Rightarrow> go_error \<Rightarrow> go_error" where
  "Wrap c code msg cause = Error c code msg (Some cause)"

definition classify_text :: "go_error \<Rightarrow> go_error" where
  "classify_text err =
     (let msg = strings_ToLower (Error_Error err); has = strings_Contains msg in
      if has ''nonce too low'' \<or> has ''nonce already used''
        then Wrap ClassNoncePast ''tx.nonce_past'' ''transaction nonce is stale'' err
      else if has ''insufficient funds''
        then Wrap ClassInsufficientFunds ''tx.insufficient_funds''
               ''wallet balance insufficient for transaction'' err
      else if has ''execution reverted'' \<or> has ''vm execution error''
        then Wrap ClassReverted ''tx.reverted'' ''transaction mined but reverted on-chain'' err
      else if has ''invalid argument'' \<or> has ''invalid params''
        then Wrap ClassPermanent ''rpc.invalid_argument'' ''invalid argument to RPC call'' err
      else if has ''eof'' \<or> has ''connection reset'' \<or> has ''use of closed connection'' \<or>
              has ''connection refused'' \<or> has ''tls: use of closed connection''
        then Wrap ClassTransient ''rpc.connection_error'' ''connection error to RPC'' err
      else if has ''context deadline exceeded'' \<or> has ''timeout''
        then Wrap ClassTransient ''rpc.timeout'' ''RPC call timed out'' err
      else if has ''429'' \<or> has ''rate limit'' \<or> has ''too many requests''
        then Wrap ClassTransient ''rpc.rate_limited'' ''RPC endpoint rate-limited'' err
      else if has ''unsupported block number'' \<or> has ''block not found''
        then Wrap ClassTransient ''rpc.block_not_synced''
               ''RPC node has not yet synced the requested block'' err
      else Wrap ClassTransient ''rpc.unknown'' ''unclassified error from RPC'' err)"

definition Classify :: "go_error \<Rightarrow> go_error" where
  "Classify err =
     (case error_as err of
        Some ce \<Rightarrow> ce
      | None \<Rightarrow>
          if error_is err EthereumNotFound
          then Wrap ClassNotFound ''rpc.not_found''
                 ''object not found on the endpoint (not yet mined or unknown)'' err
          else classify_text err)"

definition IsTransient :: "go_error option \<Rightarrow> bool" where
  "IsTransient err = (case err of None \<Rightarrow> False | Some e \<Rightarrow> ErrClass (Classify e) = ClassTransient)"

definition IsPermanent :: "go_error option \<Rightarrow> bool" where
  "IsPermanent err =
     (case err of None \<Rightarrow> False
      | Some e \<Rightarrow> ErrClass (Classify e) \<in>
          {ClassPermanent, ClassReverted, ClassNoncePast, ClassInsufficientFunds})"

section \<open>Laws of the classification\<close>

definition wraps :: "go_error \<Rightarrow> go_error \<Rightarrow> bool" where
  "wraps err e \<longleftrightarrow> (\<exists>c code msg. e = Error c code msg (Some err) \<and> c \<noteq> ClassNotFound)"

lemma wraps_If: "wraps err a \<Longrightarrow> wraps err b \<Longrightarrow> wraps err (if p then a else b)"
  by simp

lemma wraps_Wrap: "c \<noteq> ClassNotFound \<Longrightarrow> wraps err (Wrap c code msg err)"
  by (simp add: wraps_def Wrap_def)

lemma classify_text_wraps: "wraps err (classify_text err)"
  unfolding classify_text_def Let_def by (intro wraps_If; rule wraps_Wrap; rule ErrorClass.distinct)

lemma Classify_unclassified:
  assumes "error_as err = None"
  obtains c code msg where "Classify err = Error c code msg (Some err)"
    and "c = ClassNotFound \<longleftrightarrow> error_is err EthereumNotFound"
proof (cases "error_is err EthereumNotFound")
  case True
  then show ?thesis using assms that by (simp add: Classify_def Wrap_def)
next
  case False
  moreover obtain c code msg where "classify_text err = Error c code msg (Some err)" "c \<noteq> ClassNotFound"
    using classify_text_wraps [of err] by (auto simp: wraps_def)
  ultimately show ?thesis using assms that by (simp add: Classify_def)
qed

lemma error_as_classified:
  "error_as e = Some x \<Longrightarrow> \<exists>c code msg cause. x = Error c code msg cause"
  "first_as es = Some x \<Longrightarrow> \<exists>c code msg cause. x = Error c code msg cause"
  by (induction e and es rule: error_as_first_as.induct) (auto split: option.splits)

lemma Classify_is_Error: "\<exists>c code msg cause. Classify err = Error c code msg cause"
proof (cases "error_as err")
  case None
  then show ?thesis using Classify_unclassified by metis
next
  case (Some x)
  then show ?thesis using error_as_classified(1) by (simp add: Classify_def)
qed

lemma Classify_idem [simp]: "Classify (Classify err) = Classify err"
proof -
  obtain c code msg cause where "Classify err = Error c code msg cause" using Classify_is_Error by blast
  then show ?thesis by (simp add: Classify_def)
qed

lemma IsTransient_not_IsPermanent: "IsTransient err \<Longrightarrow> \<not> IsPermanent err"
  by (auto simp: IsTransient_def IsPermanent_def split: option.splits)

text \<open>Wrapping in another message changes neither the class nor what the error is.\<close>

lemma Classify_Errorf_classified:
  "error_as e = Some x \<Longrightarrow> Classify (Errorf m [e]) = x"
  by (simp add: Classify_def)

end
