(* ===== verification/Escrow.thy ===== *)
theory Escrow
  imports Redemption_Store Chain_Errors
begin

text \<open>
  The escrow service of the payee, \<open>payment-daemon/internal/service/escrow/escrow.go\<close>: how much face
  value a sender's deposit and reserve can cover, and the face value that is in flight.

  The chain answers \<open>GetSenderInfo\<close> and \<open>GetTranscoderPoolSize\<close>; they are arguments. An answer without
  an error carries a sender info, as the interface documents. Keys of the pending table are the
  lower-case hexadecimal sender address, which is what \<open>%x\<close> prints.
\<close>

record Reserve =
  FundsRemaining :: "int option"
  Claimed :: "string \<Rightarrow> int option option"

record SenderInfo =
  si_Deposit :: "int option"
  si_Reserve :: "Reserve option"
  WithdrawRound :: int

record Escrow =
  Claimant :: bytes
  pending :: "(string, int) fmap"

type_synonym sender_info = "bytes \<Rightarrow> go_error + SenderInfo"

definition MinDepositPendingRatio :: int where
  "MinDepositPendingRatio = 3"

definition Escrow_New :: "bytes \<Rightarrow> Escrow" where
  "Escrow_New claimant = \<lparr>Claimant = claimant, pending = fmempty\<rparr>"

definition nilToZero :: "int option \<Rightarrow> int" where
  "nilToZero v = (case v of None \<Rightarrow> 0 | Some i \<Rightarrow> i)"

definition claimedByMe :: "Reserve \<Rightarrow> Escrow \<Rightarrow> int" where
  "claimedByMe r e =
     (if 0 < length (Claimant e) then
        case Claimed r (''0x'' @ hex_encode (Claimant e)) of
          Some (Some v) \<Rightarrow> v | _ \<Rightarrow> 0
      else 0)"

definition reserveAlloc :: "int option \<Rightarrow> SenderInfo \<Rightarrow> Escrow \<Rightarrow> int" where
  "reserveAlloc pool info e =
     (case (si_Reserve info, pool) of
        (Some r, Some p) \<Rightarrow>
          if p = 0 then 0
          else Quo (nilToZero (FundsRemaining r) + claimedByMe r e) p - claimedByMe r e
      | _ \<Rightarrow> 0)"

text \<open>Reading a sender's pending amount creates its entry.\<close>

definition getPendingLocked :: "bytes \<Rightarrow> Escrow \<Rightarrow> Escrow \<times> int" where
  "getPendingLocked sender e =
     (let key = hex_encode sender in
      case fmlookup (pending e) key of
        Some v \<Rightarrow> (e, v)
      | None \<Rightarrow> (e\<lparr>pending := fmupd key 0 (pending e)\<rparr>, 0))"

definition MaxFloat :: "sender_info \<Rightarrow> int option \<Rightarrow> bytes \<Rightarrow> Escrow \<Rightarrow> Escrow \<times> (go_error + int)" where
  "MaxFloat getInfo pool sender e =
     (case getInfo sender of
        Inl err \<Rightarrow> (e, Inl err)
      | Inr info \<Rightarrow>
          let alloc = reserveAlloc pool info e;
              deposit = nilToZero (si_Deposit info);
              (e', pend) = getPendingLocked sender e
          in (e', Inr (if pend = 0 then alloc + deposit
                       else if pend * MinDepositPendingRatio \<le> deposit then alloc + deposit
                       else alloc + deposit - pend)))"

definition AvailableFunds ::
  "sender_info \<Rightarrow> int option \<Rightarrow> bytes \<Rightarrow> Escrow \<Rightarrow> Escrow \<times> (go_error + int)" where
  "AvailableFunds getInfo pool sender e =
     (case getInfo sender of
        Inl err \<Rightarrow> (e, Inl err)
      | Inr info \<Rightarrow>
          let alloc = reserveAlloc pool info e;
              deposit = nilToZero (si_Deposit info);
              (e', pend) = getPendingLocked sender e
          in (e', Inr (alloc + deposit - pend)))"

definition SubFloat :: "bytes \<Rightarrow> int option \<Rightarrow> Escrow \<Rightarrow> Escrow" where
  "SubFloat sender amount e =
     (case amount of
        None \<Rightarrow> e
      | Some a \<Rightarrow>
          if a = 0 then e
          else let (e', p) = getPendingLocked sender e
               in e'\<lparr>pending := fmupd (hex_encode sender) (p + a) (pending e')\<rparr>)"

text \<open>The flag is False for \<open>ErrPendingUnderflow\<close>.\<close>

definition AddFloat :: "bytes \<Rightarrow> int option \<Rightarrow> Escrow \<Rightarrow> Escrow \<times> bool" where
  "AddFloat sender amount e =
     (case amount of
        None \<Rightarrow> (e, True)
      | Some a \<Rightarrow>
          if a = 0 then (e, True)
          else let (e', p) = getPendingLocked sender e in
               if p < a then (e', False)
               else (e'\<lparr>pending := fmupd (hex_encode sender) (p - a) (pending e')\<rparr>, True))"

definition Pending :: "bytes \<Rightarrow> Escrow \<Rightarrow> Escrow \<times> int" where
  "Pending sender e = getPendingLocked sender e"

definition rebuild_one :: "PendingRedemption \<Rightarrow> Escrow \<Rightarrow> Escrow" where
  "rebuild_one p e =
     (case stk_FaceValue (pr_Ticket p) of
        None \<Rightarrow> e
      | Some fv \<Rightarrow>
          let key = hex_encode (stk_Sender (pr_Ticket p));
              v = (case fmlookup (pending e) key of None \<Rightarrow> 0 | Some v \<Rightarrow> v)
          in e\<lparr>pending := fmupd key (v + fv) (pending e)\<rparr>)"

definition Rebuild :: "store \<Rightarrow> Escrow \<Rightarrow> Escrow" where
  "Rebuild st e = fold rebuild_one (PendingRedemptions st) e"

section \<open>Pending amounts\<close>

abbreviation pending_of :: "bytes \<Rightarrow> Escrow \<Rightarrow> int" where
  "pending_of sender e \<equiv> snd (Pending sender e)"

lemma pending_of_def:
  "pending_of sender e = (case fmlookup (pending e) (hex_encode sender) of None \<Rightarrow> 0 | Some v \<Rightarrow> v)"
  by (simp add: Pending_def getPendingLocked_def Let_def split: option.split)

lemma fst_getPendingLocked [simp]:
  "Claimant (fst (getPendingLocked sender e)) = Claimant e"
  "pending_of x (fst (getPendingLocked sender e)) = pending_of x e"
  "fmlookup (pending (fst (getPendingLocked sender e))) (hex_encode sender) = Some (pending_of sender e)"
  by (auto simp: pending_of_def getPendingLocked_def Let_def hex_encode_inj split: option.split)

lemma snd_getPendingLocked [simp]: "snd (getPendingLocked sender e) = pending_of sender e"
  by (simp add: Pending_def)

lemma fst_Pending [simp]: "pending_of x (fst (Pending sender e)) = pending_of x e"
  using fst_getPendingLocked(2) [of x sender e] unfolding Pending_def .

lemma pending_of_upd [simp]:
  "pending_of x (e\<lparr>pending := fmupd (hex_encode sender) v m\<rparr>) =
     (if x = sender then v else (case fmlookup m (hex_encode x) of None \<Rightarrow> 0 | Some v \<Rightarrow> v))"
  by (auto simp: pending_of_def hex_encode_inj)

lemma pending_of_SubFloat [simp]:
  "pending_of x (SubFloat sender a e) = pending_of x e + (if x = sender then nilToZero a else 0)"
  using fst_getPendingLocked(2) [of x sender e, unfolded pending_of_def [of x "fst _"]]
  by (auto simp: SubFloat_def nilToZero_def Let_def case_prod_beta split: option.split)

lemma AddFloat_SubFloat:
  assumes "0 \<le> pending_of sender e"
  shows "pending_of x (fst (AddFloat sender a (SubFloat sender a e))) = pending_of x e"
    and "snd (AddFloat sender a (SubFloat sender a e))"
  using assms fst_getPendingLocked(2) [of x sender "SubFloat sender a e", unfolded pending_of_def [of x "fst _"]]
  by (auto simp: AddFloat_def nilToZero_def Let_def case_prod_beta split: option.split)

lemma fst_AvailableFunds [simp]: "pending_of x (fst (AvailableFunds getInfo pool sender e)) = pending_of x e"
  by (simp add: AvailableFunds_def Let_def case_prod_beta split: sum.split)

section \<open>Sample\<close>

definition sample_info :: sender_info where
  "sample_info sender = Inr \<lparr>si_Deposit = Some 90, si_Reserve = None, WithdrawRound = 0\<rparr>"

end
