(* ===== verification/Settlement.thy ===== *)
theory Settlement
  imports Escrow Ledger_Laws
begin

text \<open>
  The redemption loop of the payee, \<open>payment-daemon/internal/service/settlement/settlement.go\<close>: take
  the oldest winning ticket of the queue, check that redeeming it pays, submit it, and record what
  became of it.

  The chain is a record of what it answers during one attempt: the broker contract, the gas price,
  the protocol round before and after the submission, and the inclusion evidence before and after.
  Errors of the store's file are not modelled; errors the store returns on its arguments are. A nil
  face value or win probability makes the attempt panic, which is the outcome \<open>Panicked\<close>; the
  deferred release of the escrow runs all the same. Rounds are \<open>int64\<close>, and their difference wraps.
\<close>

section \<open>Configuration and environment\<close>

record settlement_config =
  sc_Inclusion :: bool
  RedeemGas :: uint64
  ValidityWindow :: int

definition ChainValidityWindowRounds :: int where
  "ChainValidityWindowRounds = 2"

definition Settlement_New :: "settlement_config \<Rightarrow> settlement_config" where
  "Settlement_New cfg =
     cfg\<lparr>RedeemGas := (if RedeemGas cfg = 0 then 500000 else RedeemGas cfg),
         ValidityWindow := (if ValidityWindow cfg = 0 then ChainValidityWindowRounds else ValidityWindow cfg)\<rparr>"

record chain =
  ch_recovered :: "bytes \<Rightarrow> go_error + RedemptionInclusion option"
  ch_confirmed :: "bytes \<Rightarrow> go_error + RedemptionInclusion option"
  IsUsedTicket :: "bytes \<Rightarrow> go_error + bool"
  GetSenderInfo :: sender_info
  RedeemWinningTicket :: "Ticket \<Rightarrow> bytes \<Rightarrow> int option \<Rightarrow> go_error + bytes"
  GasPrice_Current :: "int option"
  GetTranscoderPoolSize :: "int option"
  LastInitializedRound :: int
  ch_round_after :: int

datatype outcome = Returned "go_error option" | Panicked

type_synonym payee_state = "store \<times> Escrow"

section \<open>Errors\<close>

definition block_hash_gone :: string where
  "block_hash_gone = ''creationRound does not have a block hash''"

definition IsNonRetryable :: "go_error option \<Rightarrow> bool" where
  "IsNonRetryable oerr =
     (case oerr of
        None \<Rightarrow> False
      | Some err \<Rightarrow>
          error_is err ErrTicketUsed \<or> error_is err ErrTicketExpired \<or> error_is err ErrFaceValueTooLow \<or>
          error_is err BrokerErrTicketAlreadyUsed \<or> error_is err BrokerErrRedemptionReverted \<or>
          strings_Contains (Error_Error err) block_hash_gone \<or>
          ErrClass (Classify err) = ClassReverted)"

definition redemptionResultLabel :: "go_error option \<Rightarrow> string" where
  "redemptionResultLabel oerr =
     (case oerr of
        None \<Rightarrow> ''redeemed''
      | Some err \<Rightarrow>
          if error_is err ErrTicketExpired then ''expired''
          else if error_is err ErrTicketUsed then ''already_used''
          else if error_is err ErrFaceValueTooLow then ''face_value_too_low''
          else if error_is err ErrInsufficientFunds then ''insufficient_funds''
          else ''tx_error'')"

text \<open>\<open>fmt.Errorf("...: %w", err)\<close>; a store error is wrapped as a plain message.\<close>

definition wrap_error :: "string \<Rightarrow> go_error \<Rightarrow> go_error" where
  "wrap_error m err = Errorf (m @ '': '' @ Error_Error err) [err]"

definition store_failed :: "string \<Rightarrow> unit store_op \<Rightarrow> payee_state \<Rightarrow> payee_state \<times> outcome" where
  "store_failed m op st =
     (case op (fst st) of
        (s', Inr _) \<Rightarrow> ((s', snd st), Returned None)
      | (s', Inl _) \<Rightarrow> ((s', snd st), Returned (Some (Errorf m []))))"

section \<open>One attempt\<close>

definition expired :: "settlement_config \<Rightarrow> chain \<Rightarrow> StoredTicket \<Rightarrow> bool" where
  "expired cfg ch t \<longleftrightarrow>
     (if LastInitializedRound ch = 0 then False
      else ValidityWindow cfg <
        sint (word_of_int (LastInitializedRound ch - stk_CreationRound t) :: 64 word))"

definition drain :: "int \<Rightarrow> bytes \<Rightarrow> string \<Rightarrow> unit store_op" where
  "drain rnd ticketHash reason s =
     (case find (\<lambda>p. pr_Hash p = ticketHash) (PendingRedemptions s) of
        None \<Rightarrow> (s, Inl (ErrOther ''pending ticket not found''))
      | Some p \<Rightarrow> MarkDrained ticketHash (Some (pr_Ticket p)) rnd reason s)"

definition drained :: "int \<Rightarrow> bytes \<Rightarrow> string \<Rightarrow> go_error \<Rightarrow> payee_state \<Rightarrow> payee_state \<times> outcome" where
  "drained rnd h reason err st = ((fst (drain rnd h reason (fst st)), snd st), Returned (Some err))"

definition broker_ticket :: "StoredTicket \<Rightarrow> Ticket" where
  "broker_ticket t =
     \<lparr>Recipient = stk_Recipient t, Sender = stk_Sender t, FaceValue = stk_FaceValue t,
      WinProb = stk_WinProb t, SenderNonce = stk_SenderNonce t,
      RecipientRandHash = stk_RecipientRandHash t, tk_CreationRound = stk_CreationRound t,
      CreationRoundHash = stk_CreationRoundHash t\<rparr>"

text \<open>The submission, with the face value already reserved as pending.\<close>

definition submit ::
  "settlement_config \<Rightarrow> chain \<Rightarrow> bytes \<Rightarrow> StoredTicket \<Rightarrow> payee_state \<Rightarrow> payee_state \<times> outcome" where
  "submit cfg ch h t st =
     (if stk_WinProb t = None then (st, Panicked)
      else case RedeemWinningTicket ch (broker_ticket t) (stk_Sig t) (stk_RecipientRand t) of
        Inl err \<Rightarrow>
          if error_is err BrokerErrTicketAlreadyUsed
            then drained (ch_round_after ch) h ''used'' (Sentinel ErrTicketUsed) st
          else if strings_Contains (Error_Error err) block_hash_gone
            then drained (ch_round_after ch) h ''expired'' (Sentinel ErrTicketExpired) st
          else if IsNonRetryable (Some err)
            then drained (ch_round_after ch) h ''reverted'' (wrap_error ''redeem'' err) st
          else (st, Returned (Some (wrap_error ''redeem'' err)))
      | Inr txHash \<Rightarrow>
          if sc_Inclusion cfg then
            case ch_confirmed ch h of
              Inl err \<Rightarrow> (st, Returned (Some (wrap_error ''confirm redemption inclusion'' err)))
            | Inr None \<Rightarrow>
                (st, Returned (Some (Errorf ''confirmed transaction has no inclusion evidence'' [])))
            | Inr (Some evidence) \<Rightarrow>
                store_failed ''mark redeemed with inclusion''
                  (MarkRedeemedWithInclusion h (Some t) (Some evidence)) st
          else store_failed ''mark redeemed'' (MarkRedeemed h txHash (Some t) (ch_round_after ch)) st)"

definition redeem ::
  "settlement_config \<Rightarrow> chain \<Rightarrow> bytes \<Rightarrow> StoredTicket \<Rightarrow> payee_state \<Rightarrow> payee_state \<times> outcome" where
  "redeem cfg ch h t st =
     (let txCost = sint (RedeemGas cfg) * (case GasPrice_Current ch of None \<Rightarrow> 0 | Some gp \<Rightarrow> gp) in
      case stk_FaceValue t of
        None \<Rightarrow> (st, Panicked)
      | Some fv \<Rightarrow>
          if fv \<le> txCost
          then drained (LastInitializedRound ch) h ''face_value_too_low'' (Sentinel ErrFaceValueTooLow) st
          else case AvailableFunds (GetSenderInfo ch) (GetTranscoderPoolSize ch) (stk_Sender t) (snd st) of
            (e1, Inl err) \<Rightarrow> ((fst st, e1), Returned (Some (wrap_error ''available funds'' err)))
          | (e1, Inr avail) \<Rightarrow>
              if avail \<le> txCost then ((fst st, e1), Returned (Some (Sentinel ErrInsufficientFunds)))
              else
                let ((s2, e2), out) =
                      submit cfg ch h t (fst st, SubFloat (stk_Sender t) (Some fv) e1)
                in ((s2, fst (AddFloat (stk_Sender t) (Some fv) e2)), out))"

definition attempt ::
  "settlement_config \<Rightarrow> chain \<Rightarrow> PendingRedemption \<Rightarrow> payee_state \<Rightarrow> payee_state \<times> outcome" where
  "attempt cfg ch p st =
     (let h = pr_Hash p; t = pr_Ticket p;
          proceed =
            (if expired cfg ch t
             then drained (LastInitializedRound ch) h ''expired'' (Sentinel ErrTicketExpired) st
             else case IsUsedTicket ch h of
               Inl err \<Rightarrow> (st, Returned (Some (wrap_error ''isUsedTicket'' err)))
             | Inr True \<Rightarrow>
                 drained (LastInitializedRound ch) h ''used'' (Sentinel ErrTicketUsed) st
             | Inr False \<Rightarrow> redeem cfg ch h t st)
      in if sc_Inclusion cfg then
           case ch_recovered ch h of
             Inl err \<Rightarrow> (st, Returned (Some (wrap_error ''recover redemption inclusion'' err)))
           | Inr (Some evidence) \<Rightarrow>
               store_failed ''mark redeemed with inclusion''
                 (MarkRedeemedWithInclusion h (Some t) (Some evidence)) st
           | Inr None \<Rightarrow> proceed
         else proceed)"

text \<open>None: the queue is empty.\<close>

definition RedeemNext ::
  "settlement_config \<Rightarrow> payee_state \<Rightarrow> chain \<Rightarrow> payee_state \<times> (bytes \<times> outcome) option" where
  "RedeemNext cfg st ch =
     (case PendingRedemptions (fst st) of
        [] \<Rightarrow> (st, None)
      | p # _ \<Rightarrow> let (st', out) = attempt cfg ch p st in (st', Some (pr_Hash p, out)))"

section \<open>Terminal errors stay terminal when they are wrapped\<close>

lemma strings_Contains_append: "strings_Contains s sub \<Longrightarrow> strings_Contains (p @ s) sub"
proof (induction p)
  case (Cons c p)
  then show ?case by (cases "p @ s") auto
qed simp

lemma lower_redeem: "strings_ToLower (''redeem: '' @ s) = ''redeem: '' @ strings_ToLower s"
  by (simp add: strings_ToLower_def lower_char_def)

text \<open>None of the patterns tried before a revert can begin inside the prefix.\<close>

lemma contains_after_redeem:
  "c \<notin> set p \<Longrightarrow> strings_Contains (p @ s) (c # sub) \<longleftrightarrow> strings_Contains s (c # sub)"
  by (induction p) auto

definition reverted_text :: "string \<Rightarrow> bool" where
  "reverted_text msg \<longleftrightarrow>
     \<not> strings_Contains msg ''nonce too low'' \<and> \<not> strings_Contains msg ''nonce already used'' \<and>
     \<not> strings_Contains msg ''insufficient funds'' \<and>
     (strings_Contains msg ''execution reverted'' \<or> strings_Contains msg ''vm execution error'')"

lemma class_If: "ErrClass (if p then a else b) = (if p then ErrClass a else ErrClass b)"
  by simp

lemma ErrClass_Wrap [simp]: "ErrClass (Wrap c code msg err) = c"
  by (simp add: Wrap_def)

lemma classify_text_reverted:
  "ErrClass (classify_text err) = ClassReverted \<longleftrightarrow> reverted_text (strings_ToLower (Error_Error err))"
  unfolding classify_text_def Let_def class_If ErrClass_Wrap reverted_text_def
  by (simp del: strings_Contains.simps)

lemma reverted_text_redeem: "reverted_text s \<Longrightarrow> reverted_text (''redeem: '' @ s)"
  unfolding reverted_text_def
  using strings_Contains_append [of s "''execution reverted''" "''redeem: ''"]
    strings_Contains_append [of s "''vm execution error''" "''redeem: ''"]
  by (auto simp: contains_after_redeem simp del: strings_Contains.simps append.simps)

lemma wrap_error_terminal:
  assumes "IsNonRetryable (Some err)"
  shows "IsNonRetryable (Some (wrap_error ''redeem'' err))"
proof -
  have t: "Error_Error (wrap_error ''redeem'' err) = ''redeem: '' @ Error_Error err"
    by (simp add: wrap_error_def)
  have "ErrClass (Classify (wrap_error ''redeem'' err)) = ClassReverted" if "ErrClass (Classify err) = ClassReverted"
  proof (cases "error_as err")
    case (Some x)
    then show ?thesis using that by (simp add: wrap_error_def Classify_def)
  next
    case None
    then have n: "\<not> error_is err EthereumNotFound" "reverted_text (strings_ToLower (Error_Error err))"
      using that classify_text_reverted by (auto simp: Classify_def split: if_splits)
    then have "reverted_text (strings_ToLower (Error_Error (wrap_error ''redeem'' err)))"
      unfolding t lower_redeem using reverted_text_redeem by blast
    moreover have "Classify (wrap_error ''redeem'' err) = classify_text (wrap_error ''redeem'' err)"
      using None n(1) by (simp add: Classify_def wrap_error_def)
    ultimately show ?thesis by (simp add: classify_text_reverted)
  qed
  moreover have "strings_Contains (''redeem: '' @ Error_Error err) block_hash_gone"
    if "strings_Contains (Error_Error err) block_hash_gone"
    using that by (rule strings_Contains_append)
  moreover have "error_is (wrap_error ''redeem'' err) x = error_is err x" for x by (simp add: wrap_error_def)
  ultimately show ?thesis using assms unfolding IsNonRetryable_def option.case t by blast
qed

section \<open>What an attempt does to the queue\<close>

text \<open>Where inclusion is tracked, an attempt goes on only when no earlier inclusion was found.\<close>

definition goes_on :: "settlement_config \<Rightarrow> chain \<Rightarrow> bytes \<Rightarrow> bool" where
  "goes_on cfg ch h \<longleftrightarrow> \<not> sc_Inclusion cfg \<or> ch_recovered ch h = Inr None"

definition tx_cost :: "settlement_config \<Rightarrow> chain \<Rightarrow> int" where
  "tx_cost cfg ch = sint (RedeemGas cfg) * (case GasPrice_Current ch of None \<Rightarrow> 0 | Some gp \<Rightarrow> gp)"

text \<open>The ticket is submitted: it is live and unused, and it and its sender's funds are worth the transaction.\<close>

definition submits :: "settlement_config \<Rightarrow> chain \<Rightarrow> bytes \<Rightarrow> StoredTicket \<Rightarrow> Escrow \<Rightarrow> bool" where
  "submits cfg ch h t e \<longleftrightarrow>
     goes_on cfg ch h \<and> \<not> expired cfg ch t \<and> IsUsedTicket ch h = Inr False \<and> stk_WinProb t \<noteq> None \<and>
     (\<exists>fv avail. stk_FaceValue t = Some fv \<and> tx_cost cfg ch < fv \<and> tx_cost cfg ch < avail \<and>
        snd (AvailableFunds (GetSenderInfo ch) (GetTranscoderPoolSize ch) (stk_Sender t) e) = Inr avail)"

definition submission :: "chain \<Rightarrow> StoredTicket \<Rightarrow> go_error + bytes" where
  "submission ch t = RedeemWinningTicket ch (broker_ticket t) (stk_Sig t) (stk_RecipientRand t)"

text \<open>The chain shows that the ticket can never pay: it expired, it was used, it is worth less than the
  transaction, or its submission was refused for good.\<close>

definition hopeless :: "settlement_config \<Rightarrow> chain \<Rightarrow> bytes \<Rightarrow> StoredTicket \<Rightarrow> Escrow \<Rightarrow> bool" where
  "hopeless cfg ch h t e \<longleftrightarrow>
     goes_on cfg ch h \<and>
     (expired cfg ch t \<or> IsUsedTicket ch h = Inr True \<or>
      IsUsedTicket ch h = Inr False \<and> (\<exists>fv. stk_FaceValue t = Some fv \<and> fv \<le> tx_cost cfg ch) \<or>
      submits cfg ch h t e \<and>
        (\<exists>err. submission ch t = Inl err \<and> IsNonRetryable (Some err)))"

text \<open>The chain vouches for a redemption: inclusion evidence, found before or after the submission, or,
  where inclusion is not tracked, the confirmed transaction.\<close>

definition vouched ::
  "settlement_config \<Rightarrow> chain \<Rightarrow> bytes \<Rightarrow> StoredTicket \<Rightarrow> Escrow \<Rightarrow> bytes \<Rightarrow> int \<Rightarrow> RedemptionInclusion option \<Rightarrow> bool" where
  "vouched cfg ch h t e tx rnd evi \<longleftrightarrow>
     (if sc_Inclusion cfg
      then \<exists>x. evi = Some x \<and> tx = ri_TxHash x \<and> rnd = ri_Round x \<and> length tx = 32 \<and> \<not> isAllZero tx \<and>
             length (BlockHash x) = 32 \<and> 0 < rnd \<and>
             (ch_recovered ch h = Inr (Some x) \<or>
              submits cfg ch h t e \<and> (\<exists>y. submission ch t = Inr y) \<and> ch_confirmed ch h = Inr (Some x))
      else evi = None \<and> submits cfg ch h t e \<and> submission ch t = Inr tx \<and> rnd = ch_round_after ch)"

lemma vouched_unique:
  "vouched cfg ch h t e tx rnd evi \<Longrightarrow> vouched cfg ch h t e tx' rnd' evi' \<Longrightarrow> tx' = tx \<and> rnd' = rnd \<and> evi' = evi"
  by (auto simp: vouched_def submits_def goes_on_def split: if_splits)

lemma vouched_not_hopeless: "vouched cfg ch h t e tx rnd evi \<Longrightarrow> \<not> hopeless cfg ch h t e"
  by (auto simp: vouched_def hopeless_def submits_def goes_on_def split: if_splits)

inductive fate ::
  "settlement_config \<Rightarrow> chain \<Rightarrow> bytes \<Rightarrow> StoredTicket \<Rightarrow> Escrow \<Rightarrow> store \<Rightarrow> store \<Rightarrow> outcome \<Rightarrow> bool"
  for cfg ch h t e s where
  kept: "\<not> hopeless cfg ch h t e \<Longrightarrow> \<nexists>tx rnd evi. vouched cfg ch h t e tx rnd evi \<Longrightarrow> out \<noteq> Returned None \<Longrightarrow>
    fate cfg ch h t e s s out"
| dropped: "hopeless cfg ch h t e \<Longrightarrow> IsNonRetryable (Some err) \<Longrightarrow>
    fate cfg ch h t e s (take_ticket (replicate 32 NUL) t rnd None reason h s) (Returned (Some err))"
| redeemed: "vouched cfg ch h t e tx rnd evi \<Longrightarrow>
    fate cfg ch h t e s (take_ticket tx t rnd evi [] h s) (Returned None)"

lemma drain_takes:
  assumes "redemption_inv s" "(h, t) \<in> set (queue_contents s)"
  shows "fst (drain rnd h reason s) = take_ticket (replicate 32 NUL) t rnd None reason h s"
proof -
  from assms(2) obtain p where p: "p \<in> set (PendingRedemptions s)" "pr_Hash p = h" "pr_Ticket p = t"
    by (auto simp: queue_contents_def)
  have "pr_Ticket q = t" if "q \<in> set (PendingRedemptions s)" "pr_Hash q = h" for q
    using that p queue_contents_distinct [OF assms(1)] by (auto simp: queue_contents_def distinct_map inj_on_def)
  with p show ?thesis
    by (auto simp: drain_def take_ticket_def MarkDrained_def find_None_iff find_Some_iff dest!: nth_mem
        split: option.split)
qed

lemma fate_drained:
  assumes "redemption_inv (fst st)" "(h, t) \<in> set (queue_contents (fst st))" "IsNonRetryable (Some err)"
    and "hopeless cfg ch h t e"
  shows "fate cfg ch h t e (fst st) (fst (fst (drained rnd h reason err st))) (snd (drained rnd h reason err st))"
  using assms fate.dropped [OF assms(4,3)] by (simp add: drained_def drain_takes [of _ h t])

lemma sentinel_terminal [simp]:
  "IsNonRetryable (Some (Sentinel ErrTicketUsed))" "IsNonRetryable (Some (Sentinel ErrTicketExpired))"
  "IsNonRetryable (Some (Sentinel ErrFaceValueTooLow))"
  by (simp_all add: IsNonRetryable_def)

lemma fate_MarkRedeemed:
  assumes "valid_hash h" "\<not> sc_Inclusion cfg" "submits cfg ch h t e" "submission ch t = Inr tx"
    and "r = store_failed m (MarkRedeemed h tx (Some t) (ch_round_after ch)) st"
  shows "fate cfg ch h t e (fst st) (fst (fst r)) (snd r)"
proof -
  have "vouched cfg ch h t e tx (ch_round_after ch) None" using assms by (simp add: vouched_def)
  from fate.redeemed [OF this, of "fst st"] show ?thesis
    using assms(1,5) by (simp add: store_failed_def MarkRedeemed_def markRedeemed_def take_ticket_def valid_hash_def
        db_update_def Let_def)
qed

lemma fate_MarkInclusion:
  assumes "valid_hash h" "sc_Inclusion cfg" "\<not> hopeless cfg ch h t e"
    and "ch_recovered ch h = Inr (Some x) \<or>
      submits cfg ch h t e \<and> (\<exists>y. submission ch t = Inr y) \<and> ch_confirmed ch h = Inr (Some x)"
    and "r = store_failed m (MarkRedeemedWithInclusion h (Some t) (Some x)) st"
  shows "fate cfg ch h t e (fst st) (fst (fst r)) (snd r)"
proof (cases "length (ri_TxHash x) \<noteq> 32 \<or> isAllZero (ri_TxHash x) \<or> length (BlockHash x) \<noteq> 32 \<or> ri_Round x \<le> 0")
  case True
  then have "r = (st, Returned (Some (Errorf m [])))"
    using assms(5) by (simp add: store_failed_def MarkRedeemedWithInclusion_def)
  moreover have "\<nexists>tx rnd evi. vouched cfg ch h t e tx rnd evi"
    using True assms(2,4) by (auto simp: vouched_def submits_def goes_on_def)
  ultimately show ?thesis using fate.kept [OF assms(3)] by simp
next
  case False
  then have "vouched cfg ch h t e (ri_TxHash x) (ri_Round x) (Some x)" using assms(2,4) by (auto simp: vouched_def)
  from fate.redeemed [OF this, of "fst st"] show ?thesis
    using assms(1,5) False
    by (simp add: store_failed_def MarkRedeemedWithInclusion_def markRedeemed_def take_ticket_def valid_hash_def
        db_update_def Let_def)
qed

lemma submit_fate:
  assumes "redemption_inv (fst st)" "(h, t) \<in> set (queue_contents (fst st))" "submits cfg ch h t e"
  shows "fate cfg ch h t e (fst st) (fst (fst (submit cfg ch h t st))) (snd (submit cfg ch h t st))"
proof -
  have h: "valid_hash h" using store_queue.contents_valid [OF assms(1,2)] by simp
  obtain w where w: "stk_WinProb t = Some w" and live: "goes_on cfg ch h" "\<not> expired cfg ch t" "IsUsedTicket ch h = Inr False"
    using assms(3) by (auto simp: submits_def)
  show ?thesis
  proof (cases "submission ch t")
    case (Inl err)
    have n: "\<nexists>tx rnd evi. vouched cfg ch h t e tx rnd evi"
      using Inl live(1) by (auto simp: vouched_def goes_on_def)
    show ?thesis
    proof (cases "IsNonRetryable (Some err)")
      case True
      then have "hopeless cfg ch h t e" using assms(3) live(1) Inl by (auto simp: hopeless_def)
      then show ?thesis
        using fate_drained [OF assms(1,2)] wrap_error_terminal [OF True] True Inl w
        by (simp add: submit_def submission_def)
    next
      case False
      then have "\<not> hopeless cfg ch h t e" using assms(3) live Inl by (auto simp: hopeless_def submits_def)
      moreover have "\<not> error_is err BrokerErrTicketAlreadyUsed" "\<not> strings_Contains (Error_Error err) block_hash_gone"
        using False by (simp_all add: IsNonRetryable_def)
      ultimately show ?thesis using fate.kept [OF _ n] False Inl w by (simp add: submit_def submission_def)
    qed
  next
    case (Inr tx)
    have n: "\<not> hopeless cfg ch h t e" using Inr assms(3) live by (auto simp: hopeless_def submits_def)
    have k: "fate cfg ch h t e s s (Returned (Some err))" if "sc_Inclusion cfg" "\<nexists>x. ch_confirmed ch h = Inr (Some x)" for s err
      using that live(1) by (intro fate.kept [OF n]) (auto simp: vouched_def goes_on_def)
    show ?thesis
      using fate_MarkRedeemed [OF h _ assms(3) Inr] fate_MarkInclusion [OF h _ n] Inr w k assms(3)
      by (auto simp: submit_def submission_def split: sum.split option.split)
  qed
qed

lemma redeem_fate:
  assumes "redemption_inv s" "(h, t) \<in> set (queue_contents s)"
    and "goes_on cfg ch h" "\<not> expired cfg ch t" "IsUsedTicket ch h = Inr False"
  shows "fate cfg ch h t e s (fst (fst (redeem cfg ch h t (s, e)))) (snd (redeem cfg ch h t (s, e)))"
proof -
  have k: "fate cfg ch h t e s s out" if "\<not> submits cfg ch h t e" "out \<noteq> Returned None"
      "\<forall>fv. stk_FaceValue t = Some fv \<longrightarrow> tx_cost cfg ch < fv" for out
    using that assms(3-5) by (intro fate.kept) (auto simp: hopeless_def vouched_def goes_on_def)
  show ?thesis
  proof (cases "stk_FaceValue t")
    case None
    then show ?thesis using k [of Panicked] by (simp add: redeem_def submits_def)
  next
    case (Some fv)
    show ?thesis
    proof (cases "fv \<le> tx_cost cfg ch")
      case True
      with Some assms(3-5) have "hopeless cfg ch h t e" by (auto simp: hopeless_def)
      then show ?thesis
        using True Some fate_drained [of "(s, e)" h t "Sentinel ErrFaceValueTooLow" cfg ch e] assms(1,2)
        by (simp add: redeem_def tx_cost_def)
    next
      case False
      obtain e1 r where av: "AvailableFunds (GetSenderInfo ch) (GetTranscoderPoolSize ch) (stk_Sender t) e = (e1, r)"
        by (metis prod.collapse)
      show ?thesis
      proof (cases "submits cfg ch h t e")
        case True
        then obtain avail where "r = Inr avail" "tx_cost cfg ch < avail" using av by (auto simp: submits_def)
        then show ?thesis
          using False Some av submit_fate [of "(s, SubFloat (stk_Sender t) (Some fv) e1)", OF _ _ True] assms(1,2)
          by (simp add: redeem_def tx_cost_def case_prod_beta)
      next
        case ns: False
        have "stk_WinProb t = None" if "r = Inr avail" "tx_cost cfg ch < avail" for avail
          using ns that False Some av assms(3-5) by (auto simp: submits_def)
        then show ?thesis
          using False Some av k [OF ns]
          by (auto simp: redeem_def tx_cost_def submit_def case_prod_beta split: sum.split)
      qed
    qed
  qed
qed

lemma attempt_fate:
  assumes "redemption_inv s" "(pr_Hash p, pr_Ticket p) \<in> set (queue_contents s)"
  shows "fate cfg ch (pr_Hash p) (pr_Ticket p) e s (fst (fst (attempt cfg ch p (s, e)))) (snd (attempt cfg ch p (s, e)))"
proof -
  let ?h = "pr_Hash p" and ?t = "pr_Ticket p"
  have h: "valid_hash ?h" using store_queue.contents_valid [OF assms] by simp
  note d = fate_drained [of "(s, e)" ?h ?t, unfolded fst_conv, OF assms]
  show ?thesis
  proof (cases "goes_on cfg ch ?h")
    case False
    then obtain r where i: "sc_Inclusion cfg" "ch_recovered ch ?h = r" "r \<noteq> Inr None" by (auto simp: goes_on_def)
    have n: "\<not> hopeless cfg ch ?h ?t e" using False by (simp add: hopeless_def)
    show ?thesis
    proof (cases r)
      case (Inl err)
      then show ?thesis
        using i False by (auto simp: attempt_def vouched_def submits_def intro!: fate.kept [OF n])
    next
      case (Inr oe)
      then obtain x where "ch_recovered ch ?h = Inr (Some x)" using i by auto
      then show ?thesis
        using i(1) fate_MarkInclusion [OF h i(1) n, of x _ _ "(s, e)"] by (simp add: attempt_def)
    qed
  next
    case True
    then have go: "attempt cfg ch p (s, e) =
      (if expired cfg ch ?t then drained (LastInitializedRound ch) ?h ''expired'' (Sentinel ErrTicketExpired) (s, e)
       else case IsUsedTicket ch ?h of
         Inl err \<Rightarrow> ((s, e), Returned (Some (wrap_error ''isUsedTicket'' err)))
       | Inr True \<Rightarrow> drained (LastInitializedRound ch) ?h ''used'' (Sentinel ErrTicketUsed) (s, e)
       | Inr False \<Rightarrow> redeem cfg ch ?h ?t (s, e))"
      by (auto simp: attempt_def goes_on_def Let_def)
    consider (gone) "expired cfg ch ?t \<or> IsUsedTicket ch ?h = Inr True"
      | (unknown) err where "\<not> expired cfg ch ?t" "IsUsedTicket ch ?h = Inl err"
      | (live) "\<not> expired cfg ch ?t" "IsUsedTicket ch ?h = Inr False"
      by (metis sum.exhaust)
    then show ?thesis
    proof cases
      case gone
      with True have "hopeless cfg ch ?h ?t e" by (auto simp: hopeless_def)
      then show ?thesis using gone d by (cases "expired cfg ch ?t") (simp_all add: go)
    next
      case unknown
      with True show ?thesis
        by (simp add: go) (intro fate.kept, auto simp: hopeless_def submits_def vouched_def goes_on_def)
    next
      case live
      with redeem_fate [OF assms True] show ?thesis by (simp add: go)
    qed
  qed
qed

section \<open>One tick of the loop\<close>

lemma RedeemNext_head:
  assumes "queue_contents s = (h, t) # rest"
  obtains p ps where "PendingRedemptions s = p # ps" "pr_Hash p = h" "pr_Ticket p = t"
  using assms by (cases "PendingRedemptions s") (auto simp: queue_contents_def)

text \<open>C11: one tick of the redemption loop. With a consistent queue that has a ticket at its head, the
  tick answers for that ticket, and the chain decides what happens to it. If the chain shows that the
  ticket can never pay, which is that no inclusion was found and it expired, was used, is worth less
  than the transaction, or its submission was refused for good, the ticket leaves the queue with an
  error that \<open>IsNonRetryable\<close> calls terminal, and no round's revenue moves. If the chain vouches for a
  redemption, the ticket leaves the queue with a success, and its face value, and one, are added to
  the revenue of the round that the chain gave and of no other. In every other case, such as a lookup
  that failed, funds that are short or a submission that may succeed later, nothing is stored, the
  ticket is still queued and the answer is not a success. The rest of the queue keeps its order.\<close>

theorem redeem_next_outcome:
  assumes "redemption_inv s" "queue_contents s = (h, t) # rest" "stk_FaceValue t = Some fv"
    and "RoundRevenue r s = Inr (tot, cnt)" "RedeemNext cfg (s, e) ch = ((s', e'), res)"
  shows "\<exists>out. res = Some (h, out) \<and> redemption_inv s' \<and>
    (hopeless cfg ch h t e \<longrightarrow>
       queue_contents s' = rest \<and> is_redeemed s' h \<and> RoundRevenue r s' = Inr (tot, cnt) \<and>
       (\<exists>err. out = Returned (Some err) \<and> IsNonRetryable (Some err))) \<and>
    (\<forall>tx rnd evi. vouched cfg ch h t e tx rnd evi \<longrightarrow>
       queue_contents s' = rest \<and> is_redeemed s' h \<and> out = Returned None \<and>
       (isAllZero (stamp_tx tx) \<or>
        RoundRevenue r s' = Inr (if rnd = r then (tot + fv, cnt + 1) else (tot, cnt)))) \<and>
    (\<not> hopeless cfg ch h t e \<and> (\<nexists>tx rnd evi. vouched cfg ch h t e tx rnd evi) \<longrightarrow> s' = s \<and> out \<noteq> Returned None)"
proof -
  obtain p ps where p: "PendingRedemptions s = p # ps" "pr_Hash p = h" "pr_Ticket p = t"
    using RedeemNext_head [OF assms(2)] .
  have q: "valid_hash h" "\<not> is_redeemed s h"
    using store_queue.contents_valid [OF assms(1), of h t] assms(2) by simp_all
  have taken: "redemption_inv (take_ticket tx t rnd evi reason h s)"
    "queue_contents (take_ticket tx t rnd evi reason h s) = rest"
    "is_redeemed (take_ticket tx t rnd evi reason h s) h"
    "RoundRevenue r (take_ticket tx t rnd evi reason h s) =
       Inr (if \<not> isAllZero (stamp_tx tx) \<and> rnd = r then (tot + fv, cnt + 1) else (tot, cnt))" for tx rnd evi reason
    using store_queue.take_keeps_order [OF assms(1), of "[]" h t rest] store_queue.take_inv [OF assms(1)] assms(2)
      take_ticket_revenue [OF assms(4) q(2,1) assms(3)] q take_ticket_buckets(4) [OF assms(1) q(1)] by simp_all
  obtain out where a: "attempt cfg ch p (s, e) = ((s', e'), out)" "res = Some (h, out)"
    using assms(5) p by (auto simp: RedeemNext_def split: prod.splits)
  have "fate cfg ch h t e s s' out"
    using attempt_fate [of s p cfg ch e] assms(1,2) p(2,3) a(1) by simp
  then show ?thesis
  proof cases
    case kept
    then show ?thesis using a(2) assms(1) by simp
  next
    case (dropped err rnd reason)
    have "\<not> vouched cfg ch h t e tx' rnd' evi'" for tx' rnd' evi'
      using vouched_not_hopeless dropped(3) by blast
    then show ?thesis using dropped a(2) taken [of "replicate 32 NUL" rnd None reason] by simp
  next
    case (redeemed tx rnd evi)
    have "vouched cfg ch h t e tx' rnd' evi' \<longleftrightarrow> tx' = tx \<and> rnd' = rnd \<and> evi' = evi" for tx' rnd' evi'
      using vouched_unique [OF redeemed(3)] redeemed(3) by blast
    moreover have "\<not> hopeless cfg ch h t e" by (rule vouched_not_hopeless [OF redeemed(3)])
    ultimately show ?thesis using redeemed(1,2) a(2) taken [of tx rnd evi "[]"] by simp
  qed
qed

definition sample_chain :: chain where
  "sample_chain =
     \<lparr>ch_recovered = (\<lambda>_. Inr None), ch_confirmed = (\<lambda>_. Inr None), IsUsedTicket = (\<lambda>_. Inr False),
      GetSenderInfo = sample_info, RedeemWinningTicket = (\<lambda>_ _ _. Inr (sample_hash CHR ''x'')),
      GasPrice_Current = None, GetTranscoderPoolSize = None, LastInitializedRound = 4, ch_round_after = 5\<rparr>"

definition sample_config :: settlement_config where
  "sample_config = Settlement_New \<lparr>sc_Inclusion = False, RedeemGas = 0, ValidityWindow = 0\<rparr>"

definition sample_queue :: store where
  "sample_queue = enqueued (sample_hash CHR ''a'') sample_stored Open"

lemma sample_queue_inv: "redemption_inv sample_queue"
  "queue_contents sample_queue = [(sample_hash CHR ''a'', sample_stored)]"
proof -
  have room: "seq_room Open" by (simp add: seq_room_def)
  have h: "valid_hash (sample_hash CHR ''a'')" "fmlookup (redemptions_by_hash Open) (sample_hash CHR ''a'') = None"
    "\<not> is_redeemed Open (sample_hash CHR ''a'')"
    by (simp_all add: valid_hash_def sample_hash_def Open_def is_redeemed_def)
  show "redemption_inv sample_queue"
    unfolding sample_queue_def by (rule redemption_inv_enqueued [OF redemption_inv_Open room h])
  have "queue_contents Open = []"
    by (simp add: queue_contents_def PendingRedemptions_def bucket_entries_def Open_def sorted_list_of_fset.rep_eq)
  then show "queue_contents sample_queue = [(sample_hash CHR ''a'', sample_stored)]"
    unfolding sample_queue_def using queue_contents_enqueued [OF redemption_inv_Open room h] by simp
qed

lemma sample_pending:
  "\<exists>n. PendingRedemptions sample_queue =
     [\<lparr>pr_Seq = n, pr_Ticket = sample_stored, pr_Hash = sample_hash CHR ''a''\<rparr>]"
proof -
  obtain p where "PendingRedemptions sample_queue = [p]" "pr_Hash p = sample_hash CHR ''a''" "pr_Ticket p = sample_stored"
    using sample_queue_inv(2) by (auto simp: queue_contents_def)
  then show ?thesis by (cases p) simp
qed

lemma pending_New [simp]: "pending_of x (Escrow_New c) = 0"
  by (simp add: Escrow_New_def pending_of_def)

lemma sample_submits: "submits sample_config sample_chain h sample_stored (Escrow_New [])"
proof -
  have "\<not> expired sample_config sample_chain sample_stored"
    by (simp add: expired_def sample_config_def sample_chain_def Settlement_New_def sample_stored_def
        ChainValidityWindowRounds_def)
  moreover have "snd (AvailableFunds sample_info None ''payer'' (Escrow_New [])) = Inr 90"
    by (simp add: AvailableFunds_def sample_info_def reserveAlloc_def nilToZero_def Let_def case_prod_beta)
  ultimately show ?thesis
    by (simp add: submits_def goes_on_def tx_cost_def sample_config_def sample_chain_def Settlement_New_def sample_stored_def)
qed

theorem redeem_next_outcome_witness:
  "\<exists>s' e'. RedeemNext sample_config (sample_queue, Escrow_New []) sample_chain =
       ((s', e'), Some (sample_hash CHR ''a'', Returned None)) \<and> redemption_inv s' \<and> queue_contents s' = [] \<and>
     RoundRevenue 5 s' = Inr (5, 1)"
proof -
  obtain s' e' res where r: "RedeemNext sample_config (sample_queue, Escrow_New []) sample_chain = ((s', e'), res)"
    by (metis prod.collapse)
  have f: "stk_FaceValue sample_stored = Some 5" "RoundRevenue 5 sample_queue = Inr (0, 0)"
    by (simp_all add: sample_stored_def RoundRevenue_fmsum sample_queue_def enqueued_def Open_def)
  have v: "vouched sample_config sample_chain (sample_hash CHR ''a'') sample_stored (Escrow_New []) (sample_hash CHR ''x'') 5 None"
    using sample_submits
    by (simp add: vouched_def submission_def) (simp add: sample_config_def Settlement_New_def sample_chain_def)
  have "\<not> isAllZero (stamp_tx (sample_hash CHR ''x''))"
    by (simp add: isAllZero_def stamp_tx_def sample_hash_def list_all_iff eq_byte_of_nat_iff)
  with redeem_next_outcome [OF sample_queue_inv f r] r v show ?thesis by fastforce
qed

section \<open>Pending amounts over the life of the loop\<close>

lemma submit_escrow [simp]: "snd (fst (submit cfg ch h t st)) = snd st"
  by (simp add: submit_def drained_def store_failed_def split: sum.split option.split prod.split)

lemma redeem_pending:
  assumes "0 \<le> pending_of (stk_Sender t) (snd st)"
  shows "pending_of x (snd (fst (redeem cfg ch h t st))) = pending_of x (snd st)"
proof -
  have "pending_of x e1 = pending_of x (snd st)"
    if "AvailableFunds (GetSenderInfo ch) (GetTranscoderPoolSize ch) (stk_Sender t) (snd st) = (e1, r)" for x e1 r
    using fst_AvailableFunds [of x "GetSenderInfo ch" "GetTranscoderPoolSize ch" "stk_Sender t" "snd st"] that by simp
  then show ?thesis
    using assms by (simp add: redeem_def Let_def drained_def case_prod_beta AddFloat_SubFloat split: option.split prod.split sum.split)
qed

lemma RedeemNext_pending:
  assumes "\<forall>x. 0 \<le> pending_of x (snd st)"
  shows "pending_of x (snd (fst (RedeemNext cfg st ch))) = pending_of x (snd st)"
proof -
  have "pending_of x (snd (fst (attempt cfg ch p st))) = pending_of x (snd st)" for p
    using assms redeem_pending [of "pr_Ticket p" st]
    by (simp add: attempt_def Let_def drained_def store_failed_def split: sum.split option.split bool.split prod.split)
  then show ?thesis by (simp add: RedeemNext_def case_prod_beta Let_def split: list.split)
qed

lemma pending_run:
  assumes "\<forall>x. 0 \<le> pending_of x (snd st)"
  shows "pending_of x (snd (run (RedeemNext cfg) st chs)) = pending_of x (snd st)"
  using assms
proof (induction chs arbitrary: st)
  case (Cons ch chs)
  then show ?case using RedeemNext_pending [OF Cons.prems, of _ cfg ch] by simp
qed simp

text \<open>The face value a sender has in the queue.\<close>

definition queued_face :: "bytes \<Rightarrow> store \<Rightarrow> int" where
  "queued_face x s =
     sum_list (map (\<lambda>p. if stk_Sender (pr_Ticket p) = x then nilToZero (stk_FaceValue (pr_Ticket p)) else 0)
       (PendingRedemptions s))"

lemma pending_rebuild_one:
  "pending_of x (rebuild_one p e) =
     pending_of x e + (if stk_Sender (pr_Ticket p) = x then nilToZero (stk_FaceValue (pr_Ticket p)) else 0)"
  by (auto simp: rebuild_one_def pending_of_def nilToZero_def Let_def hex_encode_inj split: option.split)

lemma pending_Rebuild: "pending_of x (Rebuild s e) = pending_of x e + queued_face x s"
proof -
  have "pending_of x (fold rebuild_one ps e) = pending_of x e +
      sum_list (map (\<lambda>p. if stk_Sender (pr_Ticket p) = x then nilToZero (stk_FaceValue (pr_Ticket p)) else 0) ps)" for ps
    by (induction ps arbitrary: e) (simp_all add: pending_rebuild_one)
  then show ?thesis by (simp add: Rebuild_def queued_face_def)
qed

text \<open>C39: what a restart counts as pending is never released. An attempt adds a ticket's face value to
  its sender's pending amount and takes it off again, whatever the outcome. So the amounts that
  \<open>Rebuild\<close> seeds from the queue when the daemon starts stay after any number of ticks with any answers
  of the chain, also when every ticket they stand for has been redeemed, and the sender's available
  funds stay lower by them.\<close>

theorem rebuilt_pending_never_released:
  assumes "\<forall>p \<in> set (PendingRedemptions s). 0 \<le> nilToZero (stk_FaceValue (pr_Ticket p))"
  shows "pending_of x (snd (run (RedeemNext cfg) (s, Rebuild s (Escrow_New c)) chs)) = queued_face x s"
proof -
  have "0 \<le> queued_face y s" for y unfolding queued_face_def using assms by (intro sum_list_nonneg) auto
  then show ?thesis using pending_run [of "(s, Rebuild s (Escrow_New c))" x cfg chs] by (simp add: pending_Rebuild)
qed

lemma sample_tick:
  "fst (fst (RedeemNext sample_config (sample_queue, Rebuild sample_queue (Escrow_New [])) sample_chain)) =
     take_ticket (sample_hash CHR ''x'') sample_stored 5 None [] (sample_hash CHR ''a'') sample_queue"
proof -
  obtain n where n: "PendingRedemptions sample_queue =
      [\<lparr>pr_Seq = n, pr_Ticket = sample_stored, pr_Hash = sample_hash CHR ''a''\<rparr>]" using sample_pending by blast
  let ?e = "Rebuild sample_queue (Escrow_New [])"
  have "\<not> expired sample_config sample_chain sample_stored"
    by (simp add: expired_def sample_config_def sample_chain_def Settlement_New_def sample_stored_def
        ChainValidityWindowRounds_def)
  moreover have "pending_of ''payer'' ?e = 5"
    by (simp add: pending_Rebuild queued_face_def n sample_stored_def nilToZero_def)
  then have "\<exists>e1. AvailableFunds sample_info None ''payer'' ?e = (e1, Inr 85)"
    by (auto simp: AvailableFunds_def sample_info_def reserveAlloc_def nilToZero_def Let_def case_prod_beta)
  ultimately show ?thesis
    by (auto simp: RedeemNext_def n attempt_def redeem_def submit_def sample_chain_def sample_config_def Settlement_New_def
        sample_stored_def store_failed_def MarkRedeemed_def take_ticket_def case_prod_beta Let_def split: sum.split)
qed

theorem rebuilt_pending_never_released_witness:
  "let st = run (RedeemNext sample_config) (sample_queue, Rebuild sample_queue (Escrow_New [])) [sample_chain] in
     queue_contents (fst st) = [] \<and> pending_of ''payer'' (snd st) = 5"
proof -
  obtain n where n: "PendingRedemptions sample_queue =
      [\<lparr>pr_Seq = n, pr_Ticket = sample_stored, pr_Hash = sample_hash CHR ''a''\<rparr>]" using sample_pending by blast
  have "queued_face ''payer'' sample_queue = 5" by (simp add: queued_face_def n sample_stored_def nilToZero_def)
  moreover have "\<forall>p \<in> set (PendingRedemptions sample_queue). 0 \<le> nilToZero (stk_FaceValue (pr_Ticket p))"
    by (simp add: n sample_stored_def nilToZero_def)
  moreover have "queue_contents (take_ticket tx t rnd evi reason (sample_hash CHR ''a'') sample_queue) = []" for tx t rnd evi reason
    using queue_contents_take [OF sample_queue_inv(1)] sample_queue_inv(2) by (simp add: valid_hash_def sample_hash_def)
  ultimately show ?thesis
    using rebuilt_pending_never_released [of sample_queue "''payer''" sample_config "[]" "[sample_chain]"] sample_tick
    by (simp add: Let_def)
qed

end
