(* ===== verification/Wholesale_Store.thy ===== *)
theory Wholesale_Store
  imports Session_Store
begin

text \<open>
  Wholesale accounts and spend authorizations (\<open>internal/store/wholesale.go\<close>), with the two ways an
  authorization is taken out of circulation (\<open>admission_recovery.go\<close>, \<open>unexecuted.go\<close>).

  An account is the ledger of one payer and payee: what was credited, what is reserved for admitted
  authorizations and what has been debited. The variadic \<open>accountID ...string\<close> of the code is the
  string \<open>accountScope\<close> reads from it, empty when there is none.
\<close>

section \<open>Accounts\<close>

definition accountScope :: "string list \<Rightarrow> string" where
  "accountScope ids = (case ids of [] \<Rightarrow> [] | i # _ \<Rightarrow> i)"

definition wholesaleAccountKey :: "bytes \<Rightarrow> bytes \<Rightarrow> string \<Rightarrow> bytes" where
  "wholesaleAccountKey payer payee accountID =
     (if accountID \<noteq> [] then ''v3:'' @ sha256 (payer @ payee @ [NUL] @ accountID)
      else sha256 (payer @ payee))"

definition wholesaleAuthorizationKey :: "bytes \<Rightarrow> string \<Rightarrow> string \<Rightarrow> bytes" where
  "wholesaleAuthorizationKey payer ident accountID =
     (if accountID \<noteq> [] then ''v3:'' @ sha256 (payer @ [NUL] @ ident @ [NUL] @ accountID)
      else sha256 (payer @ [NUL] @ ident))"

definition Account_Available :: "WholesaleAccount \<Rightarrow> int" where
  "Account_Available a =
     parseDecimalBig (wa_CreditedWei a) -
     (parseDecimalBig (wa_ReservedWei a) + parseDecimalBig (wa_DebitedWei a))"

definition Totals_Available :: "WholesaleTotals \<Rightarrow> int" where
  "Totals_Available t =
     parseDecimalBig (wt_CreditedWei t) -
     (parseDecimalBig (wt_ReservedWei t) + parseDecimalBig (wt_DebitedWei t))"

definition loadWholesaleAccount :: "bytes \<Rightarrow> bytes \<Rightarrow> string \<Rightarrow> store \<Rightarrow> WholesaleAccount" where
  "loadWholesaleAccount payer payee accountID s =
     (case fmlookup (wholesale_accounts s) (wholesaleAccountKey payer payee accountID) of
        None \<Rightarrow> \<lparr>wa_WholesaleAccountID = accountID, wa_Payer = payer, wa_Payee = payee,
                  wa_CreditedWei = ''0'', wa_ReservedWei = ''0'', wa_DebitedWei = ''0'',
                  wa_Version = 0, wa_UpdatedAt = 0\<rparr>
      | Some account \<Rightarrow> account)"

text \<open>\<open>adjust\<close> of \<open>putWholesaleAccount\<close>; the zero struct stands for a row or total that is missing.\<close>

definition adjust :: "string \<Rightarrow> string \<Rightarrow> string \<Rightarrow> string" where
  "adjust tot before after =
     big_String (parseDecimalBig tot + (parseDecimalBig after - parseDecimalBig before))"

definition account_key :: "WholesaleAccount \<Rightarrow> bytes" where
  "account_key a = wholesaleAccountKey (wa_Payer a) (wa_Payee a) (wa_WholesaleAccountID a)"

definition putWholesaleAccount :: "WholesaleAccount \<Rightarrow> store \<Rightarrow> store" where
  "putWholesaleAccount account s =
     (let key = account_key account;
          prev = (\<lambda>f. case fmlookup (wholesale_accounts s) key of None \<Rightarrow> [] | Some p \<Rightarrow> f p);
          tot = (\<lambda>f. case wholesale_totals s of None \<Rightarrow> [] | Some t \<Rightarrow> f t);
          totals = \<lparr>
            wt_CreditedWei = adjust (tot wt_CreditedWei) (prev wa_CreditedWei) (wa_CreditedWei account),
            wt_ReservedWei = adjust (tot wt_ReservedWei) (prev wa_ReservedWei) (wa_ReservedWei account),
            wt_DebitedWei = adjust (tot wt_DebitedWei) (prev wa_DebitedWei) (wa_DebitedWei account)\<rparr>
      in s\<lparr>wholesale_totals := Some totals,
           wholesale_accounts := fmupd key account (wholesale_accounts s)\<rparr>)"

definition GetWholesaleAccount :: "bytes \<Rightarrow> bytes \<Rightarrow> string \<Rightarrow> store \<Rightarrow> WholesaleAccount" where
  "GetWholesaleAccount payer payee accountID s = loadWholesaleAccount payer payee accountID s"

definition GetWholesaleTotals :: "store \<Rightarrow> WholesaleTotals" where
  "GetWholesaleTotals s =
     (case wholesale_totals s of
        None \<Rightarrow> \<lparr>wt_CreditedWei = [], wt_ReservedWei = [], wt_DebitedWei = []\<rparr>
      | Some t \<Rightarrow> t)"

definition FundWholesale ::
  "bytes \<Rightarrow> bytes \<Rightarrow> string \<Rightarrow> time \<Rightarrow> string \<Rightarrow> (WholesaleAccount \<times> int) store_op" where
  "FundWholesale payer payee fundingWorkID now accountID s =
     (if length payer \<noteq> 20 \<or> length payee \<noteq> 20 \<or> fundingWorkID = [] then
        (s, Inl (ErrOther ''store: payer, payee, and funding work id are required''))
      else if accountID \<noteq> [] then (s, Inl (ErrOther ''isolated funding requires a durable receipt''))
      else db_update (\<lambda>s.
        let account = loadWholesaleAccount payer payee accountID s;
            key = compositeKey payer fundingWorkID
        in case fmlookup (sessions s) key of
             None \<Rightarrow> Inl ErrNotFound
           | Some session \<Rightarrow>
               let transferred = parseDecimalBig (ss_BalanceWei session) in
               if transferred = 0 then Inr (s, (account, transferred))
               else
                 let account' = account\<lparr>
                       wa_CreditedWei := big_String (parseDecimalBig (wa_CreditedWei account) + transferred),
                       wa_Version := wa_Version account + 1, wa_UpdatedAt := now\<rparr>;
                     s1 = s\<lparr>sessions := fmupd key (session\<lparr>ss_BalanceWei := ''0''\<rparr>) (sessions s)\<rparr>
                 in Inr (putWholesaleAccount account' s1, (account', transferred))) s)"

section \<open>Admission\<close>

record WholesaleAdmissionResult =
  ar_Account :: "WholesaleAccount option"
  ar_Authorization :: "WholesaleAuthorization option"
  ar_Transferred :: int
  ar_Replayed :: bool

definition canceledAdmissionIn :: "bytes \<Rightarrow> store \<Rightarrow> canceledAdmission option" where
  "canceledAdmissionIn key s = fmlookup (canceled_admissions s) key"

text \<open>The authorization an admission writes, in the given state.\<close>

definition authorization_of ::
  "WholesaleAuthorizationSeed \<Rightarrow> authorization_state \<Rightarrow> uint64 \<Rightarrow> string \<Rightarrow> string \<Rightarrow> uint64 \<Rightarrow> time \<Rightarrow>
   WholesaleAuthorization" where
  "authorization_of seed state actual billed reserved seq now =
     \<lparr>au_WholesaleAccountID = sd_WholesaleAccountID seed, au_ID = sd_ID seed,
      au_Fingerprint = sd_Fingerprint seed, au_Payer = sd_Payer seed, au_Payee = sd_Payee seed,
      au_RequestID = sd_RequestID seed, au_SessionID = sd_SessionID seed,
      au_Protocol = sd_Protocol seed, au_Capability = sd_Capability seed,
      au_Offering = sd_Offering seed, au_PriceWei = sd_PriceWei seed, au_PerUnits = sd_PerUnits seed,
      au_WorkUnit = sd_WorkUnit seed, au_MaxDebitWei = sd_MaxDebitWei seed,
      au_MaxTotalUnits = sd_MaxTotalUnits seed, au_State = state, au_ActualUnits = actual,
      au_BilledWei = billed, au_ReleasedWei = [], au_ReservedWei = reserved,
      au_SettlementSeq = seq, au_ExpiresAt = sd_ExpiresAt seed, au_UpdatedAt = now,
      au_Revision = sd_Revision seed, au_PredecessorID = sd_PredecessorID seed\<rparr>"

text \<open>Moving a positive session balance into the account, as \<open>AdmitWholesale\<close> and
  \<open>AdvanceWholesale\<close> do: the account is changed in memory only.\<close>

definition migrate_balance ::
  "bytes \<Rightarrow> string \<Rightarrow> string \<Rightarrow> WholesaleAccount \<Rightarrow> store \<Rightarrow>
   store_error + store \<times> WholesaleAccount \<times> int" where
  "migrate_balance payer accountID fundingWorkID account s =
     (if fundingWorkID = [] then Inr (s, account, 0)
      else if accountID \<noteq> [] then
        Inl (ErrOther ''isolated funding requires a durable funding receipt'')
      else case fmlookup (sessions s) (compositeKey payer fundingWorkID) of
        None \<Rightarrow> Inl ErrNotFound
      | Some session \<Rightarrow>
          let balance = parseDecimalBig (ss_BalanceWei session) in
          if 0 < balance then
            Inr (s\<lparr>sessions := fmupd (compositeKey payer fundingWorkID)
                     (session\<lparr>ss_BalanceWei := ''0''\<rparr>) (sessions s)\<rparr>,
                 account\<lparr>wa_CreditedWei :=
                   big_String (parseDecimalBig (wa_CreditedWei account) + balance)\<rparr>,
                 balance)
          else Inr (s, account, 0))"

text \<open>The predecessor that a revision names, with its key.\<close>

definition admit_predecessor ::
  "WholesaleAuthorizationSeed \<Rightarrow> store \<Rightarrow> store_error + (bytes \<times> WholesaleAuthorization) option" where
  "admit_predecessor seed s =
     (if sd_PredecessorID seed = [] then Inr None
      else
        let predKey = wholesaleAuthorizationKey (sd_Payer seed) (sd_PredecessorID seed)
              (sd_WholesaleAccountID seed)
        in case fmlookup (spend_authorizations s) predKey of
             None \<Rightarrow> Inl ErrAuthorizationNotFound
           | Some pred \<Rightarrow>
               if au_State pred \<noteq> AuthorizationAdmitted \<or> au_SessionID pred = [] \<or>
                  au_SessionID pred \<noteq> sd_SessionID seed \<or> au_Protocol pred \<noteq> sd_Protocol seed \<or>
                  au_Capability pred \<noteq> sd_Capability seed \<or> au_Offering pred \<noteq> sd_Offering seed \<or>
                  au_PriceWei pred \<noteq> sd_PriceWei seed \<or> au_PerUnits pred \<noteq> sd_PerUnits seed \<or>
                  au_WorkUnit pred \<noteq> sd_WorkUnit seed \<or> sd_Revision seed \<le> au_Revision pred
               then Inl ErrRevisionPredecessor
               else if sd_MaxTotalUnits seed < au_ActualUnits pred \<or>
                       parseDecimalBig (sd_MaxDebitWei seed) < parseDecimalBig (au_BilledWei pred)
               then Inl ErrRevisionLimits
               else Inr (Some (predKey, pred)))"

definition supersede :: "WholesaleAuthorization \<Rightarrow> time \<Rightarrow> WholesaleAuthorization" where
  "supersede pred now = pred\<lparr>
     au_State := AuthorizationSuperseded, au_ReservedWei := ''0'',
     au_ReleasedWei := big_String (parseDecimalBig (au_ReleasedWei pred) + parseDecimalBig (au_ReservedWei pred)),
     au_UpdatedAt := now\<rparr>"

text \<open>The decision and the writes of an admission, once the session balance has been migrated and the
  predecessor found. The second component of the answer is the code's flag \<open>insufficient\<close>.\<close>

definition admit_reserve ::
  "WholesaleAuthorizationSeed \<Rightarrow> int option \<Rightarrow> time \<Rightarrow> WholesaleAccount \<Rightarrow> int \<Rightarrow>
   (bytes \<times> WholesaleAuthorization) option \<Rightarrow> (WholesaleAdmissionResult \<times> bool) store_tx" where
  "admit_reserve seed reservation0 now account transferred opred s =
     (let maxDebit = parseDecimalBig (sd_MaxDebitWei seed);
          inheritedUnits = (case opred of None \<Rightarrow> 0 | Some (_, pred) \<Rightarrow> au_ActualUnits pred);
          inheritedSeq = (case opred of None \<Rightarrow> 0 | Some (_, pred) \<Rightarrow> au_SettlementSeq pred);
          inheritedBilled = (case opred of None \<Rightarrow> 0 | Some (_, pred) \<Rightarrow> parseDecimalBig (au_BilledWei pred));
          oldReserve = (case opred of None \<Rightarrow> 0 | Some (_, pred) \<Rightarrow> parseDecimalBig (au_ReservedWei pred));
          reservation = (case reservation0 of
              None \<Rightarrow> maxDebit - inheritedBilled
            | Some r \<Rightarrow> if r = 0 then maxDebit - inheritedBilled else r)
      in
      if reservation < 0 \<or> maxDebit - inheritedBilled < reservation then Inl ErrReservationExceedsRemaining
      else if Account_Available account + oldReserve < reservation then
        let account' = (if 0 < transferred
              then account\<lparr>wa_Version := wa_Version account + 1, wa_UpdatedAt := now\<rparr> else account)
        in Inr (if 0 < transferred then putWholesaleAccount account' s else s,
                (\<lparr>ar_Account = Some account', ar_Authorization = None, ar_Transferred = transferred,
                  ar_Replayed = False\<rparr>, True))
      else
        let reserved1 = (case opred of
                None \<Rightarrow> wa_ReservedWei account
              | Some _ \<Rightarrow> big_String (parseDecimalBig (wa_ReservedWei account) - oldReserve));
            s1 = (case opred of
                None \<Rightarrow> s
              | Some (predKey, pred) \<Rightarrow>
                  s\<lparr>spend_authorizations := fmupd predKey (supersede pred now) (spend_authorizations s)\<rparr>);
            account' = account\<lparr>
              wa_ReservedWei := big_String (parseDecimalBig reserved1 + reservation),
              wa_Version := wa_Version account + 1, wa_UpdatedAt := now\<rparr>;
            auth = authorization_of seed AuthorizationAdmitted inheritedUnits (big_String inheritedBilled)
              (big_String reservation) inheritedSeq now;
            authKey = wholesaleAuthorizationKey (sd_Payer seed) (sd_ID seed) (sd_WholesaleAccountID seed);
            s2 = s1\<lparr>spend_authorizations := fmupd authKey auth (spend_authorizations s1)\<rparr>
        in Inr (putWholesaleAccount account' s2,
                (\<lparr>ar_Account = Some account', ar_Authorization = Some auth, ar_Transferred = transferred,
                  ar_Replayed = False\<rparr>, False)))"

definition admit_body ::
  "WholesaleAuthorizationSeed \<Rightarrow> string \<Rightarrow> int option \<Rightarrow> time \<Rightarrow>
   (WholesaleAdmissionResult \<times> bool) store_tx" where
  "admit_body seed fundingWorkID reservation now s =
     (let authKey = wholesaleAuthorizationKey (sd_Payer seed) (sd_ID seed) (sd_WholesaleAccountID seed);
          account = loadWholesaleAccount (sd_Payer seed) (sd_Payee seed) (sd_WholesaleAccountID seed) s
      in case canceledAdmissionIn authKey s of
        Some fence \<Rightarrow>
          Inl (if ca_Fingerprint fence \<noteq> sd_Fingerprint seed then ErrAuthorizationFingerprint
               else ErrAuthorizationCanceled)
      | None \<Rightarrow>
          if fmlookup (unexecuted_fences s) authKey \<noteq> None then Inl ErrAuthorizationState
          else (case fmlookup (spend_authorizations s) authKey of
            Some existing \<Rightarrow>
              if au_Fingerprint existing \<noteq> sd_Fingerprint seed then Inl ErrAuthorizationFingerprint
              else Inr (s, (\<lparr>ar_Account = Some account, ar_Authorization = Some existing,
                             ar_Transferred = 0, ar_Replayed = True\<rparr>, False))
          | None \<Rightarrow>
              if \<not> now < sd_ExpiresAt seed then
                let auth = authorization_of seed AuthorizationExpiredUnused 0 [] [] 0 now in
                Inr (s\<lparr>spend_authorizations := fmupd authKey auth (spend_authorizations s)\<rparr>,
                     (\<lparr>ar_Account = Some account, ar_Authorization = Some auth,
                       ar_Transferred = 0, ar_Replayed = False\<rparr>, False))
              else
                sum_bind (migrate_balance (sd_Payer seed) (sd_WholesaleAccountID seed) fundingWorkID account s)
                  (\<lambda>(s1, account1, transferred).
                    sum_bind (admit_predecessor seed s1) (\<lambda>opred.
                      admit_reserve seed reservation now account1 transferred opred s1))))"

text \<open>An admission that finds too little value commits the migration of the session balance and
  reports the account together with the error.\<close>

definition AdmitWholesale ::
  "WholesaleAuthorizationSeed \<Rightarrow> string \<Rightarrow> int option \<Rightarrow> time \<Rightarrow> store \<Rightarrow>
   store \<times> (store_error \<times> WholesaleAdmissionResult option + WholesaleAdmissionResult)" where
  "AdmitWholesale seed fundingWorkID reservation now s =
     (if sd_ID seed = [] \<or> length (sd_Payer seed) \<noteq> 20 \<or> length (sd_Payee seed) \<noteq> 20 then
        (s, Inl (ErrOther ''store: authorization id and 20-byte principals are required'', None))
      else case db_update (admit_body seed fundingWorkID reservation now) s of
        (s', Inl e) \<Rightarrow> (s', Inl (e, None))
      | (s', Inr (res, insufficient)) \<Rightarrow>
          (s', if insufficient then Inl (ErrInsufficientWholesale, Some res) else Inr res))"

section \<open>Advance\<close>

record WholesaleAdvanceResult =
  vr_Account :: WholesaleAccount
  vr_Authorization :: WholesaleAuthorization
  vr_BilledDelta :: int
  vr_Transferred :: int
  vr_Replayed :: bool

definition advance_history_key :: "bytes \<Rightarrow> string \<Rightarrow> string \<Rightarrow> uint64 \<Rightarrow> bytes" where
  "advance_history_key payer ident accountID advanceSeq =
     wholesaleAuthorizationKey payer ident accountID @ [NUL] @ be_bytes 8 (unat advanceSeq)"

text \<open>The checks and writes of an advance that is not a replay, on the account with the session
  balance already migrated.\<close>

definition advance_apply ::
  "bytes \<Rightarrow> string \<Rightarrow> string \<Rightarrow> uint64 \<Rightarrow> int \<Rightarrow> uint64 \<Rightarrow> time \<Rightarrow> WholesaleAuthorization \<Rightarrow>
   WholesaleAccount \<Rightarrow> int \<Rightarrow> WholesaleAdvanceResult store_tx" where
  "advance_apply payer ident accountID cumulativeUnits targetReserved advanceSeq now auth account transferred s =
     (let newBilled = BillFor (Some (parseDecimalBig (au_PriceWei auth))) (au_PerUnits auth) cumulativeUnits;
          oldBilled = parseDecimalBig (au_BilledWei auth);
          maxDebit = parseDecimalBig (au_MaxDebitWei auth);
          delta = newBilled - oldBilled;
          remaining = maxDebit - newBilled;
          oldReserved = parseDecimalBig (au_ReservedWei auth)
      in
      if newBilled < oldBilled \<or> maxDebit < newBilled then Inl ErrAuthorizationState
      else if remaining < targetReserved then Inl ErrAuthorizationState
      else if Account_Available account + oldReserved < delta + targetReserved
        then Inl ErrInsufficientWholesale
      else
        let account' = account\<lparr>
              wa_ReservedWei := big_String (parseDecimalBig (wa_ReservedWei account) - oldReserved + targetReserved),
              wa_DebitedWei := big_String (parseDecimalBig (wa_DebitedWei account) + delta),
              wa_Version := wa_Version account + 1, wa_UpdatedAt := now\<rparr>;
            auth' = auth\<lparr>au_ActualUnits := cumulativeUnits, au_BilledWei := big_String newBilled,
              au_ReservedWei := big_String targetReserved, au_SettlementSeq := advanceSeq,
              au_UpdatedAt := now\<rparr>;
            s1 = putWholesaleAccount account' (s\<lparr>spend_authorizations :=
              fmupd (wholesaleAuthorizationKey payer ident accountID) auth' (spend_authorizations s)\<rparr>)
        in Inr (s1\<lparr>wholesale_advance_history :=
                  fmupd (advance_history_key payer ident accountID advanceSeq) auth'
                    (wholesale_advance_history s1)\<rparr>,
                \<lparr>vr_Account = account', vr_Authorization = auth', vr_BilledDelta = delta,
                 vr_Transferred = transferred, vr_Replayed = False\<rparr>))"

definition AdvanceWholesale ::
  "bytes \<Rightarrow> bytes \<Rightarrow> string \<Rightarrow> uint64 \<Rightarrow> int option \<Rightarrow> uint64 \<Rightarrow> string \<Rightarrow> time \<Rightarrow> string \<Rightarrow>
   WholesaleAdvanceResult store_op" where
  "AdvanceWholesale payer payee ident cumulativeUnits otarget advanceSeq fundingWorkID now accountID s =
     (case otarget of
        None \<Rightarrow> (s, Inl ErrAuthorizationState)
      | Some targetReserved \<Rightarrow>
        if advanceSeq = 0 \<or> targetReserved < 0 then (s, Inl ErrAuthorizationState)
        else db_update (\<lambda>s.
          let account = loadWholesaleAccount payer payee accountID s;
              replay = (\<lambda>auth. Inr (s, \<lparr>vr_Account = account, vr_Authorization = auth,
                vr_BilledDelta = 0, vr_Transferred = 0, vr_Replayed = True\<rparr>))
          in case fmlookup (wholesale_advance_history s) (advance_history_key payer ident accountID advanceSeq) of
            Some previous \<Rightarrow>
              if au_Payee previous \<noteq> payee \<or> au_ActualUnits previous \<noteq> cumulativeUnits \<or>
                 au_ReservedWei previous \<noteq> big_String targetReserved \<or> au_SettlementSeq previous \<noteq> advanceSeq
              then Inl ErrAuthorizationSettlement
              else replay previous
          | None \<Rightarrow>
            (case fmlookup (spend_authorizations s) (wholesaleAuthorizationKey payer ident accountID) of
               None \<Rightarrow> Inl ErrAuthorizationNotFound
             | Some auth \<Rightarrow>
                 if au_Payee auth \<noteq> payee \<or> au_State auth \<noteq> AuthorizationAdmitted \<or>
                    au_MaxTotalUnits auth < cumulativeUnits
                 then Inl ErrAuthorizationState
                 else if \<not> now < au_ExpiresAt auth then Inl ErrAuthorizationState
                 else if advanceSeq < au_SettlementSeq auth then Inl ErrAuthorizationSettlement
                 else if advanceSeq = au_SettlementSeq auth then
                   if cumulativeUnits \<noteq> au_ActualUnits auth \<or>
                      targetReserved \<noteq> parseDecimalBig (au_ReservedWei auth)
                   then Inl ErrAuthorizationSettlement
                   else replay auth
                 else
                   sum_bind (migrate_balance payer accountID fundingWorkID account s)
                     (\<lambda>(s1, account1, transferred).
                       advance_apply payer ident accountID cumulativeUnits targetReserved advanceSeq now
                         auth account1 transferred s1))) s)"

section \<open>Settlement\<close>

record WholesaleSettlementResult =
  tr_Account :: WholesaleAccount
  tr_Authorization :: WholesaleAuthorization
  tr_Billed :: int
  tr_Released :: int
  tr_Replayed :: bool

definition SettleWholesale ::
  "bytes \<Rightarrow> bytes \<Rightarrow> string \<Rightarrow> uint64 \<Rightarrow> uint64 \<Rightarrow> time \<Rightarrow> string \<Rightarrow> WholesaleSettlementResult store_op" where
  "SettleWholesale payer payee ident actualUnits settlementSeq now accountID = db_update (\<lambda>s.
     let key = wholesaleAuthorizationKey payer ident accountID;
         account = loadWholesaleAccount payer payee accountID s
     in case fmlookup (spend_authorizations s) key of
       None \<Rightarrow> Inl ErrAuthorizationNotFound
     | Some auth \<Rightarrow>
         if au_Payee auth \<noteq> payee then Inl ErrAuthorizationNotFound
         else if au_State auth = AuthorizationSettled then
           if au_ActualUnits auth \<noteq> actualUnits \<or> au_SettlementSeq auth \<noteq> settlementSeq
           then Inl ErrAuthorizationSettlement
           else Inr (s, \<lparr>tr_Account = account, tr_Authorization = auth,
                  tr_Billed = parseDecimalBig (au_BilledWei auth),
                  tr_Released = parseDecimalBig (au_ReleasedWei auth), tr_Replayed = True\<rparr>)
         else if au_State auth \<noteq> AuthorizationAdmitted \<or> au_MaxTotalUnits auth < actualUnits
           then Inl ErrAuthorizationState
         else if settlementSeq \<le> au_SettlementSeq auth then Inl ErrAuthorizationSettlement
         else
           let billed = BillFor (Some (parseDecimalBig (au_PriceWei auth))) (au_PerUnits auth) actualUnits;
               priorBilled = parseDecimalBig (au_BilledWei auth);
               billedDelta = billed - priorBilled;
               released = parseDecimalBig (au_ReservedWei auth)
           in
           if parseDecimalBig (au_MaxDebitWei auth) < billed then Inl ErrAuthorizationState
           else if billed < priorBilled then Inl ErrAuthorizationState
           else if released < billedDelta then Inl ErrAuthorizationState
           else
             let account' = account\<lparr>
                   wa_ReservedWei := big_String (parseDecimalBig (wa_ReservedWei account) - released),
                   wa_DebitedWei := big_String (parseDecimalBig (wa_DebitedWei account) + billedDelta),
                   wa_Version := wa_Version account + 1, wa_UpdatedAt := now\<rparr>;
                 auth' = auth\<lparr>au_State := AuthorizationSettled, au_ActualUnits := actualUnits,
                   au_SettlementSeq := settlementSeq, au_BilledWei := big_String billed,
                   au_ReleasedWei := big_String (released - billedDelta), au_ReservedWei := ''0'',
                   au_UpdatedAt := now\<rparr>
             in Inr (putWholesaleAccount account'
                       (s\<lparr>spend_authorizations := fmupd key auth' (spend_authorizations s)\<rparr>),
                     \<lparr>tr_Account = account', tr_Authorization = auth', tr_Billed = billed,
                      tr_Released = released - billedDelta, tr_Replayed = False\<rparr>))"

section \<open>Reading an authorization\<close>

definition zero_authorization :: WholesaleAuthorization where
  "zero_authorization =
     \<lparr>au_WholesaleAccountID = [], au_ID = [], au_Fingerprint = [], au_Payer = [], au_Payee = [],
      au_RequestID = [], au_SessionID = [], au_Protocol = [], au_Capability = [], au_Offering = [],
      au_PriceWei = [], au_PerUnits = 0, au_WorkUnit = [], au_MaxDebitWei = [], au_MaxTotalUnits = 0,
      au_State = UnknownState [], au_ActualUnits = 0, au_BilledWei = [], au_ReleasedWei = [],
      au_ReservedWei = [], au_SettlementSeq = 0, au_ExpiresAt = 0, au_UpdatedAt = 0,
      au_Revision = 0, au_PredecessorID = []\<rparr>"

definition GetWholesaleAuthorization ::
  "bytes \<Rightarrow> string \<Rightarrow> string \<Rightarrow> store \<Rightarrow> store_error + WholesaleAuthorization" where
  "GetWholesaleAuthorization payer ident accountID s =
     (let key = wholesaleAuthorizationKey payer ident accountID in
      case fmlookup (spend_authorizations s) key of
        Some auth \<Rightarrow> Inr auth
      | None \<Rightarrow>
          (case canceledAdmissionIn key s of
             Some fence \<Rightarrow>
               Inr (zero_authorization\<lparr>au_WholesaleAccountID := accountID, au_Payee := ca_Payee fence,
                 au_ID := ident, au_Payer := payer, au_Fingerprint := ca_Fingerprint fence,
                 au_State := AuthorizationCanceledUnused, au_UpdatedAt := ca_At fence\<rparr>)
           | None \<Rightarrow> Inl ErrAuthorizationNotFound))"

section \<open>Cancellation and unexecuted authorizations\<close>

text \<open>\<open>identity.ValidWholesaleAccountID\<close>.\<close>

definition ValidWholesaleAccountID :: "string \<Rightarrow> bool" where
  "ValidWholesaleAccountID s \<longleftrightarrow>
     \<not> (length s = 0 \<or> 128 < length s) \<and>
     list_all (\<lambda>c. byte_in 97 122 c \<or> byte_in 65 90 c \<or> byte_in 48 57 c \<or>
       c = CHR ''.'' \<or> c = CHR ''_'' \<or> c = CHR '':'' \<or> c = CHR ''-'') s"

definition CancelAuthorizationAdmission ::
  "bytes \<Rightarrow> bytes \<Rightarrow> string \<Rightarrow> bytes \<Rightarrow> string \<Rightarrow> time \<Rightarrow> (WholesaleAdmissionResult \<times> bool) store_op" where
  "CancelAuthorizationAdmission payer payee ident fingerprint accountID now s =
     (if \<not> ValidWholesaleAccountID accountID \<or> length payer \<noteq> 20 \<or> length payee \<noteq> 20 \<or> ident = [] \<or>
         length fingerprint \<noteq> 32
      then (s, Inl (ErrOther ''invalid admission cancellation identity''))
      else db_update (\<lambda>s.
        let key = wholesaleAuthorizationKey payer ident accountID;
            account = loadWholesaleAccount payer payee accountID s;
            result = (\<lambda>auth. \<lparr>ar_Account = Some account, ar_Authorization = auth,
              ar_Transferred = 0, ar_Replayed = False\<rparr>)
        in case fmlookup (spend_authorizations s) key of
          Some auth \<Rightarrow>
            if au_Payee auth \<noteq> payee \<or> au_Fingerprint auth \<noteq> fingerprint then Inl ErrAuthorizationFingerprint
            else Inr (s, (result (Some auth), False))
        | None \<Rightarrow>
            (case canceledAdmissionIn key s of
               Some prior \<Rightarrow>
                 if ca_Fingerprint prior \<noteq> fingerprint then Inl ErrAuthorizationFingerprint
                 else Inr (s, (result None, True))
             | None \<Rightarrow>
                 Inr (s\<lparr>canceled_admissions := fmupd key
                        \<lparr>ca_Payee = payee, ca_Fingerprint = fingerprint, ca_At = now\<rparr>
                        (canceled_admissions s)\<rparr>, (result None, True)))) s)"

definition CloseUnexecutedAuthorization ::
  "bytes \<Rightarrow> bytes \<Rightarrow> string \<Rightarrow> string \<Rightarrow> string \<Rightarrow> time \<Rightarrow> unit store_op" where
  "CloseUnexecutedAuthorization payer payee ident reason accountID now s =
     (if length payer \<noteq> 20 \<or> length payee \<noteq> 20 \<or> ident = [] \<or> reason = []
      then (s, Inl (ErrOther ''unexecuted authorization identity and reason required''))
      else db_update (\<lambda>s.
        let key = wholesaleAuthorizationKey payer ident accountID;
            account = loadWholesaleAccount payer payee accountID s;
            fence = (\<lambda>s. s\<lparr>unexecuted_fences := fmupd key \<lparr>uf_Reason = reason, uf_At = now\<rparr>
              (unexecuted_fences s)\<rparr>)
        in
        if fmlookup (unexecuted_fences s) key \<noteq> None then Inr (s, ())
        else case fmlookup (spend_authorizations s) key of
          None \<Rightarrow> Inr (fence s, ())
        | Some auth \<Rightarrow>
            if au_Payee auth \<noteq> payee \<or> au_ActualUnits auth \<noteq> 0 \<or> parseDecimalBig (au_BilledWei auth) \<noteq> 0
            then Inl (ErrOther ''authorization has usage or inconsistent identity; cannot classify as unexecuted'')
            else if au_State auth = AuthorizationAdmitted then
              let released = parseDecimalBig (au_ReservedWei auth) in
              if released < 0 \<or> parseDecimalBig (wa_ReservedWei account) < released \<or>
                 au_SettlementSeq auth = - 1
              then Inl ErrAuthorizationState
              else
                let account' = account\<lparr>
                      wa_ReservedWei := big_String (parseDecimalBig (wa_ReservedWei account) - released),
                      wa_Version := wa_Version account + 1, wa_UpdatedAt := now\<rparr>;
                    auth' = auth\<lparr>au_State := AuthorizationSettled, au_BilledWei := ''0'',
                      au_ReservedWei := ''0'', au_ReleasedWei := big_String released,
                      au_SettlementSeq := au_SettlementSeq auth + 1, au_UpdatedAt := now\<rparr>
                in Inr (fence (putWholesaleAccount account'
                     (s\<lparr>spend_authorizations := fmupd key auth' (spend_authorizations s)\<rparr>)), ())
            else if au_State auth \<noteq> AuthorizationSettled \<and> au_State auth \<noteq> AuthorizationExpiredUnused \<and>
                    au_State auth \<noteq> AuthorizationSuperseded
              then Inl ErrAuthorizationState
            else Inr (fence s, ())) s)"

end
