(* ===== verification/Funding_Store.thy ===== *)
theory Funding_Store
  imports Wholesale_Store Redemption_Store
begin

text \<open>
  Funding a wholesale account with tickets (\<open>internal/store/funding.go\<close>), the one-way fence of a
  ledger that is being drained (\<open>source_fence.go\<close>), and the identities a database is given once:
  its settlement domain (\<open>settlement_domain.go\<close>) and the sender's ticket stream (\<open>isolation.go\<close>).

  One call of \<open>ApplyWholesaleFunding\<close> records every nonce, queues every winner, credits the account
  and writes the receipt in one transaction. The 32 bytes \<open>crypto/rand\<close> returns are an argument of
  the operations that draw them.
\<close>

section \<open>Funding\<close>

record FundingTicket =
  ft_Nonce :: uint32
  ft_Credit :: "int option"
  ft_Winner :: "StoredTicket option"
  ft_Hash :: bytes

text \<open>\<open>r.Account == nil || ...\<close>: the receipt is not the one of this account.\<close>

definition receipt_mismatch :: "bytes \<Rightarrow> bytes \<Rightarrow> string \<Rightarrow> FundingReceipt \<Rightarrow> bool" where
  "receipt_mismatch payer payee accountID r \<longleftrightarrow>
     (case fr_Account r of
        None \<Rightarrow> True
      | Some a \<Rightarrow> wa_Payer a \<noteq> payer \<or> wa_Payee a \<noteq> payee \<or> wa_WholesaleAccountID a \<noteq> accountID)"

definition GetFundingReceipt ::
  "bytes \<Rightarrow> bytes \<Rightarrow> string \<Rightarrow> string \<Rightarrow> store \<Rightarrow> store_error + FundingReceipt" where
  "GetFundingReceipt payer payee accountID fundingID s =
     (case fmlookup (wholesale_funding_receipts s) fundingID of
        None \<Rightarrow> Inl ErrNotFound
      | Some r \<Rightarrow> if receipt_mismatch payer payee accountID r then Inl ErrSenderMismatch else Inr r)"

text \<open>The loop over the tickets, with the credit accumulated so far.\<close>

fun fund_tickets :: "int \<Rightarrow> int \<Rightarrow> FundingTicket list \<Rightarrow> int store_tx" where
  "fund_tickets rand credit [] s = Inr (s, credit)"
| "fund_tickets rand credit (t # ts) s =
     (case ft_Credit t of
        None \<Rightarrow> Inl (ErrOther ''invalid credit'')
      | Some c \<Rightarrow>
          if c \<le> 0 then Inl (ErrOther ''invalid credit'')
          else sum_bind (recordNonce (Some rand) (ft_Nonce t) s) (\<lambda>(s1, _).
            sum_bind
              (case ft_Winner t of
                 None \<Rightarrow> Inr (s1, False)
               | Some w \<Rightarrow> enqueueRedemption (ft_Hash t) w s1)
              (\<lambda>(s2, _). fund_tickets rand (credit + c) ts s2)))"

definition ApplyWholesaleFunding ::
  "bytes \<Rightarrow> bytes \<Rightarrow> string \<Rightarrow> string \<Rightarrow> string \<Rightarrow> FundingTicket list \<Rightarrow> time \<Rightarrow>
   (FundingReceipt \<times> bool) store_op" where
  "ApplyWholesaleFunding payer payee accountID workID fundingID tickets now s =
     (if \<not> ValidWholesaleAccountID accountID \<or> length fundingID \<noteq> 64 \<or> length tickets = 0
      then (s, Inl (ErrOther ''funding identity and tickets required''))
      else db_update (\<lambda>s.
        case fmlookup (wholesale_funding_receipts s) fundingID of
          Some r \<Rightarrow>
            if receipt_mismatch payer payee accountID r then Inl ErrSenderMismatch else Inr (s, (r, True))
        | None \<Rightarrow>
            (case fmlookup (sessions s) (compositeKey payer workID) of
               None \<Rightarrow> Inl ErrNotFound
             | Some session \<Rightarrow>
                 if ss_Closed session then Inl ErrClosed
                 else if ss_WholesaleAccountID session \<noteq> accountID \<or> ss_TicketStreamID session = [] \<or>
                         ss_Recipient session \<noteq> payee then Inl ErrSenderMismatch
                 else (case SetString (ss_RecipientRand session) of
                   None \<Rightarrow> Inl (ErrOther ''invalid generation rand'')
                 | Some rand \<Rightarrow>
                     sum_bind (fund_tickets rand 0 tickets s) (\<lambda>(s1, credit).
                       let account = loadWholesaleAccount payer payee accountID s1;
                           account' = account\<lparr>
                             wa_CreditedWei := big_String (parseDecimalBig (wa_CreditedWei account) + credit),
                             wa_Version := wa_Version account + 1, wa_UpdatedAt := now\<rparr>;
                           s2 = putWholesaleAccount account' s1;
                           receipt = \<lparr>fr_FundingID = fundingID, fr_Account = Some account',
                             fr_CreditedWei = big_String credit\<rparr>
                       in Inr (s2\<lparr>wholesale_funding_receipts :=
                                 fmupd fundingID receipt (wholesale_funding_receipts s2)\<rparr>,
                               (receipt, False)))))) s)"

section \<open>The source fence\<close>

definition zero_SourceFence :: SourceFence where
  "zero_SourceFence = \<lparr>sf_Frozen = False, sf_Reason = [], sf_FrozenAt = 0\<rparr>"

definition fence_invalid :: "SourceFence \<Rightarrow> bool" where
  "fence_invalid f \<longleftrightarrow> \<not> sf_Frozen f \<or> sf_Reason f = [] \<or> sf_FrozenAt f = 0"

definition Store_SourceFence :: "store \<Rightarrow> store_error + SourceFence" where
  "Store_SourceFence s =
     (case source_fence s of
        None \<Rightarrow> Inr zero_SourceFence
      | Some None \<Rightarrow> Inl (ErrOther ''source fence state missing'')
      | Some (Some f) \<Rightarrow>
          if fence_invalid f then Inl (ErrOther ''invalid persisted source fence'') else Inr f)"

definition activeAuthorizations :: "store \<Rightarrow> uint64" where
  "activeAuthorizations s =
     foldl (\<lambda>n kv. if au_State (snd kv) = AuthorizationAdmitted then n + 1 else n) 0
       (bucket_entries (spend_authorizations s))"

definition ActiveAuthorizations :: "store \<Rightarrow> uint64" where
  "ActiveAuthorizations s = activeAuthorizations s"

definition FreezeSource :: "string \<Rightarrow> time \<Rightarrow> SourceFence store_op" where
  "FreezeSource reason now s =
     (if reason = [] then (s, Inl (ErrOther ''source freeze requires audit reason''))
      else db_update (\<lambda>s.
        case source_fence s of
          Some None \<Rightarrow> Inl (ErrOther ''source fence state missing'')
        | Some (Some f) \<Rightarrow>
            if fence_invalid f then Inl (ErrOther ''invalid persisted source fence'') else Inr (s, f)
        | None \<Rightarrow>
            if activeAuthorizations s \<noteq> 0 then Inl (ErrOther ''source has unsettled authorizations'')
            else
              let out = \<lparr>sf_Frozen = True, sf_Reason = reason, sf_FrozenAt = now\<rparr>
              in Inr (s\<lparr>source_fence := Some (Some out)\<rparr>, out)) s)"

section \<open>The settlement domain\<close>

text \<open>\<open>identity.ValidDomain\<close>. The loop ranges over the runes of the string; a byte outside ASCII
  belongs to a rune that no comparison admits, so the loop over bytes accepts the same strings.\<close>

definition ValidDomain :: "string \<Rightarrow> bool" where
  "ValidDomain ident \<longleftrightarrow>
     \<not> (length ident \<noteq> 66 \<or> take 2 ident \<noteq> ''0x'') \<and>
     list_all (\<lambda>c. byte_in 48 57 c \<or> byte_in 97 102 c) (drop 2 ident) \<and>
     list_ex (\<lambda>c. c \<noteq> CHR ''0'') (drop 2 ident)"

definition ValidSettlementDomainID :: "string \<Rightarrow> bool" where
  "ValidSettlementDomainID ident = ValidDomain ident"

definition InitSettlementDomain :: "string \<Rightarrow> uint64 \<Rightarrow> bytes \<Rightarrow> bytes \<Rightarrow> string store_op" where
  "InitSettlementDomain configured chainID payee random s =
     (if configured \<noteq> [] \<and> \<not> ValidSettlementDomainID configured
      then (s, Inl (ErrOther ''invalid settlement-domain-id''))
      else db_update (\<lambda>s.
        sum_bind
          (case settlement_domain s of
             Some None \<Rightarrow> Inl (ErrOther ''settlement domain metadata is corrupt'')
           | Some (Some d) \<Rightarrow>
               if \<not> ValidSettlementDomainID (dom_ID d)
                 then Inl (ErrOther ''settlement domain metadata is corrupt'')
               else if configured \<noteq> [] \<and> configured \<noteq> dom_ID d
                 then Inl (ErrOther ''configured settlement domain differs from stored ledger identity'')
               else if dom_Payee d \<noteq> [] \<and> (dom_Payee d \<noteq> hex_encode payee \<or> dom_ChainID d \<noteq> chainID)
                 then Inl (ErrOther ''settlement ledger chain/payee identity cannot change'')
               else Inr d
           | None \<Rightarrow>
               if settlement_domain_format s \<noteq> None
                 then Inl (ErrOther ''settlement domain metadata was lost'')
               else if list_ex (\<lambda>kv. au_State (snd kv) = AuthorizationAdmitted)
                         (bucket_entries (spend_authorizations s))
                 then Inl (ErrOther ''drain admitted legacy authorizations'')
               else Inr \<lparr>dom_ID = (if configured = [] then ''0x'' @ hex_encode random else configured),
                         dom_ChainID = 0, dom_Payee = []\<rparr>)
          (\<lambda>d.
            let d' = (if length payee \<noteq> 0
                      then d\<lparr>dom_Payee := hex_encode payee, dom_ChainID := chainID\<rparr> else d)
            in Inr (s\<lparr>settlement_domain := Some (Some d'), settlement_domain_format := Some ''1''\<rparr>,
                    dom_ID d'))) s)"

section \<open>The sender's ticket stream\<close>

definition TicketStreamID :: "bytes \<Rightarrow> string store_op" where
  "TicketStreamID random = db_update (\<lambda>s.
     case ticket_stream_id s of
       Some v \<Rightarrow> Inr (s, v)
     | None \<Rightarrow>
         let ident = hex_encode random in
         Inr (s\<lparr>ticket_stream_id := Some ident\<rparr>, ident))"

end
