(* ===== verification/Go_Time.thy ===== *)
theory Go_Time
  imports Go_Prelude
begin

text \<open>
  Timestamps: \<open>time.Parse(time.RFC3339Nano, s)\<close> and \<open>t.UTC().Format(time.RFC3339Nano)\<close> of Go's standard
  library, for the payment messages that carry a moment as text.

  A moment is the number of nanoseconds since the start of the year 1 in UTC, so that 0 is Go's zero
  \<open>Time\<close>. The parser follows the standard library's reading of the RFC 3339 grammar: fixed-width
  fields, an optional fraction of which nine digits count, and \<open>Z\<close> or a numeric offset. The few
  non-conforming spellings that the library's older general parser lets through (a comma before the
  fraction, a one-digit hour) are not modelled.

  The round trip: a moment of the years 0 to 9999 that is printed is parsed back.
\<close>

section \<open>The calendar\<close>

definition is_leap :: "int \<Rightarrow> bool" where
  "is_leap y \<longleftrightarrow> y mod 4 = 0 \<and> (y mod 100 \<noteq> 0 \<or> y mod 400 = 0)"

definition days_in :: "nat \<Rightarrow> int \<Rightarrow> nat" where
  "days_in month year =
     (if month = 2 then (if is_leap year then 29 else 28)
      else if month \<in> {4, 6, 9, 11} then 30 else 31)"

text \<open>Days from the first of January of year 1 to that of the given year, and to the given day of the
  Gregorian calendar.\<close>

definition days_before :: "int \<Rightarrow> int" where
  "days_before year = (let p = year - 1 in 365 * p + p div 4 - p div 100 + p div 400)"

definition month_start :: "nat \<Rightarrow> int \<Rightarrow> nat" where
  "month_start month year = sum_list (map (\<lambda>m. days_in m year) [1..<month])"

definition civil_days :: "int \<Rightarrow> nat \<Rightarrow> nat \<Rightarrow> int" where
  "civil_days year month day = days_before year + int (month_start month year) + int day - 1"

text \<open>The year and month of a day, among the candidates that the average length of a year leaves.\<close>

definition year_of :: "int \<Rightarrow> int" where
  "year_of z =
     (case find (\<lambda>y. days_before y \<le> z \<and> z < days_before (y + 1)) [z div 366 - 2..z div 366 + 30] of
        Some y \<Rightarrow> y | None \<Rightarrow> 0)"

definition month_of :: "int \<Rightarrow> int \<Rightarrow> nat" where
  "month_of year doy =
     (case find (\<lambda>m. int (month_start m year) \<le> doy \<and> doy < int (month_start (m + 1) year)) [1..<13] of
        Some m \<Rightarrow> m | None \<Rightarrow> 0)"

section \<open>Parsing\<close>

definition parse_uint :: "nat \<Rightarrow> nat \<Rightarrow> string \<Rightarrow> nat option" where
  "parse_uint lo hi s =
     (case decimal_nat s of
        None \<Rightarrow> None
      | Some x \<Rightarrow> if lo \<le> x \<and> x \<le> hi then Some x else None)"

definition nanoseconds :: "string \<Rightarrow> int" where
  "nanoseconds ds = (case decimal_nat (take 9 (ds @ ''000000000'')) of None \<Rightarrow> 0 | Some n \<Rightarrow> int n)"

definition zone_offset :: "string \<Rightarrow> int option" where
  "zone_offset z =
     (if z = ''Z'' then Some 0
      else if length z \<noteq> 6 \<or> z ! 3 \<noteq> CHR '':'' \<or> (z ! 0 \<noteq> CHR ''+'' \<and> z ! 0 \<noteq> CHR ''-'') then None
      else case (parse_uint 0 23 (take 2 (drop 1 z)), parse_uint 0 59 (take 2 (drop 4 z))) of
        (Some h, Some m) \<Rightarrow>
          let off = int ((h * 60 + m) * 60) in Some (if z ! 0 = CHR ''-'' then - off else off)
      | _ \<Rightarrow> None)"

definition fraction :: "string \<Rightarrow> string" where
  "fraction rest = (case rest of c # ds \<Rightarrow> if c = CHR ''.'' then takeWhile is_digit ds else [] | [] \<Rightarrow> [])"

definition moment :: "int \<Rightarrow> nat \<Rightarrow> nat \<Rightarrow> nat \<Rightarrow> int \<Rightarrow> int \<Rightarrow> time" where
  "moment days hour minute sec off nanos =
     (((days * 24 + int hour) * 60 + int minute) * 60 + int sec - off) * 1000000000 + nanos"

definition time_Parse :: "string \<Rightarrow> time option" where
  "time_Parse s =
     (if length s < 19 \<or> s ! 4 \<noteq> CHR ''-'' \<or> s ! 7 \<noteq> CHR ''-'' \<or> s ! 10 \<noteq> CHR ''T'' \<or>
         s ! 13 \<noteq> CHR '':'' \<or> s ! 16 \<noteq> CHR '':'' then None
      else case (parse_uint 0 9999 (take 4 s), parse_uint 1 12 (take 2 (drop 5 s))) of
        (Some year, Some month) \<Rightarrow>
          (case (parse_uint 1 (days_in month (int year)) (take 2 (drop 8 s)),
                 parse_uint 0 23 (take 2 (drop 11 s)), parse_uint 0 59 (take 2 (drop 14 s)),
                 parse_uint 0 59 (take 2 (drop 17 s))) of
             (Some day, Some hour, Some minute, Some sec) \<Rightarrow>
               let rest = drop 19 s;
                   frac = fraction rest;
                   zone = (if frac = [] then rest else drop (1 + length frac) rest)
               in map_option (\<lambda>off. moment (civil_days (int year) month day) hour minute sec off (nanoseconds frac))
                    (zone_offset zone)
           | _ \<Rightarrow> None)
      | _ \<Rightarrow> None)"

text \<open>Facts that fix the scale: the zero moment, a leap day, an offset and a fraction.\<close>

lemma time_Parse_examples:
  "time_Parse ''0001-01-01T00:00:00Z'' = Some 0"
  "time_Parse ''1970-01-01T00:00:00Z'' = Some (62135596800 * 1000000000)"
  "time_Parse ''2024-02-29T00:00:00.25+01:00'' = time_Parse ''2024-02-28T23:00:00.25Z''"
  "time_Parse ''2023-02-29T00:00:00Z'' = None"
  by (simp_all add: time_Parse_def parse_uint_def decimal_nat_def is_digit_def days_in_def is_leap_def
      zone_offset_def civil_days_def days_before_def month_start_def nanoseconds_def fraction_def moment_def upt_conv_Cons)

section \<open>Printing\<close>

definition zero_pad :: "nat \<Rightarrow> nat \<Rightarrow> string" where
  "zero_pad w n = replicate (w - length (nat_decimal n)) (CHR ''0'') @ nat_decimal n"

definition format_year :: "int \<Rightarrow> string" where
  "format_year y = (if y < 0 then CHR ''-'' # zero_pad 4 (nat (- y)) else zero_pad 4 (nat y))"

definition format_nanos :: "nat \<Rightarrow> string" where
  "format_nanos n =
     (let ds = rev (dropWhile (\<lambda>c. c = CHR ''0'') (rev (zero_pad 9 n)))
      in if ds = [] then [] else CHR ''.'' # ds)"

definition time_Format :: "time \<Rightarrow> string" where
  "time_Format t =
     (let secs = t div 1000000000; nanos = nat (t mod 1000000000);
          z = secs div 86400; sod = nat (secs mod 86400);
          y = year_of z; doy = z - days_before y; m = month_of y doy
      in format_year y @ CHR ''-'' # zero_pad 2 m @ CHR ''-'' #
         zero_pad 2 (nat (doy - int (month_start m y)) + 1) @ CHR ''T'' #
         zero_pad 2 (sod div 3600) @ CHR '':'' # zero_pad 2 (sod div 60 mod 60) @ CHR '':'' #
         zero_pad 2 (sod mod 60) @ format_nanos nanos @ ''Z'')"

section \<open>The round trip\<close>

lemma div_bounds: "0 < n \<Longrightarrow> n * (p div n) \<le> p \<and> p < n * (p div n) + n" for n p :: int
  using mult_div_mod_eq [of n p] pos_mod_sign [of n p] pos_mod_bound [of n p] by linarith

lemma div_pred: "0 < n \<Longrightarrow> y div n = (y - 1) div n + (if n dvd y then 1 else 0)" for n y :: int
proof (cases "n dvd y")
  case True
  moreover assume n: "0 < n"
  ultimately obtain k where k: "y = n * k" by blast
  have "(y - 1) div n = k - 1"
    by (rule int_div_pos_eq [of _ _ _ "n - 1"]) (use n k in \<open>simp_all add: algebra_simps\<close>)
  then show ?thesis using k n by simp
next
  case False
  assume n: "0 < n"
  have "(y - 1) div n = y div n"
  proof (rule int_div_pos_eq)
    show "y - 1 = n * (y div n) + (y mod n - 1)" by (simp add: algebra_simps)
    show "0 \<le> y mod n - 1" using False n pos_mod_sign [of n y] by (simp add: dvd_eq_mod_eq_0 order_less_le)
    show "y mod n - 1 < n" using pos_mod_bound [OF n, of y] by linarith
  qed
  then show ?thesis using False by simp
qed

lemma days_before_step: "days_before (y + 1) = days_before y + (if is_leap y then 366 else 365)"
proof -
  have "days_before (y + 1) = days_before y + 365 + (if 4 dvd y then 1 else 0) -
      (if 100 dvd y then 1 else 0) + (if 400 dvd y then 1 else 0)"
    unfolding days_before_def Let_def add_diff_cancel_right'
      div_pred [of 4 y, OF zero_less_numeral] div_pred [of 100 y, OF zero_less_numeral] div_pred [of 400 y, OF zero_less_numeral]
    by (simp only: right_diff_distrib)
  moreover have "400 dvd y \<Longrightarrow> 100 dvd y" "100 dvd y \<Longrightarrow> 4 dvd y"
    using dvd_trans [of 100 400 y] dvd_trans [of 4 100 y] by simp_all
  moreover have "is_leap y \<longleftrightarrow> 4 dvd y \<and> (\<not> 100 dvd y \<or> 400 dvd y)"
    unfolding is_leap_def dvd_eq_mod_eq_0 ..
  ultimately show ?thesis by (cases "4 dvd y"; cases "100 dvd y"; cases "400 dvd y") simp_all
qed

lemma year_exists: "days_before a \<le> z \<Longrightarrow> z < days_before (a + int n) \<Longrightarrow>
  \<exists>y. a \<le> y \<and> y < a + int n \<and> days_before y \<le> z \<and> z < days_before (y + 1)"
proof (induction n)
  case (Suc n)
  show ?case
  proof (cases "z < days_before (a + int n)")
    case True
    with Suc show ?thesis by fastforce
  next
    case False
    then show ?thesis using Suc.prems by (intro exI [of _ "a + int n"]) (simp add: ac_simps)
  qed
qed simp

lemma year_of_spec:
  assumes "days_before 0 \<le> z" "z < days_before 10000"
  shows "days_before (year_of z) \<le> z \<and> z < days_before (year_of z + 1)"
proof -
  let ?P = "\<lambda>y. days_before y \<le> z \<and> z < days_before (y + 1)"
  obtain y where y: "0 \<le> y" "y < 10000" "?P y"
    using year_exists [of 0 z 10000] assms by auto
  define p q where "p = y - 1" and "q = z div 366"
  obtain a b c where abc: "a = p div 4" "b = p div 100" "c = p div 400" by simp
  have d: "4 * a \<le> p" "p < 4 * a + 4" "100 * b \<le> p" "p < 100 * b + 100" "400 * c \<le> p" "p < 400 * c + 400"
    using div_bounds [of 4 p] div_bounds [of 100 p] div_bounds [of 400 p] unfolding abc by simp_all
  have z: "366 * q \<le> z" "z < 366 * q + 366"
    using div_bounds [of 366 z] unfolding q_def by simp_all
  have "days_before y = 365 * p + a - b + c" by (simp only: days_before_def Let_def p_def abc)
  moreover have "days_before (y + 1) \<le> days_before y + 366" unfolding days_before_step by simp
  ultimately have "365 * p + a - b + c \<le> z" "z < 365 * p + a - b + c + 366" using y(3) by linarith+
  then have "q - 2 \<le> p + 1" "p + 1 \<le> q + 30" using d z y(1,2) p_def by linarith+
  then have "q - 2 \<le> y" "y \<le> q + 30" unfolding p_def by simp_all
  then have "y \<in> set [q - 2..q + 30]" by simp
  then have "find ?P [q - 2..q + 30] \<noteq> None" unfolding find_None_iff using y(3) by blast
  then obtain y' where f: "find ?P [q - 2..q + 30] = Some y'" by blast
  then have "?P y'" unfolding find_Some_iff by blast
  moreover have "year_of z = y'" unfolding year_of_def q_def [symmetric] f by simp
  ultimately show ?thesis by simp
qed

lemma days_before_mono: "a \<le> b \<Longrightarrow> days_before a \<le> days_before b"
proof (induction "nat (b - a)" arbitrary: b)
  case (Suc n)
  then have "days_before a \<le> days_before (b - 1)" by simp
  also have "\<dots> \<le> days_before b" using days_before_step [of "b - 1"] by (simp split: if_splits)
  finally show ?case .
qed simp

lemma month_start_simps:
  "month_start 1 y = 0" "month_start 2 y = 31" "month_start 3 y = (if is_leap y then 60 else 59)"
  "month_start 4 y = (if is_leap y then 91 else 90)" "month_start 5 y = (if is_leap y then 121 else 120)"
  "month_start 6 y = (if is_leap y then 152 else 151)" "month_start 7 y = (if is_leap y then 182 else 181)"
  "month_start 8 y = (if is_leap y then 213 else 212)" "month_start 9 y = (if is_leap y then 244 else 243)"
  "month_start 10 y = (if is_leap y then 274 else 273)" "month_start 11 y = (if is_leap y then 305 else 304)"
  "month_start 12 y = (if is_leap y then 335 else 334)" "month_start 13 y = (if is_leap y then 366 else 365)"
  by (simp_all add: month_start_def days_in_def upt_conv_Cons)

lemma month_of_spec:
  assumes "0 \<le> doy" "doy < (if is_leap y then 366 else 365)"
  shows "1 \<le> month_of y doy \<and> month_of y doy \<le> 12 \<and> int (month_start (month_of y doy) y) \<le> doy \<and>
    doy < int (month_start (month_of y doy + 1) y)"
proof -
  let ?P = "\<lambda>m. int (month_start m y) \<le> doy \<and> doy < int (month_start (m + 1) y)"
  have l: "doy < int (month_start 13 y)" "int (month_start 1 y) \<le> doy" using assms by (auto simp: month_start_simps [unfolded One_nat_def] split: if_splits)
  have "\<exists>m. 1 \<le> m \<and> m < 1 + n \<and> ?P m" if "doy < int (month_start (1 + n) y)" for n
    using that
  proof (induction n)
    case 0
    then show ?case using l(2) by simp
  next
    case (Suc n)
    then show ?case by (cases "doy < int (month_start (1 + n) y)") (fastforce, force)
  qed
  from this [of 12] l(1) have "\<exists>m \<in> set [1..<13]. ?P m" by auto
  then obtain m where f: "find ?P [1..<13] = Some m" by (cases "find ?P [1..<13]") (auto simp: find_None_iff)
  then have "m \<in> set [1..<13]" "?P m" by (auto simp: find_Some_iff in_set_conv_nth)
  then show ?thesis using f by (simp add: month_of_def)
qed

lemma length_zero_pad: "n < 10 ^ w \<Longrightarrow> 0 < w \<Longrightarrow> length (zero_pad w n) = w"
  using length_nat_decimal [of n w] by (simp add: zero_pad_def)

lemma zero_pad_digits: "list_all is_digit (zero_pad w n)"
  by (auto simp: zero_pad_def nat_decimal_digits list_all_iff is_digit_def dest: nat_decimal_digits [of n, unfolded list_all_iff is_digit_def, rule_format])

lemma decimal_nat_zero_pad [simp]: "decimal_nat (zero_pad w n) = Some n"
  using zero_pad_digits [of w n] zero_padded_value by (simp add: decimal_nat_def zero_pad_def)

lemma parse_uint_zero_pad [simp]: "lo \<le> n \<Longrightarrow> n \<le> hi \<Longrightarrow> parse_uint lo hi (zero_pad w n) = Some n"
  by (simp add: parse_uint_def)

text \<open>Reading fields of fixed width back.\<close>

lemma length_2: "length xs = 2 \<Longrightarrow> \<exists>a b. xs = [a, b]"
  by (metis One_nat_def Suc_1 length_0_conv length_Suc_conv)

lemma length_4: "length xs = 4 \<Longrightarrow> \<exists>a b c d. xs = [a, b, c, d]"
  by (auto simp: numeral_eq_Suc length_Suc_conv)

lemma time_Parse_fields:
  assumes "length Y = 4" "length M = 2" "length D = 2" "length H = 2" "length N = 2" "length S = 2"
    and "parse_uint 0 9999 Y = Some y" "parse_uint 1 12 M = Some m" "parse_uint 1 (days_in m (int y)) D = Some d"
    and "parse_uint 0 23 H = Some h" "parse_uint 0 59 N = Some n" "parse_uint 0 59 S = Some x"
    and "zone_offset (if fraction rest = [] then rest else drop (1 + length (fraction rest)) rest) = Some off"
  shows "time_Parse (Y @ CHR ''-'' # M @ CHR ''-'' # D @ CHR ''T'' # H @ CHR '':'' # N @ CHR '':'' # S @ rest) =
    Some (moment (civil_days (int y) m d) h n x off (nanoseconds (fraction rest)))"
proof -
  obtain a b c e where Y: "Y = [a, b, c, e]" using length_4 [OF assms(1)] by blast
  obtain m1 m2 d1 d2 h1 h2 n1 n2 s1 s2 where f: "M = [m1, m2]" "D = [d1, d2]" "H = [h1, h2]" "N = [n1, n2]" "S = [s1, s2]"
    using length_2 [OF assms(2)] length_2 [OF assms(3)] length_2 [OF assms(4)] length_2 [OF assms(5)] length_2 [OF assms(6)]
    by blast
  show ?thesis
    using assms(7-) by (simp add: Y f time_Parse_def Let_def)
qed

lemma takeWhile_digits: "list_all is_digit ds \<Longrightarrow> takeWhile is_digit (ds @ ''Z'') = ds"
  by (induction ds) (simp_all add: is_digit_def)

lemma strip_zeros:
  fixes xs :: string
  defines "ds \<equiv> rev (dropWhile (\<lambda>c. c = CHR ''0'') (rev xs))"
  shows "take (length xs) (ds @ replicate (length xs) (CHR ''0'')) = xs" and "set ds \<subseteq> set xs"
proof -
  define zs where "zs = takeWhile (\<lambda>c. c = CHR ''0'') (rev xs)"
  have zs: "zs = replicate (length zs) (CHR ''0'')"
    unfolding zs_def by (rule replicate_eqI) (auto dest: set_takeWhileD)
  have "rev xs = zs @ rev ds" unfolding zs_def ds_def by simp
  then have split: "xs = ds @ rev zs" by (metis rev_append rev_rev_ident)
  have "rev zs = replicate (length zs) (CHR ''0'')" by (subst zs) simp
  then show "take (length xs) (ds @ replicate (length xs) (CHR ''0'')) = xs" by (subst (1 2 3) split) simp
  show "set ds \<subseteq> set xs" by (subst split) auto
qed

lemma fraction_format: "fraction (format_nanos n @ ''Z'') = rev (dropWhile (\<lambda>c. c = CHR ''0'') (rev (zero_pad 9 n)))"
proof -
  let ?ds = "rev (dropWhile (\<lambda>c. c = CHR ''0'') (rev (zero_pad 9 n)))"
  have "list_all is_digit ?ds"
    using zero_pad_digits [of 9 n] strip_zeros(2) [of "zero_pad 9 n"] unfolding list_all_iff by blast
  from takeWhile_digits [OF this] show ?thesis
    unfolding format_nanos_def fraction_def Let_def by (cases "?ds = []") simp_all
qed

lemma nanoseconds_format: "n < 1000000000 \<Longrightarrow> nanoseconds (fraction (format_nanos n @ ''Z'')) = int n"
proof -
  assume n: "n < 1000000000"
  have len: "length (zero_pad 9 n) = 9" by (rule length_zero_pad) (use n in simp_all)
  have "''000000000'' = replicate 9 (CHR ''0'')" by (simp add: numeral_eq_Suc)
  then show ?thesis
    unfolding nanoseconds_def fraction_format using strip_zeros(1) [of "zero_pad 9 n", unfolded len] by simp
qed

lemma zone_offset_format:
  "zone_offset (if fraction (format_nanos n @ ''Z'') = [] then format_nanos n @ ''Z''
     else drop (1 + length (fraction (format_nanos n @ ''Z''))) (format_nanos n @ ''Z'')) = Some 0"
  unfolding fraction_format
  by (cases "rev (dropWhile (\<lambda>c. c = CHR ''0'') (rev (zero_pad 9 n))) = []")
    (simp_all only: format_nanos_def Let_def if_True if_False append_Nil append_Cons drop_Suc_Cons drop_append
      plus_1_eq_Suc zone_offset_def diff_self_eq_0 drop_0 drop_all order_refl simp_thms)

lemma sod_split: "3600 * (n div 3600) + 60 * (n div 60 mod 60) + n mod 60 = n" for n :: nat
proof -
  have "n div 3600 = n div 60 div 60" using div_mult2_eq [of n 60 60] by simp
  then have "3600 * (n div 3600) + 60 * (n div 60 mod 60) = 60 * (60 * (n div 60 div 60) + n div 60 mod 60)"
    by (simp only: distrib_left mult.assoc [symmetric])
  also have "\<dots> = 60 * (n div 60)" by (simp only: mult_div_mod_eq)
  finally show ?thesis by (simp only: mult_div_mod_eq)
qed

text \<open>Moments of the years that the text form has room for.\<close>

lemma moment_exact:
  "s = 3600 * h + 60 * i + x \<Longrightarrow> secs = z * 86400 + int s \<Longrightarrow> t = secs * 1000000000 + n \<Longrightarrow> moment z h i x 0 n = t"
  by (simp add: moment_def)

definition year_range :: "time \<Rightarrow> bool" where
  "year_range t \<longleftrightarrow> (let z = t div 1000000000 div 86400 in days_before 0 \<le> z \<and> z < days_before 10000)"

theorem time_Parse_Format:
  assumes "year_range t"
  shows "time_Parse (time_Format t) = Some t"
proof -
  define secs where "secs = t div 1000000000"
  define z where "z = secs div 86400"
  define sod where "sod = nat (secs mod 86400)"
  define y where "y = year_of z"
  define doy where "doy = z - days_before y"
  define m where "m = month_of y doy"
  define d where "d = nat (doy - int (month_start m y)) + 1"
  have r: "days_before 0 \<le> z" "z < days_before 10000"
    using assms by (simp_all add: year_range_def z_def secs_def Let_def)
  note y_spec = year_of_spec [OF r, folded y_def]
  have y_range: "0 \<le> y" "y < 10000"
    using y_spec r days_before_mono [of "y + 1" 0] days_before_mono [of 10000 y] by linarith+
  have doy: "0 \<le> doy" "doy < (if is_leap y then 366 else 365)"
    using y_spec days_before_step [of y] by (auto simp: doy_def split: if_splits)
  note m_spec = month_of_spec [OF doy, folded m_def]
  have step: "month_start (m + 1) y = month_start m y + days_in m y"
    using m_spec by (simp add: month_start_def)
  have d: "1 \<le> d" "d \<le> days_in m y" "int d = doy - int (month_start m y) + 1"
    using m_spec unfolding d_def step by auto
  have cd: "civil_days y m d = z" using d(3) by (simp add: civil_days_def doy_def)
  have dd: "d \<le> 31" using d(2) by (simp add: days_in_def split: if_splits)
  have sod: "sod < 86400" "int sod = secs mod 86400" by (simp_all add: sod_def nat_less_iff)
  let ?n = "nat (t mod 1000000000)"
  have n: "?n < 1000000000" by (simp add: nat_less_iff)
  have nat_mod: "int ?n = t mod 1000000000" by simp
  define hh where "hh = sod div 3600"
  define mi where "mi = sod div 60 mod 60"
  define se where "se = sod mod 60"
  have h: "hh < 24" using sod(1) unfolding hh_def by (simp add: less_mult_imp_div_less)
  have ms: "mi < 60" "se < 60" unfolding mi_def se_def by simp_all
  have bounds: "hh \<le> 23" "mi \<le> 59" "se \<le> 59" "nat y \<le> 9999" "m \<le> 12" "1 \<le> m" "1 \<le> d" "d \<le> days_in m (int (nat y))"
    using h ms y_range m_spec d by simp_all
  have len: "length (zero_pad 4 (nat y)) = 4" "length (zero_pad 2 m) = 2" "length (zero_pad 2 d) = 2"
    "length (zero_pad 2 hh) = 2" "length (zero_pad 2 mi) = 2" "length (zero_pad 2 se) = 2"
    by (rule length_zero_pad; use h ms y_range m_spec dd in simp)+
  have fy: "format_year y = zero_pad 4 (nat y)" using y_range by (simp add: format_year_def)
  have fmt: "time_Format t = zero_pad 4 (nat y) @ CHR ''-'' # zero_pad 2 m @ CHR ''-'' # zero_pad 2 d @ CHR ''T'' #
      zero_pad 2 hh @ CHR '':'' # zero_pad 2 mi @ CHR '':'' # zero_pad 2 se @ (format_nanos ?n @ ''Z'')"
    unfolding time_Format_def Let_def secs_def [symmetric] z_def [symmetric] sod_def [symmetric] y_def [symmetric]
      doy_def [symmetric] m_def [symmetric] d_def [symmetric] hh_def [symmetric] mi_def [symmetric] se_def [symmetric] fy ..
  have "time_Parse (time_Format t) = Some (moment (civil_days (int (nat y)) m d) hh mi se 0
      (nanoseconds (fraction (format_nanos ?n @ ''Z''))))"
    unfolding fmt by (rule time_Parse_fields; (rule len | rule zone_offset_format | rule parse_uint_zero_pad; (rule le0 | rule bounds)))
  also have "\<dots> = Some t"
  proof -
    have "sod = 3600 * hh + 60 * mi + se" unfolding hh_def mi_def se_def by (rule sod_split [symmetric])
    moreover have "secs = z * 86400 + int sod" unfolding sod(2) z_def by (rule div_mult_mod_eq [symmetric])
    moreover have "t = secs * 1000000000 + int ?n" unfolding secs_def nat_mod by (rule div_mult_mod_eq [symmetric])
    ultimately show ?thesis
      unfolding nanoseconds_format [OF n] nat_0_le [OF y_range(1)] cd by (simp only: moment_exact)
  qed
  finally show ?thesis .
qed

end
