(* ===== verification/Receiver_Types.thy ===== *)
theory Receiver_Types
  imports Funding_Store Go_Time
begin

text \<open>
  What the payee's gRPC service works with, from \<open>payment-daemon/internal/service/receiver\<close>: its
  configuration, the errors it answers, the messages it decodes, and the authorization signature of
  \<open>payment-daemon/internal/spendauth/auth.go\<close>.

  Decoding and encoding protobuf messages is generated code over a third-party library; it is the
  argument \<open>codec\<close>. Ethereum's hashes and key recovery are the argument \<open>eth\<close> of the ticket types. An
  error keeps its gRPC code, the reason and metadata of its error detail (empty where there is none) and its
  fixed message; a formatted cause is left out. Metrics and logging are left out.
\<close>

section \<open>Errors\<close>

datatype codes =
    InvalidArgument | PermissionDenied | FailedPrecondition | NotFound | Internal | Unavailable
  | Unimplemented | AlreadyExists | Aborted | Unknown | DeadlineExceeded | Canceled

text \<open>An error's details carry a reason and further key/value pairs; both are empty on a plain
  status.\<close>

record rpc_error =
  rpc_Code :: codes
  rpc_Reason :: string
  rpc_Message :: string
  rpc_Metadata :: "(string \<times> string) list"

definition status_Error :: "codes \<Rightarrow> string \<Rightarrow> rpc_error" where
  "status_Error c m = \<lparr>rpc_Code = c, rpc_Reason = [], rpc_Message = m, rpc_Metadata = []\<rparr>"

definition admissionStatus :: "codes \<Rightarrow> string \<Rightarrow> string \<Rightarrow> rpc_error" where
  "admissionStatus c reason m = \<lparr>rpc_Code = c, rpc_Reason = reason, rpc_Message = m, rpc_Metadata = []\<rparr>"

definition admissionFailure :: "string \<Rightarrow> string \<Rightarrow> rpc_error" where
  "admissionFailure reason m = admissionStatus FailedPrecondition reason m"

type_synonym 'r rpc = "store \<Rightarrow> store \<times> (rpc_error + 'r)"

section \<open>Messages\<close>

record pb_QuoteRef =
  quote_id :: string
  quote_version :: uint64
  constraint_fingerprint :: bytes
  route_fingerprint :: bytes

text \<open>A \<open>*BigUInt\<close> whose absence is tested is an option; its getter reads an absent one as empty.\<close>

definition GetValue :: "bytes option \<Rightarrow> bytes" where
  "GetValue b = (case b of None \<Rightarrow> [] | Some v \<Rightarrow> v)"

record pb_AcceptedPrice =
  price_per_unit_wei :: "bytes option"
  units_per_price :: uint64
  work_unit_name :: string
  ap_capability :: string
  ap_offering :: string
  ap_quote_ref :: "pb_QuoteRef option"

record SpendAuthorizationPayload =
  pl_wholesale_account_id :: string
  pl_domain :: string
  pl_payer :: bytes
  pl_payee :: bytes
  pl_authorization_id :: string
  pl_request_id :: string
  pl_session_id :: string
  pl_protocol :: string
  pl_capability :: string
  pl_offering :: string
  pl_accepted_price :: "pb_AcceptedPrice option"
  pl_max_debit_wei :: bytes
  pl_max_total_units :: uint64
  pl_not_before :: string
  pl_expires_at :: string
  pl_request_digest :: bytes
  pl_caller_public_key :: bytes
  pl_revision :: uint64
  pl_predecessor_authorization_id :: string
  pl_broker_uri :: string
  pl_chain_id :: uint64
  pl_denomination :: string
  pl_settlement_domain_id :: string

record SpendAuthorization =
  sa_payload :: "SpendAuthorizationPayload option"
  sa_signature :: bytes

record codec =
  Unmarshal_Payment :: "bytes \<Rightarrow> pb_Payment option"
  Unmarshal_SpendAuthorization :: "bytes \<Rightarrow> SpendAuthorization option"
  Marshal_Payload :: "SpendAuthorizationPayload \<Rightarrow> bytes option"

datatype PaymentRejectionReason =
    REASON_UNSPECIFIED | INVALID_RECIPIENT_RAND | NONCE_REPLAY | NONCE_CAP_REACHED
  | INVALID_SIGNATURE | REASON_OTHER

record TicketStatus =
  ts_sender_nonce :: uint32
  ts_rejection_reason :: PaymentRejectionReason
  ts_credited_ev :: bytes
  ts_was_winning :: bool

datatype SpendAuthorizationState =
    STATE_UNSPECIFIED | ADMITTED | SETTLED | EXPIRED_UNUSED | SUPERSEDED | CANCELED_UNUSED

record WholesaleAccountView =
  av_wholesale_account_id :: string
  av_payer :: bytes
  av_payee :: bytes
  av_credited_value_wei :: bytes
  av_reserved_value_wei :: bytes
  av_debited_value_wei :: bytes
  av_available_value_wei :: bytes
  av_version :: uint64
  av_observed_at :: time
  av_chain_id :: uint64
  av_denomination :: string
  av_settlement_domain_id :: string

section \<open>The service\<close>

record GetRoundRevenueResponse =
  rv_round_id :: int
  rv_confirmed_revenue_wei :: bytes
  rv_confirmed_ticket_count :: uint64
  rv_settlement_domain_id :: string
  rv_chain_id :: uint64
  rv_payee :: bytes
  rv_complete :: bool
  rv_incomplete_reason :: string
  rv_complete_through_round :: int
  rv_observed_at :: time
  rv_inclusion_digest :: bytes

record Service =
  recipient :: bytes
  chainID :: uint64
  settlementDomainID :: string
  settlementDomainErr :: bool
  defaultFaceValue :: int
  defaultWinProb :: int
  RevenueReporter :: "(int \<Rightarrow> rpc_error + GetRoundRevenueResponse) option"

record receiver_config =
  cf_Recipient :: bytes
  cf_ChainID :: uint64
  cf_SettlementDomainID :: string
  cf_DefaultFaceValue :: "int option"
  cf_DefaultWinProb :: "int option"

text \<open>The smallest face value that credits a wei at the given win probability: the quotient rounded
  up. A zero win probability makes the division panic, which is None.\<close>

definition minimum_face :: "int \<Rightarrow> int option" where
  "minimum_face winProb =
     (if winProb = 0 then None
      else
        let q = Quo MaxWinProb winProb;
            m = (if Rem MaxWinProb winProb \<noteq> 0 then q + 1 else q)
        in Some (if m \<le> 0 then 1 else m))"

definition Receiver_New :: "receiver_config \<Rightarrow> bytes \<Rightarrow> store \<Rightarrow> (store \<times> Service) option" where
  "Receiver_New cfg random s =
     (let (s', dom) = InitSettlementDomain (cf_SettlementDomainID cfg) (cf_ChainID cfg) (cf_Recipient cfg) random s;
          faceValue = (case cf_DefaultFaceValue cfg of None \<Rightarrow> 10 ^ 15 | Some f \<Rightarrow> f);
          winProb = (case cf_DefaultWinProb cfg of None \<Rightarrow> Quo MaxWinProb 1024 | Some w \<Rightarrow> w)
      in case minimum_face winProb of
           None \<Rightarrow> None
         | Some minFace \<Rightarrow>
             Some (s', \<lparr>recipient = cf_Recipient cfg, chainID = cf_ChainID cfg,
               settlementDomainID = (case dom of Inl _ \<Rightarrow> [] | Inr d \<Rightarrow> d),
               settlementDomainErr = (case dom of Inl _ \<Rightarrow> True | Inr _ \<Rightarrow> False),
               defaultFaceValue = (if faceValue < minFace then minFace else faceValue),
               defaultWinProb = winProb, RevenueReporter = None\<rparr>))"

definition authorizationState :: "authorization_state \<Rightarrow> SpendAuthorizationState" where
  "authorizationState state =
     (case state of
        AuthorizationAdmitted \<Rightarrow> ADMITTED
      | AuthorizationSettled \<Rightarrow> SETTLED
      | AuthorizationExpiredUnused \<Rightarrow> EXPIRED_UNUSED
      | AuthorizationSuperseded \<Rightarrow> SUPERSEDED
      | AuthorizationCanceledUnused \<Rightarrow> CANCELED_UNUSED
      | UnknownState _ \<Rightarrow> STATE_UNSPECIFIED)"

definition decimalBytes :: "string \<Rightarrow> bytes" where
  "decimalBytes v =
     (case SetString v of None \<Rightarrow> [] | Some n \<Rightarrow> if n \<le> 0 then [] else big_Bytes n)"

definition wholesaleAccountView :: "Service \<Rightarrow> WholesaleAccount \<Rightarrow> WholesaleAccountView" where
  "wholesaleAccountView svc a =
     \<lparr>av_wholesale_account_id = wa_WholesaleAccountID a, av_payer = wa_Payer a, av_payee = wa_Payee a,
      av_credited_value_wei = decimalBytes (wa_CreditedWei a),
      av_reserved_value_wei = decimalBytes (wa_ReservedWei a),
      av_debited_value_wei = decimalBytes (wa_DebitedWei a),
      av_available_value_wei = big_Bytes (Account_Available a), av_version = wa_Version a,
      av_observed_at = wa_UpdatedAt a, av_chain_id = chainID svc, av_denomination = ''wei'',
      av_settlement_domain_id = settlementDomainID svc\<rparr>"

definition requireUnfrozenSource :: "store \<Rightarrow> rpc_error + unit" where
  "requireUnfrozenSource s =
     (case Store_SourceFence s of
        Inl _ \<Rightarrow> Inl (status_Error Internal ''source fence unavailable'')
      | Inr fence \<Rightarrow>
          if sf_Frozen fence
          then Inl (admissionFailure ''RECEIVER_SOURCE_FROZEN''
                 ''receiver source permanently frozen for retirement'')
          else Inr ())"

text \<open>The check of the ledger's identity that most handlers begin with.\<close>

definition domain_mismatch :: "Service \<Rightarrow> string \<Rightarrow> bool" where
  "domain_mismatch svc d \<longleftrightarrow> settlementDomainErr svc \<or> d = [] \<or> d \<noteq> settlementDomainID svc"

text \<open>The shape shared by the handlers: each check returns its error and leaves the store alone; the
  gate of the frozen source is such a check.\<close>

definition reject ::
  "bool \<Rightarrow> rpc_error \<Rightarrow> ('s \<Rightarrow> 's \<times> (rpc_error + 'r)) \<Rightarrow> 's \<Rightarrow> 's \<times> (rpc_error + 'r)" where
  "reject bad e k s = (if bad then (s, Inl e) else k s)"

definition gated :: "'r rpc \<Rightarrow> 'r rpc" where
  "gated k s = (case requireUnfrozenSource s of Inl e \<Rightarrow> (s, Inl e) | Inr _ \<Rightarrow> k s)"

section \<open>Spend authorizations\<close>

datatype spendauth_error =
    ErrPayloadRequired | ErrPayerLength | ErrMalformedSignature | ErrUnsupportedDomain | ErrMarshal
  | ErrSignatureMismatch

definition spendauth_Domain :: string where
  "spendauth_Domain = ''livepeer-spend-authorization/v3''"

definition Digest :: "eth \<Rightarrow> codec \<Rightarrow> SpendAuthorizationPayload option \<Rightarrow> spendauth_error + bytes" where
  "Digest E C payload =
     (case payload of
        None \<Rightarrow> Inl ErrPayloadRequired
      | Some p \<Rightarrow>
          if pl_domain p \<noteq> spendauth_Domain then Inl ErrUnsupportedDomain
          else case Marshal_Payload C p of
            None \<Rightarrow> Inl ErrMarshal
          | Some b \<Rightarrow> Inr (Keccak256 E b))"

definition Verify :: "eth \<Rightarrow> codec \<Rightarrow> SpendAuthorization \<Rightarrow> spendauth_error + unit" where
  "Verify E C auth =
     (case sa_payload auth of
        None \<Rightarrow> Inl ErrPayloadRequired
      | Some p \<Rightarrow>
          let sig = sa_signature auth in
          if length (pl_payer p) \<noteq> 20 then Inl ErrPayerLength
          else if length sig \<noteq> 65 \<or> (nat_of_byte (sig ! 64) \<noteq> 27 \<and> nat_of_byte (sig ! 64) \<noteq> 28)
            then Inl ErrMalformedSignature
          else case Digest E C (Some p) of
            Inl e \<Rightarrow> Inl e
          | Inr digest \<Rightarrow>
              (case SigToPub E (TextHash E digest) (sig[64 := byte_of_nat (nat_of_byte (sig ! 64) - 27)]) of
                 None \<Rightarrow> Inl ErrSignatureMismatch
               | Some pub \<Rightarrow>
                   if PubkeyToAddress E pub \<noteq> pl_payer p then Inl ErrSignatureMismatch else Inr ()))"

end
