(* ===== verification/Receiver_Sessions.thy ===== *)
theory Receiver_Sessions
  imports Receiver_Types
begin

text \<open>
  The session half of the payee's service, \<open>payment-daemon/internal/service/receiver/receiver.go\<close>:
  opening and closing sessions, crediting payments, billing work, issuing ticket parameters, and
  the queries over redemptions.

  Every handler takes the store to the store and an answer. Each call of the store commits on its
  own: an error after an earlier call leaves what that call did. The moment of a call and the bytes
  of \<open>crypto/rand\<close> are arguments.
\<close>

section \<open>Helpers\<close>

definition genRand :: "bytes \<Rightarrow> int" where
  "genRand buf = SetBytes buf"

definition mapStoreErr :: "store_error \<Rightarrow> rpc_error" where
  "mapStoreErr err =
     (if errors_Is err ErrPricingUnset
        then status_Error FailedPrecondition
               ''session has no offering price; the broker must OpenSession with pricing before billing''
      else if errors_Is err ErrNotFound then status_Error NotFound ''session not found''
      else if errors_Is err ErrClosed then status_Error FailedPrecondition ''session is closed''
      else if errors_Is err ErrSenderMismatch then status_Error FailedPrecondition ''sender mismatch''
      else status_Error Internal [])"

definition zero_Session :: Session where
  "zero_Session =
     \<lparr>ss_WholesaleAccountID = [], ss_TicketStreamID = [], ss_WorkID = [], ss_Sender = [],
      ss_Recipient = [], ss_Capability = [], ss_Offering = [], ss_PricePerWorkUnitWei = [],
      ss_PerUnits = 0, ss_WorkUnit = [], ss_DebitedUnits = 0, ss_BalanceWei = [], ss_Closed = False,
      ss_OpenedAt = 0, ss_ClosedAt = 0, ss_RecipientRand = [], ss_FaceValueWei = [], ss_WinProb = []\<rparr>"

section \<open>Opening a session\<close>

record OpenSessionRequest =
  os_work_id :: string
  os_capability :: string
  os_offering :: string
  os_price_per_work_unit_wei :: bytes
  os_work_unit :: string
  os_per_units :: uint64

text \<open>The answer is whether the session was already open.\<close>

definition Receiver_OpenSession :: "Service \<Rightarrow> OpenSessionRequest \<Rightarrow> bytes \<Rightarrow> time \<Rightarrow> bool rpc" where
  "Receiver_OpenSession svc req random now = gated (
     reject (os_work_id req = []) (status_Error InvalidArgument ''work_id is empty'') (
     reject (os_capability req = []) (status_Error InvalidArgument ''capability is empty'') (
     reject (os_offering req = []) (status_Error InvalidArgument ''offering is empty'') (
     reject (os_work_unit req = []) (status_Error InvalidArgument ''work_unit is empty'') (
     reject (SetBytes (os_price_per_work_unit_wei req) < 0)
       (status_Error InvalidArgument ''price_per_work_unit_wei must be >= 0'') (\<lambda>s.
     case OpenSession (zero_Session\<lparr>ss_WorkID := os_work_id req, ss_Capability := os_capability req,
            ss_Offering := os_offering req,
            ss_PricePerWorkUnitWei := big_String (SetBytes (os_price_per_work_unit_wei req)),
            ss_PerUnits := os_per_units req, ss_WorkUnit := os_work_unit req,
            ss_RecipientRand := big_String (genRand random),
            ss_FaceValueWei := big_String (defaultFaceValue svc),
            ss_WinProb := big_String (defaultWinProb svc)\<rparr>) now s of
       (s', Inl err) \<Rightarrow>
         (s', Inl (if errors_Is err ErrPricingConflict
                   then status_Error FailedPrecondition
                          ''session price was already set by an offering and cannot be changed''
                   else status_Error Internal ''open session''))
     | (s', Inr (_, alreadyOpen)) \<Rightarrow> (s', Inr alreadyOpen)))))))"

section \<open>Payments\<close>

definition validationErrorReason :: "validator_error \<Rightarrow> PaymentRejectionReason" where
  "validationErrorReason err =
     (case err of
        ErrInvalidRecipientRand \<Rightarrow> INVALID_RECIPIENT_RAND
      | ErrInvalidSignature \<Rightarrow> INVALID_SIGNATURE
      | _ \<Rightarrow> REASON_OTHER)"

definition rejectionReasonLabel :: "PaymentRejectionReason \<Rightarrow> string" where
  "rejectionReasonLabel r =
     (case r of
        INVALID_RECIPIENT_RAND \<Rightarrow> ''invalid_recipient_rand''
      | NONCE_REPLAY \<Rightarrow> ''nonce_replay''
      | NONCE_CAP_REACHED \<Rightarrow> ''nonce_cap''
      | INVALID_SIGNATURE \<Rightarrow> ''invalid_signature''
      | _ \<Rightarrow> ''other'')"

fun summarize_loop ::
  "TicketStatus list \<Rightarrow> (PaymentRejectionReason \<Rightarrow> int) \<Rightarrow> int \<Rightarrow> PaymentRejectionReason \<Rightarrow> int \<Rightarrow>
   int \<times> PaymentRejectionReason" where
  "summarize_loop [] counts rejected dominant dominantCount = (rejected, dominant)"
| "summarize_loop (st # sts) counts rejected dominant dominantCount =
     (let r = ts_rejection_reason st in
      if r = REASON_UNSPECIFIED then summarize_loop sts counts rejected dominant dominantCount
      else
        let counts' = counts(r := counts r + 1) in
        if dominantCount < counts' r then summarize_loop sts counts' (rejected + 1) r (counts' r)
        else summarize_loop sts counts' (rejected + 1) dominant dominantCount)"

definition summarizeTicketStatus :: "TicketStatus list \<Rightarrow> int \<times> PaymentRejectionReason" where
  "summarizeTicketStatus statuses = summarize_loop statuses (\<lambda>_. 0) 0 REASON_UNSPECIFIED 0"

text \<open>\<open>price\<close> is an \<open>int64\<close>; converting a positive one to \<open>uint64\<close> keeps it.\<close>

definition checkSignedPrice :: "pb_Payment \<Rightarrow> Session \<Rightarrow> rpc_error option" where
  "checkSignedPrice pay sess =
     (case pb_expected_price pay of
        None \<Rightarrow> None
      | Some price \<Rightarrow>
          if ss_PricePerWorkUnitWei sess = PricingUnset then None
          else case SetString (ss_PricePerWorkUnitWei sess) of
            None \<Rightarrow> Some (status_Error Internal ''session price corrupt'')
          | Some stored \<Rightarrow>
              let signedPerUnits = (if PixelsPerUnit price \<le> 0 then 1 else PixelsPerUnit price);
                  storedPerUnits = (if ss_PerUnits sess = 0 then 1 else ss_PerUnits sess)
              in if PricePerUnit price \<noteq> stored
                   then Some (status_Error FailedPrecondition
                          ''payment signed price does not match the session price'')
                 else if word_of_int signedPerUnits \<noteq> storedPerUnits
                   then Some (status_Error FailedPrecondition
                          ''payment signed per_units does not match the session per_units'')
                 else None)"

definition payment_ticket :: "pb_Payment \<Rightarrow> pb_TicketParams \<Rightarrow> TicketSenderParams \<Rightarrow> Ticket" where
  "payment_ticket pay tp tsp =
     \<lparr>Recipient = pb_recipient tp, Sender = pb_sender pay,
      FaceValue = Some (SetBytes (pb_face_value tp)), WinProb = Some (SetBytes (pb_win_prob tp)),
      SenderNonce = sp_SenderNonce tsp, RecipientRandHash = pb_recipient_rand_hash tp,
      tk_CreationRound =
        (case pb_pay_expiration_params pay of None \<Rightarrow> 0 | Some e \<Rightarrow> CreationRound e),
      CreationRoundHash =
        (case pb_pay_expiration_params pay of None \<Rightarrow> [] | Some e \<Rightarrow> CreationRoundBlockHash e)\<rparr>"

definition winning_ticket :: "Ticket \<Rightarrow> bytes \<Rightarrow> int \<Rightarrow> StoredTicket" where
  "winning_ticket t sig rand =
     \<lparr>stk_Recipient = Recipient t, stk_Sender = Sender t, stk_FaceValue = FaceValue t,
      stk_WinProb = WinProb t, stk_SenderNonce = SenderNonce t,
      stk_RecipientRandHash = RecipientRandHash t, stk_CreationRound = tk_CreationRound t,
      stk_CreationRoundHash = CreationRoundHash t, stk_Sig = sig, stk_RecipientRand = Some rand\<rparr>"

definition ticket_status :: "uint32 \<Rightarrow> TicketStatus" where
  "ticket_status nonce =
     \<lparr>ts_sender_nonce = nonce, ts_rejection_reason = REASON_UNSPECIFIED, ts_credited_ev = [],
      ts_was_winning = False\<rparr>"

definition session_tuple :: "Service \<Rightarrow> Session \<Rightarrow> TicketSessionKey" where
  "session_tuple svc sess =
     \<lparr>tk_WholesaleAccountID = [], tk_TicketStreamID = [], tk_Sender = ss_Sender sess,
      tk_Recipient = recipient svc, tk_Capability = ss_Capability sess, tk_Offering = ss_Offering sess\<rparr>"

text \<open>The loop over the tickets of a payment. The accumulator is the credit so far, the number of
  winners queued, and the statuses.\<close>

fun credit_loop ::
  "eth \<Rightarrow> Service \<Rightarrow> pb_Payment \<Rightarrow> pb_TicketParams \<Rightarrow> Session \<Rightarrow> int \<Rightarrow> time \<Rightarrow> TicketSenderParams list \<Rightarrow>
   int \<times> uint32 \<times> TicketStatus list \<Rightarrow> (int \<times> uint32 \<times> TicketStatus list) rpc" where
  "credit_loop E svc pay tp sess rand now [] acc s = (s, Inr acc)"
| "credit_loop E svc pay tp sess rand now (tsp # tsps) (credit, winners, sts) s =
     (let t = payment_ticket pay tp tsp; st = ticket_status (sp_SenderNonce tsp) in
      case Validate E (recipient svc) t (sp_Sig tsp) (Some rand) of
        Some err \<Rightarrow>
          credit_loop E svc pay tp sess rand now tsps
            (credit, winners, sts @ [st\<lparr>ts_rejection_reason := validationErrorReason err\<rparr>]) s
      | None \<Rightarrow>
          (case RecordNonce (Some rand) (sp_SenderNonce tsp) s of
             (s1, Inl err) \<Rightarrow>
               if errors_Is err ErrNonceAlreadySeen then
                 credit_loop E svc pay tp sess rand now tsps
                   (credit, winners, sts @ [st\<lparr>ts_rejection_reason := NONCE_REPLAY\<rparr>]) s1
               else if errors_Is err ErrTooManyNonces then
                 (case ResetTicketSessionIfCurrent (session_tuple svc sess) (ss_WorkID sess) now s1 of
                    (s2, Inl _) \<Rightarrow> (s2, Inl (status_Error Internal ''retiring exhausted ticket session''))
                  | (s2, Inr _) \<Rightarrow>
                      (s2, Inr (credit, winners, sts @ [st\<lparr>ts_rejection_reason := INVALID_RECIPIENT_RAND\<rparr>])))
               else (s1, Inl (status_Error Internal ''record nonce''))
           | (s1, Inr _) \<Rightarrow>
               let num = CreditedEV (FaceValue t) (WinProb t);
                   st' = st\<lparr>ts_credited_ev := big_Bytes num\<rparr>
               in if IsWinning E t (sp_Sig tsp) (Some rand) = Some True then
                    (case EnqueueRedemption (Ticket_Hash E t) (Some (winning_ticket t (sp_Sig tsp) rand)) s1 of
                       (s2, Inl _) \<Rightarrow> (s2, Inl (status_Error Internal ''enqueue redemption''))
                     | (s2, Inr enq) \<Rightarrow>
                         credit_loop E svc pay tp sess rand now tsps
                           (credit + num, (if enq then winners + 1 else winners),
                            sts @ [st'\<lparr>ts_was_winning := True\<rparr>]) s2)
                  else credit_loop E svc pay tp sess rand now tsps (credit + num, winners, sts @ [st']) s1))"

definition validateAndCredit ::
  "eth \<Rightarrow> Service \<Rightarrow> pb_Payment \<Rightarrow> pb_TicketParams \<Rightarrow> Session \<Rightarrow> int \<Rightarrow> time \<Rightarrow>
   (int \<times> uint32 \<times> TicketStatus list) rpc" where
  "validateAndCredit E svc pay tp sess rand now =
     credit_loop E svc pay tp sess rand now (pb_ticket_sender_params pay) (0, 0, [])"

record ProcessPaymentResponse =
  pp_sender :: bytes
  pp_credited_ev :: bytes
  pp_balance :: bytes
  pp_winners_queued :: int
  pp_ticket_status :: "TicketStatus list"
  pp_tickets_rejected :: int
  pp_dominant_rejection :: PaymentRejectionReason

definition refused_closed :: "pb_Payment \<Rightarrow> Session \<Rightarrow> ProcessPaymentResponse" where
  "refused_closed pay sess =
     (let refused = (\<lambda>n. (ticket_status n)\<lparr>ts_rejection_reason := INVALID_RECIPIENT_RAND\<rparr>);
          sts = map (\<lambda>tsp. refused (sp_SenderNonce tsp)) (pb_ticket_sender_params pay);
          statuses = (if sts = [] then [refused 0] else sts);
          (rejected, dominant) = summarizeTicketStatus statuses
      in \<lparr>pp_sender = pb_sender pay, pp_credited_ev = [],
          pp_balance = big_Bytes (case SetString (ss_BalanceWei sess) of None \<Rightarrow> 0 | Some b \<Rightarrow> b),
          pp_winners_queued = 0, pp_ticket_status = statuses, pp_tickets_rejected = rejected,
          pp_dominant_rejection = dominant\<rparr>)"

text \<open>The tail of a payment, once the session is known to take it.\<close>

definition credit_payment ::
  "eth \<Rightarrow> Service \<Rightarrow> string \<Rightarrow> pb_Payment \<Rightarrow> Session \<Rightarrow> int option \<Rightarrow> time \<Rightarrow> ProcessPaymentResponse rpc" where
  "credit_payment E svc workId pay sess rand now s =
     (let validated =
            (case (rand, pb_ticket_params pay) of
               (Some r, Some tp) \<Rightarrow>
                 (case validateAndCredit E svc pay tp sess r now s of
                    (s1, Inl e) \<Rightarrow> (s1, Inl e)
                  | (s1, Inr (c, w, sts)) \<Rightarrow> (s1, Inr (c, sint w, sts, summarizeTicketStatus sts)))
             | _ \<Rightarrow> (s, Inr (0, 0, [], 0, REASON_UNSPECIFIED)))
      in case validated of
           (s1, Inl e) \<Rightarrow> (s1, Inl e)
         | (s1, Inr (credited, winners, sts, rejected, dominant)) \<Rightarrow>
             (case CreditBalance (pb_sender pay) workId (Some credited) s1 of
                (s2, Inl _) \<Rightarrow> (s2, Inl (status_Error Internal ''credit balance''))
              | (s2, Inr balance) \<Rightarrow>
                  (s2, Inr \<lparr>pp_sender = pb_sender pay, pp_credited_ev = big_Bytes credited,
                    pp_balance = big_Bytes balance, pp_winners_queued = winners,
                    pp_ticket_status = sts, pp_tickets_rejected = rejected,
                    pp_dominant_rejection = dominant\<rparr>)))"

definition processPayment ::
  "eth \<Rightarrow> codec \<Rightarrow> Service \<Rightarrow> string \<Rightarrow> bytes \<Rightarrow> time \<Rightarrow> ProcessPaymentResponse rpc" where
  "processPayment E C svc workId paymentBytes now =
     reject (workId = []) (status_Error InvalidArgument ''work_id is empty'') (
     reject (paymentBytes = []) (status_Error InvalidArgument ''payment_bytes is empty'') (\<lambda>s.
     case Unmarshal_Payment C paymentBytes of
       None \<Rightarrow> (s, Inl (status_Error InvalidArgument ''decode payment''))
     | Some pay \<Rightarrow>
         if pb_sender pay = [] then (s, Inl (status_Error InvalidArgument ''payment.sender is empty''))
         else case SealSender workId (pb_sender pay) s of
           (s1, Inl err) \<Rightarrow>
             (s1, Inl (if errors_Is err ErrNotFound
                       then status_Error FailedPrecondition ''no session for work_id; OpenSession first''
                       else if errors_Is err ErrSenderMismatch
                       then status_Error FailedPrecondition
                              ''payment sender does not match the session's sealed sender''
                       else status_Error Internal ''seal sender''))
         | (s1, Inr _) \<Rightarrow>
             (case Store_Get (pb_sender pay) workId s1 of
                Inl _ \<Rightarrow> (s1, Inl (status_Error Internal ''load session''))
              | Inr sess \<Rightarrow>
                  if ss_Closed sess then (s1, Inr (refused_closed pay sess))
                  else if ss_WholesaleAccountID sess \<noteq> []
                  then (s1, Inl (status_Error FailedPrecondition
                              ''isolated generation requires wholesale funding''))
                  else if ss_RecipientRand sess \<noteq> [] \<and> SetString (ss_RecipientRand sess) = None
                  then (s1, Inl (status_Error Internal ''session rand corrupt''))
                  else
                    let rand = (if ss_RecipientRand sess = [] then None else SetString (ss_RecipientRand sess))
                    in case checkSignedPrice pay sess of
                         Some e \<Rightarrow> (s1, Inl e)
                       | None \<Rightarrow> credit_payment E svc workId pay sess rand now s1)))"

definition ProcessPayment ::
  "eth \<Rightarrow> codec \<Rightarrow> Service \<Rightarrow> string \<Rightarrow> bytes \<Rightarrow> time \<Rightarrow> ProcessPaymentResponse rpc" where
  "ProcessPayment E C svc workId paymentBytes now = gated (processPayment E C svc workId paymentBytes now)"

section \<open>Balances\<close>

record DebitBalanceResponse =
  db_balance :: bytes
  db_debited_wei :: bytes
  db_cumulative_units :: uint64
  db_replayed :: bool

definition sender_work_checks :: "bytes \<Rightarrow> string \<Rightarrow> 'r rpc \<Rightarrow> 'r rpc" where
  "sender_work_checks sender workId k =
     reject (sender = []) (status_Error InvalidArgument ''sender is empty'') (
     reject (workId = []) (status_Error InvalidArgument ''work_id is empty'') k)"

definition Receiver_DebitBalance :: "bytes \<Rightarrow> string \<Rightarrow> int \<Rightarrow> uint64 \<Rightarrow> DebitBalanceResponse rpc" where
  "Receiver_DebitBalance sender workId workUnits debitSeq = gated (
     sender_work_checks sender workId (
     reject (workUnits < 0) (status_Error InvalidArgument ''work_units must be >= 0'') (\<lambda>s.
     case DebitBalance sender workId workUnits debitSeq s of
       (s', Inl err) \<Rightarrow> (s', Inl (mapStoreErr err))
     | (s', Inr res) \<Rightarrow>
         (s', Inr \<lparr>db_balance = big_Bytes (dr_Balance res), db_debited_wei = big_Bytes (dr_DebitedWei res),
           db_cumulative_units = dr_CumulativeUnits res, db_replayed = dr_Replayed res\<rparr>))))"

definition SufficientBalance :: "bytes \<Rightarrow> string \<Rightarrow> int \<Rightarrow> (bool \<times> bytes) rpc" where
  "SufficientBalance sender workId minWorkUnits = sender_work_checks sender workId (\<lambda>s.
     case Store_Get sender workId s of
       Inl err \<Rightarrow> (s, Inl (mapStoreErr err))
     | Inr sess \<Rightarrow>
         let balance = (case SetString (ss_BalanceWei sess) of None \<Rightarrow> 0 | Some b \<Rightarrow> b);
             price = (case SetString (ss_PricePerWorkUnitWei sess) of None \<Rightarrow> 0 | Some p \<Rightarrow> p);
             min = (if minWorkUnits < 0 then 0 else minWorkUnits);
             required =
               BillFor (Some price) (ss_PerUnits sess) (ss_DebitedUnits sess + word_of_int min) -
               BillFor (Some price) (ss_PerUnits sess) (ss_DebitedUnits sess)
         in (s, Inr (required \<le> balance, big_Bytes balance)))"

definition Receiver_GetBalance :: "bytes \<Rightarrow> string \<Rightarrow> bytes rpc" where
  "Receiver_GetBalance sender workId = sender_work_checks sender workId (\<lambda>s.
     case GetBalance sender workId s of
       Inl err \<Rightarrow> (s, Inl (mapStoreErr err))
     | Inr balance \<Rightarrow> (s, Inr (big_Bytes balance)))"

text \<open>The answer is whether the session was already closed.\<close>

definition Receiver_CloseSession :: "bytes \<Rightarrow> string \<Rightarrow> time \<Rightarrow> bool rpc" where
  "Receiver_CloseSession sender workId now = gated (sender_work_checks sender workId (\<lambda>s.
     case CloseSession sender workId now s of
       (s', Inl err) \<Rightarrow> (s', Inl (mapStoreErr err))
     | (s', Inr alreadyClosed) \<Rightarrow> (s', Inr alreadyClosed)))"

section \<open>Ticket parameters\<close>

definition recipient_mismatch :: "Service \<Rightarrow> bytes \<Rightarrow> bool" where
  "recipient_mismatch svc got \<longleftrightarrow> length got \<noteq> 0 \<and> got \<noteq> recipient svc"

definition ResetSession ::
  "Service \<Rightarrow> bytes \<Rightarrow> bytes \<Rightarrow> string \<Rightarrow> string \<Rightarrow> string \<Rightarrow> string \<Rightarrow> time \<Rightarrow> (string \<times> bool) rpc" where
  "ResetSession svc sender got capability offering accountId streamId now = gated (
     reject (sender = []) (status_Error InvalidArgument ''sender is empty'') (
     reject (recipient_mismatch svc got) (status_Error InvalidArgument ''recipient mismatch'') (
     reject (capability = []) (status_Error InvalidArgument ''capability is empty'') (
     reject (offering = []) (status_Error InvalidArgument ''offering is empty'') (
     reject (\<not> ValidWholesaleAccountID accountId \<or> \<not> ValidWholesaleAccountID streamId)
       (status_Error InvalidArgument ''account and ticket stream identity required'') (\<lambda>s.
     case ResetTicketSession \<lparr>tk_WholesaleAccountID = accountId, tk_TicketStreamID = streamId,
            tk_Sender = sender, tk_Recipient = recipient svc, tk_Capability = capability,
            tk_Offering = offering\<rparr> now s of
       (s', Inl _) \<Rightarrow> (s', Inl (status_Error Internal ''reset session''))
     | (s', Inr r) \<Rightarrow> (s', Inr r)))))))"

text \<open>The callers keep the face value positive; the division by zero that would panic does not arise.\<close>

definition winProbForExactEV :: "int \<Rightarrow> int \<Rightarrow> int" where
  "winProbForExactEV faceValue target =
     (let numerator = target * MaxWinProb;
          prob = Quo numerator faceValue
      in if Rem numerator faceValue \<noteq> 0 then prob + 1 else prob)"

record GetTicketParamsRequest =
  gp_wholesale_account_id :: string
  gp_ticket_stream_id :: string
  gp_sender :: bytes
  gp_recipient :: bytes
  gp_capability :: string
  gp_offering :: string
  gp_face_value :: bytes

record GetTicketParamsResponse =
  gr_wholesale_account_id :: string
  gr_ticket_stream_id :: string
  gr_isolation_version :: uint32
  gr_predecessor_work_id :: string
  gr_highest_seen_nonce :: uint32
  gr_has_seen_nonces :: bool
  gr_ticket_params :: "pb_TicketParams option"

text \<open>The face value and win probability for a target expected value; the flag says whether the target
  can be met.\<close>

definition quote_for :: "Service \<Rightarrow> int \<Rightarrow> int \<times> int" where
  "quote_for svc ev =
     (let face = (if defaultFaceValue svc < ev then ev else defaultFaceValue svc)
      in (face, winProbForExactEV face ev))"

definition quote_ok :: "int \<Rightarrow> int \<times> int \<Rightarrow> bool" where
  "quote_ok ev q \<longleftrightarrow>
     (case q of (face, prob) \<Rightarrow>
        0 < prob \<and> prob \<le> MaxWinProb \<and> CreditedEV (Some face) (Some prob) = ev)"

text \<open>Rotation of an exhausted rand before parameters are issued; the answer is the retired work id.\<close>

definition rotate_exhausted :: "TicketSessionKey \<Rightarrow> time \<Rightarrow> string rpc" where
  "rotate_exhausted key now s =
     (case TicketSessionFor key s of
        None \<Rightarrow> (s, Inr [])
      | Some existing \<Rightarrow>
          (case SetString (ss_RecipientRand existing) of
             None \<Rightarrow> (s, Inr [])
           | Some rand \<Rightarrow>
               if MaxSenderNonces \<le> NonceCount (Some rand) s then
                 (case ResetTicketSessionIfCurrent key (ss_WorkID existing) now s of
                    (s', Inl _) \<Rightarrow> (s', Inl (status_Error Internal ''rotate exhausted session''))
                  | (s', Inr rotated) \<Rightarrow> (s', Inr (if rotated then ss_WorkID existing else [])))
               else (s, Inr [])))"

definition issue_params ::
  "eth \<Rightarrow> Service \<Rightarrow> GetTicketParamsRequest \<Rightarrow> int option \<Rightarrow> string \<Rightarrow> Session \<Rightarrow> GetTicketParamsResponse rpc" where
  "issue_params E svc req requestedEV predecessor sess s =
     (case SetString (ss_RecipientRand sess) of
        None \<Rightarrow> (s, Inl (status_Error Internal ''session rand corrupt''))
      | Some rand \<Rightarrow>
          (case SetString (ss_FaceValueWei sess) of
             None \<Rightarrow> (s, Inl (status_Error Internal ''session face value corrupt''))
           | Some sessFace \<Rightarrow>
               (case (case requestedEV of
                        Some ev \<Rightarrow> Some (quote_for svc ev)
                      | None \<Rightarrow> map_option (Pair sessFace) (SetString (ss_WinProb sess))) of
                  None \<Rightarrow> (s, Inl (status_Error Internal ''session win prob corrupt''))
                | Some (face, prob) \<Rightarrow>
                    let (highest, seen) = HighestSenderNonce (Some rand) s in
                    (s, Inr \<lparr>gr_wholesale_account_id = gp_wholesale_account_id req,
                      gr_ticket_stream_id = gp_ticket_stream_id req, gr_isolation_version = 1,
                      gr_predecessor_work_id = predecessor, gr_highest_seen_nonce = highest,
                      gr_has_seen_nonces = seen,
                      gr_ticket_params = Some
                        \<lparr>pb_recipient = recipient svc, pb_face_value = big_Bytes face,
                         pb_win_prob = big_Bytes prob,
                         pb_recipient_rand_hash = HashRecipientRand E (Some rand),
                         pb_seed = LeftPadBytes E (big_Bytes rand) 32,
                         pb_expiration_block = [], pb_expiration_params = None\<rparr>\<rparr>))))"

definition tuple_of :: "Service \<Rightarrow> GetTicketParamsRequest \<Rightarrow> TicketSessionKey" where
  "tuple_of svc req =
     \<lparr>tk_WholesaleAccountID = gp_wholesale_account_id req, tk_TicketStreamID = gp_ticket_stream_id req,
      tk_Sender = gp_sender req, tk_Recipient = recipient svc, tk_Capability = gp_capability req,
      tk_Offering = gp_offering req\<rparr>"

definition GetTicketParams ::
  "eth \<Rightarrow> Service \<Rightarrow> GetTicketParamsRequest \<Rightarrow> bytes \<Rightarrow> time \<Rightarrow> GetTicketParamsResponse rpc" where
  "GetTicketParams E svc req random now =
     reject (\<not> ValidWholesaleAccountID (gp_wholesale_account_id req))
       (status_Error InvalidArgument ''wholesale_account_id is required'') (gated (
     reject (length (gp_sender req) \<noteq> 20) (status_Error InvalidArgument ''sender must be 20 bytes'') (
     reject (gp_capability req = []) (status_Error InvalidArgument ''capability is empty'') (
     reject (gp_offering req = []) (status_Error InvalidArgument ''offering is empty'') (
     reject (recipient_mismatch svc (gp_recipient req))
       (status_Error InvalidArgument ''recipient mismatch'') (
     let r = genRand random;
         workID = hex_encode (HashRecipientRand E (Some r));
         requestedEV = (if gp_face_value req = [] then None else Some (SetBytes (gp_face_value req)));
         quote = (case requestedEV of
                    None \<Rightarrow> (defaultFaceValue svc, defaultWinProb svc)
                  | Some ev \<Rightarrow> quote_for svc ev);
         key = tuple_of svc req
     in
     reject (case requestedEV of None \<Rightarrow> False | Some ev \<Rightarrow> ev \<le> 0)
       (status_Error InvalidArgument ''target expected value must be positive'') (
     reject (case requestedEV of None \<Rightarrow> False | Some ev \<Rightarrow> \<not> quote_ok ev quote)
       (status_Error FailedPrecondition ''cannot represent target expected value'') (
     reject (\<not> ValidWholesaleAccountID (gp_ticket_stream_id req))
       (status_Error InvalidArgument ''ticket_stream_id is required'') (\<lambda>s.
     case rotate_exhausted key now s of
       (s1, Inl e) \<Rightarrow> (s1, Inl e)
     | (s1, Inr predecessor) \<Rightarrow>
         (case GetOrCreateTicketSession key
                 (zero_Session\<lparr>ss_WorkID := workID, ss_PricePerWorkUnitWei := PricingUnset,
                    ss_WorkUnit := [], ss_RecipientRand := big_String r,
                    ss_FaceValueWei := big_String (fst quote), ss_WinProb := big_String (snd quote)\<rparr>) now s1 of
            (s2, Inl _) \<Rightarrow> (s2, Inl (status_Error Internal ''open session''))
          | (s2, Inr (sess, _)) \<Rightarrow> issue_params E svc req requestedEV predecessor sess s2))))))))))"

section \<open>Queries\<close>

definition GetQuote :: "unit rpc" where
  "GetQuote s = (s, Inl (status_Error Unimplemented
     ''GetQuote not implemented; per-offering pricing is a future plan''))"

text \<open>A queued ticket without a face value makes the listing panic; the answer is then None.\<close>

definition ListPendingRedemptions :: "store \<Rightarrow> (bytes \<times> bytes \<times> bytes) list option" where
  "ListPendingRedemptions s =
     (if \<exists>p \<in> set (PendingRedemptions s). stk_FaceValue (pr_Ticket p) = None then None
      else Some (map (\<lambda>p. (stk_Sender (pr_Ticket p), pr_Hash p, safeBytes (stk_FaceValue (pr_Ticket p))))
                   (PendingRedemptions s)))"

datatype redemption_status = STATUS_UNSPECIFIED | STATUS_QUEUED | STATUS_CONFIRMED bytes | STATUS_FAILED

definition GetRedemptionStatus :: "bytes \<Rightarrow> store \<Rightarrow> rpc_error + redemption_status" where
  "GetRedemptionStatus h s =
     (if length h \<noteq> 32 then Inl (status_Error InvalidArgument ''ticket_hash must be 32 bytes'')
      else case RedeemedTxHash h s of
        Some txHash \<Rightarrow>
          Inr (if txHash = replicate 32 NUL then STATUS_FAILED else STATUS_CONFIRMED txHash)
      | None \<Rightarrow>
          Inr (if \<exists>p \<in> set (PendingRedemptions s). pr_Hash p = h then STATUS_QUEUED
               else STATUS_UNSPECIFIED))"

text \<open>The digest of a complete report binds it to the source: SHA-256 of the JSON object that names
  the ledger, chain, payee, round and the digest of the entries.\<close>

definition source_digest :: "Service \<Rightarrow> GetRoundRevenueResponse \<Rightarrow> bytes" where
  "source_digest svc r =
     sha256 (CHR ''{'' # json_field ''Source'' (json_string (settlementDomainID svc)) @
       CHR '','' # json_field ''Chain'' (nat_decimal (unat (chainID svc))) @
       CHR '','' # json_field ''Payee'' (json_bytes (recipient svc)) @
       CHR '','' # json_field ''Round'' (big_String (rv_round_id r)) @
       CHR '','' # json_field ''Entries'' (json_bytes (rv_inclusion_digest r)) @ ''}'')"

definition GetRoundRevenue :: "Service \<Rightarrow> int \<Rightarrow> store \<Rightarrow> rpc_error + GetRoundRevenueResponse" where
  "GetRoundRevenue svc roundId s =
     (if roundId < 0 then Inl (status_Error InvalidArgument ''round_id must be >= 0'')
      else case RevenueReporter svc of
        Some reporter \<Rightarrow>
          (case reporter roundId of
             Inl _ \<Rightarrow> Inl (status_Error Unavailable ''revenue report'')
           | Inr result \<Rightarrow>
               let result' = result\<lparr>rv_settlement_domain_id := settlementDomainID svc,
                     rv_chain_id := chainID svc, rv_payee := recipient svc\<rparr>
               in Inr (if rv_complete result'
                       then result'\<lparr>rv_inclusion_digest := source_digest svc result'\<rparr> else result'))
      | None \<Rightarrow>
          (case RoundRevenue roundId s of
             Inl _ \<Rightarrow> Inl (status_Error Internal ''round revenue'')
           | Inr (revenue, cnt) \<Rightarrow>
               Inr \<lparr>rv_round_id = roundId, rv_confirmed_revenue_wei = big_Bytes revenue,
                 rv_confirmed_ticket_count = cnt, rv_settlement_domain_id = settlementDomainID svc,
                 rv_chain_id = chainID svc, rv_payee = recipient svc, rv_complete = False,
                 rv_incomplete_reason = ''chain-qualified revenue reporting unavailable'',
                 rv_complete_through_round = 0, rv_observed_at = 0, rv_inclusion_digest = []\<rparr>))"

definition Health :: "Service \<Rightarrow> rpc_error + string \<times> string" where
  "Health svc =
     (if settlementDomainErr svc then Inl (status_Error FailedPrecondition [])
      else Inr (''ok'', settlementDomainID svc))"

end
