(* ===== verification/Go_Strings.thy ===== *)
theory Go_Strings
  imports Nonce_Store
begin

text \<open>
  String handling of Go's standard library that the payer's service and the identity rules use:
  \<open>strings.TrimSpace\<close>, \<open>Split\<close>, \<open>Cut\<close>, \<open>Join\<close>, \<open>TrimRight\<close> and \<open>ToLower\<close> (on ASCII),
  \<open>hex.DecodeString\<close>, \<open>url.QueryEscape\<close> and the 32-bit FNV-1a hash of \<open>hash/fnv\<close>.

  The lemmas show that trimming ends, that no leading white space is left, that splitting and joining
  are inverse, and that decoding hexadecimal inverts encoding.
\<close>

section \<open>White space\<close>

text \<open>The UTF-8 encodings of the runes that \<open>unicode.IsSpace\<close> accepts.\<close>

definition space_runes :: "bytes list" where
  "space_runes =
     map (map byte_of_nat)
       ([[9], [10], [11], [12], [13], [32], [0xC2, 0x85], [0xC2, 0xA0], [0xE1, 0x9A, 0x80]] @
        map (\<lambda>b. [0xE2, 0x80, b]) [0x80..<0x8B] @
        [[0xE2, 0x80, 0xA8], [0xE2, 0x80, 0xA9], [0xE2, 0x80, 0xAF], [0xE2, 0x81, 0x9F], [0xE3, 0x80, 0x80]])"

text \<open>Dropping leading words of a table for as long as one matches.\<close>

definition leading_word :: "bytes list \<Rightarrow> bytes \<Rightarrow> bytes option" where
  "leading_word ws s = find (\<lambda>w. w \<noteq> [] \<and> hasPrefix s w) ws"

lemma leading_word_Some:
  "leading_word ws s = Some w \<Longrightarrow> w \<in> set ws \<and> w \<noteq> [] \<and> length w \<le> length s \<and> take (length w) s = w"
  by (auto simp: leading_word_def find_Some_iff hasPrefix_def)

function drop_words :: "bytes list \<Rightarrow> bytes \<Rightarrow> bytes" where
  "drop_words ws s =
     (case leading_word ws s of None \<Rightarrow> s | Some w \<Rightarrow> drop_words ws (drop (length w) s))"
  by pat_completeness auto
termination
  by (relation "measure (\<lambda>(ws, s). length s)") (auto dest!: leading_word_Some simp: neq_Nil_conv)

declare drop_words.simps [simp del]

definition TrimSpace :: "string \<Rightarrow> string" where
  "TrimSpace s = rev (drop_words (map rev space_runes) (rev (drop_words space_runes s)))"

lemma drop_words_stuck: "leading_word ws s = None \<Longrightarrow> drop_words ws s = s"
  by (simp add: drop_words.simps)

lemma drop_words_done: "leading_word ws (drop_words ws s) = None"
proof (induction ws s rule: drop_words.induct)
  case (1 ws s)
  then show ?case by (cases "leading_word ws s") (simp_all add: drop_words.simps [of ws s])
qed

lemma drop_words_suffix: "\<exists>pre. s = pre @ drop_words ws s"
proof (induction ws s rule: drop_words.induct)
  case (1 ws s)
  show ?case
  proof (cases "leading_word ws s")
    case None
    then show ?thesis by (simp add: drop_words_stuck)
  next
    case (Some w)
    from 1 [OF Some] obtain pre where "drop (length w) s = pre @ drop_words ws (drop (length w) s)" ..
    then have "s = (take (length w) s @ pre) @ drop_words ws (drop (length w) s)" by simp
    then show ?thesis using Some by (metis drop_words.simps option.simps(5))
  qed
qed

lemma drop_words_Nil [simp]: "drop_words ws [] = []"
  using drop_words_suffix [of "[]" ws] by simp

text \<open>A string that begins and ends with a visible ASCII character is left alone.\<close>

definition visible :: "char \<Rightarrow> bool" where
  "visible c \<longleftrightarrow> 33 \<le> nat_of_byte c \<and> nat_of_byte c < 128"

lemma space_runes_invisible: "w \<in> set space_runes \<Longrightarrow> w \<noteq> [] \<and> \<not> visible (hd w) \<and> \<not> visible (last w)"
proof -
  have "list_all (\<lambda>w. w \<noteq> [] \<and> \<not> visible (hd w) \<and> \<not> visible (last w)) space_runes"
    by (simp add: space_runes_def visible_def upt_rec_numeral)
  then show "w \<in> set space_runes \<Longrightarrow> ?thesis" unfolding list_all_iff by blast
qed

lemma leading_word_visible:
  assumes "visible (hd s)" "\<And>w. w \<in> set ws \<Longrightarrow> w \<noteq> [] \<Longrightarrow> \<not> visible (hd w)"
  shows "leading_word ws s = None"
proof (rule ccontr)
  assume "leading_word ws s \<noteq> None"
  then obtain w where "leading_word ws s = Some w" by blast
  from leading_word_Some [OF this] have w: "w \<in> set ws" "w \<noteq> []" "take (length w) s = w" by simp_all
  then have "hd s = hd w" by (metis hd_take length_greater_0_conv)
  then show False using assms w by simp
qed

lemma TrimSpace_Nil [simp]: "TrimSpace [] = []"
  by (simp add: TrimSpace_def)

lemma TrimSpace_visible:
  assumes "visible (hd s)" "visible (last s)"
  shows "TrimSpace s = s"
proof -
  have "leading_word space_runes s = None"
    using assms(1) by (rule leading_word_visible) (simp add: space_runes_invisible)
  moreover have "leading_word (map rev space_runes) (rev s) = None"
    by (rule leading_word_visible) (use assms(2) space_runes_invisible in \<open>auto simp: hd_rev\<close>)
  ultimately show ?thesis by (simp add: TrimSpace_def drop_words_stuck)
qed

section \<open>Splitting and joining\<close>

text \<open>\<open>strings.Split(s, sep)\<close> for a one-byte separator.\<close>

fun Split :: "string \<Rightarrow> char \<Rightarrow> string list" where
  "Split [] sep = [[]]"
| "Split (c # cs) sep =
     (if c = sep then [] # Split cs sep
      else case Split cs sep of [] \<Rightarrow> [[c]] | p # ps \<Rightarrow> (c # p) # ps)"

fun Join :: "string list \<Rightarrow> string \<Rightarrow> string" where
  "Join [] sep = []"
| "Join [x] sep = x"
| "Join (x # y # ys) sep = x @ sep @ Join (y # ys) sep"

text \<open>\<open>strings.Cut(s, sep)\<close>: what stands before and after the first separator, if there is one.\<close>

definition Cut :: "string \<Rightarrow> char \<Rightarrow> string \<times> string \<times> bool" where
  "Cut s sep =
     (let before = takeWhile (\<lambda>c. c \<noteq> sep) s in
      if length before = length s then (s, [], False) else (before, drop (length before + 1) s, True))"

definition TrimRight :: "string \<Rightarrow> char \<Rightarrow> string" where
  "TrimRight s c = rev (dropWhile (\<lambda>x. x = c) (rev s))"

lemma Split_not_Nil [simp]: "Split s sep \<noteq> []"
  by (induction s) (auto split: list.splits)

lemma Join_Cons: "ps \<noteq> [] \<Longrightarrow> Join (p # ps) sep = p @ sep @ Join ps sep"
  by (cases ps) simp_all

lemma Join_head: "Join ((c # p) # ps) sep = c # Join (p # ps) sep"
  by (cases ps) simp_all

lemma Join_Split: "Join (Split s sep) [sep] = s"
proof (induction s)
  case (Cons c s)
  then show ?case by (cases "Split s sep") (auto simp: Join_Cons Join_head)
qed simp

lemma Split_no_sep: "sep \<notin> set p \<Longrightarrow> Split p sep = [p]"
  by (induction p) auto

lemma Split_append: "sep \<notin> set p \<Longrightarrow> Split (p @ sep # rest) sep = p # Split rest sep"
  by (induction p) (auto split: list.splits)

lemma Split_Join: "ps \<noteq> [] \<Longrightarrow> (\<forall>p \<in> set ps. sep \<notin> set p) \<Longrightarrow> Split (Join ps [sep]) sep = ps"
  by (induction ps "[sep]" rule: Join.induct) (simp_all add: Split_no_sep Split_append)

lemma Cut_append: "sep \<notin> set u \<Longrightarrow> Cut (u @ sep # v) sep = (u, v, True)"
  by (induction u) (auto simp: Cut_def Let_def split: if_splits)

section \<open>Encodings\<close>

definition ascii_lower :: "char \<Rightarrow> char" where
  "ascii_lower c =
     (let n = nat_of_byte c in if 65 \<le> n \<and> n \<le> 90 then byte_of_nat (n + 32) else c)"

definition hex_value :: "char \<Rightarrow> nat option" where
  "hex_value c =
     (let n = nat_of_byte c in
      if 48 \<le> n \<and> n \<le> 57 then Some (n - 48)
      else if 97 \<le> n \<and> n \<le> 102 then Some (n - 87)
      else if 65 \<le> n \<and> n \<le> 70 then Some (n - 55)
      else None)"

fun hex_decode :: "string \<Rightarrow> bytes option" where
  "hex_decode [] = Some []"
| "hex_decode [c] = None"
| "hex_decode (c # d # cs) =
     (case (hex_value c, hex_value d, hex_decode cs) of
        (Some h, Some l, Some bs) \<Rightarrow> Some (byte_of_nat (16 * h + l) # bs)
      | _ \<Rightarrow> None)"

lemma hex_value_digit: "d < 16 \<Longrightarrow> hex_value (hex_digit d) = Some d"
  by (auto simp: hex_value_def hex_digit_def Let_def)

lemma hex_decode_encode [simp]: "hex_decode (hex_encode b) = Some b"
proof (induction b)
  case (Cons c b)
  have "nat_of_byte c div 16 < 16" using nat_of_byte_lt [of c] by (simp add: less_mult_imp_div_less)
  then show ?case using Cons by (simp add: hex_value_digit)
qed simp

definition upper_hex :: "nat \<Rightarrow> char" where
  "upper_hex d = (if d < 10 then byte_of_nat (48 + d) else byte_of_nat (55 + d))"

definition unreserved :: "char \<Rightarrow> bool" where
  "unreserved c \<longleftrightarrow>
     (let n = nat_of_byte c in
      48 \<le> n \<and> n \<le> 57 \<or> 65 \<le> n \<and> n \<le> 90 \<or> 97 \<le> n \<and> n \<le> 122) \<or> c \<in> set ''-_.~''"

definition QueryEscape :: "string \<Rightarrow> string" where
  "QueryEscape s =
     concat (map (\<lambda>c. if unreserved c then [c] else if c = CHR '' '' then ''+''
       else [CHR ''%'', upper_hex (nat_of_byte c div 16), upper_hex (nat_of_byte c mod 16)]) s)"

text \<open>\<open>fnv.New32a\<close>: exclusive or with the byte, then multiplication by the prime, modulo \<open>2 ^ 32\<close>.\<close>

definition fnv32a :: "bytes \<Rightarrow> uint32" where
  "fnv32a b = foldl (\<lambda>h c. (xor h (word_of_nat (nat_of_byte c))) * 16777619) 2166136261 b"

end
