(* ===== verification/Receiver_Wholesale.thy ===== *)
theory Receiver_Wholesale
  imports Receiver_Sessions Go_Strings
begin

text \<open>
  The wholesale half of the payee's service: funding an account with tickets
  (\<open>payment-daemon/internal/service/receiver/funding.go\<close>), admitting, advancing and settling spend
  authorizations (\<open>receiver.go\<close>), cancelling an admission (\<open>admission_recovery.go\<close>), and freezing the
  source (\<open>source_fence.go\<close>).

  The moment of a call is an argument; a handler that reads the clock twice gets both readings. The
  account and authorization of a store answer are pointers there; \<open>None\<close> stands for a nil one, which
  the view would dereference, and the lemmas show that the store never hands one out.
\<close>

section \<open>Funding\<close>

record FundWholesaleAccountRequest =
  fq_payment_bytes :: bytes
  fq_settlement_domain_id :: string
  fq_wholesale_account_id :: string

record FundWholesaleAccountResponse =
  fw_funding_id :: string
  fw_account :: "WholesaleAccountView option"
  fw_credited_value_wei :: bytes
  fw_replayed :: bool

definition funding_response :: "Service \<Rightarrow> FundingReceipt \<Rightarrow> bool \<Rightarrow> FundWholesaleAccountResponse" where
  "funding_response svc r replay =
     \<lparr>fw_funding_id = fr_FundingID r, fw_account = map_option (wholesaleAccountView svc) (fr_Account r),
      fw_credited_value_wei = decimalBytes (fr_CreditedWei r), fw_replayed = replay\<rparr>"

definition funding_ticket :: "eth \<Rightarrow> pb_Payment \<Rightarrow> pb_TicketParams \<Rightarrow> int \<Rightarrow> TicketSenderParams \<Rightarrow> FundingTicket" where
  "funding_ticket E pay tp rand tsp =
     (let t = payment_ticket pay tp tsp in
      \<lparr>ft_Nonce = SenderNonce t, ft_Credit = Some (CreditedEV (FaceValue t) (WinProb t)),
       ft_Winner = (if IsWinning E t (sp_Sig tsp) (Some rand) = Some True
                    then Some (winning_ticket t (sp_Sig tsp) rand) else None),
       ft_Hash = Ticket_Hash E t\<rparr>)"

text \<open>Every ticket is validated before any is applied; the first invalid one ends the call.\<close>

fun funding_batch ::
  "eth \<Rightarrow> Service \<Rightarrow> pb_Payment \<Rightarrow> pb_TicketParams \<Rightarrow> int \<Rightarrow> TicketSenderParams list \<Rightarrow>
   rpc_error + FundingTicket list" where
  "funding_batch E svc pay tp rand [] = Inr []"
| "funding_batch E svc pay tp rand (tsp # tsps) =
     (case Validate E (recipient svc) (payment_ticket pay tp tsp) (sp_Sig tsp) (Some rand) of
        Some _ \<Rightarrow> Inl (status_Error FailedPrecondition ''invalid funding ticket'')
      | None \<Rightarrow>
          sum_bind (funding_batch E svc pay tp rand tsps)
            (\<lambda>ts. Inr (funding_ticket E pay tp rand tsp # ts)))"

definition apply_funding ::
  "eth \<Rightarrow> Service \<Rightarrow> string \<Rightarrow> string \<Rightarrow> pb_Payment \<Rightarrow> pb_TicketParams \<Rightarrow> time \<Rightarrow>
   FundWholesaleAccountResponse rpc" where
  "apply_funding E svc accountId fundingID pay tp now s =
     (let workID = hex_encode (pb_recipient_rand_hash tp) in
      case Store_Get (pb_sender pay) workID s of
        Inl _ \<Rightarrow> (s, Inl (status_Error FailedPrecondition ''funding generation not found''))
      | Inr sess \<Rightarrow>
          if ss_WholesaleAccountID sess \<noteq> accountId \<or> ss_TicketStreamID sess = []
          then (s, Inl (status_Error PermissionDenied ''funding generation account mismatch''))
          else case checkSignedPrice pay sess of
            Some e \<Rightarrow> (s, Inl e)
          | None \<Rightarrow>
              (case SetString (ss_RecipientRand sess) of
                 None \<Rightarrow> (s, Inl (status_Error FailedPrecondition ''invalid funding generation''))
               | Some rand \<Rightarrow>
                   (case funding_batch E svc pay tp rand (pb_ticket_sender_params pay) of
                      Inl e \<Rightarrow> (s, Inl e)
                    | Inr tickets \<Rightarrow>
                        (case ApplyWholesaleFunding (pb_sender pay) (recipient svc) accountId workID fundingID
                                tickets now s of
                           (s', Inl err) \<Rightarrow>
                             (s', Inl (if errors_Is err ErrClosed \<or> errors_Is err ErrTooManyNonces
                                       then admissionStatus FailedPrecondition ''INVALID_RECIPIENT_RAND''
                                              ''funding generation retired or exhausted''
                                       else status_Error FailedPrecondition ''fund wholesale account''))
                         | (s', Inr (receipt, replay)) \<Rightarrow> (s', Inr (funding_response svc receipt replay))))))"

definition fundWholesale ::
  "eth \<Rightarrow> codec \<Rightarrow> Service \<Rightarrow> FundWholesaleAccountRequest \<Rightarrow> time \<Rightarrow> FundWholesaleAccountResponse rpc" where
  "fundWholesale E C svc req now =
     reject (\<not> ValidWholesaleAccountID (fq_wholesale_account_id req))
       (status_Error InvalidArgument ''wholesale_account_id is required'') (
     reject (domain_mismatch svc (fq_settlement_domain_id req))
       (status_Error PermissionDenied ''settlement domain does not match receiver ledger'') (\<lambda>s.
     let malformed = (s, Inl (status_Error InvalidArgument ''funding payment is malformed'')) in
     case Unmarshal_Payment C (fq_payment_bytes req) of
       None \<Rightarrow> malformed
     | Some pay \<Rightarrow>
         (case pb_ticket_params pay of
            None \<Rightarrow> malformed
          | Some tp \<Rightarrow>
              if length (pb_sender pay) \<noteq> 20 \<or> pb_ticket_sender_params pay = [] then malformed
              else
                let fundingID = hex_encode (sha256 (fq_payment_bytes req)) in
                case GetFundingReceipt (pb_sender pay) (recipient svc) (fq_wholesale_account_id req) fundingID s of
                  Inr receipt \<Rightarrow> (s, Inr (funding_response svc receipt True))
                | Inl err \<Rightarrow>
                    if \<not> errors_Is err ErrNotFound
                    then (s, Inl (status_Error PermissionDenied ''funding receipt identity mismatch''))
                    else apply_funding E svc (fq_wholesale_account_id req) fundingID pay tp now s)))"

definition FundWholesaleAccount ::
  "eth \<Rightarrow> codec \<Rightarrow> Service \<Rightarrow> FundWholesaleAccountRequest \<Rightarrow> time \<Rightarrow> FundWholesaleAccountResponse rpc" where
  "FundWholesaleAccount E C svc req now = gated (fundWholesale E C svc req now)"

definition GetWholesaleFundingReceipt ::
  "Service \<Rightarrow> bytes \<Rightarrow> string \<Rightarrow> string \<Rightarrow> string \<Rightarrow> store \<Rightarrow> rpc_error + FundWholesaleAccountResponse" where
  "GetWholesaleFundingReceipt svc payer accountId domainId fundingId s =
     (if \<not> ValidWholesaleAccountID accountId \<or> length payer \<noteq> 20
        then Inl (status_Error InvalidArgument ''payer and wholesale_account_id are required'')
      else if domain_mismatch svc domainId
        then Inl (status_Error PermissionDenied ''settlement domain does not match receiver ledger'')
      else if (case hex_decode fundingId of None \<Rightarrow> True
               | Some digest \<Rightarrow> length digest \<noteq> 32 \<or> hex_encode digest \<noteq> fundingId)
        then Inl (status_Error InvalidArgument ''funding_id must be lowercase hex SHA-256'')
      else case GetFundingReceipt payer (recipient svc) accountId fundingId s of
        Inl err \<Rightarrow>
          Inl (if errors_Is err ErrNotFound then status_Error NotFound ''funding receipt not found''
               else if errors_Is err ErrSenderMismatch
                 then status_Error PermissionDenied ''funding receipt identity mismatch''
               else status_Error Internal ''funding receipt unavailable'')
      | Inr receipt \<Rightarrow> Inr (funding_response svc receipt True))"

section \<open>Admission\<close>

record AdmitAuthorizationRequest =
  aq_authorization_bytes :: bytes
  aq_payment_bytes :: bytes
  aq_reservation_value_wei :: bytes

record AdmitAuthorizationResponse =
  aa_state :: SpendAuthorizationState
  aa_account :: "WholesaleAccountView option"
  aa_reserved_value_wei :: bytes
  aa_credited_value_wei :: bytes
  aa_replayed :: bool

text \<open>The terms of an authorization that passed every check of its content.\<close>

record terms =
  tm_payload :: SpendAuthorizationPayload
  tm_price :: pb_AcceptedPrice
  tm_expiresAt :: time

definition tm_maxDebit :: "terms \<Rightarrow> int" where
  "tm_maxDebit t = SetBytes (pl_max_debit_wei (tm_payload t))"

definition tm_unitPrice :: "terms \<Rightarrow> int" where
  "tm_unitPrice t = SetBytes (GetValue (price_per_unit_wei (tm_price t)))"

text \<open>Empty when the fields that a protocol allows are consistent, otherwise the refusal.\<close>

definition check_protocol :: "SpendAuthorizationPayload \<Rightarrow> rpc_error option" where
  "check_protocol p =
     (if pl_protocol p = ''paid-job/v1'' then
        (if pl_session_id p \<noteq> [] \<or> pl_revision p \<noteq> 0 \<or> pl_predecessor_authorization_id p \<noteq> []
         then Some (admissionStatus InvalidArgument ''REVISION_FIELDS_INVALID''
                ''paid-job/v1 cannot carry session revision fields'')
         else None)
      else if pl_protocol p = ''paid-session/v1'' then
        (if pl_session_id p = [] \<or> (pl_revision p = 0) \<noteq> (pl_predecessor_authorization_id p = [])
         then Some (admissionStatus InvalidArgument ''REVISION_FIELDS_INVALID''
                ''paid-session/v1 session and revision fields are inconsistent'')
         else None)
      else Some (admissionStatus InvalidArgument ''PROTOCOL_UNSUPPORTED''
             ''authorization protocol is unsupported''))"

definition check_identity :: "Service \<Rightarrow> SpendAuthorizationPayload \<Rightarrow> rpc_error option" where
  "check_identity svc p =
     (if settlementDomainErr svc \<or> pl_settlement_domain_id p \<noteq> settlementDomainID svc \<or>
         settlementDomainID svc = []
        then Some (admissionStatus PermissionDenied ''SETTLEMENT_DOMAIN_MISMATCH''
               ''authorization settlement domain does not match receiver ledger'')
      else if \<not> ValidWholesaleAccountID (pl_wholesale_account_id p)
        then Some (status_Error InvalidArgument ''wholesale_account_id is required'')
      else if pl_payee p \<noteq> recipient svc
        then Some (admissionStatus PermissionDenied ''PAYEE_MISMATCH''
               ''authorization payee does not match receiver'')
      else if pl_chain_id p = 0 \<or> (chainID svc \<noteq> 0 \<and> pl_chain_id p \<noteq> chainID svc) \<or>
              pl_denomination p \<noteq> ''wei''
        then Some (admissionStatus PermissionDenied ''CHAIN_OR_DENOMINATION_MISMATCH''
               ''authorization chain or denomination does not match receiver'')
      else if pl_authorization_id p = [] \<or> pl_request_id p = [] \<or> pl_accepted_price p = None
        then Some (admissionStatus InvalidArgument ''AUTHORIZATION_IDENTITY_INVALID''
               ''authorization identity and accepted_price are required'')
      else if pl_broker_uri p = [] \<or> length (pl_request_digest p) \<noteq> 32
        then Some (admissionStatus InvalidArgument ''AUTHORIZATION_REQUEST_BINDING_INVALID''
               ''authorization broker_uri and SHA-256 request_digest are required'')
      else if length (pl_caller_public_key p) \<notin> {0, 33, 65}
        then Some (admissionStatus InvalidArgument ''CALLER_KEY_INVALID''
               ''authorization caller_public_key has invalid length'')
      else check_protocol p)"

definition check_terms :: "SpendAuthorizationPayload \<Rightarrow> pb_AcceptedPrice \<Rightarrow> time \<Rightarrow> rpc_error + terms" where
  "check_terms p price now =
     (if pl_capability p \<noteq> ap_capability price \<or> pl_offering p \<noteq> ap_offering price
        then Inl (admissionStatus InvalidArgument ''PRICE_SCOPE_MISMATCH''
               ''authorization route differs from accepted_price'')
      else if units_per_price price = 0 \<or> work_unit_name price = []
        then Inl (admissionStatus InvalidArgument ''PRICE_INVALID''
               ''authorization price denominator and work unit are required'')
      else case time_Parse (pl_not_before p) of
        None \<Rightarrow> Inl (admissionStatus InvalidArgument ''AUTHORIZATION_TIME_INVALID''
                 ''authorization not_before must be RFC3339'')
      | Some notBefore \<Rightarrow>
          let unordered = Inl (admissionStatus InvalidArgument ''AUTHORIZATION_TIME_INVALID''
                 ''authorization expires_at must be after not_before'')
          in case time_Parse (pl_expires_at p) of
            None \<Rightarrow> unordered
          | Some expiresAt \<Rightarrow>
              let t = \<lparr>tm_payload = p, tm_price = price, tm_expiresAt = expiresAt\<rparr> in
              if expiresAt \<le> notBefore then unordered
              else if now < notBefore
                then Inl (admissionFailure ''AUTHORIZATION_NOT_ACTIVE'' ''authorization is not active yet'')
              else if tm_maxDebit t \<le> 0 \<or> tm_unitPrice t < 0 \<or> pl_max_total_units p = 0
                then Inl (admissionStatus InvalidArgument ''AUTHORIZATION_LIMITS_INVALID''
                       ''authorization maximum and price are invalid'')
              else if tm_maxDebit t <
                      BillFor (Some (tm_unitPrice t)) (units_per_price price) (pl_max_total_units p)
                then Inl (admissionStatus InvalidArgument ''DEBIT_CAP_BELOW_PRICE''
                       ''max_debit_wei cannot cover max_total_units at accepted price'')
              else Inr t)"

definition check_authorization ::
  "eth \<Rightarrow> codec \<Rightarrow> Service \<Rightarrow> bytes \<Rightarrow> time \<Rightarrow> rpc_error + terms" where
  "check_authorization E C svc authBytes now =
     (if authBytes = []
        then Inl (admissionStatus InvalidArgument ''AUTHORIZATION_MALFORMED''
               ''authorization_bytes is required'')
      else case Unmarshal_SpendAuthorization C authBytes of
        None \<Rightarrow> Inl (admissionStatus InvalidArgument ''AUTHORIZATION_MALFORMED''
                 ''authorization decoding failed'')
      | Some auth \<Rightarrow>
          (case (Verify E C auth, sa_payload auth) of
             (Inr _, Some p) \<Rightarrow>
               (case check_identity svc p of
                  Some e \<Rightarrow> Inl e
                | None \<Rightarrow> check_terms p (the (pl_accepted_price p)) now)
           | _ \<Rightarrow> Inl (admissionStatus PermissionDenied ''AUTHORIZATION_SIGNATURE_INVALID''
                     ''authorization signature verification failed'')))"

definition seed_of :: "terms \<Rightarrow> bytes \<Rightarrow> WholesaleAuthorizationSeed" where
  "seed_of t fingerprint =
     (let p = tm_payload t in
      \<lparr>sd_WholesaleAccountID = pl_wholesale_account_id p, sd_ID = pl_authorization_id p,
       sd_Fingerprint = fingerprint, sd_Payer = pl_payer p, sd_Payee = pl_payee p,
       sd_RequestID = pl_request_id p, sd_SessionID = pl_session_id p, sd_Protocol = pl_protocol p,
       sd_Capability = pl_capability p, sd_Offering = pl_offering p,
       sd_PriceWei = big_String (tm_unitPrice t), sd_PerUnits = units_per_price (tm_price t),
       sd_WorkUnit = work_unit_name (tm_price t), sd_MaxDebitWei = big_String (tm_maxDebit t),
       sd_MaxTotalUnits = pl_max_total_units p, sd_ExpiresAt = tm_expiresAt t,
       sd_Revision = pl_revision p, sd_PredecessorID = pl_predecessor_authorization_id p\<rparr>)"

definition admission_error :: "store_error \<Rightarrow> rpc_error" where
  "admission_error err =
     (if errors_Is err ErrInsufficientWholesale
        then admissionFailure ''INSUFFICIENT_WHOLESALE_CREDIT''
               ''insufficient wholesale account balance for requested reservation''
      else if errors_Is err ErrAuthorizationFingerprint
        then admissionStatus InvalidArgument ''AUTHORIZATION_ID_REUSED''
               ''authorization_id reused with different content''
      else if errors_Is err ErrReservationExceedsRemaining
        then admissionFailure ''RESERVATION_EXCEEDS_REMAINING_DEBIT''
               ''reservation exceeds remaining debit allowance''
      else if errors_Is err ErrRevisionPredecessor \<or> errors_Is err ErrAuthorizationNotFound
        then admissionFailure ''REVISION_PREDECESSOR_INVALID''
               ''revision predecessor is unavailable or incompatible''
      else if errors_Is err ErrRevisionLimits
        then admissionFailure ''REVISION_LIMITS_BELOW_USAGE''
               ''revision limits are below cumulative usage''
      else if errors_Is err ErrAuthorizationCanceled
        then admissionFailure ''AUTHORIZATION_ADMISSION_CANCELED'' ''authorization admission was canceled''
      else if errors_Is err ErrAuthorizationState
        then admissionFailure ''AUTHORIZATION_STATE_INVALID''
               ''authorization state does not permit admission''
      else status_Error Internal ''admit authorization'')"

text \<open>The optional payment that rides on an admission. The answer is the amount credited.\<close>

definition inline_funding ::
  "eth \<Rightarrow> codec \<Rightarrow> Service \<Rightarrow> terms \<Rightarrow> bytes \<Rightarrow> time \<Rightarrow> time \<Rightarrow> int rpc" where
  "inline_funding E C svc t paymentBytes now later s =
     (let malformed = admissionStatus InvalidArgument ''FUNDING_MALFORMED'' ''funding payment is malformed'' in
      if paymentBytes = [] \<or> tm_expiresAt t \<le> now then (s, Inr 0)
      else case Unmarshal_Payment C paymentBytes of
        None \<Rightarrow> (s, Inl malformed)
      | Some payment \<Rightarrow>
          if pb_ticket_params payment = None then (s, Inl malformed)
          else if pb_sender payment \<noteq> pl_payer (tm_payload t)
            then (s, Inl (admissionStatus PermissionDenied ''FUNDING_PAYER_MISMATCH''
                   ''funding payment sender does not match authorization payer''))
          else case fundWholesale E C svc
                 \<lparr>fq_payment_bytes = paymentBytes, fq_settlement_domain_id = settlementDomainID svc,
                  fq_wholesale_account_id = pl_wholesale_account_id (tm_payload t)\<rparr> later s of
            (s', Inl e) \<Rightarrow>
              (s', Inl (if rpc_Code e \<in> {InvalidArgument, PermissionDenied, FailedPrecondition}
                        then admissionStatus (rpc_Code e) ''FUNDING_VALIDATION_FAILED'' ''funding validation failed''
                        else e))
          | (s', Inr funded) \<Rightarrow> (s', Inr (SetBytes (fw_credited_value_wei funded))))"

definition admit_new ::
  "eth \<Rightarrow> codec \<Rightarrow> Service \<Rightarrow> AdmitAuthorizationRequest \<Rightarrow> terms \<Rightarrow> bytes \<Rightarrow> time \<Rightarrow> time \<Rightarrow>
   AdmitAuthorizationResponse rpc" where
  "admit_new E C svc req t fingerprint now later s =
     (case inline_funding E C svc t (aq_payment_bytes req) now later s of
        (s1, Inl e) \<Rightarrow> (s1, Inl e)
      | (s1, Inr inlineCredit) \<Rightarrow>
          (case AdmitWholesale (seed_of t fingerprint) []
                  (Some (SetBytes (aq_reservation_value_wei req))) now s1 of
             (s2, Inl (err, _)) \<Rightarrow> (s2, Inl (admission_error err))
           | (s2, Inr res) \<Rightarrow>
               let auth = the (ar_Authorization res) in
               if au_State auth = AuthorizationExpiredUnused
               then (s2, Inl (admissionFailure ''AUTHORIZATION_EXPIRED_UNUSED'' ''authorization expired unused''))
               else (s2, Inr \<lparr>aa_state = authorizationState (au_State auth),
                      aa_account = map_option (wholesaleAccountView svc) (ar_Account res),
                      aa_reserved_value_wei = decimalBytes (au_ReservedWei auth),
                      aa_credited_value_wei = big_Bytes inlineCredit, aa_replayed = ar_Replayed res\<rparr>)))"

definition admitAuthorization ::
  "eth \<Rightarrow> codec \<Rightarrow> Service \<Rightarrow> AdmitAuthorizationRequest \<Rightarrow> time \<Rightarrow> time \<Rightarrow> AdmitAuthorizationResponse rpc" where
  "admitAuthorization E C svc req now later = gated (\<lambda>s.
     case check_authorization E C svc (aq_authorization_bytes req) now of
       Inl e \<Rightarrow> (s, Inl e)
     | Inr t \<Rightarrow>
         let p = tm_payload t; fingerprint = sha256 (aq_authorization_bytes req) in
         case GetWholesaleAuthorization (pl_payer p) (pl_authorization_id p) (pl_wholesale_account_id p) s of
           Inr existing \<Rightarrow>
             (s, if au_Fingerprint existing \<noteq> fingerprint
                 then Inl (admissionStatus InvalidArgument ''AUTHORIZATION_ID_REUSED''
                        ''authorization_id reused with different content'')
                 else if au_State existing = AuthorizationCanceledUnused
                 then Inl (admissionFailure ''AUTHORIZATION_ADMISSION_CANCELED''
                        ''authorization admission was canceled'')
                 else if au_State existing \<noteq> AuthorizationAdmitted
                 then Inl (admissionFailure ''AUTHORIZATION_NOT_ADMITTED'' ''authorization is already '')
                 else Inr \<lparr>aa_state = authorizationState (au_State existing),
                        aa_account = Some (wholesaleAccountView svc
                          (GetWholesaleAccount (pl_payer p) (pl_payee p) (pl_wholesale_account_id p) s)),
                        aa_reserved_value_wei = decimalBytes (au_ReservedWei existing),
                        aa_credited_value_wei = [], aa_replayed = True\<rparr>)
         | Inl err \<Rightarrow>
             if \<not> errors_Is err ErrAuthorizationNotFound
             then (s, Inl (status_Error Internal ''lookup spend authorization''))
             else admit_new E C svc req t fingerprint now later s)"

definition diagnosticID :: "string \<Rightarrow> string" where
  "diagnosticID ident = (if 256 < length ident then ''invalid_length'' else ident)"

text \<open>The wrapper that the server registers: the answer, the reason it logs, and the identifiers it
  attaches to a refusal that carries a reason.\<close>

definition AdmitAuthorization ::
  "eth \<Rightarrow> codec \<Rightarrow> Service \<Rightarrow> AdmitAuthorizationRequest \<Rightarrow> time \<Rightarrow> time \<Rightarrow> store \<Rightarrow>
   store \<times> (rpc_error + AdmitAuthorizationResponse) \<times> string \<times> (string \<times> string) list" where
  "AdmitAuthorization E C svc req now later s =
     (case admitAuthorization E C svc req now later s of
        (s', Inr r) \<Rightarrow> (s', Inr r, ''ADMITTED'', [])
      | (s', Inl e) \<Rightarrow>
          if rpc_Reason e = [] then (s', Inl e, ''ADMISSION_OUTCOME_UNKNOWN'', [])
          else
            let payload = (case Unmarshal_SpendAuthorization C (aq_authorization_bytes req) of
                             None \<Rightarrow> None | Some a \<Rightarrow> sa_payload a);
                get = (\<lambda>f. diagnosticID (case payload of None \<Rightarrow> [] | Some p \<Rightarrow> f p))
            in (s', Inl e, rpc_Reason e,
                [(''request_id'', get pl_request_id), (''authorization_id'', get pl_authorization_id),
                 (''predecessor_authorization_id'', get pl_predecessor_authorization_id),
                 (''session_id'', get pl_session_id),
                 (''revision'', nat_decimal (case payload of None \<Rightarrow> 0 | Some p \<Rightarrow> unat (pl_revision p)))]))"

section \<open>Advance and settlement\<close>

record AdvanceAuthorizationRequest =
  vq_wholesale_account_id :: string
  vq_payer :: bytes
  vq_authorization_id :: string
  vq_cumulative_units :: uint64
  vq_target_reserved_value_wei :: bytes
  vq_advance_seq :: uint64
  vq_payment_bytes :: bytes
  vq_settlement_domain_id :: string

record AdvanceAuthorizationResponse =
  va_state :: SpendAuthorizationState
  va_account :: "WholesaleAccountView option"
  va_billed_delta_wei :: bytes
  va_cumulative_billed_value_wei :: bytes
  va_reserved_value_wei :: bytes
  va_credited_value_wei :: bytes
  va_replayed :: bool

definition advance_error :: "store_error \<Rightarrow> rpc_error" where
  "advance_error err =
     (if errors_Is err ErrInsufficientWholesale
        then status_Error FailedPrecondition ''insufficient wholesale account balance for requested runway''
      else if errors_Is err ErrAuthorizationNotFound
        then status_Error NotFound ''spend authorization not found''
      else if errors_Is err ErrAuthorizationState \<or> errors_Is err ErrAuthorizationSettlement
        then status_Error FailedPrecondition []
      else status_Error Internal ''advance authorization'')"

definition advance_funding ::
  "eth \<Rightarrow> codec \<Rightarrow> Service \<Rightarrow> AdvanceAuthorizationRequest \<Rightarrow> bool \<Rightarrow> time \<Rightarrow> int rpc" where
  "advance_funding E C svc req isReplay now s =
     (let malformed = status_Error InvalidArgument ''funding payment is malformed'' in
      if vq_payment_bytes req = [] \<or> isReplay then (s, Inr 0)
      else case Unmarshal_Payment C (vq_payment_bytes req) of
        None \<Rightarrow> (s, Inl malformed)
      | Some payment \<Rightarrow>
          if pb_ticket_params payment = None then (s, Inl malformed)
          else if pb_sender payment \<noteq> vq_payer req
            then (s, Inl (status_Error PermissionDenied
                   ''funding payment sender does not match authorization payer''))
          else case fundWholesale E C svc
                 \<lparr>fq_payment_bytes = vq_payment_bytes req, fq_settlement_domain_id = settlementDomainID svc,
                  fq_wholesale_account_id = vq_wholesale_account_id req\<rparr> now s of
            (s', Inl e) \<Rightarrow> (s', Inl e)
          | (s', Inr funded) \<Rightarrow> (s', Inr (SetBytes (fw_credited_value_wei funded))))"

definition AdvanceAuthorization ::
  "eth \<Rightarrow> codec \<Rightarrow> Service \<Rightarrow> AdvanceAuthorizationRequest \<Rightarrow> time \<Rightarrow> time \<Rightarrow> AdvanceAuthorizationResponse rpc" where
  "AdvanceAuthorization E C svc req now later =
     reject (\<not> ValidWholesaleAccountID (vq_wholesale_account_id req))
       (status_Error InvalidArgument ''wholesale_account_id is required'') (gated (
     reject (domain_mismatch svc (vq_settlement_domain_id req))
       (status_Error PermissionDenied ''settlement domain does not match receiver ledger'') (
     reject (length (vq_payer req) \<noteq> 20 \<or> vq_authorization_id req = [] \<or> vq_advance_seq req = 0)
       (status_Error InvalidArgument ''payer, authorization_id, and positive advance_seq are required'') (\<lambda>s.
     case GetWholesaleAuthorization (vq_payer req) (vq_authorization_id req) (vq_wholesale_account_id req) s of
       Inl err \<Rightarrow>
         (s, Inl (if errors_Is err ErrAuthorizationNotFound
                  then status_Error NotFound ''spend authorization not found''
                  else status_Error Internal ''lookup spend authorization''))
     | Inr existing \<Rightarrow>
         (case advance_funding E C svc req (vq_advance_seq req \<le> au_SettlementSeq existing) now s of
            (s1, Inl e) \<Rightarrow> (s1, Inl e)
          | (s1, Inr inlineCredit) \<Rightarrow>
              (case AdvanceWholesale (vq_payer req) (recipient svc) (vq_authorization_id req)
                      (vq_cumulative_units req) (Some (SetBytes (vq_target_reserved_value_wei req)))
                      (vq_advance_seq req) [] later (vq_wholesale_account_id req) s1 of
                 (s2, Inl err) \<Rightarrow> (s2, Inl (advance_error err))
               | (s2, Inr res) \<Rightarrow>
                   (s2, Inr \<lparr>va_state = authorizationState (au_State (vr_Authorization res)),
                     va_account = Some (wholesaleAccountView svc (vr_Account res)),
                     va_billed_delta_wei = big_Bytes (vr_BilledDelta res),
                     va_cumulative_billed_value_wei = decimalBytes (au_BilledWei (vr_Authorization res)),
                     va_reserved_value_wei = decimalBytes (au_ReservedWei (vr_Authorization res)),
                     va_credited_value_wei = big_Bytes inlineCredit,
                     va_replayed = vr_Replayed res\<rparr>)))))))"

record SettleAuthorizationResponse =
  se_state :: SpendAuthorizationState
  se_account :: "WholesaleAccountView option"
  se_billed_value_wei :: bytes
  se_released_value_wei :: bytes
  se_replayed :: bool

definition settle_error :: "store_error \<Rightarrow> rpc_error" where
  "settle_error err =
     (if errors_Is err ErrAuthorizationNotFound then status_Error NotFound ''spend authorization not found''
      else if errors_Is err ErrAuthorizationSettlement
        then status_Error InvalidArgument ''settlement replay differs from recorded content''
      else if errors_Is err ErrAuthorizationState
        then status_Error FailedPrecondition ''authorization cannot settle these units''
      else status_Error Internal ''settle authorization'')"

definition SettleAuthorization ::
  "Service \<Rightarrow> string \<Rightarrow> string \<Rightarrow> bytes \<Rightarrow> string \<Rightarrow> uint64 \<Rightarrow> uint64 \<Rightarrow> time \<Rightarrow> SettleAuthorizationResponse rpc" where
  "SettleAuthorization svc accountId domainId payer authorizationId actualUnits settlementSeq now =
     reject (\<not> ValidWholesaleAccountID accountId)
       (status_Error InvalidArgument ''wholesale_account_id is required'') (
     reject (domain_mismatch svc domainId)
       (status_Error PermissionDenied ''settlement domain does not match receiver ledger'') (
     reject (length payer \<noteq> 20 \<or> authorizationId = [] \<or> settlementSeq = 0)
       (status_Error InvalidArgument ''payer, authorization_id, and positive settlement_seq are required'') (\<lambda>s.
     case SettleWholesale payer (recipient svc) authorizationId actualUnits settlementSeq now accountId s of
       (s', Inl err) \<Rightarrow> (s', Inl (settle_error err))
     | (s', Inr res) \<Rightarrow>
         (s', Inr \<lparr>se_state = authorizationState (au_State (tr_Authorization res)),
           se_account = Some (wholesaleAccountView svc (tr_Account res)),
           se_billed_value_wei = big_Bytes (tr_Billed res),
           se_released_value_wei = big_Bytes (tr_Released res), se_replayed = tr_Replayed res\<rparr>))))"

section \<open>Reading accounts and authorizations\<close>

definition Receiver_GetWholesaleAccount ::
  "Service \<Rightarrow> string \<Rightarrow> string \<Rightarrow> bytes \<Rightarrow> store \<Rightarrow> rpc_error + WholesaleAccountView" where
  "Receiver_GetWholesaleAccount svc accountId domainId payer s =
     (if \<not> ValidWholesaleAccountID accountId
        then Inl (status_Error InvalidArgument ''wholesale_account_id is required'')
      else if domain_mismatch svc domainId
        then Inl (status_Error PermissionDenied ''settlement domain does not match receiver ledger'')
      else if length payer \<noteq> 20 then Inl (status_Error InvalidArgument ''payer must be 20 bytes'')
      else Inr (wholesaleAccountView svc (GetWholesaleAccount payer (recipient svc) accountId s)))"

record GetSpendAuthorizationResponse =
  gs_wholesale_account_id :: string
  gs_payee :: bytes
  gs_settlement_domain_id :: string
  gs_state :: SpendAuthorizationState
  gs_reserved_value_wei :: bytes
  gs_billed_value_wei :: bytes
  gs_released_value_wei :: bytes
  gs_actual_units :: uint64
  gs_settlement_seq :: uint64
  gs_observed_at :: time

definition authorizationView :: "Service \<Rightarrow> WholesaleAuthorization \<Rightarrow> GetSpendAuthorizationResponse" where
  "authorizationView svc auth =
     \<lparr>gs_wholesale_account_id = au_WholesaleAccountID auth, gs_payee = au_Payee auth,
      gs_settlement_domain_id = settlementDomainID svc, gs_state = authorizationState (au_State auth),
      gs_reserved_value_wei = decimalBytes (au_ReservedWei auth),
      gs_billed_value_wei = decimalBytes (au_BilledWei auth),
      gs_released_value_wei = decimalBytes (au_ReleasedWei auth), gs_actual_units = au_ActualUnits auth,
      gs_settlement_seq = au_SettlementSeq auth, gs_observed_at = au_UpdatedAt auth\<rparr>"

definition GetSpendAuthorization ::
  "Service \<Rightarrow> string \<Rightarrow> string \<Rightarrow> bytes \<Rightarrow> string \<Rightarrow> store \<Rightarrow> rpc_error + GetSpendAuthorizationResponse" where
  "GetSpendAuthorization svc accountId domainId payer authorizationId s =
     (if \<not> ValidWholesaleAccountID accountId
        then Inl (status_Error InvalidArgument ''wholesale_account_id is required'')
      else if domain_mismatch svc domainId
        then Inl (status_Error PermissionDenied ''settlement domain does not match receiver ledger'')
      else case GetWholesaleAuthorization payer authorizationId accountId s of
        Inl err \<Rightarrow>
          Inl (if errors_Is err ErrAuthorizationNotFound
               then status_Error NotFound ''spend authorization not found''
               else status_Error Internal ''get spend authorization'')
      | Inr auth \<Rightarrow> Inr (authorizationView svc auth))"

section \<open>Recovery\<close>

definition Receiver_CancelAuthorizationAdmission ::
  "Service \<Rightarrow> string \<Rightarrow> string \<Rightarrow> bytes \<Rightarrow> string \<Rightarrow> bytes \<Rightarrow> time \<Rightarrow>
   (bool \<times> GetSpendAuthorizationResponse option \<times> WholesaleAccountView option) rpc" where
  "Receiver_CancelAuthorizationAdmission svc accountId domainId payer authorizationId fingerprint now =
     reject (domain_mismatch svc domainId)
       (status_Error PermissionDenied ''settlement domain does not match receiver ledger'') (
     reject (\<not> ValidWholesaleAccountID accountId \<or> length payer \<noteq> 20 \<or> authorizationId = [] \<or>
             length fingerprint \<noteq> 32)
       (status_Error InvalidArgument ''payer, authorization id and SHA-256 fingerprint required'') (\<lambda>s.
     case CancelAuthorizationAdmission payer (recipient svc) authorizationId fingerprint accountId now s of
       (s', Inl err) \<Rightarrow>
         (s', Inl (if errors_Is err ErrAuthorizationFingerprint
                   then status_Error InvalidArgument ''authorization_id reused with different content''
                   else status_Error Internal ''cancel authorization admission''))
     | (s', Inr (res, canceled)) \<Rightarrow>
         (s', Inr (canceled, map_option (authorizationView svc) (ar_Authorization res),
                   map_option (wholesaleAccountView svc) (ar_Account res)))))"

definition Receiver_CloseUnexecutedAuthorization ::
  "Service \<Rightarrow> string \<Rightarrow> string \<Rightarrow> bytes \<Rightarrow> string \<Rightarrow> string \<Rightarrow> time \<Rightarrow> unit rpc" where
  "Receiver_CloseUnexecutedAuthorization svc accountId domainId payer authorizationId reason now =
     reject (\<not> ValidWholesaleAccountID accountId)
       (status_Error InvalidArgument ''wholesale_account_id is required'') (
     reject (domain_mismatch svc domainId)
       (status_Error PermissionDenied ''receiver source identity mismatch'') (\<lambda>s.
     case CloseUnexecutedAuthorization payer (recipient svc) authorizationId reason accountId now s of
       (s', Inl _) \<Rightarrow> (s', Inl (status_Error FailedPrecondition ''unexecuted recovery held''))
     | (s', Inr _) \<Rightarrow> (s', Inr ())))"

section \<open>Retiring the source\<close>

record RevenueSourceStatus =
  rs_settlement_domain_id :: string
  rs_chain_id :: uint64
  rs_payee :: bytes
  rs_frozen :: bool
  rs_frozen_at :: time
  rs_active_authorizations :: uint64
  rs_pending_redemptions :: uint64
  rs_last_redemption_round :: int
  rs_complete :: bool
  rs_incomplete_reason :: string
  rs_complete_through_round :: int
  rs_observed_at :: time
  rs_freeze_reason :: string

text \<open>The walk over the redeemed records: the latest inclusion round, or why the source is held.\<close>

fun redeemed_scan :: "RedeemedRedemption list \<Rightarrow> int \<Rightarrow> string option \<times> int" where
  "redeemed_scan [] latest = (None, latest)"
| "redeemed_scan (rec # recs) latest =
     (if rr_ConfirmedOnChain rec then
        (case rr_Inclusion rec of
           None \<Rightarrow> (Some ''confirmed redemption lacks inclusion evidence'', latest)
         | Some e \<Rightarrow> redeemed_scan recs (if latest < ri_Round e then ri_Round e else latest))
      else if rr_DrainReason rec \<in> {''expired'', ''face_value_too_low'', ''reverted''}
        then redeemed_scan recs latest
      else (Some ''unresolved historical redemption'', latest))"

definition GetRevenueSourceStatus :: "Service \<Rightarrow> string \<Rightarrow> store \<Rightarrow> rpc_error + RevenueSourceStatus" where
  "GetRevenueSourceStatus svc domainId s =
     (if domain_mismatch svc domainId
        then Inl (status_Error PermissionDenied ''receiver source identity mismatch'')
      else case Store_SourceFence s of
        Inl _ \<Rightarrow> Inl (status_Error Internal ''source fence unavailable'')
      | Inr fence \<Rightarrow>
          (case RedemptionHistory s of
             Inl _ \<Rightarrow> Inl (status_Error Internal ''redemption inventory unavailable'')
           | Inr (pend, redeemed, legacy) \<Rightarrow>
               let result = \<lparr>rs_settlement_domain_id = settlementDomainID svc, rs_chain_id = chainID svc,
                     rs_payee = recipient svc, rs_frozen = sf_Frozen fence,
                     rs_frozen_at = (if sf_Frozen fence then sf_FrozenAt fence else 0),
                     rs_active_authorizations = ActiveAuthorizations s,
                     rs_pending_redemptions = of_nat (length pend), rs_last_redemption_round = 0,
                     rs_complete = False, rs_incomplete_reason = [], rs_complete_through_round = 0,
                     rs_observed_at = 0, rs_freeze_reason = sf_Reason fence\<rparr>
               in if \<not> rs_frozen result \<or> rs_active_authorizations result \<noteq> 0 \<or> rs_pending_redemptions result \<noteq> 0
                  then Inr (result\<lparr>rs_incomplete_reason := ''source not frozen or settlement remains''\<rparr>)
                  else if legacy
                  then Inr (result\<lparr>rs_incomplete_reason := ''legacy redemption history lacks evidence''\<rparr>)
                  else case redeemed_scan redeemed 0 of
                    (Some held, latest) \<Rightarrow>
                      Inr (result\<lparr>rs_last_redemption_round := latest, rs_incomplete_reason := held\<rparr>)
                  | (None, latest) \<Rightarrow>
                      let result = result\<lparr>rs_last_redemption_round := latest\<rparr> in
                      if RevenueReporter svc = None
                      then Inr (result\<lparr>rs_incomplete_reason := ''confirmed chain reporting unavailable''\<rparr>)
                      else case GetRoundRevenue svc 0 s of
                        Inl e \<Rightarrow> Inl e
                      | Inr clock \<Rightarrow>
                          if rv_complete_through_round clock < latest
                          then Inr (result\<lparr>rs_incomplete_reason := ''latest redemption round not yet complete''\<rparr>)
                          else case GetRoundRevenue svc (rv_complete_through_round clock) s of
                            Inl e \<Rightarrow> Inl e
                          | Inr report \<Rightarrow>
                              let result = result\<lparr>rs_complete_through_round := rv_complete_through_round report,
                                    rs_observed_at := rv_observed_at report\<rparr>
                              in if \<not> rv_complete report
                                 then Inr (result\<lparr>rs_incomplete_reason := rv_incomplete_reason report\<rparr>)
                                 else Inr (result\<lparr>rs_complete := True\<rparr>)))"

definition FreezeRevenueSource :: "Service \<Rightarrow> string \<Rightarrow> string \<Rightarrow> time \<Rightarrow> RevenueSourceStatus rpc" where
  "FreezeRevenueSource svc domainId reason now =
     reject (domain_mismatch svc domainId)
       (status_Error PermissionDenied ''receiver source identity mismatch'') (\<lambda>s.
     case FreezeSource reason now s of
       (s', Inl _) \<Rightarrow> (s', Inl (status_Error FailedPrecondition ''source cannot freeze''))
     | (s', Inr _) \<Rightarrow> (s', GetRevenueSourceStatus svc (settlementDomainID svc) s'))"

end
