(* ===== verification/Sender_Types.thy ===== *)
theory Sender_Types
  imports Receiver_Types Mint_Store Go_Strings Escrow
begin

text \<open>
  What the payer's gRPC service works with, from \<open>payment-daemon/internal/service/sender\<close>: the spend
  limits of \<open>limits.go\<close>, and the messages, parsers and keys of \<open>sender.go\<close> that touch no state.

  A failure is its message. Where the code formats a cause into a message the model does too, except
  for the text of errors of other packages, which is left out. Copying a message is the identity.
\<close>

section \<open>Spend limits\<close>

record Limits =
  MaxPaymentWei :: "int option"
  MaxTicketFaceValueWei :: "int option"
  MaxAuthorizationWei :: "int option"
  MaxPricePerUnit :: "(string, int option) fmap"

text \<open>Neither side nil, and the value above the limit.\<close>

definition exceeds :: "int option \<Rightarrow> int option \<Rightarrow> bool" where
  "exceeds limit v \<longleftrightarrow> (case (limit, v) of (Some l, Some x) \<Rightarrow> l < x | _ \<Rightarrow> False)"

definition wei_text :: "int option \<Rightarrow> string" where
  "wei_text v = (case v of None \<Rightarrow> ''<nil>'' | Some i \<Rightarrow> big_String i)"

definition CheckAuthorization :: "Limits \<Rightarrow> int option \<Rightarrow> string option" where
  "CheckAuthorization l maxDebitWei =
     (if exceeds (MaxAuthorizationWei l) maxDebitWei
      then Some (''max_debit '' @ wei_text maxDebitWei @ '' wei exceeds max-authorization-wei '' @
             wei_text (MaxAuthorizationWei l))
      else None)"

definition CheckSignedTicketBatch :: "Limits \<Rightarrow> int option \<Rightarrow> int option \<Rightarrow> string option" where
  "CheckSignedTicketBatch l totalExpectedValueWei faceValueWei =
     (if exceeds (MaxPaymentWei l) totalExpectedValueWei
        then Some (''actual ticket expected value '' @ wei_text totalExpectedValueWei @
               '' wei exceeds max-payment-wei '' @ wei_text (MaxPaymentWei l))
      else if exceeds (MaxTicketFaceValueWei l) faceValueWei
        then Some (''ticket face_value '' @ wei_text faceValueWei @
               '' wei exceeds max-ticket-face-value-wei '' @ wei_text (MaxTicketFaceValueWei l))
      else None)"

definition CheckMint :: "Limits \<Rightarrow> string \<Rightarrow> int option \<Rightarrow> uint64 \<Rightarrow> int option \<Rightarrow> string option" where
  "CheckMint l workUnit pricePerUnitWei perUnits fundedValueWei =
     (if exceeds (MaxPaymentWei l) fundedValueWei
        then Some (''funded_value '' @ wei_text fundedValueWei @ '' wei exceeds max-payment-wei '' @
               wei_text (MaxPaymentWei l) @ '': raise the limit if this spend is intended'')
      else case pricePerUnitWei of
        None \<Rightarrow> None
      | Some price \<Rightarrow>
          (case fmlookup (MaxPricePerUnit l) (TrimSpace workUnit) of
             Some (Some rate) \<Rightarrow>
               let per = (if perUnits = 0 then 1 else perUnits) in
               if rate * uint per < price
               then Some (''price '' @ big_String price @ '' wei per '' @ nat_decimal (unat per) @ '' '' @ workUnit @
                      '' exceeds max-price-per-unit '' @ big_String rate @ '' wei per '' @ workUnit)
               else None
           | _ \<Rightarrow> None))"

fun parse_rates :: "string list \<Rightarrow> (string, int option) fmap \<Rightarrow> string + (string, int option) fmap" where
  "parse_rates [] out = Inr out"
| "parse_rates (raw # pairs) out =
     (let pair = TrimSpace raw in
      if pair = [] then parse_rates pairs out
      else
        let (unit0, value0, ok) = Cut pair (CHR ''='');
            name = TrimSpace unit0;
            val = TrimSpace value0
        in if \<not> ok \<or> name = [] \<or> val = [] then Inl ''malformed entry: want unit=wei''
           else case SetString val of
             None \<Rightarrow> Inl ''entry is not a non-negative decimal integer''
           | Some wei \<Rightarrow>
               if wei < 0 then Inl ''entry is not a non-negative decimal integer''
               else parse_rates pairs (fmupd name (Some wei) out))"

definition ParseMaxPricePerUnit :: "string \<Rightarrow> string + (string, int option) fmap" where
  "ParseMaxPricePerUnit raw = parse_rates (Split raw (CHR '','')) fmempty"

text \<open>The long dash of the message is its UTF-8 encoding.\<close>

definition Describe :: "Limits \<Rightarrow> string" where
  "Describe l =
     (let limit = (\<lambda>name v. name @ (case v of None \<Rightarrow> ''unlimited'' | Some i \<Rightarrow> big_String i));
          parts = [limit ''max_payment_wei='' (MaxPaymentWei l),
                   limit ''max_ticket_face_value_wei='' (MaxTicketFaceValueWei l),
                   limit ''max_authorization_wei='' (MaxAuthorizationWei l)]
      in if MaxPricePerUnit l = fmempty
         then Join (parts @ [''max_price_per_unit=(none set '' @ map byte_of_nat [0xE2, 0x80, 0x94] @
                '' only the circuit breaker applies)'']) '' ''
         else Join (parts @ [''max_price_per_unit='' @
                Join (map (\<lambda>(u, v). u @ ''='' @ wei_text v) (bucket_entries (MaxPricePerUnit l))) '','']) '' '')"

section \<open>Messages\<close>

record FundingIntent =
  fi_estimated_units :: uint64
  fi_funded_value_wei :: "bytes option"
  fi_max_total_units :: uint64
  fi_top_up_allowed :: bool

record AccountFundingIntent =
  af_wholesale_account_id :: string
  af_target_available_wei :: "bytes option"
  af_observed_available_wei :: "bytes option"
  af_settlement_domain_id :: string

record CreatePaymentRequest =
  cp_recipient :: bytes
  cp_ticket_params_base_url :: string
  cp_accepted_price :: "pb_AcceptedPrice option"
  cp_funding :: "FundingIntent option"
  cp_mint_request_id :: string
  cp_account_funding :: "AccountFundingIntent option"
  cp_expected_ticket_stream_id :: string

record CreatePaymentResponse =
  pr_payment_bytes :: bytes
  pr_tickets_created :: uint32
  pr_expected_value :: "bytes option"
  pr_funded_value_wei :: "bytes option"
  pr_accepted_quote_ref :: "pb_QuoteRef option"
  pr_work_id :: string
  pr_predecessor_work_id :: string
  pr_creation_round :: int
  pr_expires_after_round :: int
  pr_ticket_validity_period :: int
  pr_validity_observed_at :: string
  pr_account_shortfall_wei :: "bytes option"

record CreateSpendAuthorizationRequest =
  ca_wholesale_account_id :: string
  ca_payee :: bytes
  ca_authorization_id :: string
  ca_request_id :: string
  ca_session_id :: string
  ca_protocol :: string
  ca_accepted_price :: "pb_AcceptedPrice option"
  ca_max_debit_wei :: "bytes option"
  ca_max_total_units :: uint64
  ca_not_before :: string
  ca_expires_at :: string
  ca_request_digest :: bytes
  ca_caller_public_key :: bytes
  ca_revision :: uint64
  ca_predecessor_authorization_id :: string
  ca_broker_uri :: string
  ca_chain_id :: uint64
  ca_denomination :: string
  ca_settlement_domain_id :: string

record CreateSpendAuthorizationResponse =
  cr_authorization_bytes :: bytes
  cr_authorization_id :: string
  cr_payer :: bytes

record TicketParamsRequest =
  tr_WholesaleAccountID :: string
  tr_TicketStreamID :: string
  tr_BaseURL :: string
  tr_Sender :: bytes
  tr_Recipient :: bytes
  tr_FaceValue :: "int option"
  tr_Capability :: string
  tr_Offering :: string

record ReportPaymentResultRequest =
  rq_work_id :: string
  rq_capability :: string
  rq_offering :: string
  rq_rejection_reason :: PaymentRejectionReason

record GetDepositInfoResponse =
  gd_deposit :: bytes
  gd_reserve :: bytes
  gd_withdraw_round :: int
  gd_current_round :: int
  gd_ticket_validity_period :: int
  gd_validity_observed_at :: string

section \<open>Parsing a request\<close>

record acceptedPriceInput =
  ai_PricePerUnitWei :: int
  ai_UnitsPerPrice :: uint64
  ai_WorkUnitName :: string
  ai_QuoteRef :: "pb_QuoteRef option"
  ai_CapabilityName :: string
  ai_Offering :: string

record fundingIntentInput =
  estimatedUnits :: uint64
  fundedValueWei :: int

definition parseBigUInt :: "string \<Rightarrow> bytes option \<Rightarrow> string + int" where
  "parseBigUInt field b =
     (case b of
        None \<Rightarrow> Inl (field @ '' is required'')
      | Some v \<Rightarrow> if 32 < length v then Inl (field @ '' exceeds uint256 size'') else Inr (SetBytes v))"

definition IsInt64 :: "int \<Rightarrow> bool" where
  "IsInt64 i \<longleftrightarrow> - (2 ^ 63) \<le> i \<and> i < 2 ^ 63"

text \<open>Conversion of a 64-bit pattern to \<open>int64\<close>, and wrap-around of its arithmetic.\<close>

definition int64 :: "int \<Rightarrow> int" where
  "int64 i = (i + 2 ^ 63) mod 2 ^ 64 - 2 ^ 63"

definition check_quote_ref :: "pb_QuoteRef option \<Rightarrow> string + unit" where
  "check_quote_ref ref =
     (case ref of
        None \<Rightarrow> Inl ''quote_ref is required''
      | Some q \<Rightarrow>
          if TrimSpace (quote_id q) = [] then Inl ''quote_ref.quote_id is empty''
          else if constraint_fingerprint q = [] then Inl ''quote_ref.constraint_fingerprint is empty''
          else if route_fingerprint q = [] then Inl ''quote_ref.route_fingerprint is empty''
          else Inr ())"

definition parseAcceptedPrice :: "pb_AcceptedPrice option \<Rightarrow> string + acceptedPriceInput" where
  "parseAcceptedPrice price =
     (case price of
        None \<Rightarrow> Inl ''accepted_price is required''
      | Some p \<Rightarrow>
          if TrimSpace (ap_capability p) = [] then Inl ''capability is empty''
          else if TrimSpace (ap_offering p) = [] then Inl ''offering is empty''
          else if TrimSpace (work_unit_name p) = [] then Inl ''work_unit_name is empty''
          else if units_per_price p = 0 then Inl ''units_per_price must be > 0''
          else sum_bind (parseBigUInt ''price_per_unit_wei'' (price_per_unit_wei p)) (\<lambda>wei.
            if \<not> IsInt64 wei then Inl ''price_per_unit_wei exceeds wire PriceInfo int64 range''
            else sum_bind (check_quote_ref (ap_quote_ref p)) (\<lambda>_.
              if 2 ^ 63 - 1 < unat (units_per_price p) then Inl ''units_per_price exceeds wire PriceInfo int64 range''
              else Inr \<lparr>ai_PricePerUnitWei = wei, ai_UnitsPerPrice = units_per_price p,
                    ai_WorkUnitName = TrimSpace (work_unit_name p), ai_QuoteRef = ap_quote_ref p,
                    ai_CapabilityName = TrimSpace (ap_capability p), ai_Offering = TrimSpace (ap_offering p)\<rparr>)))"

definition parseFundingIntent :: "FundingIntent option \<Rightarrow> string + fundingIntentInput" where
  "parseFundingIntent intent =
     (case intent of
        None \<Rightarrow> Inl ''funding is required''
      | Some f \<Rightarrow>
          sum_bind (parseBigUInt ''funded_value_wei'' (fi_funded_value_wei f)) (\<lambda>wei.
            if wei \<le> 0 then Inl ''funded_value_wei must be > 0''
            else if 0 < fi_max_total_units f \<and> fi_max_total_units f < fi_estimated_units f
              then Inl ''estimated_units exceeds max_total_units''
            else Inr \<lparr>estimatedUnits = fi_estimated_units f, fundedValueWei = wei\<rparr>))"

definition accountShortfall :: "AccountFundingIntent option \<Rightarrow> int option \<Rightarrow> string + int" where
  "accountShortfall intent maximum =
     (case intent of
        None \<Rightarrow> Inl ''account_funding is required; funding alone cannot mint for a workload ceiling''
      | Some f \<Rightarrow>
          sum_bind (parseBigUInt ''target_available_wei'' (af_target_available_wei f)) (\<lambda>target.
          sum_bind (parseBigUInt ''observed_available_wei'' (af_observed_available_wei f)) (\<lambda>available.
            if target \<le> available then Inr 0
            else
              let shortfall = target - available in
              case maximum of
                None \<Rightarrow> Inl ''funding.funded_value_wei must provide a non-negative mint ceiling''
              | Some m \<Rightarrow>
                  if m < 0 then Inl ''funding.funded_value_wei must provide a non-negative mint ceiling''
                  else if m < shortfall
                    then Inl (''account shortfall '' @ big_String shortfall @ '' exceeds funding ceiling '' @ big_String m)
                  else Inr shortfall)))"

definition wireCapabilityID :: "string \<Rightarrow> uint32" where
  "wireCapabilityID capability = fnv32a capability"

text \<open>The getters read an absent reference as the empty one.\<close>

definition expectedPriceConstraint :: "acceptedPriceInput \<Rightarrow> uint64 \<Rightarrow> string" where
  "expectedPriceConstraint a units =
     (let ref = (case ai_QuoteRef a of
                   None \<Rightarrow> \<lparr>quote_id = [], quote_version = 0, constraint_fingerprint = [], route_fingerprint = []\<rparr>
                 | Some q \<Rightarrow> q)
      in ''cap='' @ QueryEscape (ai_CapabilityName a) @ '';off='' @ QueryEscape (ai_Offering a) @
         '';wu='' @ QueryEscape (ai_WorkUnitName a) @ '';est='' @ nat_decimal (unat units) @
         '';qid='' @ QueryEscape (quote_id ref) @ '';qv='' @ nat_decimal (unat (quote_version ref)) @
         '';cfp='' @ hex_encode (constraint_fingerprint ref) @ '';rfp='' @ hex_encode (route_fingerprint ref))"

definition toPriceInfo :: "acceptedPriceInput \<Rightarrow> uint64 \<Rightarrow> PriceInfo" where
  "toPriceInfo a units =
     \<lparr>PricePerUnit = ai_PricePerUnitWei a, PixelsPerUnit = int64 (uint (ai_UnitsPerPrice a)),
      Capability = wireCapabilityID (ai_CapabilityName a), Constraint = expectedPriceConstraint a units\<rparr>"

definition validateSenderInfo :: "SenderInfo option \<Rightarrow> int \<Rightarrow> string option" where
  "validateSenderInfo oinfo currentRound =
     (case oinfo of
        None \<Rightarrow> Some ''nil sender info''
      | Some info \<Rightarrow>
          if si_Deposit info = None \<or> si_Deposit info = Some 0 then Some ''no sender deposit''
          else if (case si_Reserve info of None \<Rightarrow> True
                   | Some r \<Rightarrow> FundsRemaining r = None \<or> FundsRemaining r = Some 0)
            then Some ''no sender reserve''
          else if WithdrawRound info \<noteq> 0 \<and> WithdrawRound info \<le> int64 (currentRound + 1)
            then Some ''deposit and reserve set to unlock soon''
          else None)"

definition sessionKey :: "bytes \<Rightarrow> string \<Rightarrow> string \<Rightarrow> string \<Rightarrow> string list \<Rightarrow> string" where
  "sessionKey rcpt capability offering baseURL domain =
     hex_encode rcpt @ ''|'' @ capability @ ''|'' @ offering @ ''|'' @ TrimSpace baseURL @ ''|'' @ Join domain ''|''"

section \<open>The mint ledger's view of a request\<close>

record payer_codec =
  Marshal_Payment :: "pb_Payment \<Rightarrow> bytes option"
  Marshal_SpendAuthorization :: "SpendAuthorization \<Rightarrow> bytes option"
  Marshal_AcceptedPrice :: "pb_AcceptedPrice option \<Rightarrow> bytes option"
  Marshal_FundingIntent :: "FundingIntent option \<Rightarrow> bytes option"
  Marshal_AccountFundingIntent :: "AccountFundingIntent option \<Rightarrow> bytes option"
  Marshal_QuoteRef :: "pb_QuoteRef \<Rightarrow> bytes option"
  Unmarshal_QuoteRef :: "bytes \<Rightarrow> pb_QuoteRef option"
  DecompressPubkey :: "bytes \<Rightarrow> bool"
  UnmarshalPubkey :: "bytes \<Rightarrow> bool"

definition if_ok :: "bytes option \<Rightarrow> bytes" where
  "if_ok r = (case r of None \<Rightarrow> [] | Some b \<Rightarrow> b)"

definition MintFingerprint :: "payer_codec \<Rightarrow> CreatePaymentRequest \<Rightarrow> bytes" where
  "MintFingerprint P req =
     sha256 (cp_recipient req @ [NUL] @ TrimSpace (cp_ticket_params_base_url req) @ [NUL] @
       if_ok (Marshal_AcceptedPrice P (cp_accepted_price req)) @ [NUL] @
       if_ok (Marshal_FundingIntent P (cp_funding req)) @ [NUL] @
       if_ok (Marshal_AccountFundingIntent P (cp_account_funding req)))"

definition marshalQuoteRef :: "payer_codec \<Rightarrow> pb_QuoteRef option \<Rightarrow> bytes option" where
  "marshalQuoteRef P qr = (case qr of None \<Rightarrow> Some [] | Some q \<Rightarrow> Marshal_QuoteRef P q)"

definition empty_response :: CreatePaymentResponse where
  "empty_response =
     \<lparr>pr_payment_bytes = [], pr_tickets_created = 0, pr_expected_value = None, pr_funded_value_wei = None,
      pr_accepted_quote_ref = None, pr_work_id = [], pr_predecessor_work_id = [], pr_creation_round = 0,
      pr_expires_after_round = 0, pr_ticket_validity_period = 0, pr_validity_observed_at = [],
      pr_account_shortfall_wei = None\<rparr>"

definition mintResponseFrom :: "payer_codec \<Rightarrow> MintRecord \<Rightarrow> CreatePaymentResponse" where
  "mintResponseFrom P rec =
     empty_response\<lparr>
       pr_payment_bytes := mr_PaymentBytes rec, pr_tickets_created := mr_TicketsCreated rec,
       pr_work_id := mr_WorkID rec, pr_account_shortfall_wei := Some (mr_AccountShortfallWei rec),
       pr_expected_value := (if 0 < length (mr_ExpectedValue rec) then Some (mr_ExpectedValue rec) else None),
       pr_funded_value_wei := (if 0 < length (mr_FundedValueWei rec) then Some (mr_FundedValueWei rec) else None),
       pr_accepted_quote_ref :=
         (if 0 < length (mr_QuoteRefJSON rec) then Unmarshal_QuoteRef P (mr_QuoteRefJSON rec) else None)\<rparr>"

end
