(* ===== verification/Identity.thy ===== *)
theory Identity
  imports Go_Strings
begin

text \<open>
  Canonical broker addresses, \<open>livepeer-network-protocol/proto-go/identity/identity.go\<close>: \<open>BrokerURI\<close>
  and \<open>SameBrokerURI\<close>. The other rules of that package, \<open>ValidDomain\<close> and \<open>ValidWholesaleAccountID\<close>,
  stand with the stores that use them.

  What a URL string parses to, how a URL prints and which texts are IP addresses differ between
  releases of the library; they are the argument \<open>urllib\<close>. Splitting host and port is spelled out.

  That a canonical address is its own canonical form is shown in \<open>Identity_Laws\<close>.
\<close>

section \<open>URLs\<close>

record URL =
  url_Scheme :: string
  url_Opaque :: string
  url_User :: bool
  url_Host :: string
  url_Path :: string
  url_RawPath :: string
  url_RawQuery :: string
  url_ForceQuery :: bool

record urllib =
  url_Parse :: "string \<Rightarrow> URL option"
  url_String :: "URL \<Rightarrow> string"
  ParseIP :: "string \<Rightarrow> bool"

fun Contains :: "string \<Rightarrow> string \<Rightarrow> bool" where
  "Contains [] sub = (sub = [])"
| "Contains (c # cs) sub = (hasPrefix (c # cs) sub \<or> Contains cs sub)"

definition hasSuffix :: "string \<Rightarrow> string \<Rightarrow> bool" where
  "hasSuffix s suf = hasPrefix (rev s) (rev suf)"

definition validOptionalPort :: "string \<Rightarrow> bool" where
  "validOptionalPort port \<longleftrightarrow> (case port of [] \<Rightarrow> True | c # ds \<Rightarrow> c = CHR '':'' \<and> list_all is_digit ds)"

text \<open>The last colon, if a run of digits follows it, separates the port; brackets around the host go.\<close>

definition splitHostPort :: "string \<Rightarrow> string \<times> string" where
  "splitHostPort hostPort =
     (let tail = rev (takeWhile (\<lambda>c. c \<noteq> CHR '':'') (rev hostPort));
          colon = length hostPort - length tail;
          (host, port) =
            (if 0 < colon \<and> validOptionalPort (CHR '':'' # tail) then (take (colon - 1) hostPort, tail)
             else (hostPort, []))
      in (if hasPrefix host ''['' \<and> hasSuffix host '']'' then (take (length host - 2) (drop 1 host), port)
          else (host, port)))"

text \<open>\<open>strings.ToLower\<close> on a host name. Besides the ASCII capitals two runes lower to an ASCII letter,
  the Kelvin sign and the dotted capital I; every other rune outside ASCII stays outside ASCII and is
  left alone here, since the checks that follow refuse it.\<close>

fun host_lower :: "string \<Rightarrow> string" where
  "host_lower [] = []"
| "host_lower (c # cs) =
     (if hasPrefix (c # cs) (map byte_of_nat [0xE2, 0x84, 0xAA]) then CHR ''k'' # host_lower (drop 2 cs)
      else if hasPrefix (c # cs) (map byte_of_nat [0xC4, 0xB0]) then CHR ''i'' # host_lower (drop 1 cs)
      else ascii_lower c # host_lower cs)"

section \<open>Canonical form\<close>

definition label_char :: "char \<Rightarrow> bool" where
  "label_char c \<longleftrightarrow>
     (let n = nat_of_byte c in 97 \<le> n \<and> n \<le> 122 \<or> 48 \<le> n \<and> n \<le> 57) \<or> c = CHR ''-''"

definition valid_label :: "string \<Rightarrow> bool" where
  "valid_label label \<longleftrightarrow>
     label \<noteq> [] \<and> length label \<le> 63 \<and> hd label \<noteq> CHR ''-'' \<and> last label \<noteq> CHR ''-'' \<and> list_all label_char label"

definition valid_hostname :: "string \<Rightarrow> bool" where
  "valid_hostname host \<longleftrightarrow>
     length host \<le> 253 \<and> \<not> hasSuffix host ''.'' \<and> list_all valid_label (Split host (CHR ''.''))"

text \<open>The port that is kept, or None when it is not one.\<close>

definition canonical_port :: "string \<Rightarrow> string \<Rightarrow> string option" where
  "canonical_port scheme port =
     (if port = [] then Some []
      else case decimal_nat port of
        None \<Rightarrow> None
      | Some n \<Rightarrow>
          if n < 1 \<or> 65535 < n then None
          else if scheme = ''https'' \<and> n = 443 \<or> scheme = ''http'' \<and> n = 80 then Some []
          else Some (nat_decimal n))"

definition canonical_host :: "urllib \<Rightarrow> string \<Rightarrow> string \<Rightarrow> string option" where
  "canonical_host L scheme hostPort =
     (let (name, port) = splitHostPort hostPort;
          host = host_lower name
      in if name = [] \<or> (\<not> ParseIP L host \<and> \<not> valid_hostname host) \<or> hasSuffix hostPort '':'' then None
         else map_option (\<lambda>p.
           (if Contains host '':'' then ''['' @ host @ '']'' else host) @ (if p = [] then [] else CHR '':'' # p))
           (canonical_port scheme port))"

definition canonical_path :: "string \<Rightarrow> string option" where
  "canonical_path path =
     (if Contains path ''//'' \<or> Contains path [byte_of_nat 92] \<or>
         list_ex (\<lambda>part. part = ''.'' \<or> part = ''..'') (Split path (CHR ''/'')) then None
      else Some (if hasSuffix path ''/'' then butlast path else path))"

definition BrokerURI :: "urllib \<Rightarrow> string \<Rightarrow> string option" where
  "BrokerURI L raw =
     (if TrimSpace raw \<noteq> raw then None
      else case url_Parse L raw of
        None \<Rightarrow> None
      | Some u \<Rightarrow>
          let scheme = map ascii_lower (url_Scheme u) in
          if (scheme \<noteq> ''https'' \<and> scheme \<noteq> ''http'') \<or> url_User u \<or> url_Opaque u \<noteq> [] \<or>
             url_RawQuery u \<noteq> [] \<or> url_ForceQuery u \<or> Contains raw ''#'' \<or> Contains raw ''%'' then None
          else case (canonical_host L scheme (url_Host u), canonical_path (url_Path u)) of
            (Some host, Some path) \<Rightarrow>
              Some (url_String L (u\<lparr>url_Scheme := scheme, url_Host := host, url_Path := path\<rparr>))
          | _ \<Rightarrow> None)"

definition SameBrokerURI :: "urllib \<Rightarrow> string \<Rightarrow> string \<Rightarrow> bool" where
  "SameBrokerURI L a b \<longleftrightarrow>
     (case (BrokerURI L a, BrokerURI L b) of (Some ca, Some cb) \<Rightarrow> ca = cb | _ \<Rightarrow> False)"

end
