(* ===== verification/Sender.thy ===== *)
theory Sender
  imports Sender_Types Identity
begin

text \<open>
  The payer's gRPC service, \<open>payment-daemon/internal/service/sender\<close>: \<open>sender.go\<close> and \<open>admin.go\<close>.

  The state is the daemon's database, the cached ticket sessions with their index by work id, and the
  cached validity period. Everything outside the process -- the clock, random bytes, the chain, the key
  store, the payee that is asked for ticket parameters -- is a step of a world \<open>'w\<close> that the argument
  \<open>payer_env\<close> describes, so that a definition fixes in which order and how often the code asks. A call
  runs alone: the code holds one lock per mint id and one per route, and the model has no other calls
  interleaved. A session that the code reaches through a pointer is the entry of the session table under
  its cache key. Metrics and logging are left out.
\<close>

section \<open>State\<close>

record senderSession =
  se_workID :: string
  se_cacheKey :: string
  se_ticketParams :: TicketParams
  se_nonce :: uint32
  se_acceptedPrice :: PriceInfo
  se_acceptedQuote :: "pb_QuoteRef option"
  se_capability :: string
  se_offering :: string

record 'w payer =
  outside :: 'w
  pdb :: store
  cached :: "(string, senderSession) fmap"
  workIDIndex :: "(string, string) fmap"
  validityPeriod :: int
  validityReadAt :: time

text \<open>\<open>Fetch\<close> is None when no fetcher is configured; \<open>store_configured\<close> is false when \<open>New\<close> was given
  no store.\<close>

record 'w payer_env =
  Address :: bytes
  Sign :: "'w \<Rightarrow> bytes \<Rightarrow> 'w \<times> (string + bytes)"
  Now :: "'w \<Rightarrow> 'w \<times> time"
  RandRead :: "'w \<Rightarrow> 'w \<times> bytes"
  LastInitializedRound :: "'w \<Rightarrow> 'w \<times> int"
  LastInitializedL1BlockHash :: "'w \<Rightarrow> 'w \<times> bytes"
  GetSenderInfo :: "'w \<Rightarrow> bytes \<Rightarrow> 'w \<times> (string + SenderInfo)"
  TicketValidityPeriod :: "'w \<Rightarrow> 'w \<times> (string + int)"
  Fetch :: "('w \<Rightarrow> TicketParamsRequest \<Rightarrow> 'w \<times> (rpc_error + TicketParams)) option"
  limits :: Limits
  store_configured :: bool
  ethlib :: eth
  pbwire :: codec
  payerwire :: payer_codec
  urls :: urllib

definition Sender_New :: "'w \<Rightarrow> store \<Rightarrow> 'w payer" where
  "Sender_New w s =
     \<lparr>outside = w, pdb = s, cached = fmempty, workIDIndex = fmempty, validityPeriod = 0, validityReadAt = 0\<rparr>"

section \<open>Steps\<close>

text \<open>A handler's steps: asking the world, a store operation, and doing one thing after another. An
  error ends the handler and keeps what was done before it.\<close>

type_synonym ('s, 'r) call = "'s \<Rightarrow> 's \<times> (rpc_error + 'r)"

type_synonym ('w, 'r) step = "('w payer, 'r) call"

definition yield :: "'r \<Rightarrow> ('s, 'r) call" where
  "yield r st = (st, Inr r)"

definition fail :: "rpc_error \<Rightarrow> ('s, 'r) call" where
  "fail e st = (st, Inl e)"

definition perform :: "('s, 'a) call \<Rightarrow> ('a \<Rightarrow> ('s, 'r) call) \<Rightarrow> ('s, 'r) call" where
  "perform m k st = (case m st of (st', Inl e) \<Rightarrow> (st', Inl e) | (st', Inr x) \<Rightarrow> k x st')"

definition ask :: "('w \<Rightarrow> 'w \<times> 'a) \<Rightarrow> ('w, 'a) step" where
  "ask f st = (let (w, x) = f (outside st) in (st\<lparr>outside := w\<rparr>, Inr x))"

definition call :: "('e \<Rightarrow> rpc_error) \<Rightarrow> ('w \<Rightarrow> 'w \<times> ('e + 'a)) \<Rightarrow> ('w, 'a) step" where
  "call err f st =
     (let (w, r) = f (outside st) in
      (st\<lparr>outside := w\<rparr>, case r of Inl e \<Rightarrow> Inl (err e) | Inr x \<Rightarrow> Inr x))"

definition on_db :: "(store_error \<Rightarrow> rpc_error) \<Rightarrow> 'a store_op \<Rightarrow> ('w, 'a) step" where
  "on_db err f st =
     (let (s, r) = f (pdb st) in (st\<lparr>pdb := s\<rparr>, case r of Inl e \<Rightarrow> Inl (err e) | Inr x \<Rightarrow> Inr x))"

definition result :: "('e \<Rightarrow> rpc_error) \<Rightarrow> 'e + 'a \<Rightarrow> ('s, 'a) call" where
  "result err r st = (st, case r of Inl e \<Rightarrow> Inl (err e) | Inr x \<Rightarrow> Inr x)"

definition change :: "('w payer \<Rightarrow> 'w payer) \<Rightarrow> ('w, unit) step" where
  "change f st = (f st, Inr ())"

definition look :: "('w payer \<Rightarrow> 'a) \<Rightarrow> ('w, 'a) step" where
  "look f st = (st, Inr (f st))"

text \<open>A plain Go error reaches the caller with the code \<open>Unknown\<close>. Wrapping an error keeps its code and
  details and puts a text in front of its message.\<close>

definition plain :: "string \<Rightarrow> rpc_error" where
  "plain m = status_Error Unknown m"

definition wrap :: "string \<Rightarrow> rpc_error \<Rightarrow> rpc_error" where
  "wrap text e = e\<lparr>rpc_Message := text @ rpc_Message e\<rparr>"

definition wrapping :: "string \<Rightarrow> ('w, 'a) step \<Rightarrow> ('w, 'a) step" where
  "wrapping text m st = (case m st of (st', Inl e) \<Rightarrow> (st', Inl (wrap text e)) | (st', Inr x) \<Rightarrow> (st', Inr x))"

section \<open>The validity period\<close>

definition validityPeriodTTL :: int where
  "validityPeriodTTL = 30 * 1000000000"

text \<open>Two readings of the clock: the age of the cached value, and the moment of a new one. The chain's
  broker is there: every caller has used it before.\<close>

definition readValidityPeriod :: "'w payer_env \<Rightarrow> bool \<Rightarrow> ('w, int \<times> time) step" where
  "readValidityPeriod H fresh =
     perform (look (\<lambda>st. \<not> fresh \<and> 0 < validityPeriod st)) (\<lambda>cacheable.
     perform (if cacheable then perform (ask (Now H)) (\<lambda>now. look (\<lambda>st. now - validityReadAt st < validityPeriodTTL))
              else yield False) (\<lambda>hit.
     if hit then look (\<lambda>st. (validityPeriod st, validityReadAt st))
     else
       perform (call (\<lambda>_. plain ''read ticketValidityPeriod'') (TicketValidityPeriod H)) (\<lambda>v.
       perform (ask (Now H)) (\<lambda>now.
       perform (change (\<lambda>st. st\<lparr>validityPeriod := v, validityReadAt := now\<rparr>)) (\<lambda>_. yield (v, now))))))"

section \<open>Ticket sessions\<close>

definition ticketHash :: "'w payer_env \<Rightarrow> Ticket \<Rightarrow> bytes" where
  "ticketHash H t = Ticket_Hash (ethlib H) t"

definition evictSessionByWorkID :: "string \<Rightarrow> 'w payer \<Rightarrow> 'w payer \<times> bool" where
  "evictSessionByWorkID workID st =
     (case fmlookup (workIDIndex st) workID of
        None \<Rightarrow> (st, False)
      | Some key \<Rightarrow> (st\<lparr>workIDIndex := fmdrop workID (workIDIndex st), cached := fmdrop key (cached st)\<rparr>, True))"

definition params_request ::
  "'w payer_env \<Rightarrow> string \<Rightarrow> string \<Rightarrow> bytes \<Rightarrow> int \<Rightarrow> string \<Rightarrow> string \<Rightarrow> string \<Rightarrow> TicketParamsRequest" where
  "params_request H account stream rcpt want capability offering baseURL =
     \<lparr>tr_WholesaleAccountID = account, tr_TicketStreamID = stream, tr_BaseURL = baseURL,
      tr_Sender = Address H, tr_Recipient = rcpt, tr_FaceValue = Some want,
      tr_Capability = capability, tr_Offering = offering\<rparr>"

text \<open>The handlers check that there is a fetcher before they come here.\<close>

definition fetch_params :: "'w payer_env \<Rightarrow> TicketParamsRequest \<Rightarrow> ('w, TicketParams) step" where
  "fetch_params H req =
     (case Fetch H of
        None \<Rightarrow> fail (plain ''ticket params fetcher is not configured'')
      | Some f \<Rightarrow> call (\<lambda>e. e) (\<lambda>w. f w req))"

definition rescaleTicketParams ::
  "'w payer_env \<Rightarrow> bytes \<Rightarrow> int \<Rightarrow> string \<Rightarrow> string \<Rightarrow> string \<Rightarrow> TicketParams \<Rightarrow> ('w, TicketParams) step" where
  "rescaleTicketParams H rcpt want capability offering baseURL current =
     reject (case tp_WinProb current of None \<Rightarrow> True | Some w \<Rightarrow> w \<le> 0)
       (status_Error FailedPrecondition
          ''payee quoted a win_prob at which no ticket on this session can credit anything'') (
     perform (wrapping (''re-quoting ticket params for '' @ big_String want @ '' wei expected value: '')
        (fetch_params H (params_request H (tp_WholesaleAccountID current) (tp_TicketStreamID current)
           rcpt want capability offering baseURL))) (\<lambda>retry.
     reject (tp_WholesaleAccountID retry \<noteq> tp_WholesaleAccountID current \<or>
             tp_TicketStreamID retry \<noteq> tp_TicketStreamID current)
       (plain ''account or stream changed during ticket re-quote'') (
     reject (tp_SettlementDomainID retry \<noteq> tp_SettlementDomainID current)
       (plain ''settlement domain changed during ticket re-quote'') (
     reject (CreditedEV (tp_FaceValue retry) (tp_WinProb retry) \<noteq> want)
       (status_Error FailedPrecondition
          ''payee returned a ticket EV other than the requested funding; refusing before signing'') (
     reject (0 < length (tp_RecipientRandHash current) \<and>
             tp_RecipientRandHash current \<noteq> tp_RecipientRandHash retry)
       (status_Error FailedPrecondition ''payee moved recipient rand while re-quoting face value'') (
     yield retry))))))"

text \<open>\<open>findOrOpenSession\<close> on a cached session: its price and quote are refreshed, and its parameters are
  re-quoted when their expected value is not the one wanted.\<close>

definition reuse_session ::
  "'w payer_env \<Rightarrow> string \<Rightarrow> senderSession \<Rightarrow> bytes \<Rightarrow> int \<Rightarrow> string \<Rightarrow> string \<Rightarrow> string \<Rightarrow> PriceInfo \<Rightarrow>
   pb_QuoteRef option \<Rightarrow> ('w, senderSession) step" where
  "reuse_session H key sess0 rcpt want capability offering baseURL price quote =
     (let sess = sess0\<lparr>se_acceptedPrice := price, se_acceptedQuote := quote\<rparr>;
          tp = se_ticketParams sess
      in perform (change (\<lambda>st. st\<lparr>cached := fmupd key sess (cached st)\<rparr>)) (\<lambda>_.
         if CreditedEV (tp_FaceValue tp) (tp_WinProb tp) = want then yield sess
         else
           perform (rescaleTicketParams H rcpt want capability offering baseURL tp) (\<lambda>rescaled.
           let live = sess\<lparr>se_ticketParams := rescaled\<rparr> in
           perform (change (\<lambda>st. st\<lparr>cached := fmupd key live (cached st)\<rparr>)) (\<lambda>_. yield live))))"

definition open_session ::
  "'w payer_env \<Rightarrow> string \<Rightarrow> string \<Rightarrow> string \<Rightarrow> bytes \<Rightarrow> int \<Rightarrow> string \<Rightarrow> string \<Rightarrow> string \<Rightarrow> PriceInfo \<Rightarrow>
   pb_QuoteRef option \<Rightarrow> ('w, senderSession) step" where
  "open_session H key account stream rcpt want capability offering baseURL price quote =
     perform (fetch_params H (params_request H account stream rcpt want capability offering baseURL)) (\<lambda>first.
     reject (tp_WholesaleAccountID first \<noteq> account \<or> tp_TicketStreamID first \<noteq> stream)
       (status_Error FailedPrecondition ''ticket account or stream mismatch'') (
     perform (if CreditedEV (tp_FaceValue first) (tp_WinProb first) \<noteq> want
              then rescaleTicketParams H rcpt want capability offering baseURL first
              else yield first) (\<lambda>params.
     let workID = hex_encode (tp_RecipientRandHash params);
         sess = \<lparr>se_workID = workID, se_cacheKey = key, se_ticketParams = params, se_nonce = 0,
                 se_acceptedPrice = price, se_acceptedQuote = quote, se_capability = capability,
                 se_offering = offering\<rparr>
     in
     perform (if tp_HasSeenNonces params
              then on_db (\<lambda>_. plain ''resync nonce watermark'') (ResyncSenderNonces workID (tp_HighestSeenNonce params))
              else yield False) (\<lambda>_.
     perform (change (\<lambda>st. st\<lparr>cached := fmupd key sess (cached st),
                workIDIndex := fmupd workID key (workIDIndex st)\<rparr>)) (\<lambda>_. yield sess)))))"

text \<open>The random bytes are read when the database has no stream id yet.\<close>

definition ticket_stream :: "'w payer_env \<Rightarrow> rpc_error \<Rightarrow> ('w, string) step" where
  "ticket_stream H err =
     perform (look (\<lambda>st. ticket_stream_id (pdb st) = None)) (\<lambda>fresh.
     perform (if fresh then ask (RandRead H) else yield []) (\<lambda>random.
     on_db (\<lambda>_. err) (TicketStreamID random)))"

definition findOrOpenSession ::
  "'w payer_env \<Rightarrow> bytes \<Rightarrow> int \<Rightarrow> string \<Rightarrow> string \<Rightarrow> string \<Rightarrow> PriceInfo \<Rightarrow> pb_QuoteRef option \<Rightarrow>
   string \<Rightarrow> string \<Rightarrow> ('w, senderSession) step" where
  "findOrOpenSession H rcpt want capability offering baseURL price quote domain account =
     (let key = sessionKey rcpt capability offering baseURL [domain, account] in
      reject (\<not> store_configured H)
        (status_Error FailedPrecondition ''durable sender database is required'') (
      perform (ticket_stream H (plain ''ticket stream'')) (\<lambda>stream.
      perform (look (\<lambda>st. fmlookup (cached st) key)) (\<lambda>hit.
      case hit of
        Some sess \<Rightarrow> reuse_session H key sess rcpt want capability offering baseURL price quote
      | None \<Rightarrow> open_session H key account stream rcpt want capability offering baseURL price quote))))"

definition drop_cached :: "senderSession \<Rightarrow> 'w payer \<Rightarrow> 'w payer" where
  "drop_cached old st =
     (case fmlookup (cached st) (se_cacheKey old) of
        None \<Rightarrow> st
      | Some cur \<Rightarrow>
          if se_workID cur = se_workID old
          then st\<lparr>cached := fmdrop (se_cacheKey old) (cached st),
                  workIDIndex := fmdrop (se_workID cur) (workIDIndex st)\<rparr>
          else st)"

definition rotateExhaustedSession ::
  "'w payer_env \<Rightarrow> senderSession \<Rightarrow> bytes \<Rightarrow> acceptedPriceInput \<Rightarrow> string \<Rightarrow> pb_QuoteRef option \<Rightarrow>
   fundingIntentInput \<Rightarrow> ('w, senderSession) step" where
  "rotateExhaustedSession H old rcpt price baseURL quote funding =
     perform (change (drop_cached old)) (\<lambda>_.
     perform (wrapping (''rotating exhausted ticket session '' @ se_workID old @ '': '')
        (findOrOpenSession H rcpt (fundedValueWei funding) (se_capability old) (se_offering old) baseURL
           (toPriceInfo price (estimatedUnits funding)) quote
           (tp_SettlementDomainID (se_ticketParams old)) (tp_WholesaleAccountID (se_ticketParams old)))) (\<lambda>next.
     reject (tp_SettlementDomainID (se_ticketParams next) \<noteq> tp_SettlementDomainID (se_ticketParams old))
       (plain ''settlement domain changed during ticket rotation'') (
     yield next)))"

section \<open>Signing\<close>

text \<open>The counter in memory follows the durable one, and stands in for it where there is no store or no
  work id.\<close>

definition nextNonce :: "'w payer_env \<Rightarrow> senderSession \<Rightarrow> ('w, uint32) step" where
  "nextNonce H session =
     perform (look (\<lambda>st. case fmlookup (cached st) (se_cacheKey session) of None \<Rightarrow> session | Some cur \<Rightarrow> cur)) (\<lambda>cur.
     if store_configured H \<and> se_workID session \<noteq> []
     then
       perform (on_db (\<lambda>_. plain ''allocate ticket nonce'') (NextSenderNonce (se_workID session))) (\<lambda>n.
       perform (change (\<lambda>st. if se_nonce cur < n
                 then st\<lparr>cached := fmupd (se_cacheKey session) (cur\<lparr>se_nonce := n\<rparr>) (cached st)\<rparr> else st)) (\<lambda>_.
       yield n))
     else
       let n = se_nonce cur + 1 in
       perform (change (\<lambda>st. st\<lparr>cached := fmupd (se_cacheKey session) (cur\<lparr>se_nonce := n\<rparr>) (cached st)\<rparr>)) (\<lambda>_.
       yield n))"

definition signed_ticket :: "'w payer_env \<Rightarrow> TicketParams \<Rightarrow> uint32 \<Rightarrow> int \<Rightarrow> bytes \<Rightarrow> Ticket" where
  "signed_ticket H params nonce rnd hash =
     \<lparr>Recipient = tp_Recipient params, Sender = Address H, FaceValue = tp_FaceValue params,
      WinProb = tp_WinProb params, SenderNonce = nonce, RecipientRandHash = tp_RecipientRandHash params,
      tk_CreationRound = rnd, CreationRoundHash = hash\<rparr>"

definition signOneTicket :: "'w payer_env \<Rightarrow> senderSession \<Rightarrow> ('w, TicketSenderParams) step" where
  "signOneTicket H session =
     perform (nextNonce H session) (\<lambda>nonce.
     perform (ask (LastInitializedRound H)) (\<lambda>rnd.
     perform (ask (LastInitializedL1BlockHash H)) (\<lambda>hash.
     perform (call plain (\<lambda>w. Sign H w (ticketHash H (signed_ticket H (se_ticketParams session) nonce rnd hash)))) (\<lambda>sig.
     yield \<lparr>sp_SenderNonce = nonce, sp_Sig = sig\<rparr>))))"

fun sign_tickets :: "'w payer_env \<Rightarrow> senderSession \<Rightarrow> nat \<Rightarrow> ('w, TicketSenderParams list) step" where
  "sign_tickets H session 0 = yield []"
| "sign_tickets H session (Suc n) =
     perform (wrapping ''sign ticket: '' (signOneTicket H session)) (\<lambda>t.
     perform (sign_tickets H session n) (\<lambda>ts. yield (t # ts)))"

end
