(* ===== verification/Broker_Client.thy ===== *)
theory Broker_Client
  imports Receiver_Wholesale Sender
begin

text \<open>
  The capability broker's client of the payee's service, \<open>capability-broker/internal/payment\<close>:
  \<open>grpc.go\<close> with the types of \<open>client.go\<close>, the recovery calls of \<open>funding_recovery.go\<close>,
  \<open>admission_recovery.go\<close> and \<open>source_fence.go\<close>, the revenue query of \<open>revenue.go\<close>, the price rules of
  \<open>pricing.go\<close> and the work id of \<open>workid.go\<close>.

  The generated gRPC stub is the record \<open>PayeeDaemonClient\<close>: one function per remote call on the state
  \<open>'w\<close> of whatever is at the other end, answering an error or a message. The deadline of a call is not
  modelled; a call that runs out of time is an error of the stub. A wei amount of a message is its byte
  string.
\<close>

section \<open>The stub\<close>

record 'w PayeeDaemonClient =
  pc_Health :: "('w, string) call"
  pc_GetTicketParams :: "GetTicketParamsRequest \<Rightarrow> ('w, GetTicketParamsResponse) call"
  pc_OpenSession :: "OpenSessionRequest \<Rightarrow> ('w, bool) call"
  pc_ProcessPayment :: "string \<Rightarrow> bytes \<Rightarrow> ('w, ProcessPaymentResponse) call"
  pc_FundWholesaleAccount :: "FundWholesaleAccountRequest \<Rightarrow> ('w, FundWholesaleAccountResponse) call"
  pc_AdmitAuthorization :: "AdmitAuthorizationRequest \<Rightarrow> ('w, AdmitAuthorizationResponse) call"
  pc_AdvanceAuthorization :: "AdvanceAuthorizationRequest \<Rightarrow> ('w, AdvanceAuthorizationResponse) call"
  pc_SettleAuthorization ::
    "string \<Rightarrow> string \<Rightarrow> bytes \<Rightarrow> string \<Rightarrow> uint64 \<Rightarrow> uint64 \<Rightarrow> ('w, SettleAuthorizationResponse) call"
  pc_GetWholesaleAccount :: "string \<Rightarrow> string \<Rightarrow> bytes \<Rightarrow> ('w, WholesaleAccountView option) call"
  pc_GetSpendAuthorization ::
    "string \<Rightarrow> string \<Rightarrow> bytes \<Rightarrow> string \<Rightarrow> ('w, GetSpendAuthorizationResponse) call"
  pc_DebitBalance :: "bytes \<Rightarrow> string \<Rightarrow> int \<Rightarrow> uint64 \<Rightarrow> ('w, DebitBalanceResponse) call"
  pc_SufficientBalance :: "bytes \<Rightarrow> string \<Rightarrow> int \<Rightarrow> ('w, bool \<times> bytes) call"
  pc_GetBalance :: "bytes \<Rightarrow> string \<Rightarrow> ('w, bytes) call"
  pc_CloseSession :: "bytes \<Rightarrow> string \<Rightarrow> ('w, bool) call"
  pc_GetWholesaleFundingReceipt ::
    "bytes \<Rightarrow> string \<Rightarrow> string \<Rightarrow> string \<Rightarrow> ('w, FundWholesaleAccountResponse) call"
  pc_CancelAuthorizationAdmission ::
    "string \<Rightarrow> string \<Rightarrow> bytes \<Rightarrow> string \<Rightarrow> bytes \<Rightarrow>
     ('w, bool \<times> GetSpendAuthorizationResponse option \<times> WholesaleAccountView option) call"
  pc_FreezeRevenueSource :: "string \<Rightarrow> string \<Rightarrow> ('w, RevenueSourceStatus) call"
  pc_GetRevenueSourceStatus :: "string \<Rightarrow> ('w, RevenueSourceStatus) call"
  pc_CloseUnexecutedAuthorization ::
    "string \<Rightarrow> string \<Rightarrow> bytes \<Rightarrow> string \<Rightarrow> string \<Rightarrow> ('w, bool \<times> string \<times> string) call"
  pc_GetRoundRevenue :: "int \<Rightarrow> ('w, GetRoundRevenueResponse) call"

record 'w GRPC =
  g_client :: "'w PayeeDaemonClient"
  g_settlementDomainID :: string

section \<open>Types of the broker\<close>

record Broker_GetTicketParamsRequest =
  bq_TicketStreamID :: string
  bq_WholesaleAccountID :: string
  bq_Sender :: bytes
  bq_Recipient :: bytes
  bq_FaceValue :: "int option"
  bq_Capability :: string
  bq_Offering :: string

record Broker_TicketParams =
  bt_IsolationVersion :: uint32
  bt_TicketStreamID :: string
  bt_WholesaleAccountID :: string
  bt_SettlementDomainID :: string
  bt_Recipient :: bytes
  bt_FaceValue :: "int option"
  bt_WinProb :: "int option"
  bt_RecipientRandHash :: bytes
  bt_Seed :: bytes
  bt_ExpirationBlock :: "int option"
  bt_ExpirationParams :: "TicketExpirationParams option"
  bt_HighestSeenNonce :: uint32
  bt_HasSeenNonces :: bool

record Broker_OpenSessionRequest =
  bo_WorkID :: string
  bo_Capability :: string
  bo_Offering :: string
  bo_PricePerWorkUnitWei :: "int option"
  bo_PerUnits :: uint64
  bo_WorkUnit :: string

record Broker_TicketStatus =
  bs_SenderNonce :: uint32
  bs_RejectionReason :: PaymentRejectionReason
  bs_CreditedEV :: int
  bs_WasWinning :: bool

record ProcessPaymentResult =
  bp_Sender :: bytes
  bp_CreditedEV :: int
  bp_Balance :: int
  bp_WinnersQueued :: int
  bp_TicketStatus :: "Broker_TicketStatus list"
  bp_TicketsRejected :: int
  bp_DominantRejection :: PaymentRejectionReason

record Broker_WholesaleAccount =
  bw_WholesaleAccountID :: string
  bw_SettlementDomainID :: string
  bw_Payer :: bytes
  bw_Payee :: bytes
  bw_Credited :: int
  bw_Reserved :: int
  bw_Debited :: int
  bw_Available :: int
  bw_Version :: uint64
  bw_ObservedAt :: time
  bw_ChainID :: uint64
  bw_Denomination :: string

record FundWholesaleAccountResult =
  bf_FundingID :: string
  bf_Account :: "Broker_WholesaleAccount option"
  bf_Credited :: int
  bf_Replayed :: bool

record SpendAuthorizationStatus =
  ba_SettlementDomainID :: string
  ba_Payee :: bytes
  ba_WholesaleAccountID :: string
  ba_State :: SpendAuthorizationState
  ba_Reserved :: int
  ba_Billed :: int
  ba_Released :: int
  ba_ActualUnits :: uint64
  ba_SettlementSeq :: uint64
  ba_ObservedAt :: time

record Broker_AdmitRequest =
  bm_AuthorizationBytes :: bytes
  bm_PaymentBytes :: bytes
  bm_Reservation :: "int option"

record AdmitAuthorizationResult =
  bd_State :: SpendAuthorizationState
  bd_Account :: "Broker_WholesaleAccount option"
  bd_Reserved :: int
  bd_Credited :: int
  bd_Replayed :: bool

record Broker_AdvanceRequest =
  bv_WholesaleAccountID :: string
  bv_Payer :: bytes
  bv_AuthorizationID :: string
  bv_CumulativeUnits :: uint64
  bv_TargetReserved :: "int option"
  bv_AdvanceSeq :: uint64
  bv_PaymentBytes :: bytes

record AdvanceAuthorizationResult =
  bx_State :: SpendAuthorizationState
  bx_Account :: "Broker_WholesaleAccount option"
  bx_BilledDelta :: int
  bx_CumulativeBilled :: int
  bx_Reserved :: int
  bx_Credited :: int
  bx_Replayed :: bool

record Broker_SettleRequest =
  by_WholesaleAccountID :: string
  by_Payer :: bytes
  by_AuthorizationID :: string
  by_ActualUnits :: uint64
  by_SettlementSeq :: uint64

record SettleAuthorizationResult =
  bz_State :: SpendAuthorizationState
  bz_Account :: "Broker_WholesaleAccount option"
  bz_Billed :: int
  bz_Released :: int
  bz_Replayed :: bool

record DebitResult =
  bb_Balance :: int
  bb_DebitedWei :: int
  bb_CumulativeUnits :: uint64
  bb_Replayed :: bool

record CanceledAdmission =
  bc_Canceled :: bool
  bc_Authorization :: "SpendAuthorizationStatus option"
  bc_Account :: "Broker_WholesaleAccount option"

section \<open>The identity of the ledger\<close>

text \<open>Every accounting call asks the service for its settlement domain first and stops when it is not
  the one the broker connected to.\<close>

definition NewGRPC :: "'w PayeeDaemonClient \<Rightarrow> ('w, 'w GRPC) call" where
  "NewGRPC client =
     perform (pc_Health client) (\<lambda>domain.
     reject (\<not> ValidDomain domain) (plain ''payment-daemon requires settlement-domain support'') (
     yield \<lparr>g_client = client, g_settlementDomainID = domain\<rparr>))"

definition SettlementDomain :: "'w GRPC \<Rightarrow> ('w, string) call" where
  "SettlementDomain g =
     perform (pc_Health (g_client g)) (\<lambda>domain.
     reject (domain = [] \<or> domain \<noteq> g_settlementDomainID g) (plain ''payment ledger identity changed'') (
     yield (g_settlementDomainID g)))"

text \<open>A nil payer is not compared; None stands for it, and an empty field of a message is nil.\<close>

definition validateAccount ::
  "'w GRPC \<Rightarrow> WholesaleAccountView option \<Rightarrow> bytes option \<Rightarrow> string \<Rightarrow> bool" where
  "validateAccount g a payer accountID \<longleftrightarrow>
     ValidWholesaleAccountID accountID \<and>
     (case a of None \<Rightarrow> False
      | Some v \<Rightarrow> av_wholesale_account_id v = accountID \<and> av_settlement_domain_id v = g_settlementDomainID g \<and>
          (case payer of None \<Rightarrow> True | Some p \<Rightarrow> av_payer v = p))"

definition mismatch :: rpc_error where
  "mismatch = plain ''receiver wholesale account identity mismatch''"

definition Bytes_or_nil :: "int option \<Rightarrow> bytes" where
  "Bytes_or_nil n = (case n of None \<Rightarrow> [] | Some v \<Rightarrow> big_Bytes v)"

definition accountFromProto :: "WholesaleAccountView \<Rightarrow> Broker_WholesaleAccount" where
  "accountFromProto v =
     \<lparr>bw_WholesaleAccountID = av_wholesale_account_id v, bw_SettlementDomainID = av_settlement_domain_id v,
      bw_Payer = av_payer v, bw_Payee = av_payee v, bw_Credited = SetBytes (av_credited_value_wei v),
      bw_Reserved = SetBytes (av_reserved_value_wei v), bw_Debited = SetBytes (av_debited_value_wei v),
      bw_Available = SetBytes (av_available_value_wei v), bw_Version = av_version v,
      bw_ObservedAt = av_observed_at v, bw_ChainID = av_chain_id v, bw_Denomination = av_denomination v\<rparr>"

definition authorizationStatusFromProto :: "GetSpendAuthorizationResponse \<Rightarrow> SpendAuthorizationStatus" where
  "authorizationStatusFromProto r =
     \<lparr>ba_SettlementDomainID = gs_settlement_domain_id r, ba_Payee = gs_payee r,
      ba_WholesaleAccountID = gs_wholesale_account_id r, ba_State = gs_state r,
      ba_Reserved = SetBytes (gs_reserved_value_wei r), ba_Billed = SetBytes (gs_billed_value_wei r),
      ba_Released = SetBytes (gs_released_value_wei r), ba_ActualUnits = gs_actual_units r,
      ba_SettlementSeq = gs_settlement_seq r, ba_ObservedAt = gs_observed_at r\<rparr>"

section \<open>Ticket funding\<close>

definition zero_params :: Broker_TicketParams where
  "zero_params =
     \<lparr>bt_IsolationVersion = 0, bt_TicketStreamID = [], bt_WholesaleAccountID = [], bt_SettlementDomainID = [],
      bt_Recipient = [], bt_FaceValue = None, bt_WinProb = None, bt_RecipientRandHash = [], bt_Seed = [],
      bt_ExpirationBlock = None, bt_ExpirationParams = None, bt_HighestSeenNonce = 0, bt_HasSeenNonces = False\<rparr>"

definition Broker_GetTicketParams ::
  "'w GRPC \<Rightarrow> Broker_GetTicketParamsRequest \<Rightarrow> ('w, Broker_TicketParams) call" where
  "Broker_GetTicketParams g req =
     perform (SettlementDomain g) (\<lambda>_.
     perform (pc_GetTicketParams (g_client g)
       \<lparr>gp_wholesale_account_id = bq_WholesaleAccountID req, gp_ticket_stream_id = bq_TicketStreamID req,
        gp_sender = bq_Sender req, gp_recipient = bq_Recipient req, gp_capability = bq_Capability req,
        gp_offering = bq_Offering req, gp_face_value = Bytes_or_nil (bq_FaceValue req)\<rparr>) (\<lambda>resp.
     case gr_ticket_params resp of
       None \<Rightarrow> yield (zero_params\<lparr>bt_SettlementDomainID := g_settlementDomainID g\<rparr>)
     | Some tp \<Rightarrow>
     yield \<lparr>bt_IsolationVersion = gr_isolation_version resp, bt_TicketStreamID = gr_ticket_stream_id resp,
       bt_WholesaleAccountID = gr_wholesale_account_id resp, bt_SettlementDomainID = g_settlementDomainID g,
       bt_Recipient = pb_recipient tp, bt_FaceValue = Some (SetBytes (pb_face_value tp)),
       bt_WinProb = Some (SetBytes (pb_win_prob tp)), bt_RecipientRandHash = pb_recipient_rand_hash tp,
       bt_Seed = pb_seed tp, bt_ExpirationBlock = Some (SetBytes (pb_expiration_block tp)),
       bt_ExpirationParams = pb_expiration_params tp, bt_HighestSeenNonce = gr_highest_seen_nonce resp,
       bt_HasSeenNonces = gr_has_seen_nonces resp\<rparr>))"

definition Broker_OpenSession :: "'w GRPC \<Rightarrow> Broker_OpenSessionRequest \<Rightarrow> ('w, bool) call" where
  "Broker_OpenSession g req =
     perform (SettlementDomain g) (\<lambda>_.
     pc_OpenSession (g_client g)
       \<lparr>os_work_id = bo_WorkID req, os_capability = bo_Capability req, os_offering = bo_Offering req,
        os_price_per_work_unit_wei = Bytes_or_nil (bo_PricePerWorkUnitWei req),
        os_work_unit = bo_WorkUnit req, os_per_units = bo_PerUnits req\<rparr>)"

definition Broker_ProcessPayment :: "'w GRPC \<Rightarrow> string \<Rightarrow> bytes \<Rightarrow> ('w, ProcessPaymentResult) call" where
  "Broker_ProcessPayment g workID paymentBytes =
     perform (pc_ProcessPayment (g_client g) workID paymentBytes) (\<lambda>resp.
     yield \<lparr>bp_Sender = pp_sender resp, bp_CreditedEV = SetBytes (pp_credited_ev resp),
       bp_Balance = SetBytes (pp_balance resp), bp_WinnersQueued = pp_winners_queued resp,
       bp_TicketStatus = map (\<lambda>st. \<lparr>bs_SenderNonce = ts_sender_nonce st, bs_RejectionReason = ts_rejection_reason st,
         bs_CreditedEV = SetBytes (ts_credited_ev st), bs_WasWinning = ts_was_winning st\<rparr>) (pp_ticket_status resp),
       bp_TicketsRejected = pp_tickets_rejected resp, bp_DominantRejection = pp_dominant_rejection resp\<rparr>)"

text \<open>\<open>pay.GetTicketParams().GetRecipient()\<close> of a payment without parameters is empty.\<close>

definition payment_recipient :: "pb_Payment \<Rightarrow> bytes" where
  "payment_recipient pay = (case pb_ticket_params pay of None \<Rightarrow> [] | Some tp \<Rightarrow> pb_recipient tp)"

definition account_payee :: "WholesaleAccountView option \<Rightarrow> bytes" where
  "account_payee a = (case a of None \<Rightarrow> [] | Some v \<Rightarrow> av_payee v)"

definition payer_or_nil :: "bytes \<Rightarrow> bytes option" where
  "payer_or_nil b = (if b = [] then None else Some b)"

definition Broker_FundWholesaleAccount ::
  "codec \<Rightarrow> 'w GRPC \<Rightarrow> bytes \<Rightarrow> string \<Rightarrow> ('w, FundWholesaleAccountResult) call" where
  "Broker_FundWholesaleAccount C g paymentBytes account =
     reject (\<not> ValidWholesaleAccountID account) (plain ''valid wholesale_account_id required'') (
     perform (SettlementDomain g) (\<lambda>_.
     perform (pc_FundWholesaleAccount (g_client g)
       \<lparr>fq_payment_bytes = paymentBytes, fq_settlement_domain_id = g_settlementDomainID g,
        fq_wholesale_account_id = account\<rparr>) (\<lambda>res.
     case Unmarshal_Payment C paymentBytes of
       None \<Rightarrow> fail (plain ''unmarshal'')
     | Some funding \<Rightarrow>
         reject (\<not> validateAccount g (fw_account res) (payer_or_nil (pb_sender funding)) account) mismatch (
         reject (account_payee (fw_account res) \<noteq> payment_recipient funding)
           (plain ''receiver funding payee mismatch'') (
         yield \<lparr>bf_FundingID = fw_funding_id res, bf_Account = map_option accountFromProto (fw_account res),
           bf_Credited = SetBytes (fw_credited_value_wei res), bf_Replayed = fw_replayed res\<rparr>)))))"

definition Broker_GetWholesaleFundingReceipt ::
  "codec \<Rightarrow> 'w GRPC \<Rightarrow> bytes \<Rightarrow> string \<Rightarrow> ('w, FundWholesaleAccountResult) call" where
  "Broker_GetWholesaleFundingReceipt C g wire account =
     reject (\<not> ValidWholesaleAccountID account) (plain ''invalid account'') (
     case Unmarshal_Payment C wire of
       None \<Rightarrow> fail (plain ''unmarshal'')
     | Some pay \<Rightarrow>
         perform (SettlementDomain g) (\<lambda>domain.
         let ident = hex_encode (sha256 wire) in
         perform (pc_GetWholesaleFundingReceipt (g_client g) (pb_sender pay) account domain ident) (\<lambda>r.
         reject (\<not> validateAccount g (fw_account r) (payer_or_nil (pb_sender pay)) account) mismatch (
         reject (fw_funding_id r \<noteq> ident \<or> \<not> fw_replayed r \<or> account_payee (fw_account r) \<noteq> payment_recipient pay)
           (plain ''funding receipt scope mismatch'') (
         yield \<lparr>bf_FundingID = ident, bf_Account = map_option accountFromProto (fw_account r),
           bf_Credited = SetBytes (fw_credited_value_wei r), bf_Replayed = True\<rparr>)))))"

section \<open>Authorizations\<close>

text \<open>The getters of an absent payload answer empty fields; the account id is then empty and the answer
  is refused, so only a present payload goes on.\<close>

definition Broker_AdmitAuthorization ::
  "codec \<Rightarrow> 'w GRPC \<Rightarrow> Broker_AdmitRequest \<Rightarrow> ('w, AdmitAuthorizationResult) call" where
  "Broker_AdmitAuthorization C g req =
     perform (SettlementDomain g) (\<lambda>_.
     perform (pc_AdmitAuthorization (g_client g)
       \<lparr>aq_authorization_bytes = bm_AuthorizationBytes req, aq_payment_bytes = bm_PaymentBytes req,
        aq_reservation_value_wei = Bytes_or_nil (bm_Reservation req)\<rparr>) (\<lambda>res.
     case Unmarshal_SpendAuthorization C (bm_AuthorizationBytes req) of
       None \<Rightarrow> fail (plain ''unmarshal'')
     | Some auth \<Rightarrow>
         (case (sa_payload auth, aa_account res) of
            (Some p, Some account) \<Rightarrow>
              reject (\<not> validateAccount g (aa_account res) (payer_or_nil (pl_payer p)) (pl_wholesale_account_id p)) mismatch (
              reject (av_payee account \<noteq> pl_payee p \<or> av_chain_id account \<noteq> pl_chain_id p \<or>
                      av_denomination account \<noteq> pl_denomination p)
                (plain ''receiver authorization account terms mismatch'') (
              yield \<lparr>bd_State = aa_state res, bd_Account = Some (accountFromProto account),
                bd_Reserved = SetBytes (aa_reserved_value_wei res),
                bd_Credited = SetBytes (aa_credited_value_wei res), bd_Replayed = aa_replayed res\<rparr>))
          | _ \<Rightarrow> fail mismatch)))"

definition Broker_AdvanceAuthorization ::
  "'w GRPC \<Rightarrow> Broker_AdvanceRequest \<Rightarrow> ('w, AdvanceAuthorizationResult) call" where
  "Broker_AdvanceAuthorization g req =
     reject (\<not> ValidWholesaleAccountID (bv_WholesaleAccountID req)) (plain ''valid wholesale_account_id required'') (
     perform (SettlementDomain g) (\<lambda>_.
     perform (pc_AdvanceAuthorization (g_client g)
       \<lparr>vq_wholesale_account_id = bv_WholesaleAccountID req, vq_payer = bv_Payer req,
        vq_authorization_id = bv_AuthorizationID req, vq_cumulative_units = bv_CumulativeUnits req,
        vq_target_reserved_value_wei = Bytes_or_nil (bv_TargetReserved req), vq_advance_seq = bv_AdvanceSeq req,
        vq_payment_bytes = bv_PaymentBytes req, vq_settlement_domain_id = g_settlementDomainID g\<rparr>) (\<lambda>res.
     reject (\<not> validateAccount g (va_account res) (payer_or_nil (bv_Payer req)) (bv_WholesaleAccountID req)) mismatch (
     yield \<lparr>bx_State = va_state res, bx_Account = map_option accountFromProto (va_account res),
       bx_BilledDelta = SetBytes (va_billed_delta_wei res),
       bx_CumulativeBilled = SetBytes (va_cumulative_billed_value_wei res),
       bx_Reserved = SetBytes (va_reserved_value_wei res), bx_Credited = SetBytes (va_credited_value_wei res),
       bx_Replayed = va_replayed res\<rparr>))))"

definition Broker_SettleAuthorization ::
  "'w GRPC \<Rightarrow> Broker_SettleRequest \<Rightarrow> ('w, SettleAuthorizationResult) call" where
  "Broker_SettleAuthorization g req =
     reject (\<not> ValidWholesaleAccountID (by_WholesaleAccountID req)) (plain ''valid wholesale_account_id required'') (
     perform (SettlementDomain g) (\<lambda>_.
     perform (pc_SettleAuthorization (g_client g) (by_WholesaleAccountID req) (g_settlementDomainID g)
        (by_Payer req) (by_AuthorizationID req) (by_ActualUnits req) (by_SettlementSeq req)) (\<lambda>res.
     reject (\<not> validateAccount g (se_account res) (payer_or_nil (by_Payer req)) (by_WholesaleAccountID req)) mismatch (
     yield \<lparr>bz_State = se_state res, bz_Account = map_option accountFromProto (se_account res),
       bz_Billed = SetBytes (se_billed_value_wei res), bz_Released = SetBytes (se_released_value_wei res),
       bz_Replayed = se_replayed res\<rparr>))))"

definition Broker_GetWholesaleAccount ::
  "'w GRPC \<Rightarrow> bytes \<Rightarrow> string \<Rightarrow> ('w, Broker_WholesaleAccount option) call" where
  "Broker_GetWholesaleAccount g payer account =
     reject (\<not> ValidWholesaleAccountID account) (plain ''valid wholesale_account_id required'') (
     perform (SettlementDomain g) (\<lambda>_.
     perform (pc_GetWholesaleAccount (g_client g) account (g_settlementDomainID g) payer) (\<lambda>v.
     reject (\<not> validateAccount g v (payer_or_nil payer) account) mismatch (
     yield (map_option accountFromProto v)))))"

definition Broker_GetSpendAuthorization ::
  "'w GRPC \<Rightarrow> bytes \<Rightarrow> string \<Rightarrow> string \<Rightarrow> ('w, SpendAuthorizationStatus) call" where
  "Broker_GetSpendAuthorization g payer authorizationID account =
     reject (\<not> ValidWholesaleAccountID account) (plain ''valid wholesale_account_id required'') (
     perform (SettlementDomain g) (\<lambda>_.
     perform (pc_GetSpendAuthorization (g_client g) account (g_settlementDomainID g) payer authorizationID) (\<lambda>res.
     reject (gs_wholesale_account_id res \<noteq> account \<or> gs_settlement_domain_id res \<noteq> g_settlementDomainID g \<or>
             length (gs_payee res) \<noteq> 20) (plain ''receiver authorization account mismatch'') (
     yield (authorizationStatusFromProto res)))))"

definition Broker_CancelAuthorizationAdmission ::
  "codec \<Rightarrow> 'w GRPC \<Rightarrow> bytes \<Rightarrow> ('w, CanceledAdmission) call" where
  "Broker_CancelAuthorizationAdmission C g wire =
     perform (SettlementDomain g) (\<lambda>domain.
     case Unmarshal_SpendAuthorization C wire of
       None \<Rightarrow> fail (plain ''unmarshal'')
     | Some auth \<Rightarrow>
         (case sa_payload auth of
            None \<Rightarrow> fail (plain ''authorization account or domain mismatch'')
          | Some p \<Rightarrow>
              let account = pl_wholesale_account_id p in
              reject (\<not> ValidWholesaleAccountID account \<or> pl_settlement_domain_id p \<noteq> domain)
                (plain ''authorization account or domain mismatch'') (
              perform (pc_CancelAuthorizationAdmission (g_client g) account domain (pl_payer p)
                 (pl_authorization_id p) (sha256 wire)) (\<lambda>(canceled, a, view).
              reject (\<not> validateAccount g view (payer_or_nil (pl_payer p)) account) mismatch (
              reject (case a of None \<Rightarrow> False
                      | Some r \<Rightarrow> gs_wholesale_account_id r \<noteq> account \<or> gs_settlement_domain_id r \<noteq> domain \<or>
                          gs_payee r \<noteq> pl_payee p)
                (plain ''authorization recovery account mismatch'') (
              yield \<lparr>bc_Canceled = canceled, bc_Authorization = map_option authorizationStatusFromProto a,
                bc_Account = map_option accountFromProto view\<rparr>))))))"

section \<open>Sessions\<close>

definition Broker_DebitBalance :: "'w GRPC \<Rightarrow> bytes \<Rightarrow> string \<Rightarrow> int \<Rightarrow> uint64 \<Rightarrow> ('w, DebitResult) call" where
  "Broker_DebitBalance g sender workID workUnits debitSeq =
     perform (pc_DebitBalance (g_client g) sender workID workUnits debitSeq) (\<lambda>resp.
     yield \<lparr>bb_Balance = SetBytes (db_balance resp), bb_DebitedWei = SetBytes (db_debited_wei resp),
       bb_CumulativeUnits = db_cumulative_units resp, bb_Replayed = db_replayed resp\<rparr>)"

definition Broker_SufficientBalance :: "'w GRPC \<Rightarrow> bytes \<Rightarrow> string \<Rightarrow> int \<Rightarrow> ('w, bool \<times> int) call" where
  "Broker_SufficientBalance g sender workID minWorkUnits =
     perform (pc_SufficientBalance (g_client g) sender workID minWorkUnits) (\<lambda>(enough, balance).
     yield (enough, SetBytes balance))"

definition Broker_GetBalance :: "'w GRPC \<Rightarrow> bytes \<Rightarrow> string \<Rightarrow> ('w, int) call" where
  "Broker_GetBalance g sender workID =
     perform (pc_GetBalance (g_client g) sender workID) (\<lambda>balance. yield (SetBytes balance))"

definition Broker_CloseSession :: "'w GRPC \<Rightarrow> bytes \<Rightarrow> string \<Rightarrow> ('w, unit) call" where
  "Broker_CloseSession g sender workID =
     perform (pc_CloseSession (g_client g) sender workID) (\<lambda>_. yield ())"

section \<open>The source\<close>

definition Broker_FreezeRevenueSource :: "'w GRPC \<Rightarrow> string \<Rightarrow> ('w, RevenueSourceStatus) call" where
  "Broker_FreezeRevenueSource g reason =
     perform (SettlementDomain g) (\<lambda>domain.
     perform (pc_FreezeRevenueSource (g_client g) domain reason) (\<lambda>status.
     reject (rs_settlement_domain_id status \<noteq> domain \<or> \<not> rs_frozen status)
       (plain ''receiver freeze source proof invalid'') (yield status)))"

definition Broker_RevenueSourceStatus :: "'w GRPC \<Rightarrow> ('w, RevenueSourceStatus) call" where
  "Broker_RevenueSourceStatus g =
     perform (SettlementDomain g) (\<lambda>domain.
     perform (pc_GetRevenueSourceStatus (g_client g) domain) (\<lambda>status.
     reject (rs_settlement_domain_id status \<noteq> domain)
       (plain ''receiver source status identity invalid'') (yield status)))"

definition Broker_CloseUnexecutedAuthorization ::
  "'w GRPC \<Rightarrow> bytes \<Rightarrow> string \<Rightarrow> string \<Rightarrow> string \<Rightarrow> ('w, unit) call" where
  "Broker_CloseUnexecutedAuthorization g payer ident reason account =
     perform (SettlementDomain g) (\<lambda>domain.
     perform (pc_CloseUnexecutedAuthorization (g_client g) account domain payer ident reason) (\<lambda>(fenced, d, a).
     reject (\<not> fenced \<or> d \<noteq> domain \<or> account = [] \<or> a \<noteq> account)
       (plain ''unexecuted recovery source proof invalid'') (yield ())))"

definition RoundRevenue_of :: "'w GRPC \<Rightarrow> int \<Rightarrow> ('w, GetRoundRevenueResponse) call" where
  "RoundRevenue_of g rnd =
     perform (SettlementDomain g) (\<lambda>domain.
     perform (pc_GetRoundRevenue (g_client g) rnd) (\<lambda>r.
     reject (rv_round_id r \<noteq> rnd \<or> rv_settlement_domain_id r \<noteq> domain)
       (plain ''receiver revenue source identity changed'') (yield r)))"

section \<open>Work ids and prices\<close>

definition DerivePayeeWorkID :: "codec \<Rightarrow> bytes \<Rightarrow> string option" where
  "DerivePayeeWorkID C paymentBytes =
     (case Unmarshal_Payment C paymentBytes of
        None \<Rightarrow> None
      | Some pay \<Rightarrow>
          (case pb_ticket_params pay of
             None \<Rightarrow> None
           | Some tp \<Rightarrow>
               if pb_recipient_rand_hash tp = [] then None else Some (hex_encode (pb_recipient_rand_hash tp))))"

definition Broker_BillFor :: "int option \<Rightarrow> uint64 \<Rightarrow> uint64 \<Rightarrow> int" where
  "Broker_BillFor price perUnits units =
     (case price of
        None \<Rightarrow> 0
      | Some p \<Rightarrow>
          if p = 0 \<or> units = 0 then 0
          else
            let d = uint (if perUnits = 0 then 1 else perUnits);
                total = p * uint units
            in if Rem total d \<noteq> 0 then Quo total d + 1 else Quo total d)"

text \<open>\<open>Div\<close> rounds towards minus infinity for a positive divisor; the largest \<open>int64\<close> stands for
  everything above it.\<close>

definition RunwayUnits :: "int option \<Rightarrow> int option \<Rightarrow> uint64 \<Rightarrow> int" where
  "RunwayUnits balance price perUnits =
     (case (balance, price) of
        (Some b, Some p) \<Rightarrow>
          if p \<le> 0 \<or> b \<le> 0 then 0
          else
            let units = (b * uint (if perUnits = 0 then 1 else perUnits)) div p
            in if IsInt64 units then units else 2 ^ 63 - 1
      | _ \<Rightarrow> 0)"

section \<open>How the broker reads a refused admission\<close>

datatype admission_failure = ErrAdmissionStopped | Receiver rpc_error

definition AdmissionFailureReason :: "admission_failure \<Rightarrow> string" where
  "AdmissionFailureReason err = (case err of ErrAdmissionStopped \<Rightarrow> [] | Receiver e \<Rightarrow> rpc_Reason e)"

definition refusing_reasons :: "string list" where
  "refusing_reasons =
     [''RESERVATION_EXCEEDS_REMAINING_DEBIT'', ''REVISION_PREDECESSOR_INVALID'', ''REVISION_LIMITS_BELOW_USAGE'',
      ''AUTHORIZATION_EXPIRED_UNUSED'', ''AUTHORIZATION_ADMISSION_CANCELED'', ''AUTHORIZATION_NOT_ADMITTED'',
      ''AUTHORIZATION_STATE_INVALID'', ''INSUFFICIENT_WHOLESALE_CREDIT'', ''AUTHORIZATION_MALFORMED'',
      ''AUTHORIZATION_SIGNATURE_INVALID'', ''SETTLEMENT_DOMAIN_MISMATCH'', ''PAYEE_MISMATCH'',
      ''CHAIN_OR_DENOMINATION_MISMATCH'', ''AUTHORIZATION_IDENTITY_INVALID'', ''AUTHORIZATION_REQUEST_BINDING_INVALID'',
      ''CALLER_KEY_INVALID'', ''REVISION_FIELDS_INVALID'', ''PROTOCOL_UNSUPPORTED'', ''PRICE_SCOPE_MISMATCH'',
      ''PRICE_INVALID'', ''AUTHORIZATION_TIME_INVALID'', ''AUTHORIZATION_LIMITS_INVALID'', ''DEBIT_CAP_BELOW_PRICE'',
      ''AUTHORIZATION_ID_REUSED'', ''FUNDING_MALFORMED'', ''FUNDING_PAYER_MISMATCH'', ''FUNDING_TICKETS_REJECTED'',
      ''FUNDING_VALIDATION_FAILED'', ''FUNDING_INVALID_RECIPIENT_RAND'', ''FUNDING_NONCE_CAP_REACHED'',
      ''FUNDING_INVALID_SIGNATURE'', ''RECEIVER_SOURCE_FROZEN'']"

text \<open>Whether a reason is known, and whether it proves that nothing was admitted.\<close>

definition knownAdmissionReason :: "string \<Rightarrow> bool \<times> bool" where
  "knownAdmissionReason reason =
     (if reason = ''AUTHORIZATION_NOT_ACTIVE'' then (True, False)
      else if reason \<in> set refusing_reasons then (True, True)
      else (False, False))"

definition AdmissionRefused :: "admission_failure \<Rightarrow> bool" where
  "AdmissionRefused err \<longleftrightarrow>
     (case err of
        ErrAdmissionStopped \<Rightarrow> True
      | Receiver e \<Rightarrow>
          snd (knownAdmissionReason (AdmissionFailureReason err)) \<and>
          rpc_Code e \<in> {FailedPrecondition, InvalidArgument, PermissionDenied})"

text \<open>A call that runs out of time or is canceled reads like one that found no receiver.\<close>

definition SafeAdmissionReason :: "admission_failure \<Rightarrow> string" where
  "SafeAdmissionReason err =
     (case err of
        ErrAdmissionStopped \<Rightarrow> ''ADMISSION_STOPPED''
      | Receiver e \<Rightarrow>
          if fst (knownAdmissionReason (rpc_Reason e)) then rpc_Reason e
          else if rpc_Code e \<in> {Unavailable, DeadlineExceeded, Canceled} then ''RECEIVER_UNAVAILABLE''
          else ''ADMISSION_OUTCOME_UNKNOWN'')"

end
