(* ===== verification/Ticket_Fetcher.thy ===== *)
theory Ticket_Fetcher
  imports Broker_Client
begin

text \<open>
  How a payer gets ticket parameters: the HTTP client in the payer's daemon
  (\<open>payment-daemon/internal/service/sender/ticketparams_fetcher.go\<close>), the broker's handler of
  \<open>POST /v1/payment/ticket-params\<close> (\<open>capability-broker/internal/server/payment_ticket_params.go\<close>), and the
  payee's service behind the broker's gRPC client.

  The two programs declare the JSON messages separately with the same fields; they are one record here.
  What JSON text a message becomes and back, and the HTTP exchange, are the arguments \<open>http\<close> and \<open>json\<close>.
  The payee behind the stub is \<open>payee_client\<close>: its state is the store and the number of calls served, which
  selects the clock readings and random bytes of the next call.
\<close>

section \<open>Messages\<close>

record ticketParamsHTTPRequest =
  jq_wholesale_account_id :: string
  jq_ticket_stream_id :: string
  jq_sender_eth_address :: string
  jq_recipient_eth_address :: string
  jq_face_value_wei :: string
  jq_capability :: string
  jq_offering :: string

record ticketExpirationParamsJSON =
  je_creation_round :: int
  je_creation_round_block_hash :: string

record ticketParamsJSON =
  jp_recipient :: string
  jp_face_value :: string
  jp_win_prob :: string
  jp_recipient_rand_hash :: string
  jp_seed :: string
  jp_expiration_block :: string
  jp_expiration_params :: ticketExpirationParamsJSON

record ticketParamsHTTPResponse =
  jr_wholesale_account_id :: string
  jr_ticket_stream_id :: string
  jr_isolation_version :: uint32
  jr_settlement_domain_id :: string
  jr_ticket_params :: ticketParamsJSON
  jr_highest_seen_nonce :: uint32
  jr_has_seen_nonces :: bool

section \<open>The payer's side\<close>

definition hexAddress :: "bytes \<Rightarrow> string" where
  "hexAddress raw = ''0x'' @ hex_encode raw"

definition has_0x :: "string \<Rightarrow> bool" where
  "has_0x s \<longleftrightarrow> hasPrefix (map ascii_lower s) ''0x''"

text \<open>None as the expected length stands for -1, any length.\<close>

definition parseHexAddress :: "string \<Rightarrow> nat option \<Rightarrow> string + bytes" where
  "parseHexAddress raw expectedLen =
     (let s = TrimSpace raw in
      if s = [] then (if expectedLen = None then Inr [] else Inl ''value is empty'')
      else if \<not> has_0x s then Inl ''must be 0x-prefixed hex''
      else case hex_decode (drop 2 s) of
        None \<Rightarrow> Inl ''must be hex''
      | Some out \<Rightarrow>
          (case expectedLen of
             None \<Rightarrow> Inr out
           | Some n \<Rightarrow> if length out \<noteq> n then Inl ''must be of the expected length'' else Inr out))"

definition big_field :: "string \<Rightarrow> string \<Rightarrow> string + int" where
  "big_field name text = (case SetString text of None \<Rightarrow> Inl (''invalid '' @ name) | Some n \<Rightarrow> Inr n)"

definition expiration_params :: "ticketExpirationParamsJSON \<Rightarrow> string + TicketExpirationParams option" where
  "expiration_params e =
     (if je_creation_round e \<noteq> 0 \<or> TrimSpace (je_creation_round_block_hash e) \<noteq> []
      then sum_bind (parseHexAddress (je_creation_round_block_hash e) (Some 32)) (\<lambda>h.
             Inr (Some \<lparr>CreationRound = je_creation_round e, CreationRoundBlockHash = h\<rparr>))
      else Inr None)"

definition toTypes :: "ticketParamsJSON \<Rightarrow> string + TicketParams" where
  "toTypes j =
     sum_bind (parseHexAddress (jp_recipient j) (Some 20)) (\<lambda>rcpt.
     sum_bind (big_field ''face_value'' (jp_face_value j)) (\<lambda>faceValue.
     sum_bind (big_field ''win_prob'' (jp_win_prob j)) (\<lambda>winProb.
     sum_bind (parseHexAddress (jp_recipient_rand_hash j) (Some 32)) (\<lambda>randHash.
     sum_bind (parseHexAddress (jp_seed j) None) (\<lambda>seed.
     sum_bind (if TrimSpace (jp_expiration_block j) = [] then Inr 0
               else big_field ''expiration_block'' (jp_expiration_block j)) (\<lambda>block.
     sum_bind (expiration_params (jp_expiration_params j)) (\<lambda>exp.
     Inr \<lparr>tp_WholesaleAccountID = [], tp_TicketStreamID = [], tp_SettlementDomainID = [],
       tp_Recipient = rcpt, tp_FaceValue = Some faceValue, tp_WinProb = Some winProb,
       tp_RecipientRandHash = randHash, tp_Seed = seed, tp_ExpirationBlock = Some block,
       tp_ExpirationParams = exp, tp_HighestSeenNonce = 0, tp_HasSeenNonces = False\<rparr>)))))))"

text \<open>The HTTP client: encoding a request, whether a URL makes a request, the exchange with its status
  and body, and decoding an answer.\<close>

record 'w http =
  Marshal_Request :: "ticketParamsHTTPRequest \<Rightarrow> bytes option"
  NewRequest :: "string \<Rightarrow> bool"
  Do :: "string \<Rightarrow> bytes \<Rightarrow> 'w \<Rightarrow> 'w \<times> (string + nat \<times> bytes)"
  Decode_Response :: "bytes \<Rightarrow> ticketParamsHTTPResponse option"

definition http_request :: "TicketParamsRequest \<Rightarrow> int \<Rightarrow> ticketParamsHTTPRequest" where
  "http_request req faceValue =
     \<lparr>jq_wholesale_account_id = tr_WholesaleAccountID req, jq_ticket_stream_id = tr_TicketStreamID req,
      jq_sender_eth_address = hexAddress (tr_Sender req), jq_recipient_eth_address = hexAddress (tr_Recipient req),
      jq_face_value_wei = big_String faceValue, jq_capability = tr_Capability req, jq_offering = tr_Offering req\<rparr>"

text \<open>The answer must name the account and stream that were asked for, and neither is empty.\<close>

definition read_response :: "TicketParamsRequest \<Rightarrow> ticketParamsHTTPResponse \<Rightarrow> string + TicketParams" where
  "read_response req parsed =
     sum_bind (toTypes (jr_ticket_params parsed)) (\<lambda>out.
     if jr_isolation_version parsed \<noteq> 1 \<or> jr_wholesale_account_id parsed \<noteq> tr_WholesaleAccountID req \<or>
        jr_ticket_stream_id parsed \<noteq> tr_TicketStreamID req \<or> jr_wholesale_account_id parsed = [] \<or>
        jr_ticket_stream_id parsed = []
     then Inl ''ticket parameters do not support requested account/stream isolation''
     else Inr (out\<lparr>tp_WholesaleAccountID := jr_wholesale_account_id parsed,
       tp_TicketStreamID := jr_ticket_stream_id parsed, tp_SettlementDomainID := jr_settlement_domain_id parsed,
       tp_HighestSeenNonce := jr_highest_seen_nonce parsed, tp_HasSeenNonces := jr_has_seen_nonces parsed\<rparr>))"

definition fetch_url :: "TicketParamsRequest \<Rightarrow> string" where
  "fetch_url req = TrimRight (TrimSpace (tr_BaseURL req)) (CHR ''/'')"

definition HTTP_Fetch :: "'w http \<Rightarrow> 'w \<Rightarrow> TicketParamsRequest \<Rightarrow> 'w \<times> (rpc_error + TicketParams)" where
  "HTTP_Fetch N w req =
     (let refuse = (\<lambda>w m. (w, Inl (plain m))); baseURL = fetch_url req in
      if baseURL = [] then refuse w ''ticket params fetcher base URL is empty''
      else case tr_FaceValue req of
        None \<Rightarrow> refuse w ''face_value must be positive''
      | Some v \<Rightarrow>
          if v \<le> 0 then refuse w ''face_value must be positive''
          else case Marshal_Request N (http_request req v) of
            None \<Rightarrow> refuse w ''marshal request''
          | Some body \<Rightarrow>
              let url = baseURL @ ''/v1/payment/ticket-params'' in
              if \<not> NewRequest N url then refuse w ''build request''
              else case Do N url body w of
                (w', Inl _) \<Rightarrow> refuse w' ''post ticket params''
              | (w', Inr (status, answer)) \<Rightarrow>
                  if status \<noteq> 200
                  then refuse w' (''ticket params status '' @ nat_decimal status @ '': '' @ TrimSpace (take 4096 answer))
                  else case Decode_Response N answer of
                    None \<Rightarrow> refuse w' ''decode response''
                  | Some parsed \<Rightarrow>
                      (case read_response req parsed of Inl m \<Rightarrow> refuse w' m | Inr tp \<Rightarrow> (w', Inr tp)))"

section \<open>The broker's side\<close>

definition maxTicketParamsBodyBytes :: nat where
  "maxTicketParamsBodyBytes = 8192"

text \<open>What the decoder finds after the first document.\<close>

datatype json_tail = Tail_EOF | Tail_Document | Tail_Malformed

record json =
  Decode_Request :: "bytes \<Rightarrow> (ticketParamsHTTPRequest \<times> json_tail) option"
  Encode_Response :: "ticketParamsHTTPResponse \<Rightarrow> bytes"

definition ensureSingleJSONDocument :: "json_tail \<Rightarrow> string option" where
  "ensureSingleJSONDocument tail =
     (case tail of
        Tail_EOF \<Rightarrow> None
      | Tail_Document \<Rightarrow> Some ''request body must contain exactly one JSON object''
      | Tail_Malformed \<Rightarrow> Some ''invalid JSON body'')"

definition broker_parseHexAddress :: "string \<Rightarrow> string \<Rightarrow> string + bytes" where
  "broker_parseHexAddress field raw =
     (let s = TrimSpace raw in
      if length s \<noteq> 42 \<or> \<not> has_0x s then Inl (field @ '' must be a 0x-prefixed 20-byte hex address'')
      else case hex_decode (drop 2 s) of
        None \<Rightarrow> Inl (field @ '' must be hex'')
      | Some out \<Rightarrow> if length out \<noteq> 20 then Inl (field @ '' must be 20 bytes'') else Inr out)"

definition parseTicketParamsRequest :: "ticketParamsHTTPRequest \<Rightarrow> string + Broker_GetTicketParamsRequest" where
  "parseTicketParamsRequest j =
     (if \<not> ValidWholesaleAccountID (jq_wholesale_account_id j) \<or> \<not> ValidWholesaleAccountID (jq_ticket_stream_id j)
      then Inl ''valid wholesale_account_id and ticket_stream_id are required''
      else
        sum_bind (broker_parseHexAddress ''sender_eth_address'' (jq_sender_eth_address j)) (\<lambda>sender.
        sum_bind (broker_parseHexAddress ''recipient_eth_address'' (jq_recipient_eth_address j)) (\<lambda>rcpt.
        case SetString (TrimSpace (jq_face_value_wei j)) of
          None \<Rightarrow> Inl ''face_value_wei must be a decimal integer''
        | Some faceValue \<Rightarrow>
            if faceValue \<le> 0 then Inl ''face_value_wei must be > 0''
            else if TrimSpace (jq_capability j) = [] then Inl ''capability is required''
            else if TrimSpace (jq_offering j) = [] then Inl ''offering is required''
            else Inr \<lparr>bq_TicketStreamID = jq_ticket_stream_id j, bq_WholesaleAccountID = jq_wholesale_account_id j,
              bq_Sender = sender, bq_Recipient = rcpt, bq_FaceValue = Some faceValue,
              bq_Capability = TrimSpace (jq_capability j), bq_Offering = TrimSpace (jq_offering j)\<rparr>)))"

definition decimalString :: "int option \<Rightarrow> string" where
  "decimalString n = (case n of None \<Rightarrow> ''0'' | Some v \<Rightarrow> big_String v)"

definition renderTicketParamsJSON :: "Broker_TicketParams \<Rightarrow> ticketParamsJSON" where
  "renderTicketParamsJSON p =
     \<lparr>jp_recipient = ''0x'' @ hex_encode (bt_Recipient p), jp_face_value = decimalString (bt_FaceValue p),
      jp_win_prob = decimalString (bt_WinProb p),
      jp_recipient_rand_hash = ''0x'' @ hex_encode (bt_RecipientRandHash p),
      jp_seed = ''0x'' @ hex_encode (bt_Seed p), jp_expiration_block = decimalString (bt_ExpirationBlock p),
      jp_expiration_params =
        (case bt_ExpirationParams p of
           None \<Rightarrow> \<lparr>je_creation_round = 0, je_creation_round_block_hash = []\<rparr>
         | Some e \<Rightarrow> \<lparr>je_creation_round = CreationRound e,
             je_creation_round_block_hash = ''0x'' @ hex_encode (CreationRoundBlockHash e)\<rparr>)\<rparr>"

definition response_json :: "Broker_TicketParams \<Rightarrow> ticketParamsHTTPResponse" where
  "response_json p =
     \<lparr>jr_wholesale_account_id = bt_WholesaleAccountID p, jr_ticket_stream_id = bt_TicketStreamID p,
      jr_isolation_version = bt_IsolationVersion p, jr_settlement_domain_id = bt_SettlementDomainID p,
      jr_ticket_params = renderTicketParamsJSON p, jr_highest_seen_nonce = bt_HighestSeenNonce p,
      jr_has_seen_nonces = bt_HasSeenNonces p\<rparr>"

text \<open>\<open>http.Error\<close> writes the message and a line break. The decoder reads at most the limit.\<close>

definition http_Error :: "string \<Rightarrow> nat \<Rightarrow> nat \<times> bytes" where
  "http_Error m status = (status, m @ [byte_of_nat 10])"

definition ticketParamsHandler ::
  "json \<Rightarrow> (Broker_GetTicketParamsRequest \<Rightarrow> ('w, Broker_TicketParams) call) \<Rightarrow> bytes \<Rightarrow> 'w \<Rightarrow> 'w \<times> nat \<times> bytes" where
  "ticketParamsHandler J client body w =
     (case (if maxTicketParamsBodyBytes < length body then None else Decode_Request J body) of
        None \<Rightarrow> (w, http_Error ''invalid JSON body'' 400)
      | Some (req, tail) \<Rightarrow>
          (case ensureSingleJSONDocument tail of
             Some m \<Rightarrow> (w, http_Error m 400)
           | None \<Rightarrow>
               (case parseTicketParamsRequest req of
                  Inl m \<Rightarrow> (w, http_Error m 400)
                | Inr daemonReq \<Rightarrow>
                    (case client daemonReq w of
                       (w', Inl e) \<Rightarrow> (w', http_Error (''get ticket params: '' @ rpc_Message e) 502)
                     | (w', Inr params) \<Rightarrow>
                         if bt_WholesaleAccountID params \<noteq> jq_wholesale_account_id req \<or>
                            bt_TicketStreamID params \<noteq> jq_ticket_stream_id req \<or> bt_IsolationVersion params \<noteq> 1
                         then (w', http_Error ''receiver isolation identity mismatch'' 502)
                         else (w', 200, Encode_Response J (response_json params))))))"

section \<open>The payee behind the stub\<close>

record payee_inputs =
  pi_random :: "nat \<Rightarrow> bytes"
  pi_now :: "nat \<Rightarrow> time"
  pi_later :: "nat \<Rightarrow> time"

type_synonym payee_state = "store \<times> nat"

definition serve :: "(nat \<Rightarrow> 'r rpc) \<Rightarrow> (payee_state, 'r) call" where
  "serve f = (\<lambda>(s, n). let (s', r) = f n s in ((s', Suc n), r))"

definition serve_query :: "(store \<Rightarrow> rpc_error + 'r) \<Rightarrow> (payee_state, 'r) call" where
  "serve_query f = serve (\<lambda>_ s. (s, f s))"

definition payee_client :: "eth \<Rightarrow> codec \<Rightarrow> Service \<Rightarrow> payee_inputs \<Rightarrow> payee_state PayeeDaemonClient" where
  "payee_client E C svc I =
     \<lparr>pc_Health = serve_query (\<lambda>_. map_sum id snd (Health svc)),
      pc_GetTicketParams = (\<lambda>req. serve (\<lambda>n. GetTicketParams E svc req (pi_random I n) (pi_now I n))),
      pc_OpenSession = (\<lambda>req. serve (\<lambda>n. Receiver_OpenSession svc req (pi_random I n) (pi_now I n))),
      pc_ProcessPayment = (\<lambda>workID b. serve (\<lambda>n. ProcessPayment E C svc workID b (pi_now I n))),
      pc_FundWholesaleAccount = (\<lambda>req. serve (\<lambda>n. FundWholesaleAccount E C svc req (pi_now I n))),
      pc_AdmitAuthorization = (\<lambda>req. serve (\<lambda>n. admitAuthorization E C svc req (pi_now I n) (pi_later I n))),
      pc_AdvanceAuthorization = (\<lambda>req. serve (\<lambda>n. AdvanceAuthorization E C svc req (pi_now I n) (pi_later I n))),
      pc_SettleAuthorization = (\<lambda>account domain payer ident units seq.
        serve (\<lambda>n. SettleAuthorization svc account domain payer ident units seq (pi_now I n))),
      pc_GetWholesaleAccount = (\<lambda>account domain payer.
        serve_query (\<lambda>s. map_sum id Some (Receiver_GetWholesaleAccount svc account domain payer s))),
      pc_GetSpendAuthorization = (\<lambda>account domain payer ident.
        serve_query (GetSpendAuthorization svc account domain payer ident)),
      pc_DebitBalance = (\<lambda>sender workID units seq. serve (\<lambda>_. Receiver_DebitBalance sender workID units seq)),
      pc_SufficientBalance = (\<lambda>sender workID units. serve (\<lambda>_. SufficientBalance sender workID units)),
      pc_GetBalance = (\<lambda>sender workID. serve (\<lambda>_. Receiver_GetBalance sender workID)),
      pc_CloseSession = (\<lambda>sender workID. serve (\<lambda>n. Receiver_CloseSession sender workID (pi_now I n))),
      pc_GetWholesaleFundingReceipt = (\<lambda>payer account domain ident.
        serve_query (GetWholesaleFundingReceipt svc payer account domain ident)),
      pc_CancelAuthorizationAdmission = (\<lambda>account domain payer ident fingerprint.
        serve (\<lambda>n. Receiver_CancelAuthorizationAdmission svc account domain payer ident fingerprint (pi_now I n))),
      pc_FreezeRevenueSource = (\<lambda>domain reason. serve (\<lambda>n. FreezeRevenueSource svc domain reason (pi_now I n))),
      pc_GetRevenueSourceStatus = (\<lambda>domain. serve_query (GetRevenueSourceStatus svc domain)),
      pc_CloseUnexecutedAuthorization = (\<lambda>account domain payer ident reason. serve (\<lambda>n s.
        case Receiver_CloseUnexecutedAuthorization svc account domain payer ident reason (pi_now I n) s of
          (s', Inl e) \<Rightarrow> (s', Inl e)
        | (s', Inr _) \<Rightarrow> (s', Inr (True, settlementDomainID svc, account)))),
      pc_GetRoundRevenue = (\<lambda>rnd. serve_query (GetRoundRevenue svc rnd))\<rparr>"

text \<open>The exchange of a payer with a broker in front of that payee.\<close>

definition through_broker ::
  "json \<Rightarrow> (payee_state GRPC) \<Rightarrow> string \<Rightarrow> bytes \<Rightarrow> payee_state \<Rightarrow> payee_state \<times> (string + nat \<times> bytes)" where
  "through_broker J g url body w =
     (let (w', answer) = ticketParamsHandler J (Broker_GetTicketParams g) body w in (w', Inr answer))"

end
