(* ===== verification/Sender_Payments.thy ===== *)
theory Sender_Payments
  imports Sender
begin

text \<open>
  The handlers of the payer's gRPC service in \<open>sender.go\<close> and \<open>admin.go\<close>: \<open>CreatePayment\<close>,
  \<open>CreateSpendAuthorization\<close>, \<open>ReportPaymentResult\<close>, \<open>GetDepositInfo\<close>, \<open>Health\<close> and \<open>AdvanceDevRound\<close>,
  over the steps of the theory before.
\<close>

section \<open>Reserving a mint id\<close>

definition maxMintRequestIDBytes :: nat where
  "maxMintRequestIDBytes = 128"

definition mint_refusal :: "store_error \<Rightarrow> rpc_error" where
  "mint_refusal err =
     (if errors_Is err ErrMintIncomplete
        then status_Error FailedPrecondition ''mint_request_id was reserved but never completed''
      else if errors_Is err ErrMintFingerprintMismatch
        then status_Error InvalidArgument ''mint_request_id was used for different request content''
      else if errors_Is err ErrMintExpired
        then status_Error FailedPrecondition
               ''mint_request_id was already used and its replay record has expired; use a new id''
      else status_Error Internal ''mint recall'')"

text \<open>The clock is read when the reservation is written.\<close>

definition reserve_mint ::
  "'w payer_env \<Rightarrow> (store_error \<Rightarrow> rpc_error) \<Rightarrow> string \<Rightarrow> bytes \<Rightarrow> ('w, MintRecord option) step" where
  "reserve_mint H err mintID fingerprint =
     perform (look (\<lambda>st. fmlookup (mint_tombstones (pdb st)) (MintKey (Address H) mintID) = None)) (\<lambda>fresh.
     perform (if fresh then ask (Now H) else yield 0) (\<lambda>now.
     on_db err (MintReserve (Address H) mintID fingerprint now)))"

definition record_mint :: "'w payer_env \<Rightarrow> rpc_error \<Rightarrow> string \<Rightarrow> MintRecord \<Rightarrow> ('w, unit) step" where
  "record_mint H err mintID rec =
     perform (ask (Now H)) (\<lambda>now. on_db (\<lambda>_. err) (Store_MintRecord (Address H) mintID rec now))"

definition mint_record :: "bytes \<Rightarrow> bytes \<Rightarrow> CreatePaymentResponse \<Rightarrow> MintRecord" where
  "mint_record fingerprint quoteJSON out =
     \<lparr>mr_Fingerprint = fingerprint, mr_PaymentBytes = pr_payment_bytes out,
      mr_TicketsCreated = pr_tickets_created out, mr_ExpectedValue = GetValue (pr_expected_value out),
      mr_FundedValueWei = GetValue (pr_funded_value_wei out),
      mr_AccountShortfallWei = GetValue (pr_account_shortfall_wei out), mr_QuoteRefJSON = quoteJSON,
      mr_WorkID = pr_work_id out, mr_CreatedAt = 0\<rparr>"

section \<open>CreatePayment\<close>

definition account_of :: "CreatePaymentRequest \<Rightarrow> string" where
  "account_of req = (case cp_account_funding req of None \<Rightarrow> [] | Some a \<Rightarrow> af_wholesale_account_id a)"

definition domain_of :: "CreatePaymentRequest \<Rightarrow> string" where
  "domain_of req = (case cp_account_funding req of None \<Rightarrow> [] | Some a \<Rightarrow> af_settlement_domain_id a)"

definition quote_of :: "CreatePaymentRequest \<Rightarrow> pb_QuoteRef option" where
  "quote_of req = (case cp_accepted_price req of None \<Rightarrow> None | Some p \<Rightarrow> ap_quote_ref p)"

definition within_limit :: "string option \<Rightarrow> ('w, unit) step" where
  "within_limit breach =
     (case breach of None \<Rightarrow> yield () | Some m \<Rightarrow> fail (status_Error FailedPrecondition (''spend limit: '' @ m)))"

definition nonces_used :: "string \<Rightarrow> ('w, uint32) step" where
  "nonces_used workID =
     perform (look (\<lambda>st. SenderNoncesUsed workID (pdb st))) (result (\<lambda>_. plain ''read nonce budget''))"

text \<open>The account needs nothing: an empty response is recorded.\<close>

definition mint_nothing ::
  "'w payer_env \<Rightarrow> CreatePaymentRequest \<Rightarrow> string \<Rightarrow> bytes \<Rightarrow> ('w, CreatePaymentResponse) step" where
  "mint_nothing H req mintID fingerprint =
     (let err = status_Error Internal ''record zero-shortfall mint'';
          out = empty_response\<lparr>pr_expected_value := Some [], pr_funded_value_wei := Some [],
                  pr_account_shortfall_wei := Some [], pr_accepted_quote_ref := quote_of req\<rparr>
      in case marshalQuoteRef (payerwire H) (pr_accepted_quote_ref out) of
           None \<Rightarrow> fail err
         | Some quoteJSON \<Rightarrow>
             perform (record_mint H err mintID (mint_record fingerprint quoteJSON out)) (\<lambda>_. yield out))"

text \<open>The session to mint on, with the work id it replaces if an exhausted one was rotated, and whether a
  rotation was tried.\<close>

definition choose_session ::
  "'w payer_env \<Rightarrow> CreatePaymentRequest \<Rightarrow> acceptedPriceInput \<Rightarrow> fundingIntentInput \<Rightarrow>
   ('w, senderSession \<times> string \<times> bool) step" where
  "choose_session H req price funding =
     (let key = sessionKey (cp_recipient req) (ai_CapabilityName price) (ai_Offering price)
                  (cp_ticket_params_base_url req) [domain_of req, account_of req];
          open =
            perform (wrapping ''ticket params: '' (findOrOpenSession H (cp_recipient req) (fundedValueWei funding)
               (ai_CapabilityName price) (ai_Offering price) (cp_ticket_params_base_url req)
               (toPriceInfo price (estimatedUnits funding)) (quote_of req) (domain_of req) (account_of req)))
              (\<lambda>session. yield (session, [], False))
      in perform (look (\<lambda>st. fmlookup (cached st) key)) (\<lambda>hit.
         case hit of
           None \<Rightarrow> open
         | Some old \<Rightarrow>
             perform (nonces_used (se_workID old)) (\<lambda>used.
             if MaxSenderNonces \<le> unat used
             then perform (rotateExhaustedSession H old (cp_recipient req) price (cp_ticket_params_base_url req)
                     (quote_of req) funding) (\<lambda>session.
                  yield (session, if se_workID session \<noteq> se_workID old then se_workID old else [], True))
             else open)))"

definition maxTicketsPerPayment :: nat where
  "maxTicketsPerPayment = MaxSenderNonces"

text \<open>How many tickets fund the amount, and what they credit together.\<close>

definition ticket_count :: "int \<Rightarrow> int \<Rightarrow> int" where
  "ticket_count funded perTicketEV =
     (let count = Quo funded perTicketEV + 1;
          exact = (if funded mod perTicketEV = 0 then count - 1 else count)
      in if exact \<le> 0 then 1 else exact)"

definition size_batch ::
  "'w payer_env \<Rightarrow> CreatePaymentRequest \<Rightarrow> fundingIntentInput \<Rightarrow> senderSession \<Rightarrow> ('w, nat \<times> int) step" where
  "size_batch H req funding session =
     (let params = se_ticketParams session;
          perTicketEV = CreditedEV (tp_FaceValue params) (tp_WinProb params);
          count = ticket_count (fundedValueWei funding) perTicketEV
      in reject (tp_SettlementDomainID params \<noteq> domain_of req)
           (status_Error FailedPrecondition ''ticket parameters belong to a different settlement domain'') (
         reject (tp_Seed params = []) (plain ''ticket params: seed is empty'') (
         reject (perTicketEV \<le> 0)
           (status_Error FailedPrecondition ''this ticket session credits 0 wei per ticket'') (
         reject (int maxTicketsPerPayment < count)
           (status_Error FailedPrecondition ''funding needs more tickets than the cap'') (
         perform (within_limit (CheckSignedTicketBatch (limits H) (Some (perTicketEV * count)) (tp_FaceValue params))) (\<lambda>_.
         yield (nat count, perTicketEV * count)))))))"

text \<open>The last look at the nonce budget before signing; it is skipped when the session was just
  refreshed.\<close>

definition roll_over ::
  "'w payer_env \<Rightarrow> CreatePaymentRequest \<Rightarrow> acceptedPriceInput \<Rightarrow> fundingIntentInput \<Rightarrow> nat \<Rightarrow> senderSession \<Rightarrow>
   string \<Rightarrow> bool \<Rightarrow> ('w, senderSession \<times> string) step" where
  "roll_over H req price funding n session predecessor refreshed =
     (if refreshed \<or> \<not> store_configured H \<or> se_workID session = [] then yield (session, predecessor)
      else
        perform (nonces_used (se_workID session)) (\<lambda>used.
        if MaxSenderNonces < unat used + n
        then perform (rotateExhaustedSession H session (cp_recipient req) price (cp_ticket_params_base_url req)
                (quote_of req) funding) (\<lambda>rotated.
             yield (rotated, if se_workID rotated \<noteq> se_workID session then se_workID session else predecessor))
        else yield (session, predecessor)))"

definition payment_batch ::
  "'w payer_env \<Rightarrow> senderSession \<Rightarrow> int \<Rightarrow> bytes \<Rightarrow> TicketSenderParams list \<Rightarrow> TicketBatch" where
  "payment_batch H session rnd hash tsps =
     \<lparr>tb_TicketParams = Some (se_ticketParams session), tb_Sender = Address H,
      tb_ExpirationParams = Some \<lparr>CreationRound = rnd, CreationRoundBlockHash = hash\<rparr>,
      tb_TicketSenderParams = tsps, tb_ExpectedPrice = Some (se_acceptedPrice session)\<rparr>"

definition payment_response ::
  "int \<Rightarrow> int \<times> time \<Rightarrow> nat \<Rightarrow> int \<Rightarrow> senderSession \<Rightarrow> string \<Rightarrow> int \<Rightarrow> bytes \<Rightarrow> CreatePaymentResponse" where
  "payment_response funded validity n totalEV session predecessor rnd wire =
     \<lparr>pr_payment_bytes = wire, pr_tickets_created = word_of_nat n,
      pr_expected_value = Some (big_Bytes totalEV), pr_funded_value_wei = Some (big_Bytes funded),
      pr_accepted_quote_ref = se_acceptedQuote session, pr_work_id = se_workID session,
      pr_predecessor_work_id = predecessor, pr_creation_round = rnd,
      pr_expires_after_round = int64 (rnd + fst validity - 1),
      pr_ticket_validity_period = fst validity, pr_validity_observed_at = time_Format (snd validity),
      pr_account_shortfall_wei = Some (big_Bytes funded)\<rparr>"

definition record_payment ::
  "'w payer_env \<Rightarrow> string \<Rightarrow> bytes \<Rightarrow> CreatePaymentResponse \<Rightarrow> ('w, CreatePaymentResponse) step" where
  "record_payment H mintID fingerprint out =
     (case marshalQuoteRef (payerwire H) (pr_accepted_quote_ref out) of
        None \<Rightarrow> fail (plain ''record mint'')
      | Some quoteJSON \<Rightarrow>
          perform (record_mint H (status_Error Internal ''record mint'') mintID
             (mint_record fingerprint quoteJSON out)) (\<lambda>_. yield out))"

definition issue_payment ::
  "'w payer_env \<Rightarrow> string \<Rightarrow> bytes \<Rightarrow> int \<Rightarrow> int \<times> time \<Rightarrow> nat \<Rightarrow> int \<Rightarrow> senderSession \<Rightarrow> string \<Rightarrow>
   ('w, CreatePaymentResponse) step" where
  "issue_payment H mintID fingerprint funded validity n totalEV session predecessor =
     perform (sign_tickets H session n) (\<lambda>tsps.
     perform (ask (LastInitializedRound H)) (\<lambda>rnd.
     perform (ask (LastInitializedL1BlockHash H)) (\<lambda>hash.
     case Marshal_Payment (payerwire H) (the (ToWirePayment (Some (payment_batch H session rnd hash tsps)))) of
       None \<Rightarrow> fail (plain ''marshal payment'')
     | Some wire \<Rightarrow>
         record_payment H mintID fingerprint
           (payment_response funded validity n totalEV session predecessor rnd wire))))"

definition fund_shortfall ::
  "'w payer_env \<Rightarrow> CreatePaymentRequest \<Rightarrow> string \<Rightarrow> bytes \<Rightarrow> acceptedPriceInput \<Rightarrow> fundingIntentInput \<Rightarrow>
   ('w, CreatePaymentResponse) step" where
  "fund_shortfall H req mintID fingerprint price funding =
     perform (within_limit (CheckMint (limits H) (ai_WorkUnitName price) (Some (ai_PricePerUnitWei price))
        (ai_UnitsPerPrice price) (Some (fundedValueWei funding)))) (\<lambda>_.
     reject (Fetch H = None) (plain ''ticket params fetcher is not configured'') (
     reject (TrimSpace (cp_ticket_params_base_url req) = []) (plain ''ticket params base URL is empty'') (
     perform (call (\<lambda>_. plain ''get sender info'') (\<lambda>w. GetSenderInfo H w (Address H))) (\<lambda>info.
     perform (ask (LastInitializedRound H)) (\<lambda>rnd.
     perform (case validateSenderInfo (Some info) rnd of
        None \<Rightarrow> yield () | Some m \<Rightarrow> fail (plain (''sender validation: '' @ m))) (\<lambda>_.
     perform (\<lambda>st. case readValidityPeriod H False st of
          (st', Inl _) \<Rightarrow> (st', Inl (status_Error Unavailable ''cannot read the chain's ticketValidityPeriod''))
        | (st', Inr v) \<Rightarrow> (st', Inr v)) (\<lambda>validity.
     perform (choose_session H req price funding) (\<lambda>(session, predecessor, refreshed).
     perform (size_batch H req funding session) (\<lambda>(n, totalEV).
     perform (roll_over H req price funding n session predecessor refreshed) (\<lambda>(session', predecessor').
     issue_payment H mintID fingerprint (fundedValueWei funding) validity n totalEV session' predecessor'))))))))))"

definition mint_payment ::
  "'w payer_env \<Rightarrow> CreatePaymentRequest \<Rightarrow> string \<Rightarrow> bytes \<Rightarrow> ('w, CreatePaymentResponse) step" where
  "mint_payment H req mintID fingerprint =
     perform (result (\<lambda>m. plain (''accepted_price: '' @ m)) (parseAcceptedPrice (cp_accepted_price req))) (\<lambda>price.
     perform (result (\<lambda>m. plain (''funding: '' @ m)) (parseFundingIntent (cp_funding req))) (\<lambda>funding.
     reject (\<not> ValidWholesaleAccountID (account_of req))
       (status_Error InvalidArgument ''wholesale_account_id is required'') (
     perform (result (\<lambda>m. status_Error InvalidArgument (''account_funding: '' @ m))
        (accountShortfall (cp_account_funding req) (Some (fundedValueWei funding)))) (\<lambda>shortfall.
     reject (\<not> ValidDomain (domain_of req))
       (status_Error InvalidArgument ''account_funding.settlement_domain_id is required'') (
     if shortfall = 0 then mint_nothing H req mintID fingerprint
     else fund_shortfall H req mintID fingerprint price (funding\<lparr>fundedValueWei := shortfall\<rparr>))))))"

definition check_stream :: "'w payer_env \<Rightarrow> string \<Rightarrow> ('w, unit) step" where
  "check_stream H expected =
     (if expected = [] then yield ()
      else perform (ticket_stream H (status_Error Internal ''cannot read sender ticket stream'')) (\<lambda>stream.
           reject (expected \<noteq> stream)
             (status_Error FailedPrecondition ''mint belongs to another sender database'') (yield ())))"

definition CreatePayment :: "'w payer_env \<Rightarrow> CreatePaymentRequest \<Rightarrow> ('w, CreatePaymentResponse) step" where
  "CreatePayment H req =
     (let mintID = TrimSpace (cp_mint_request_id req);
          fingerprint = MintFingerprint (payerwire H) req
      in reject (cp_recipient req = []) (plain ''recipient is empty'') (
         reject (mintID = []) (status_Error InvalidArgument ''mint_request_id is required'') (
         reject (maxMintRequestIDBytes < length mintID)
           (status_Error InvalidArgument ''mint_request_id exceeds 128 bytes'') (
         reject (\<not> store_configured H)
           (status_Error FailedPrecondition ''mint idempotency store is not configured; refusing to mint'') (
         perform (check_stream H (cp_expected_ticket_stream_id req)) (\<lambda>_.
         perform (reserve_mint H mint_refusal mintID fingerprint) (\<lambda>prior.
         case prior of
           Some rec \<Rightarrow> yield (mintResponseFrom (payerwire H) rec)
         | None \<Rightarrow> mint_payment H req mintID fingerprint)))))))"

section \<open>CreateSpendAuthorization\<close>

definition caller_key_ok :: "payer_codec \<Rightarrow> bytes \<Rightarrow> bool" where
  "caller_key_ok P key \<longleftrightarrow>
     (if length key = 0 then True
      else if length key = 33 then DecompressPubkey P key
      else if length key = 65 then UnmarshalPubkey P key
      else False)"

definition revision_fields :: "CreateSpendAuthorizationRequest \<Rightarrow> string option" where
  "revision_fields req =
     (let session = TrimSpace (ca_session_id req); predecessor = TrimSpace (ca_predecessor_authorization_id req) in
      if ca_protocol req = ''paid-session/v1'' \<and> session = []
        then Some ''session_id is required for paid-session/v1''
      else if ca_protocol req = ''paid-job/v1'' \<and> (session \<noteq> [] \<or> ca_revision req \<noteq> 0 \<or> predecessor \<noteq> [])
        then Some ''paid-job/v1 cannot carry session revision fields''
      else if ca_revision req = 0 \<and> predecessor \<noteq> []
        then Some ''predecessor_authorization_id requires a positive revision''
      else if 0 < ca_revision req \<and> predecessor = []
        then Some ''a positive revision requires predecessor_authorization_id''
      else None)"

definition authorization_payload ::
  "'w payer_env \<Rightarrow> CreateSpendAuthorizationRequest \<Rightarrow> string \<Rightarrow> acceptedPriceInput \<Rightarrow> time \<Rightarrow> time \<Rightarrow>
   SpendAuthorizationPayload" where
  "authorization_payload H req brokerURI accepted notBefore expiresAt =
     \<lparr>pl_wholesale_account_id = ca_wholesale_account_id req, pl_domain = spendauth_Domain,
      pl_payer = Address H, pl_payee = ca_payee req, pl_authorization_id = ca_authorization_id req,
      pl_request_id = ca_request_id req, pl_session_id = ca_session_id req, pl_protocol = ca_protocol req,
      pl_capability = ai_CapabilityName accepted, pl_offering = ai_Offering accepted,
      pl_accepted_price = ca_accepted_price req,
      pl_max_debit_wei = big_Bytes (SetBytes (GetValue (ca_max_debit_wei req))),
      pl_max_total_units = ca_max_total_units req, pl_not_before = time_Format notBefore,
      pl_expires_at = time_Format expiresAt, pl_request_digest = ca_request_digest req,
      pl_caller_public_key = ca_caller_public_key req, pl_revision = ca_revision req,
      pl_predecessor_authorization_id = ca_predecessor_authorization_id req, pl_broker_uri = brokerURI,
      pl_chain_id = ca_chain_id req, pl_denomination = ca_denomination req,
      pl_settlement_domain_id = ca_settlement_domain_id req\<rparr>"

definition invalid :: "string \<Rightarrow> rpc_error" where
  "invalid m = status_Error InvalidArgument m"

text \<open>The checks of the request, in the order of the code; the answer is the payload to sign.\<close>

definition check_times ::
  "'w payer_env \<Rightarrow> CreateSpendAuthorizationRequest \<Rightarrow> string \<Rightarrow> acceptedPriceInput \<Rightarrow>
   rpc_error + SpendAuthorizationPayload" where
  "check_times H req brokerURI accepted =
     (case time_Parse (ca_not_before req) of
        None \<Rightarrow> Inl (invalid ''not_before must be RFC3339'')
      | Some notBefore \<Rightarrow>
          let disorder = Inl (invalid ''expires_at must be RFC3339 and after not_before'') in
          (case time_Parse (ca_expires_at req) of
             None \<Rightarrow> disorder
           | Some expiresAt \<Rightarrow>
               if expiresAt \<le> notBefore then disorder
               else case revision_fields req of
                 Some m \<Rightarrow> Inl (invalid m)
               | None \<Rightarrow> Inr (authorization_payload H req brokerURI accepted notBefore expiresAt)))"

definition check_amounts ::
  "'w payer_env \<Rightarrow> CreateSpendAuthorizationRequest \<Rightarrow> acceptedPriceInput \<Rightarrow> rpc_error option" where
  "check_amounts H req accepted =
     (let maxDebit = SetBytes (GetValue (ca_max_debit_wei req)) in
      if maxDebit \<le> 0 \<or> ca_max_total_units req = 0
        then Some (invalid ''max_debit_wei and max_total_units must be positive'')
      else case CheckAuthorization (limits H) (Some maxDebit) of
        Some m \<Rightarrow> Some (status_Error FailedPrecondition (''spend limit: '' @ m))
      | None \<Rightarrow>
          if maxDebit < BillFor (Some (ai_PricePerUnitWei accepted)) (ai_UnitsPerPrice accepted) (ca_max_total_units req)
            then Some (invalid ''max_debit_wei cannot cover max_total_units at accepted price'')
          else if length (ca_request_digest req) \<noteq> 32
            then Some (invalid ''request_digest must be an exact SHA-256 digest'')
          else if \<not> caller_key_ok (payerwire H) (ca_caller_public_key req)
            then Some (invalid ''caller_public_key must be a valid compressed or uncompressed secp256k1 public key'')
          else None)"

definition check_request ::
  "'w payer_env \<Rightarrow> CreateSpendAuthorizationRequest \<Rightarrow> rpc_error + SpendAuthorizationPayload" where
  "check_request H req =
     (if \<not> ValidWholesaleAccountID (ca_wholesale_account_id req)
        then Inl (invalid ''wholesale_account_id is required'')
      else if length (ca_payee req) \<noteq> 20 then Inl (invalid ''payee must be 20 bytes'')
      else if TrimSpace (ca_authorization_id req) = [] \<or> TrimSpace (ca_request_id req) = []
        then Inl (invalid ''authorization_id and request_id are required'')
      else if \<not> ValidSettlementDomainID (ca_settlement_domain_id req)
        then Inl (invalid ''canonical settlement_domain_id is required'')
      else case BrokerURI (urls H) (ca_broker_uri req) of
        None \<Rightarrow> Inl (invalid ''broker_uri is required'')
      | Some brokerURI \<Rightarrow>
          if ca_protocol req \<noteq> ''paid-job/v1'' \<and> ca_protocol req \<noteq> ''paid-session/v1''
            then Inl (invalid ''protocol must be paid-job/v1 or paid-session/v1'')
          else if ca_chain_id req = 0 \<or> ca_denomination req \<noteq> ''wei''
            then Inl (invalid ''chain_id and denomination=wei are required'')
          else case parseAcceptedPrice (ca_accepted_price req) of
            Inl m \<Rightarrow> Inl (invalid (''accepted_price: '' @ m))
          | Inr accepted \<Rightarrow>
              (case check_amounts H req accepted of
                 Some e \<Rightarrow> Inl e
               | None \<Rightarrow> check_times H req brokerURI accepted))"

definition authorization_store_id :: "SpendAuthorizationPayload \<Rightarrow> string" where
  "authorization_store_id p =
     ''authorization/v3/'' @ nat_decimal (unat (pl_chain_id p)) @ ''/'' @ hex_encode (pl_payee p) @ ''/'' @
     pl_settlement_domain_id p @ ''/'' @ pl_denomination p @ ''/'' @ pl_wholesale_account_id p @ ''/'' @
     pl_authorization_id p"

definition authorization_record :: "bytes \<Rightarrow> bytes \<Rightarrow> MintRecord" where
  "authorization_record fingerprint wire =
     \<lparr>mr_Fingerprint = fingerprint, mr_PaymentBytes = wire, mr_TicketsCreated = 0, mr_ExpectedValue = [],
      mr_FundedValueWei = [], mr_AccountShortfallWei = [], mr_QuoteRefJSON = [], mr_WorkID = [], mr_CreatedAt = 0\<rparr>"

text \<open>An id that was signed before is answered with the stored bytes; a new one is reserved, signed and
  recorded.\<close>

definition sign_authorization ::
  "'w payer_env \<Rightarrow> SpendAuthorizationPayload \<Rightarrow> ('w, CreateSpendAuthorizationResponse) step" where
  "sign_authorization H payload =
     (let answer = (\<lambda>b. \<lparr>cr_authorization_bytes = b, cr_authorization_id = pl_authorization_id payload,
           cr_payer = pl_payer payload\<rparr>);
          storeID = authorization_store_id payload
      in
      reject (\<not> store_configured H)
        (status_Error FailedPrecondition ''authorization idempotency store is not configured'') (
      case Marshal_Payload (pbwire H) payload of
        None \<Rightarrow> fail (status_Error Internal ''authorization fingerprint'')
      | Some payloadWire \<Rightarrow>
          perform (reserve_mint H (\<lambda>_. status_Error AlreadyExists ''authorization idempotency'') storeID
             (sha256 payloadWire)) (\<lambda>prior.
          case prior of
            Some rec \<Rightarrow> yield (answer (mr_PaymentBytes rec))
          | None \<Rightarrow>
              perform (result (\<lambda>_. status_Error Internal ''authorization digest'')
                 (Digest (ethlib H) (pbwire H) (Some payload))) (\<lambda>digest.
              perform (call (\<lambda>_. status_Error Internal ''authorization signature'') (\<lambda>w. Sign H w digest)) (\<lambda>sig.
              case Marshal_SpendAuthorization (payerwire H) \<lparr>sa_payload = Some payload, sa_signature = sig\<rparr> of
                None \<Rightarrow> fail (status_Error Internal ''authorization marshal'')
              | Some wire \<Rightarrow>
                  perform (record_mint H (status_Error Internal ''record authorization'') storeID
                     (authorization_record (sha256 payloadWire) wire)) (\<lambda>_. yield (answer wire)))))))"

definition CreateSpendAuthorization ::
  "'w payer_env \<Rightarrow> CreateSpendAuthorizationRequest \<Rightarrow> ('w, CreateSpendAuthorizationResponse) step" where
  "CreateSpendAuthorization H req =
     perform (result (\<lambda>e. e) (check_request H req)) (sign_authorization H)"

section \<open>Feedback and queries\<close>

definition ReportPaymentResult :: "ReportPaymentResultRequest \<Rightarrow> ('w, unit) step" where
  "ReportPaymentResult req =
     reject (TrimSpace (rq_work_id req) = []) (plain ''work_id is empty'') (
     if rq_rejection_reason req \<noteq> INVALID_RECIPIENT_RAND then yield ()
     else
       perform (change (\<lambda>st. fst (evictSessionByWorkID (rq_work_id req) st))) (\<lambda>_.
       fail \<lparr>rpc_Code = Aborted, rpc_Reason = ''INVALID_RECIPIENT_RAND'',
             rpc_Message = ''payment session rotated; retry exactly once'',
             rpc_Metadata = [(''old_work_id'', rq_work_id req), (''capability'', rq_capability req),
               (''offering'', rq_offering req)]\<rparr>))"

text \<open>A validity period that cannot be read leaves its two fields empty.\<close>

definition GetDepositInfo :: "'w payer_env \<Rightarrow> ('w, GetDepositInfoResponse) step" where
  "GetDepositInfo H =
     perform (call plain (\<lambda>w. GetSenderInfo H w (Address H))) (\<lambda>info.
     perform (ask (LastInitializedRound H)) (\<lambda>rnd.
     perform (\<lambda>st. case readValidityPeriod H True st of
          (st', Inl _) \<Rightarrow> (st', Inr None) | (st', Inr v) \<Rightarrow> (st', Inr (Some v))) (\<lambda>validity.
     yield \<lparr>gd_deposit = bigIntBytes (si_Deposit info),
       gd_reserve = (case si_Reserve info of None \<Rightarrow> [] | Some r \<Rightarrow> bigIntBytes (FundsRemaining r)),
       gd_withdraw_round = WithdrawRound info, gd_current_round = rnd,
       gd_ticket_validity_period = (case validity of None \<Rightarrow> 0 | Some (v, _) \<Rightarrow> v),
       gd_validity_observed_at = (case validity of None \<Rightarrow> [] | Some (_, seen) \<Rightarrow> time_Format seen)\<rparr>)))"

definition Payer_Health :: "'w payer_env \<Rightarrow> ('w, string \<times> string) step" where
  "Payer_Health H =
     reject (\<not> store_configured H) (status_Error FailedPrecondition ''sender store is not configured'') (
     perform (ticket_stream H (status_Error Internal ''cannot read sender ticket stream'')) (\<lambda>stream.
     yield (''ok'', stream)))"

section \<open>The development clock\<close>

record DevClock =
  dc_round :: int
  dc_roundBlockHash :: bytes
  dc_l1Block :: int

definition DevClock_New :: DevClock where
  "DevClock_New = \<lparr>dc_round = 1, dc_roundBlockHash = ''dev-round-block-hash-32-bytes!!!'', dc_l1Block = 1\<rparr>"

text \<open>The conversion of the block number to \<open>int64\<close> and its quotients, rounded towards zero.\<close>

definition Tick :: "int \<Rightarrow> DevClock \<Rightarrow> DevClock" where
  "Tick n c =
     (let block = dc_l1Block c + n in
      c\<lparr>dc_l1Block := block,
        dc_round := (if Quo (int64 block) 100 \<noteq> Quo (int64 (int64 block - n)) 100
                     then int64 (dc_round c + 1) else dc_round c)\<rparr>)"

definition AdvanceRounds :: "int \<Rightarrow> DevClock \<Rightarrow> DevClock \<times> int" where
  "AdvanceRounds n c =
     (if n < 1 then (c, dc_round c)
      else
        let c' = c\<lparr>dc_round := int64 (dc_round c + n), dc_l1Block := dc_l1Block c + int64 (100 * n)\<rparr>
        in (c', dc_round c'))"

text \<open>The clock is None when the daemon is not on a development clock.\<close>

definition AdvanceDevRound :: "int \<Rightarrow> DevClock option \<Rightarrow> DevClock option \<times> (rpc_error + int)" where
  "AdvanceDevRound rounds clock =
     (case clock of
        None \<Rightarrow> (None, Inl (status_Error FailedPrecondition
          ''round advancement is dev-clock only; this daemon is on a chain clock and its rounds are the chain's''))
      | Some c \<Rightarrow>
          if rounds < 1 then (Some c, Inl (status_Error InvalidArgument ''rounds must be >= 1''))
          else let (c', r) = AdvanceRounds rounds c in (Some c', Inr r))"

end
