(* ===== verification/Wire_Format.thy ===== *)
theory Wire_Format
  imports Sender_Types
begin

text \<open>
  Encoding messages is the business of generated code and stays an argument of the model. This theory has
  one encoding that can be computed, a list of hexadecimal fields between commas, and shows that payments and
  spend authorizations survive it: the laws that theorems assume of an encoding can be met.
\<close>

definition pack :: "string list \<Rightarrow> bytes" where
  "pack fs = Join (map hex_encode fs) '',''"

definition unpack :: "bytes \<Rightarrow> string list option" where
  "unpack b = those (map hex_decode (Split b (CHR '','')))"

lemma hex_encode_no_comma: "CHR '','' \<notin> set (hex_encode b)"
proof (induction b)
  case (Cons c b)
  have "hex_digit d \<noteq> CHR '',''" if "d < 16" for d
    using hex_value_digit [OF that] by (auto simp: hex_value_def Let_def)
  moreover have "nat_of_byte c div 16 < 16" using nat_of_byte_lt [of c] by (simp add: less_mult_imp_div_less)
  ultimately have "hex_digit (nat_of_byte c div 16) \<noteq> CHR '',''" "hex_digit (nat_of_byte c mod 16) \<noteq> CHR '',''"
    by simp_all
  then show ?case using Cons by auto
qed simp

lemma those_hex: "those (map (hex_decode \<circ> hex_encode) fs) = Some fs"
  by (induction fs) simp_all

lemma unpack_pack: "fs \<noteq> [] \<Longrightarrow> unpack (pack fs) = Some fs"
  by (simp add: unpack_def pack_def Split_Join hex_encode_no_comma those_hex)

section \<open>Payments\<close>

definition opt_fields :: "nat \<Rightarrow> ('a \<Rightarrow> string list) \<Rightarrow> 'a option \<Rightarrow> string list" where
  "opt_fields n f x = (case x of None \<Rightarrow> ''0'' # replicate n [] | Some v \<Rightarrow> ''1'' # f v)"

definition expiration_fields :: "TicketExpirationParams \<Rightarrow> string list" where
  "expiration_fields e = [big_String (CreationRound e), CreationRoundBlockHash e]"

definition params_fields :: "pb_TicketParams \<Rightarrow> string list" where
  "params_fields p =
     [pb_recipient p, pb_face_value p, pb_win_prob p, pb_recipient_rand_hash p, pb_seed p, pb_expiration_block p] @
     opt_fields 2 expiration_fields (pb_expiration_params p)"

definition price_fields :: "PriceInfo \<Rightarrow> string list" where
  "price_fields p =
     [big_String (PricePerUnit p), big_String (PixelsPerUnit p), nat_decimal (unat (Capability p)), Constraint p]"

definition ticket_fields :: "TicketSenderParams \<Rightarrow> string list" where
  "ticket_fields t = [nat_decimal (unat (sp_SenderNonce t)), sp_Sig t]"

definition payment_fields :: "pb_Payment \<Rightarrow> string list" where
  "payment_fields p =
     opt_fields 9 params_fields (pb_ticket_params p) @ pb_sender p #
     opt_fields 2 expiration_fields (pb_pay_expiration_params p) @
     opt_fields 4 price_fields (pb_expected_price p) @ concat (map ticket_fields (pb_ticket_sender_params p))"

definition expiration_of :: "string list \<Rightarrow> nat \<Rightarrow> TicketExpirationParams option" where
  "expiration_of f i =
     (if f ! i = ''0'' then None
      else Some \<lparr>CreationRound = the (SetString (f ! (i + 1))), CreationRoundBlockHash = f ! (i + 2)\<rparr>)"

fun tickets_of :: "string list \<Rightarrow> TicketSenderParams list" where
  "tickets_of (n # sig # rest) =
     \<lparr>sp_SenderNonce = word_of_nat (the (decimal_nat n)), sp_Sig = sig\<rparr> # tickets_of rest"
| "tickets_of _ = []"

definition payment_of :: "string list \<Rightarrow> pb_Payment" where
  "payment_of f =
     \<lparr>pb_ticket_params =
        (if f ! 0 = ''0'' then None
         else Some \<lparr>pb_recipient = f ! 1, pb_face_value = f ! 2, pb_win_prob = f ! 3, pb_recipient_rand_hash = f ! 4,
           pb_seed = f ! 5, pb_expiration_block = f ! 6, pb_expiration_params = expiration_of f 7\<rparr>),
      pb_sender = f ! 10, pb_pay_expiration_params = expiration_of f 11,
      pb_ticket_sender_params = tickets_of (drop 19 f),
      pb_expected_price =
        (if f ! 14 = ''0'' then None
         else Some \<lparr>PricePerUnit = the (SetString (f ! 15)), PixelsPerUnit = the (SetString (f ! 16)),
           Capability = word_of_nat (the (decimal_nat (f ! 17))), Constraint = f ! 18\<rparr>)\<rparr>"

lemma tickets_of_fields: "tickets_of (concat (map ticket_fields ts)) = ts"
  by (induction ts) (simp_all add: ticket_fields_def)

lemma payment_of_fields: "payment_of (payment_fields p) = p"
proof (cases "pb_ticket_params p")
  case None
  then show ?thesis
    by (cases "pb_pay_expiration_params p"; cases "pb_expected_price p"; cases p)
      (simp_all add: payment_of_def payment_fields_def opt_fields_def expiration_fields_def price_fields_def
        expiration_of_def tickets_of_fields numeral_eq_Suc)
next
  case (Some tp)
  then show ?thesis
    by (cases "pb_pay_expiration_params p"; cases "pb_expected_price p"; cases "pb_expiration_params tp"; cases tp; cases p)
      (simp_all add: payment_of_def payment_fields_def params_fields_def opt_fields_def expiration_fields_def price_fields_def
        expiration_of_def tickets_of_fields numeral_eq_Suc)
qed

definition marshal_payment :: "pb_Payment \<Rightarrow> bytes" where
  "marshal_payment p = pack (payment_fields p)"

definition unmarshal_payment :: "bytes \<Rightarrow> pb_Payment option" where
  "unmarshal_payment b = map_option payment_of (unpack b)"

lemma unmarshal_marshal_payment: "unmarshal_payment (marshal_payment p) = Some p"
proof -
  have "payment_fields p \<noteq> []" by (simp add: payment_fields_def opt_fields_def split: option.split)
  then show ?thesis by (simp add: unmarshal_payment_def marshal_payment_def unpack_pack payment_of_fields)
qed

section \<open>Authorizations\<close>

definition quote_fields :: "pb_QuoteRef \<Rightarrow> string list" where
  "quote_fields q = [quote_id q, nat_decimal (unat (quote_version q)), constraint_fingerprint q, route_fingerprint q]"

definition accepted_price_fields :: "pb_AcceptedPrice \<Rightarrow> string list" where
  "accepted_price_fields p =
     opt_fields 1 (\<lambda>v. [v]) (price_per_unit_wei p) @
     [nat_decimal (unat (units_per_price p)), work_unit_name p, ap_capability p, ap_offering p] @
     opt_fields 4 quote_fields (ap_quote_ref p)"

definition payload_fields :: "SpendAuthorizationPayload \<Rightarrow> string list" where
  "payload_fields p =
     [pl_wholesale_account_id p, pl_domain p, pl_payer p, pl_payee p, pl_authorization_id p, pl_request_id p,
      pl_session_id p, pl_protocol p, pl_capability p, pl_offering p, pl_max_debit_wei p,
      nat_decimal (unat (pl_max_total_units p)), pl_not_before p, pl_expires_at p, pl_request_digest p,
      pl_caller_public_key p, nat_decimal (unat (pl_revision p)), pl_predecessor_authorization_id p, pl_broker_uri p,
      nat_decimal (unat (pl_chain_id p)), pl_denomination p, pl_settlement_domain_id p] @
     opt_fields 11 accepted_price_fields (pl_accepted_price p)"

definition authorization_fields :: "SpendAuthorization \<Rightarrow> string list" where
  "authorization_fields a = sa_signature a # opt_fields 34 payload_fields (sa_payload a)"

definition word_field :: "string \<Rightarrow> uint64" where
  "word_field f = word_of_nat (the (decimal_nat f))"

definition accepted_price_of :: "string list \<Rightarrow> pb_AcceptedPrice" where
  "accepted_price_of f =
     \<lparr>price_per_unit_wei = (if f ! 0 = ''0'' then None else Some (f ! 1)), units_per_price = word_field (f ! 2),
      work_unit_name = f ! 3, ap_capability = f ! 4, ap_offering = f ! 5,
      ap_quote_ref =
        (if f ! 6 = ''0'' then None
         else Some \<lparr>quote_id = f ! 7, quote_version = word_field (f ! 8), constraint_fingerprint = f ! 9,
           route_fingerprint = f ! 10\<rparr>)\<rparr>"

definition decoded_payload :: "string list \<Rightarrow> SpendAuthorizationPayload" where
  "decoded_payload f =
     \<lparr>pl_wholesale_account_id = f ! 0, pl_domain = f ! 1, pl_payer = f ! 2, pl_payee = f ! 3,
      pl_authorization_id = f ! 4, pl_request_id = f ! 5, pl_session_id = f ! 6, pl_protocol = f ! 7,
      pl_capability = f ! 8, pl_offering = f ! 9,
      pl_accepted_price = (if f ! 22 = ''0'' then None else Some (accepted_price_of (drop 23 f))),
      pl_max_debit_wei = f ! 10, pl_max_total_units = word_field (f ! 11), pl_not_before = f ! 12,
      pl_expires_at = f ! 13, pl_request_digest = f ! 14, pl_caller_public_key = f ! 15,
      pl_revision = word_field (f ! 16), pl_predecessor_authorization_id = f ! 17, pl_broker_uri = f ! 18,
      pl_chain_id = word_field (f ! 19), pl_denomination = f ! 20, pl_settlement_domain_id = f ! 21\<rparr>"

definition decoded_authorization :: "string list \<Rightarrow> SpendAuthorization" where
  "decoded_authorization f =
     \<lparr>sa_payload = (if f ! 1 = ''0'' then None else Some (decoded_payload (drop 2 f))), sa_signature = f ! 0\<rparr>"

lemma word_field_decimal [simp]: "word_field (nat_decimal (unat w)) = w"
  by (simp add: word_field_def)

lemma accepted_price_of_fields: "accepted_price_of (accepted_price_fields p) = p"
  by (cases "price_per_unit_wei p"; cases "ap_quote_ref p"; cases p)
    (simp_all add: accepted_price_of_def accepted_price_fields_def opt_fields_def quote_fields_def)

lemma payload_of_fields: "decoded_payload (payload_fields p) = p"
  by (cases "pl_accepted_price p"; cases p)
    (simp_all add: decoded_payload_def payload_fields_def opt_fields_def accepted_price_of_fields)

lemma decoded_authorization_fields: "decoded_authorization (authorization_fields a) = a"
  by (cases "sa_payload a"; cases a)
    (simp_all add: decoded_authorization_def authorization_fields_def opt_fields_def payload_of_fields)

definition marshal_authorization :: "SpendAuthorization \<Rightarrow> bytes" where
  "marshal_authorization a = pack (authorization_fields a)"

definition unmarshal_authorization :: "bytes \<Rightarrow> SpendAuthorization option" where
  "unmarshal_authorization b = map_option decoded_authorization (unpack b)"

lemma unmarshal_marshal_authorization: "unmarshal_authorization (marshal_authorization a) = Some a"
proof -
  have "authorization_fields a \<noteq> []" by (simp add: authorization_fields_def)
  then show ?thesis by (simp add: unmarshal_authorization_def marshal_authorization_def unpack_pack decoded_authorization_fields)
qed

lemma marshal_authorization_not_Nil: "marshal_authorization a \<noteq> []"
proof
  assume "marshal_authorization a = []"
  then have "unpack [] = Some (authorization_fields a)"
    using unpack_pack [of "authorization_fields a"] by (simp add: marshal_authorization_def authorization_fields_def)
  then have "authorization_fields a = [[]]" by (simp add: unpack_def)
  then show False by (cases "sa_payload a") (simp_all add: authorization_fields_def opt_fields_def)
qed

end
