(* ===== verification/Sender_Samples.thy ===== *)
theory Sender_Samples
  imports Sender_Payments Wire_Format
begin

text \<open>
  Payers whose world always gives the same answers, whatever their fetcher of ticket parameters is, and a
  call that mints: the inputs at which the laws of the payer's service are evaluated.
\<close>

definition sample_payer_domain :: string where
  "sample_payer_domain = ''0x'' @ replicate 63 (CHR ''0'') @ ''1''"

definition sample_quote :: pb_QuoteRef where
  "sample_quote = \<lparr>quote_id = ''q'', quote_version = 1, constraint_fingerprint = ''c'', route_fingerprint = ''r''\<rparr>"

definition sample_price :: pb_AcceptedPrice where
  "sample_price =
     \<lparr>price_per_unit_wei = Some [CHR 0x02], units_per_price = 1, work_unit_name = ''token'',
      ap_capability = ''cap'', ap_offering = ''off'', ap_quote_ref = Some sample_quote\<rparr>"

text \<open>The payee's answer: the amount asked for as a ticket that always wins.\<close>

definition sample_params :: "TicketParamsRequest \<Rightarrow> TicketParams" where
  "sample_params req =
     \<lparr>tp_WholesaleAccountID = tr_WholesaleAccountID req, tp_TicketStreamID = tr_TicketStreamID req,
      tp_SettlementDomainID = sample_payer_domain, tp_Recipient = replicate 20 (CHR ''r''),
      tp_FaceValue = tr_FaceValue req, tp_WinProb = Some MaxWinProb,
      tp_RecipientRandHash = HashRecipientRand sample_eth (Some 7), tp_Seed = ''seed'',
      tp_ExpirationBlock = Some 0, tp_ExpirationParams = None, tp_HighestSeenNonce = 0, tp_HasSeenNonces = False\<rparr>"

definition sample_payer_codec :: payer_codec where
  "sample_payer_codec =
     \<lparr>Marshal_Payment = (\<lambda>p. Some (marshal_payment p)),
      Marshal_SpendAuthorization = (\<lambda>a. Some (sa_signature a)),
      Marshal_AcceptedPrice = (\<lambda>p. Some []), Marshal_FundingIntent = (\<lambda>f. Some []),
      Marshal_AccountFundingIntent = (\<lambda>f. Some []), Marshal_QuoteRef = (\<lambda>q. Some (quote_id q)),
      Unmarshal_QuoteRef = (\<lambda>b. Some sample_quote), DecompressPubkey = (\<lambda>k. True), UnmarshalPubkey = (\<lambda>k. True)\<rparr>"

definition sample_urls :: urllib where
  "sample_urls = \<lparr>url_Parse = (\<lambda>s. None), url_String = (\<lambda>u. []), ParseIP = (\<lambda>s. False)\<rparr>"

definition sample_wire :: codec where
  "sample_wire =
     \<lparr>Unmarshal_Payment = (\<lambda>b. None), Unmarshal_SpendAuthorization = (\<lambda>b. None), Marshal_Payload = (\<lambda>p. Some [])\<rparr>"

definition sample_payer_of ::
  "('w \<Rightarrow> TicketParamsRequest \<Rightarrow> 'w \<times> (rpc_error + TicketParams)) \<Rightarrow> eth \<Rightarrow> 'w payer_env" where
  "sample_payer_of fetch E =
     \<lparr>Address = replicate 20 (CHR ''s''), Sign = (\<lambda>w h. (w, Inr sample_sig)), Now = (\<lambda>w. (w, 0)),
      RandRead = (\<lambda>w. (w, ''r'')), LastInitializedRound = (\<lambda>w. (w, 5)),
      LastInitializedL1BlockHash = (\<lambda>w. (w, replicate 32 (CHR ''b''))),
      GetSenderInfo = (\<lambda>w a. (w, Inr \<lparr>si_Deposit = Some 1,
        si_Reserve = Some \<lparr>FundsRemaining = Some 1, Claimed = (\<lambda>_. None)\<rparr>, WithdrawRound = 0\<rparr>)),
      TicketValidityPeriod = (\<lambda>w. (w, Inr 2)), Fetch = Some fetch,
      limits = \<lparr>MaxPaymentWei = Some 100, MaxTicketFaceValueWei = Some 100, MaxAuthorizationWei = None,
        MaxPricePerUnit = fmempty\<rparr>,
      store_configured = True, ethlib = E, pbwire = sample_wire, payerwire = sample_payer_codec,
      urls = sample_urls\<rparr>"

definition sample_payer :: "unit payer_env" where
  "sample_payer = sample_payer_of (\<lambda>w req. (w, Inr (sample_params req))) sample_eth"

definition sample_pay_request :: CreatePaymentRequest where
  "sample_pay_request =
     \<lparr>cp_recipient = replicate 20 (CHR ''r''), cp_ticket_params_base_url = ''u'', cp_accepted_price = Some sample_price,
      cp_funding = Some \<lparr>fi_estimated_units = 1, fi_funded_value_wei = Some [CHR 0x05], fi_max_total_units = 0,
        fi_top_up_allowed = False\<rparr>,
      cp_mint_request_id = ''m'',
      cp_account_funding = Some \<lparr>af_wholesale_account_id = ''acct'', af_target_available_wei = Some [CHR 0x05],
        af_observed_available_wei = Some [CHR 0x03], af_settlement_domain_id = sample_payer_domain\<rparr>,
      cp_expected_ticket_stream_id = []\<rparr>"

lemma trim_samples:
  "TrimSpace ''m'' = ''m''" "TrimSpace ''u'' = ''u''" "TrimSpace ''cap'' = ''cap''" "TrimSpace ''off'' = ''off''"
  "TrimSpace ''token'' = ''token''" "TrimSpace ''q'' = ''q''"
  by (simp_all add: TrimSpace_visible visible_def)

lemma sample_domain_ok: "ValidDomain sample_payer_domain" "ValidWholesaleAccountID ''acct''"
  by (simp_all add: ValidDomain_def sample_payer_domain_def ValidWholesaleAccountID_def byte_in_def list_all_iff list_ex_iff)

lemma sample_accepted:
  "parseAcceptedPrice (Some sample_price) =
     Inr \<lparr>ai_PricePerUnitWei = 2, ai_UnitsPerPrice = 1, ai_WorkUnitName = ''token'', ai_QuoteRef = Some sample_quote,
       ai_CapabilityName = ''cap'', ai_Offering = ''off''\<rparr>"
  by (simp add: parseAcceptedPrice_def sample_price_def trim_samples parseBigUInt_def IsInt64_def check_quote_ref_def
      sample_quote_def SetBytes_def be_value_def)

lemma sample_parse:
  "parseFundingIntent (cp_funding sample_pay_request) = Inr \<lparr>estimatedUnits = 1, fundedValueWei = 5\<rparr>"
  "accountShortfall (cp_account_funding sample_pay_request) (Some 5) = Inr 2"
  "account_of sample_pay_request = ''acct''" "domain_of sample_pay_request = sample_payer_domain"
  by (simp_all add: parseFundingIntent_def accountShortfall_def parseBigUInt_def sample_pay_request_def SetBytes_def
      be_value_def account_of_def domain_of_def)

lemmas step_defs = reject_def perform_def yield_def fail_def look_def change_def result_def wrapping_def ask_def call_def
  on_db_def

lemma sample_EV: "CreditedEV (Some 2) (Some MaxWinProb) = 2"
  by (simp add: CreditedEV_def MaxWinProb_def)

text \<open>Their world never changes between fetches, so asking it is reading a constant.\<close>

lemma sample_asks:
  "ask (Now (sample_payer_of f E)) st = (st, Inr 0)" "ask (LastInitializedRound (sample_payer_of f E)) st = (st, Inr 5)"
  "ask (LastInitializedL1BlockHash (sample_payer_of f E)) st = (st, Inr (replicate 32 (CHR ''b'')))"
  "ask (RandRead (sample_payer_of f E)) st = (st, Inr ''r'')"
  "call err (TicketValidityPeriod (sample_payer_of f E)) st = (st, Inr 2)"
  "call plain (\<lambda>w. Sign (sample_payer_of f E) w h) st = (st, Inr sample_sig)"
  by (simp_all add: ask_def call_def sample_payer_of_def)

lemma sample_fields:
  "payerwire (sample_payer_of f E) = sample_payer_codec" "store_configured (sample_payer_of f E)"
  "Address (sample_payer_of f E) = replicate 20 (CHR ''s'')" "Fetch (sample_payer_of f E) = Some f"
  "TrimSpace (cp_mint_request_id sample_pay_request) = ''m''" "cp_recipient sample_pay_request = replicate 20 (CHR ''r'')"
  "cp_expected_ticket_stream_id sample_pay_request = []" "cp_accepted_price sample_pay_request = Some sample_price"
  "cp_ticket_params_base_url sample_pay_request = ''u''"
  by (simp_all add: sample_pay_request_def trim_samples sample_payer_of_def)

lemma yield_eq: "yield x st = (st, Inr x)"
  by (simp add: yield_def)

lemma perform_yield: "perform (yield x) k st = k x st"
  by (simp add: perform_def yield_def)

lemma perform_result: "perform (result err (Inr x)) k st = k x st"
  by (simp add: perform_def result_def)

lemma rejectI: "\<not> bad \<Longrightarrow> reject bad e k st = k st"
  by (simp add: reject_def)

abbreviation sample_key :: bytes where
  "sample_key \<equiv> MintKey (replicate 20 (CHR ''s'')) ''m''"

lemma sample_reserve:
  assumes "fmlookup (mint_tombstones (pdb st)) sample_key = None"
  shows "reserve_mint (sample_payer_of f E) err ''m'' fp st =
    (st\<lparr>pdb := fst (MintReserve (replicate 20 (CHR ''s'')) ''m'' fp 0 (pdb st))\<rparr>, Inr None)"
  using assms
  by (simp add: reserve_mint_def perform_def look_def sample_asks sample_fields on_db_def MintReserve_def db_update_def Let_def)

abbreviation sample_input :: acceptedPriceInput where
  "sample_input \<equiv> \<lparr>ai_PricePerUnitWei = 2, ai_UnitsPerPrice = 1, ai_WorkUnitName = ''token'',
     ai_QuoteRef = Some sample_quote, ai_CapabilityName = ''cap'', ai_Offering = ''off''\<rparr>"

abbreviation sample_funding :: fundingIntentInput where
  "sample_funding \<equiv> \<lparr>estimatedUnits = 1, fundedValueWei = 2\<rparr>"

lemma sample_create:
  assumes "fmlookup (mint_tombstones (pdb st)) sample_key = None"
  shows "CreatePayment (sample_payer_of f E) sample_pay_request st =
    fund_shortfall (sample_payer_of f E) sample_pay_request ''m'' (MintFingerprint sample_payer_codec sample_pay_request)
      sample_input sample_funding
      (st\<lparr>pdb := fst (MintReserve (replicate 20 (CHR ''s'')) ''m'' (MintFingerprint sample_payer_codec sample_pay_request) 0 (pdb st))\<rparr>)"
  using assms
  by (simp add: CreatePayment_def Let_def rejectI sample_fields maxMintRequestIDBytes_def check_stream_def perform_yield
      perform_def [of "reserve_mint _ _ _ _"] sample_reserve mint_payment_def perform_result sample_accepted sample_parse
      sample_domain_ok)

section \<open>Opening the session\<close>

text \<open>What the sample payer asks for, and an answer that is worth the amount asked.\<close>

definition sample_ask :: TicketParamsRequest where
  "sample_ask =
     \<lparr>tr_WholesaleAccountID = ''acct'', tr_TicketStreamID = hex_encode ''r'', tr_BaseURL = ''u'',
      tr_Sender = replicate 20 (CHR ''s''), tr_Recipient = replicate 20 (CHR ''r''), tr_FaceValue = Some 2,
      tr_Capability = ''cap'', tr_Offering = ''off''\<rparr>"

definition sample_answer :: "TicketParams \<Rightarrow> bool" where
  "sample_answer tp \<longleftrightarrow>
     tp_WholesaleAccountID tp = ''acct'' \<and> tp_TicketStreamID tp = hex_encode ''r'' \<and>
     tp_SettlementDomainID tp = sample_payer_domain \<and> tp_FaceValue tp = Some 2 \<and> tp_WinProb tp = Some MaxWinProb \<and>
     tp_Seed tp \<noteq> [] \<and> tp_RecipientRandHash tp \<noteq> [] \<and> \<not> tp_HasSeenNonces tp"

lemma sample_stream:
  assumes "ticket_stream_id (pdb st) = None"
  shows "ticket_stream (sample_payer_of f E) err st =
    (st\<lparr>pdb := pdb st\<lparr>ticket_stream_id := Some (hex_encode ''r'')\<rparr>\<rparr>, Inr (hex_encode ''r''))"
  using assms
  by (simp add: ticket_stream_def perform_def look_def sample_asks on_db_def TicketStreamID_def db_update_def Let_def)

definition sample_opened :: "string \<Rightarrow> PriceInfo \<Rightarrow> pb_QuoteRef option \<Rightarrow> TicketParams \<Rightarrow> senderSession" where
  "sample_opened key price quote tp =
     \<lparr>se_workID = hex_encode (tp_RecipientRandHash tp), se_cacheKey = key, se_ticketParams = tp, se_nonce = 0,
      se_acceptedPrice = price, se_acceptedQuote = quote, se_capability = ''cap'', se_offering = ''off''\<rparr>"

lemma sample_find:
  assumes "cached st = fmempty" "ticket_stream_id (pdb st) = None"
    and "f (outside st) sample_ask = (w', Inr tp)" "sample_answer tp"
  shows "\<exists>st' key. findOrOpenSession (sample_payer_of f E) (replicate 20 (CHR ''r'')) 2 ''cap'' ''off'' ''u'' price quote
      domain ''acct'' st = (st', Inr (sample_opened key price quote tp)) \<and> sender_nonces (pdb st') = sender_nonces (pdb st)"
proof -
  have ask: "params_request (sample_payer_of f E) ''acct'' (hex_encode ''r'') (replicate 20 (CHR ''r'')) 2 ''cap'' ''off'' ''u'' =
      sample_ask"
    by (simp only: params_request_def sample_ask_def sample_fields)
  have "fetch_params (sample_payer_of f E) sample_ask (st\<lparr>pdb := s\<rparr>) = (st\<lparr>pdb := s, outside := w'\<rparr>, Inr tp)" for s
    using assms(3) by (simp add: fetch_params_def sample_fields call_def)
  then show ?thesis
    using assms(1,4) sample_stream [OF assms(2)]
    by (simp add: findOrOpenSession_def Let_def rejectI sample_fields look_def perform_def open_session_def ask sample_answer_def
        sample_EV yield_def change_def sample_opened_def del: hex_encode.simps)
qed

section \<open>Minting\<close>

lemma sample_next_nonce:
  assumes "watermark (se_workID se) (pdb st) = 0" "se_workID se \<noteq> []"
  shows "\<exists>st'. nextNonce (sample_payer_of f E) se st = (st', Inr 1)"
proof -
  have "NextSenderNonce (se_workID se) (pdb st) =
      (pdb st\<lparr>sender_nonces := fmupd (se_workID se) (be_bytes 4 1) (sender_nonces (pdb st))\<rparr>, Inr 1)"
    using assms by (simp add: NextSenderNonce_def db_update_def Let_def)
  then show ?thesis
    using assms by (simp add: nextNonce_def perform_def look_def on_db_def change_def yield_def sample_fields)
qed

lemma sample_sign:
  assumes "watermark (se_workID se) (pdb st) = 0" "se_workID se \<noteq> []"
  shows "\<exists>st'. sign_tickets (sample_payer_of f E) se (Suc 0) st = (st', Inr [\<lparr>sp_SenderNonce = 1, sp_Sig = sample_sig\<rparr>])"
  using sample_next_nonce [OF assms, of f E]
  by (elim exE) (auto simp: perform_def wrapping_def signOneTicket_def sample_asks yield_def)

lemma sample_record: "\<exists>st'. record_payment (sample_payer_of f E) i fp out st = (st', Inr out)"
  by (simp add: record_payment_def marshalQuoteRef_def sample_fields sample_payer_codec_def perform_def record_mint_def
      sample_asks on_db_def Store_MintRecord_def db_update_def Let_def yield_def split: option.split)

lemma sample_issue:
  assumes "watermark (se_workID se) (pdb st) = 0" "se_workID se \<noteq> []"
  shows "\<exists>st' out. issue_payment (sample_payer_of f E) i fp v validity (Suc 0) ev se pred st = (st', Inr out)"
proof -
  obtain s1 where s1: "sign_tickets (sample_payer_of f E) se (Suc 0) st = (s1, Inr [\<lparr>sp_SenderNonce = 1, sp_Sig = sample_sig\<rparr>])"
    using sample_sign [OF assms] by blast
  have "Marshal_Payment sample_payer_codec p = Some (marshal_payment p)" for p
    by (simp add: sample_payer_codec_def)
  then show ?thesis
    using s1 sample_record
    by (simp add: issue_payment_def perform_def sample_asks sample_fields del: sign_tickets.simps) blast
qed

lemma sample_choose:
  assumes "cached st = fmempty" "ticket_stream_id (pdb st) = None"
    and "f (outside st) sample_ask = (w', Inr tp)" "sample_answer tp"
  shows "\<exists>st' key price quote. choose_session (sample_payer_of f E) sample_pay_request sample_input sample_funding st =
      (st', Inr (sample_opened key price quote tp, [], False)) \<and> sender_nonces (pdb st') = sender_nonces (pdb st)"
  using sample_find [of st f w' tp E, OF assms, of "toPriceInfo sample_input 1" "quote_of sample_pay_request" sample_payer_domain] assms(1)
  by (elim exE conjE) (simp add: choose_session_def Let_def perform_def look_def wrapping_def yield_def sample_fields
      sample_parse, blast)

lemma sample_size:
  assumes "sample_answer tp"
  shows "size_batch (sample_payer_of f E) sample_pay_request sample_funding (sample_opened key price quote tp) st =
    (st, Inr (1, 2))"
proof -
  have "CheckSignedTicketBatch (limits (sample_payer_of f E)) (Some 2) (Some 2) = None"
    by (simp add: CheckSignedTicketBatch_def exceeds_def sample_payer_of_def)
  then show ?thesis
    using assms by (simp add: size_batch_def sample_opened_def sample_answer_def sample_EV Let_def rejectI ticket_count_def
        maxTicketsPerPayment_def MaxSenderNonces_def within_limit_def perform_def yield_def sample_parse)
qed

lemma sample_funds:
  assumes "cached st = fmempty" "validityPeriod st = 0" "sender_nonces (pdb st) = fmempty" "ticket_stream_id (pdb st) = None"
    and "f (outside st) sample_ask = (w', Inr tp)" "sample_answer tp"
  shows "\<exists>st' out. fund_shortfall (sample_payer_of f E) sample_pay_request i fp sample_input sample_funding st = (st', Inr out)"
proof -
  let ?H = "sample_payer_of f E"
  have checks: "CheckMint (limits ?H) ''token'' (Some 2) 1 (Some 2) = None" "Fetch ?H \<noteq> None"
    "TrimSpace (cp_ticket_params_base_url sample_pay_request) \<noteq> []" "store_configured ?H"
    by (simp_all add: CheckMint_def exceeds_def sample_payer_of_def sample_pay_request_def trim_samples)
  obtain info where info: "call err (\<lambda>w. GetSenderInfo ?H w (Address ?H)) s = (s, Inr info)"
      "validateSenderInfo (Some info) 5 = None" for err s
    by (simp add: call_def sample_payer_of_def validateSenderInfo_def)
  let ?s = "st\<lparr>validityPeriod := 2, validityReadAt := 0\<rparr>"
  have valid: "readValidityPeriod ?H False st = (?s, Inr (2, 0))"
    using assms(2) by (simp add: readValidityPeriod_def perform_def look_def yield_def sample_asks change_def)
  obtain s1 key price quote where c: "choose_session ?H sample_pay_request sample_input sample_funding ?s =
      (s1, Inr (sample_opened key price quote tp, [], False))" "sender_nonces (pdb s1) = fmempty"
    using sample_choose [of ?s f w' tp E] assms by auto
  let ?se = "sample_opened key price quote tp"
  have se: "watermark (se_workID ?se) (pdb s1) = 0" "se_workID ?se \<noteq> []"
    using c(2) assms(6) by (simp_all add: watermark_def sample_opened_def sample_answer_def)
  have roll: "roll_over ?H sample_pay_request sample_input sample_funding 1 ?se [] False s1 = (s1, Inr (?se, []))"
    using se checks(4)
    by (simp add: roll_over_def nonces_used_def perform_def look_def SenderNoncesUsed_def result_def yield_def
        MaxSenderNonces_def)
  have "\<exists>st' out. issue_payment ?H i fp 2 (2, 0) 1 2 ?se [] s1 = (st', Inr out)"
    using sample_issue [OF se] by simp
  then show ?thesis
    using checks c(1) roll sample_size [OF assms(6), of f E key price quote s1]
    by (elim exE) (simp add: fund_shortfall_def perform_def within_limit_def rejectI info sample_asks valid yield_def)
qed

text \<open>A fresh payer with such a fetcher mints.\<close>

lemma sample_mints:
  assumes "f w sample_ask = (w', Inr tp)" "sample_answer tp"
  shows "\<exists>st out. CreatePayment (sample_payer_of f E) sample_pay_request (Sender_New w Open) = (st, Inr out)"
proof -
  have "fmlookup (mint_tombstones (pdb (Sender_New w Open))) sample_key = None" by (simp add: Sender_New_def Open_def)
  from sample_create [OF this] show ?thesis
    using assms
    by (simp add: Sender_New_def Open_def MintReserve_def db_update_def Let_def sample_funds)
qed

definition sample_start :: "unit payer" where
  "sample_start = Sender_New () Open"

lemma sample_start_empty:
  "cached sample_start = fmempty" "validityPeriod sample_start = 0" "sender_nonces (pdb sample_start) = fmempty"
  "mint_tombstones (pdb sample_start) = fmempty" "mints (pdb sample_start) = fmempty"
  by (simp_all add: sample_start_def Sender_New_def Open_def)

lemma sample_mint: "\<exists>st out. CreatePayment sample_payer sample_pay_request sample_start = (st, Inr out)"
proof -
  have "sample_answer (sample_params sample_ask)"
    by (simp add: sample_answer_def sample_params_def sample_ask_def HashRecipientRand_def sample_eth_def leftPad_def
        uint256Size_def) linarith
  then show ?thesis unfolding sample_payer_def sample_start_def by (intro sample_mints) simp_all
qed

end
