(* ===== verification/Sender_Laws.thy ===== *)
theory Sender_Laws
  imports Sender_Samples
begin

text \<open>
  Laws of the payer's service.

  \<open>store_order\<close>: what each of the store operations that the handlers use keeps, every handler keeps, on
  every path and whatever the world answers. It is interpreted on the order of the nonce watermarks, on
  the growth of the mint ledger, on the ledger's own consistency and on the stream id.
\<close>

section \<open>Reading a run of steps backwards\<close>

named_theorems step_runs \<open>when a step succeeds\<close>

lemma perform_Inr [step_runs]:
  "perform m k st = (st', Inr r) \<longleftrightarrow> (\<exists>st1 x. m st = (st1, Inr x) \<and> k x st1 = (st', Inr r))"
  by (auto simp: perform_def split: prod.splits sum.splits)

lemma reject_runs [step_runs]: "reject bad e k st = (st', Inr r) \<longleftrightarrow> \<not> bad \<and> k st = (st', Inr r)"
  by (simp add: reject_def)

lemma yield_Inr [step_runs]: "yield x st = (st', Inr r) \<longleftrightarrow> st' = st \<and> r = x"
  by (auto simp: yield_def)

lemma fail_Inr [step_runs]: "fail e st \<noteq> (st', Inr r)"
  by (simp add: fail_def)

lemma look_Inr [step_runs]: "look f st = (st', Inr r) \<longleftrightarrow> st' = st \<and> r = f st"
  by (auto simp: look_def)

lemma change_Inr [step_runs]: "change f st = (st', Inr r) \<longleftrightarrow> st' = f st"
  by (auto simp: change_def)

lemma result_Inr [step_runs]: "result err x st = (st', Inr r) \<longleftrightarrow> st' = st \<and> x = Inr r"
  by (auto simp: result_def split: sum.splits)

lemma wrapping_Inr [step_runs]: "wrapping text m st = (st', Inr r) \<longleftrightarrow> m st = (st', Inr r)"
  by (auto simp: wrapping_def split: prod.splits sum.splits)

lemma ask_Inr: "ask f st = (st', Inr r) \<longleftrightarrow> (\<exists>w. f (outside st) = (w, r) \<and> st' = st\<lparr>outside := w\<rparr>)"
  by (auto simp: ask_def split: prod.splits)

lemma call_Inr:
  "call err f st = (st', Inr r) \<longleftrightarrow> (\<exists>w. f (outside st) = (w, Inr r) \<and> st' = st\<lparr>outside := w\<rparr>)"
  by (auto simp: call_def split: prod.splits sum.splits)

lemma on_db_Inr:
  "on_db err f st = (st', Inr r) \<longleftrightarrow> (\<exists>s. f (pdb st) = (s, Inr r) \<and> st' = st\<lparr>pdb := s\<rparr>)"
  by (auto simp: on_db_def split: prod.splits sum.splits)

lemma within_limit_Inr [step_runs]: "within_limit breach st = (st', Inr r) \<longleftrightarrow> st' = st \<and> breach = None"
  by (auto simp: within_limit_def step_runs split: option.splits)

text \<open>What holds whenever a step succeeds, whatever came before.\<close>

definition ends :: "('w payer \<Rightarrow> 'r \<Rightarrow> bool) \<Rightarrow> ('w, 'r) step \<Rightarrow> bool" where
  "ends P m \<longleftrightarrow> (\<forall>st st' r. m st = (st', Inr r) \<longrightarrow> P st' r)"

lemma endsI: "(\<And>st st' r. m st = (st', Inr r) \<Longrightarrow> P st' r) \<Longrightarrow> ends P m"
  by (simp add: ends_def)

lemma endsD: "ends P m \<Longrightarrow> m st = (st', Inr r) \<Longrightarrow> P st' r"
  by (simp add: ends_def)

lemma ends_perform: "(\<And>x. ends P (k x)) \<Longrightarrow> ends P (perform m k)"
  by (auto simp: ends_def step_runs)

lemma ends_reject: "ends P k \<Longrightarrow> ends P (reject bad e k)"
  by (auto simp: ends_def step_runs)

lemma ends_fail: "ends P (fail e)"
  by (simp add: ends_def step_runs)

lemma ends_if: "(b \<Longrightarrow> ends P m) \<Longrightarrow> (\<not> b \<Longrightarrow> ends P n) \<Longrightarrow> ends P (if b then m else n)"
  by simp

lemma ends_option: "ends P n \<Longrightarrow> (\<And>x. ends P (k x)) \<Longrightarrow> ends P (case y of None \<Rightarrow> n | Some x \<Rightarrow> k x)"
  by (cases y) simp_all

lemma ends_split: "(\<And>x y. ends P (k x y)) \<Longrightarrow> ends P (case p of (x, y) \<Rightarrow> k x y)"
  by (cases p) simp

lemmas ends_rules = ends_reject ends_fail ends_if ends_option ends_split ends_perform

section \<open>What every handler keeps of the store\<close>

locale store_order =
  fixes Q :: "store \<Rightarrow> store \<Rightarrow> bool" and A :: "bytes \<Rightarrow> bool"
  assumes Q_refl: "Q s s"
    and Q_trans: "Q r s \<Longrightarrow> Q s t \<Longrightarrow> Q r t"
    and Q_stream: "Q s (fst (TicketStreamID random s))"
    and Q_reserve: "Q s (fst (MintReserve a i fp now s))"
    and Q_record: "A (MintKey a i) \<Longrightarrow> Q s (fst (Store_MintRecord a i rec now s))"
    and Q_next: "Q s (fst (NextSenderNonce workID s))"
    and Q_resync: "Q s (fst (ResyncSenderNonces workID n s))"
begin

definition keeps :: "('w, 'r) step \<Rightarrow> bool" where
  "keeps m \<longleftrightarrow> (\<forall>st. Q (pdb st) (pdb (fst (m st))))"

lemma keepsI: "(\<And>st. Q (pdb st) (pdb (fst (m st)))) \<Longrightarrow> keeps m"
  by (simp add: keeps_def)

lemma keepsD: "keeps m \<Longrightarrow> Q (pdb st) (pdb (fst (m st)))"
  by (simp add: keeps_def)

lemma keeps_same: "(\<And>st. pdb (fst (m st)) = pdb st) \<Longrightarrow> keeps m"
  by (simp add: keeps_def Q_refl)

lemma keeps_pure:
  "keeps (yield x)" "keeps (fail e)" "keeps (look f)" "keeps (result err y)" "keeps (ask g)" "keeps (call err' h)"
  by (rule keeps_same; simp add: yield_def fail_def look_def result_def ask_def call_def split: prod.split)+

lemma keeps_change: "(\<And>st. pdb (f st) = pdb st) \<Longrightarrow> keeps (change f)"
  by (rule keeps_same) (simp add: change_def)

lemma keeps_perform:
  assumes "keeps m" "\<And>x. keeps (k x)"
  shows "keeps (perform m k)"
proof (rule keepsI)
  fix st
  obtain st1 r where m: "m st = (st1, r)" by fastforce
  then have 1: "Q (pdb st) (pdb st1)" using assms(1) unfolding keeps_def by (metis fst_conv)
  show "Q (pdb st) (pdb (fst (perform m k st)))"
  proof (cases r)
    case (Inl e)
    then show ?thesis using m 1 by (simp add: perform_def)
  next
    case (Inr x)
    have "Q (pdb st1) (pdb (fst (k x st1)))" using assms(2) unfolding keeps_def by blast
    then show ?thesis using m 1 Inr by (simp add: perform_def Q_trans)
  qed
qed

lemma keeps_reject: "keeps k \<Longrightarrow> keeps (reject bad e k)"
  by (auto simp: keeps_def reject_def Q_refl)

lemma keeps_wrapping: "keeps m \<Longrightarrow> keeps (wrapping text m)"
  by (auto simp: keeps_def wrapping_def split: prod.split sum.split) (metis fst_conv)+

lemma keeps_on_db: "(\<And>s. Q s (fst (f s))) \<Longrightarrow> keeps (on_db err f)"
  by (auto simp: keeps_def on_db_def split: prod.split) (metis fst_conv)

lemma keeps_if: "(b \<Longrightarrow> keeps m) \<Longrightarrow> (\<not> b \<Longrightarrow> keeps n) \<Longrightarrow> keeps (if b then m else n)"
  by simp

lemma keeps_option: "keeps n \<Longrightarrow> (\<And>x. keeps (k x)) \<Longrightarrow> keeps (case y of None \<Rightarrow> n | Some x \<Rightarrow> k x)"
  by (cases y) simp_all

lemma keeps_split: "(\<And>x y. keeps (k x y)) \<Longrightarrow> keeps (case p of (x, y) \<Rightarrow> k x y)"
  by (cases p) simp

lemma keeps_let: "(\<And>x. keeps (k x)) \<Longrightarrow> keeps (let x = v in k x)"
  by simp

lemmas keeps_rules = keeps_pure keeps_change keeps_perform keeps_reject keeps_wrapping keeps_on_db keeps_if
  keeps_option keeps_split keeps_let

lemmas keeps_ops = keeps_on_db [OF Q_stream] keeps_on_db [OF Q_reserve]
  keeps_on_db [OF Q_next] keeps_on_db [OF Q_resync]

lemma keeps_stream: "keeps (ticket_stream H err)"
  unfolding ticket_stream_def by (intro keeps_rules keeps_ops)

lemma keeps_reserve: "keeps (reserve_mint H err mintID fp)"
  unfolding reserve_mint_def by (intro keeps_rules keeps_ops)

lemma keeps_record: "A (MintKey (Address H) mintID) \<Longrightarrow> keeps (record_mint H err mintID rec)"
  unfolding record_mint_def by (intro keeps_rules Q_record)

lemma keeps_fetch: "keeps (fetch_params H req)"
  unfolding fetch_params_def by (intro keeps_rules)

lemma keeps_rescale: "keeps (rescaleTicketParams H rcpt want capability offering baseURL current)"
  unfolding rescaleTicketParams_def by (intro keeps_rules keeps_fetch)

lemma keeps_find: "keeps (findOrOpenSession H rcpt want capability offering baseURL price quote domain account)"
  unfolding findOrOpenSession_def reuse_session_def open_session_def
  by (intro keeps_rules keeps_ops keeps_stream keeps_fetch keeps_rescale; simp)

lemma keeps_rotate: "keeps (rotateExhaustedSession H old rcpt price baseURL quote funding)"
  unfolding rotateExhaustedSession_def
  by (intro keeps_rules keeps_find) (simp add: drop_cached_def split: option.split)

lemma keeps_nonce: "keeps (nextNonce H session)"
  unfolding nextNonce_def by (intro keeps_rules keeps_ops; simp)

lemma keeps_sign: "keeps (sign_tickets H session n)"
proof (induction n)
  case (Suc n)
  then show ?case unfolding sign_tickets.simps signOneTicket_def by (intro keeps_rules keeps_nonce)
qed (simp add: keeps_pure)

lemma keeps_validity: "keeps (readValidityPeriod H fresh)"
  unfolding readValidityPeriod_def by (intro keeps_rules) simp

lemma keeps_answer:
  "keeps m \<Longrightarrow> keeps (\<lambda>st. case m st of (st', Inl e) \<Rightarrow> (st', f e) | (st', Inr v) \<Rightarrow> (st', g v))"
  by (auto simp: keeps_def split: prod.split sum.split) (metis fst_conv)+

lemma keeps_limit: "keeps (within_limit breach)"
  unfolding within_limit_def by (intro keeps_rules)

lemma keeps_used: "keeps (nonces_used workID)"
  unfolding nonces_used_def by (intro keeps_rules)

lemma keeps_issue: "A (MintKey (Address H) mintID) \<Longrightarrow> keeps (issue_payment H mintID fp funded validity n totalEV session predecessor)"
  unfolding issue_payment_def record_payment_def by (intro keeps_rules keeps_sign keeps_record)

lemma keeps_choose: "keeps (choose_session H req price funding)"
  unfolding choose_session_def Let_def by (intro keeps_rules keeps_find keeps_rotate keeps_used)

lemma keeps_roll_over: "keeps (roll_over H req price funding n session predecessor refreshed)"
  unfolding roll_over_def by (intro keeps_rules keeps_rotate keeps_used)

lemma keeps_fund: "A (MintKey (Address H) mintID) \<Longrightarrow> keeps (fund_shortfall H req mintID fp price funding)"
  unfolding fund_shortfall_def size_batch_def
  by (intro keeps_rules keeps_choose keeps_roll_over keeps_issue keeps_answer keeps_validity keeps_limit)

lemma keeps_mint: "A (MintKey (Address H) mintID) \<Longrightarrow> keeps (mint_payment H req mintID fp)"
  unfolding mint_payment_def mint_nothing_def by (intro keeps_rules keeps_fund keeps_record)

text \<open>The handlers.\<close>

lemma keeps_check_stream: "keeps (check_stream H expected)"
  unfolding check_stream_def by (intro keeps_rules keeps_stream)

lemma keeps_CreatePayment: "A (MintKey (Address H) (TrimSpace (cp_mint_request_id req))) \<Longrightarrow> keeps (CreatePayment H req)"
  unfolding CreatePayment_def Let_def by (intro keeps_rules keeps_check_stream keeps_reserve keeps_mint)

lemma keeps_sign_authorization:
  "A (MintKey (Address H) (authorization_store_id p)) \<Longrightarrow> keeps (sign_authorization H p)"
  unfolding sign_authorization_def Let_def by (intro keeps_rules keeps_reserve keeps_record)

lemma keeps_authorize: "(\<And>i. A (MintKey (Address H) i)) \<Longrightarrow> keeps (CreateSpendAuthorization H auth)"
  unfolding CreateSpendAuthorization_def by (intro keeps_rules keeps_sign_authorization)

lemma keeps_ReportPaymentResult: "keeps (ReportPaymentResult report)"
  unfolding ReportPaymentResult_def
  by (intro keeps_rules) (simp add: evictSessionByWorkID_def split: option.split)

lemma keeps_GetDepositInfo: "keeps (GetDepositInfo H)"
  unfolding GetDepositInfo_def by (intro keeps_rules keeps_answer keeps_validity)

lemma keeps_Health: "keeps (Payer_Health H)"
  unfolding Payer_Health_def by (intro keeps_rules keeps_stream)

end

section \<open>What the store operations keep\<close>

lemmas payer_store_ops = TicketStreamID_def MintReserve_def Store_MintRecord_def NextSenderNonce_def
  ResyncSenderNonces_def db_update_def

interpretation watermarks: store_order "\<lambda>s s'. \<forall>w. watermark w s \<le> watermark w s'" "\<lambda>_. True"
proof unfold_locales
  fix r s t :: store
  assume "\<forall>w. watermark w r \<le> watermark w s" "\<forall>w. watermark w s \<le> watermark w t"
  then show "\<forall>w. watermark w r \<le> watermark w t" using order_trans by blast
next
  fix s workID
  show "\<forall>w. watermark w s \<le> watermark w (fst (NextSenderNonce workID s))"
    by (auto simp: NextSenderNonce_cases watermark_put not_max_less_Suc order_less_imp_le)
next
  fix s workID n
  show "\<forall>w. watermark w s \<le> watermark w (fst (ResyncSenderNonces workID n s))"
    by (auto simp: ResyncSenderNonces_cases watermark_put)
qed (auto simp: watermark_def TicketStreamID_def MintReserve_def Store_MintRecord_def db_update_def Let_def
    split: option.split)

interpretation tombstones: store_order
  "\<lambda>s s'. \<forall>k. fmlookup (mint_tombstones s) k \<noteq> None \<longrightarrow> fmlookup (mint_tombstones s') k \<noteq> None" "\<lambda>_. True"
  by unfold_locales
    (auto simp: payer_store_ops Let_def split: option.splits sum.splits if_splits)

interpretation mint_ledger_kept: store_order "\<lambda>s s'. mints_ok s \<longrightarrow> mints_ok s'" "\<lambda>_. True"
proof unfold_locales
  fix s a i fp now
  have "fst (mint_step s (MReserve a i fp now)) = fst (MintReserve a i fp now s)"
    by (auto split: prod.split sum.split option.split)
  then show "mints_ok s \<longrightarrow> mints_ok (fst (MintReserve a i fp now s))" using mints_ok_step by metis
next
  fix s a i rec now
  show "mints_ok s \<longrightarrow> mints_ok (fst (Store_MintRecord a i rec now s))"
    using mints_ok_step [of s "MRecord a i rec now"] by simp
qed (auto simp: mints_ok_def TicketStreamID_def NextSenderNonce_def ResyncSenderNonces_def db_update_def Let_def
    split: option.split)

interpretation others_kept: store_order "\<lambda>s s'. fmlookup (mints s') k = fmlookup (mints s) k" "\<lambda>k'. k' \<noteq> k" for k
  by unfold_locales
    (auto simp: payer_store_ops Let_def split: option.splits sum.splits if_splits)

interpretation stream_kept: store_order "\<lambda>s s'. \<forall>v. ticket_stream_id s = Some v \<longrightarrow> ticket_stream_id s' = Some v"
  "\<lambda>_. True"
  by unfold_locales (auto simp: payer_store_ops Let_def split: option.splits sum.splits if_splits)

section \<open>Histories of the payer\<close>

text \<open>The calls of the service, the retention job that evicts recorded responses, and a restart: the
  caches are gone and the world has moved on.\<close>

datatype 'w payer_op =
    PayerMint CreatePaymentRequest | PayerAuthorize CreateSpendAuthorizationRequest
  | PayerReport ReportPaymentResultRequest | PayerDeposit | PayerHealth | PayerEvict time | PayerRestart 'w

fun payer_step :: "'w payer_env \<Rightarrow> 'w payer \<Rightarrow> 'w payer_op \<Rightarrow> 'w payer \<times> (rpc_error + CreatePaymentResponse) option" where
  "payer_step H st (PayerMint req) = (let (st', r) = CreatePayment H req st in (st', Some r))"
| "payer_step H st (PayerAuthorize req) = (fst (CreateSpendAuthorization H req st), None)"
| "payer_step H st (PayerReport req) = (fst (ReportPaymentResult req st), None)"
| "payer_step H st PayerDeposit = (fst (GetDepositInfo H st), None)"
| "payer_step H st PayerHealth = (fst (Payer_Health H st), None)"
| "payer_step H st (PayerEvict cutoff) = (st\<lparr>pdb := fst (EvictMints cutoff (pdb st))\<rparr>, None)"
| "payer_step H st (PayerRestart w) = (Sender_New w (pdb st), None)"

lemma fst_payer_mint [simp]: "fst (payer_step H st (PayerMint req)) = fst (CreatePayment H req st)"
  by (simp split: prod.split)

context store_order
begin

text \<open>What the store operations keep, and eviction keeps, a step of the payer keeps.\<close>

lemma payer_step_keeps:
  assumes "\<And>i. A (MintKey (Address H) i)" "\<And>cutoff s. Q s (fst (EvictMints cutoff s))"
  shows "Q (pdb st) (pdb (fst (payer_step H st op)))"
  by (cases op)
    (simp_all add: keepsD [OF keeps_CreatePayment, OF assms(1)] keepsD [OF keeps_authorize, OF assms(1)]
      keepsD [OF keeps_ReportPaymentResult] keepsD [OF keeps_GetDepositInfo] keepsD [OF keeps_Health]
      assms(2) Q_refl Sender_New_def del: payer_step.simps(1))

lemma payer_run_keeps:
  assumes "\<And>i. A (MintKey (Address H) i)" "\<And>cutoff s. Q s (fst (EvictMints cutoff s))"
  shows "Q (pdb st) (pdb (run (payer_step H) st ops))"
proof (induction ops arbitrary: st)
  case (Cons op ops)
  show ?case using Q_trans [OF payer_step_keeps [OF assms] Cons.IH] by simp
qed (simp add: Q_refl)

end

lemma payer_keeps_mints_ok: "mints_ok (pdb st) \<Longrightarrow> mints_ok (pdb (run (payer_step H) st ops))"
proof -
  have "mints_ok s \<longrightarrow> mints_ok (fst (EvictMints cutoff s))" for cutoff s
    using mints_ok_step [of s "MEvict cutoff"] by simp
  then show "mints_ok (pdb st) \<Longrightarrow> ?thesis" using mint_ledger_kept.payer_run_keeps [where H = H and st = st and ops = ops] by simp
qed

lemma payer_watermark_rises: "watermark w (pdb st) \<le> watermark w (pdb (run (payer_step H) st ops))"
proof -
  have "watermark w (fst (EvictMints cutoff s)) = watermark w s" for w cutoff s
    by (simp add: EvictMints_def db_update_def Let_def watermark_def)
  then show ?thesis using watermarks.payer_run_keeps [where H = H and st = st and ops = ops] by simp
qed

section \<open>A mint id buys one payment\<close>

text \<open>A reservation that finds the id used touches nothing.\<close>

lemma reserve_mint_used:
  assumes "fmlookup (mint_tombstones (pdb st)) (MintKey (Address H) i) = Some tomb"
  shows "reserve_mint H err i fp st =
    (st, if mt_Fingerprint tomb \<noteq> fp then Inl (err ErrMintFingerprintMismatch)
         else case fmlookup (mints (pdb st)) (MintKey (Address H) i) of
           None \<Rightarrow> Inl (err (if mt_Completed tomb then ErrMintExpired else ErrMintIncomplete))
         | Some rec \<Rightarrow> Inr (Some rec))"
  using assms
  by (simp add: reserve_mint_def perform_def look_def yield_def on_db_def MintReserve_def db_update_def Let_def
      split: option.split)

lemma reserve_mint_fresh:
  assumes "reserve_mint H err i fp st = (st', Inr None)"
  shows "fmlookup (mint_tombstones (pdb st)) (MintKey (Address H) i) = None"
  using assms reserve_mint_used [of st H i _ err fp]
  by (cases "fmlookup (mint_tombstones (pdb st)) (MintKey (Address H) i)") (auto split: if_splits option.splits)

lemma record_mint_stores:
  "record_mint H err i rec st = (st', Inr u) \<Longrightarrow>
     \<exists>now. fmlookup (mints (pdb st')) (MintKey (Address H) i) = Some (rec\<lparr>mr_CreatedAt := now\<rparr>)"
  by (auto simp: record_mint_def step_runs ask_Inr on_db_Inr Store_MintRecord_def db_update_def Let_def)

text \<open>What a caller reads off a response that a replay repeats.\<close>

definition replayed_fields :: "CreatePaymentResponse \<Rightarrow> bytes \<times> uint32 \<times> bytes \<times> bytes \<times> bytes \<times> string" where
  "replayed_fields out =
     (pr_payment_bytes out, pr_tickets_created out, GetValue (pr_expected_value out),
      GetValue (pr_funded_value_wei out), GetValue (pr_account_shortfall_wei out), pr_work_id out)"

lemma replayed_mint_record [simp]:
  "replayed_fields (mintResponseFrom P ((mint_record fp q out)\<lparr>mr_CreatedAt := t\<rparr>)) = replayed_fields out"
  by (simp add: replayed_fields_def mintResponseFrom_def mint_record_def empty_response_def GetValue_def split: option.split)

definition recorded :: "'w payer_env \<Rightarrow> string \<Rightarrow> CreatePaymentResponse \<Rightarrow> store \<Rightarrow> bool" where
  "recorded H i out s \<longleftrightarrow>
     (\<exists>rec. fmlookup (mints s) (MintKey (Address H) i) = Some rec \<and>
        replayed_fields (mintResponseFrom (payerwire H) rec) = replayed_fields out)"

definition recorded_as :: "'w payer_env \<Rightarrow> string \<Rightarrow> bytes \<Rightarrow> CreatePaymentResponse \<Rightarrow> store \<Rightarrow> bool" where
  "recorded_as H i fp out s \<longleftrightarrow> recorded H i out s \<and>
     map_option mr_Fingerprint (fmlookup (mints s) (MintKey (Address H) i)) = Some fp"

lemma ends_record:
  "ends (\<lambda>st' r. recorded_as H i fp r (pdb st')) (perform (record_mint H err i (mint_record fp q out)) (\<lambda>_. yield out))"
proof (rule endsI)
  fix st st' x
  assume "perform (record_mint H err i (mint_record fp q out)) (\<lambda>_. yield out) st = (st', Inr x)"
  then obtain u where "record_mint H err i (mint_record fp q out) st = (st', Inr u)" "x = out" by (auto simp: step_runs)
  moreover from this obtain now where
    "fmlookup (mints (pdb st')) (MintKey (Address H) i) = Some ((mint_record fp q out)\<lparr>mr_CreatedAt := now\<rparr>)"
    using record_mint_stores by blast
  moreover have "mr_Fingerprint ((mint_record fp q out)\<lparr>mr_CreatedAt := now\<rparr>) = fp" for now by (simp add: mint_record_def)
  ultimately show "recorded_as H i fp x (pdb st')" by (simp add: recorded_as_def recorded_def)
qed

lemma ends_issue: "ends (\<lambda>st' r. recorded_as H i fp r (pdb st')) (issue_payment H i fp funded validity n ev session pred)"
  unfolding issue_payment_def record_payment_def by (intro ends_record | rule ends_rules)+

lemma ends_mint: "ends (\<lambda>st' r. recorded_as H i fp r (pdb st')) (mint_payment H req i fp)"
  unfolding mint_payment_def mint_nothing_def fund_shortfall_def Let_def
  by (intro ends_record | intro ends_issue | rule ends_rules)+

lemma CreatePayment_runs:
  assumes "CreatePayment H req st = (st', Inr out)"
  obtains st1 st2 prior where "check_stream H (cp_expected_ticket_stream_id req) st = (st1, Inr ())"
    "reserve_mint H mint_refusal (TrimSpace (cp_mint_request_id req)) (MintFingerprint (payerwire H) req) st1 = (st2, Inr prior)"
    "prior = None \<Longrightarrow>
       mint_payment H req (TrimSpace (cp_mint_request_id req)) (MintFingerprint (payerwire H) req) st2 = (st', Inr out)"
    "\<And>rec. prior = Some rec \<Longrightarrow> st' = st2 \<and> out = mintResponseFrom (payerwire H) rec"
proof -
  obtain st1 u st2 prior where r: "check_stream H (cp_expected_ticket_stream_id req) st = (st1, Inr u)"
    "reserve_mint H mint_refusal (TrimSpace (cp_mint_request_id req)) (MintFingerprint (payerwire H) req) st1 = (st2, Inr prior)"
    "(case prior of Some rec \<Rightarrow> yield (mintResponseFrom (payerwire H) rec)
       | None \<Rightarrow> mint_payment H req (TrimSpace (cp_mint_request_id req)) (MintFingerprint (payerwire H) req)) st2 = (st', Inr out)"
    using assms by (simp only: CreatePayment_def Let_def reject_runs perform_Inr) blast
  show ?thesis using r by (intro that [of st1 st2 prior]) (auto simp: yield_def)
qed

lemma reserve_mint_prior:
  assumes "reserve_mint H err i fp st = (st', Inr (Some rec))"
  shows "st' = st \<and> fmlookup (mints (pdb st)) (MintKey (Address H) i) = Some rec"
proof (cases "fmlookup (mint_tombstones (pdb st)) (MintKey (Address H) i)")
  case None
  then show ?thesis
    using assms by (auto simp: reserve_mint_def perform_def look_def ask_def on_db_def MintReserve_def db_update_def
        Let_def split: prod.splits)
next
  case (Some tomb)
  then show ?thesis using assms reserve_mint_used [OF Some, of err fp] by (auto split: if_splits option.splits)
qed

lemma CreatePayment_recorded:
  assumes "CreatePayment H req st = (st', Inr out)"
  shows "recorded H (TrimSpace (cp_mint_request_id req)) out (pdb st')"
proof (rule CreatePayment_runs [OF assms])
  fix st1 st2 prior
  assume r: "reserve_mint H mint_refusal (TrimSpace (cp_mint_request_id req)) (MintFingerprint (payerwire H) req) st1 = (st2, Inr prior)"
    and fresh: "prior = None \<Longrightarrow>
       mint_payment H req (TrimSpace (cp_mint_request_id req)) (MintFingerprint (payerwire H) req) st2 = (st', Inr out)"
    and replay: "\<And>rec. prior = Some rec \<Longrightarrow> st' = st2 \<and> out = mintResponseFrom (payerwire H) rec"
  show ?thesis
  proof (cases prior)
    case None
    then show ?thesis using fresh endsD [OF ends_mint] by (metis recorded_as_def)
  next
    case (Some rec)
    then show ?thesis using r replay [OF Some] reserve_mint_prior by (fastforce simp: recorded_def)
  qed
qed

text \<open>Once recorded, a response is only ever evicted.\<close>

definition settled :: "'w payer_env \<Rightarrow> string \<Rightarrow> CreatePaymentResponse \<Rightarrow> store \<Rightarrow> bool" where
  "settled H i out s \<longleftrightarrow>
     mints_ok s \<and> fmlookup (mint_tombstones s) (MintKey (Address H) i) \<noteq> None \<and>
     (fmlookup (mints s) (MintKey (Address H) i) = None \<or> recorded H i out s)"

lemma recorded_settled: "mints_ok s \<Longrightarrow> recorded H i out s \<Longrightarrow> settled H i out s"
  by (auto simp: settled_def recorded_def mints_ok_def)

lemma mint_settled_kept:
  assumes "settled H i out s" "mints_ok s'"
    and "fmlookup (mint_tombstones s) (MintKey (Address H) i) \<noteq> None \<Longrightarrow>
      fmlookup (mint_tombstones s') (MintKey (Address H) i) \<noteq> None"
    and "fmlookup (mints s') (MintKey (Address H) i) = fmlookup (mints s) (MintKey (Address H) i)"
  shows "settled H i out s'"
  using assms by (simp add: settled_def recorded_def)

text \<open>A call under another key, and a call under the same key.\<close>

lemma settled_reserved:
  assumes "settled H i out (pdb st)" "MintKey (Address H) j = MintKey (Address H) i"
  shows "\<exists>r. reserve_mint H err j fp st = (st, r) \<and> r \<noteq> Inr None"
proof -
  obtain tomb where "fmlookup (mint_tombstones (pdb st)) (MintKey (Address H) j) = Some tomb"
    using assms by (auto simp: settled_def)
  from reserve_mint_used [OF this, of err fp] show ?thesis by (auto split: option.splits)
qed

lemma settled_step:
  assumes "tombstones.keeps m" "mint_ledger_kept.keeps m" "others_kept.keeps (MintKey (Address H) i) m"
    and "settled H i out (pdb st)"
  shows "settled H i out (pdb (fst (m st)))"
  using mint_settled_kept [OF assms(4)] assms(4) tombstones.keepsD [OF assms(1), of st]
    mint_ledger_kept.keepsD [OF assms(2), of st] others_kept.keepsD [OF assms(3), of st]
  by (simp add: settled_def)

lemma CreatePayment_settled:
  assumes "settled H i out (pdb st)"
  shows "settled H i out (pdb (fst (CreatePayment H req st)))"
proof (cases "MintKey (Address H) (TrimSpace (cp_mint_request_id req)) = MintKey (Address H) i")
  case True
  obtain st1 r where c: "check_stream H (cp_expected_ticket_stream_id req) st = (st1, r)" by fastforce
  have 1: "settled H i out (pdb st1)"
    using settled_step [OF tombstones.keeps_check_stream mint_ledger_kept.keeps_check_stream
        others_kept.keeps_check_stream assms, of H "cp_expected_ticket_stream_id req"] c by simp
  obtain r' where "reserve_mint H mint_refusal (TrimSpace (cp_mint_request_id req)) (MintFingerprint (payerwire H) req) st1 = (st1, r')"
    "r' \<noteq> Inr None"
    using settled_reserved [OF 1 True] by blast
  then have "fst (CreatePayment H req st) \<in> {st, st1}"
    by (cases r; cases r')
      (auto simp: CreatePayment_def Let_def reject_def perform_def c yield_def split: option.split)
  then show ?thesis using 1 assms by auto
next
  case False
  then show ?thesis
    by (intro settled_step [OF tombstones.keeps_CreatePayment mint_ledger_kept.keeps_CreatePayment
          others_kept.keeps_CreatePayment assms]) simp_all
qed

lemma sign_authorization_settled:
  assumes "settled H i out (pdb st)"
  shows "settled H i out (pdb (fst (sign_authorization H p st)))"
proof (cases "MintKey (Address H) (authorization_store_id p) = MintKey (Address H) i")
  case True
  have "fst (sign_authorization H p st) = st"
  proof (cases "Marshal_Payload (pbwire H) p")
    case None
    then show ?thesis by (simp add: sign_authorization_def Let_def reject_def fail_def)
  next
    case (Some wire)
    obtain r where "reserve_mint H (\<lambda>_. status_Error AlreadyExists ''authorization idempotency'')
        (authorization_store_id p) (sha256 wire) st = (st, r)" "r \<noteq> Inr None"
      using settled_reserved [OF assms True] by blast
    then show ?thesis using Some
      by (cases r) (auto simp: sign_authorization_def Let_def reject_def perform_def yield_def split: option.split)
  qed
  then show ?thesis using assms by simp
next
  case False
  then show ?thesis
    by (intro settled_step [OF tombstones.keeps_sign_authorization mint_ledger_kept.keeps_sign_authorization
          others_kept.keeps_sign_authorization assms]) simp_all
qed

lemma payer_step_settled:
  assumes "settled H i out (pdb st)"
  shows "settled H i out (pdb (fst (payer_step H st op)))"
proof (cases op)
  case (PayerMint req)
  then show ?thesis using CreatePayment_settled [OF assms] by (simp del: payer_step.simps)
next
  case (PayerAuthorize req)
  then show ?thesis
    using assms sign_authorization_settled [OF assms]
    by (cases "check_request H req") (simp_all add: CreateSpendAuthorization_def perform_def result_def)
next
  case (PayerReport req)
  then show ?thesis
    using settled_step [OF tombstones.keeps_ReportPaymentResult mint_ledger_kept.keeps_ReportPaymentResult
        others_kept.keeps_ReportPaymentResult assms] by simp
next
  case PayerDeposit
  then show ?thesis
    using settled_step [OF tombstones.keeps_GetDepositInfo mint_ledger_kept.keeps_GetDepositInfo
        others_kept.keeps_GetDepositInfo assms] by simp
next
  case PayerHealth
  then show ?thesis
    using settled_step [OF tombstones.keeps_Health mint_ledger_kept.keeps_Health others_kept.keeps_Health assms] by simp
next
  case (PayerEvict cutoff)
  have "mints_ok (fst (EvictMints cutoff (pdb st)))"
    using assms mints_ok_step [of "pdb st" "MEvict cutoff"] by (simp add: settled_def)
  then show ?thesis using assms
    by (auto simp: PayerEvict settled_def recorded_def EvictMints_lookup split: option.splits)
next
  case (PayerRestart w)
  then show ?thesis using assms by (simp add: Sender_New_def)
qed

lemma payer_run_settled: "settled H i out (pdb st) \<Longrightarrow> settled H i out (pdb (run (payer_step H) st ops))"
  by (induction ops arbitrary: st) (simp_all add: payer_step_settled)

text \<open>C4: one mint id buys one payment. Whenever two calls of \<open>CreatePayment\<close> with the same mint id both
  succeed, with any other calls, evictions and restarts of the daemon in between, the second returns
  the payment bytes, number of tickets, amounts and work id of the first; it signs nothing, allocates no nonce
  and leaves the ticket sessions alone, whatever the world answers.\<close>

theorem same_mint_id_same_payment:
  assumes "mints_ok (pdb st)"
    and "CreatePayment H req st = (st1, Inr out)"
    and "CreatePayment H req' (run (payer_step H) st1 ops) = (st2, Inr out')"
    and "TrimSpace (cp_mint_request_id req') = TrimSpace (cp_mint_request_id req)"
  shows "replayed_fields out' = replayed_fields out \<and>
    sender_nonces (pdb st2) = sender_nonces (pdb (run (payer_step H) st1 ops)) \<and>
    cached st2 = cached (run (payer_step H) st1 ops) \<and>
    (cp_expected_ticket_stream_id req' = [] \<longrightarrow> st2 = run (payer_step H) st1 ops)"
proof -
  let ?s = "run (payer_step H) st1 ops" and ?i = "TrimSpace (cp_mint_request_id req)"
  have "mints_ok (pdb st1)"
    using assms(1) mint_ledger_kept.keepsD [OF mint_ledger_kept.keeps_CreatePayment [OF TrueI], where st = st] assms(2) by (metis fst_conv)
  then have settled: "settled H ?i out (pdb ?s)"
    using recorded_settled [OF _ CreatePayment_recorded [OF assms(2)]] payer_run_settled by blast
  show ?thesis
  proof (rule CreatePayment_runs [OF assms(3)])
    fix s1 s2 prior
    assume c: "check_stream H (cp_expected_ticket_stream_id req') ?s = (s1, Inr ())"
      and r: "reserve_mint H mint_refusal (TrimSpace (cp_mint_request_id req')) (MintFingerprint (payerwire H) req') s1 = (s2, Inr prior)"
      and replay: "\<And>rec. prior = Some rec \<Longrightarrow> st2 = s2 \<and> out' = mintResponseFrom (payerwire H) rec"
    have 1: "settled H ?i out (pdb s1)"
      using settled_step [OF tombstones.keeps_check_stream mint_ledger_kept.keeps_check_stream
          others_kept.keeps_check_stream settled] c by (metis fst_conv)
    have "prior \<noteq> None"
      using settled_reserved [OF 1 refl, of mint_refusal "MintFingerprint (payerwire H) req'"] r assms(4) by auto
    then obtain rec where rec: "prior = Some rec" by blast
    have "s2 = s1" "fmlookup (mints (pdb s1)) (MintKey (Address H) ?i) = Some rec"
      using reserve_mint_prior r rec assms(4) by fastforce+
    moreover have "sender_nonces (pdb s1) = sender_nonces (pdb ?s) \<and> cached s1 = cached ?s \<and>
        (cp_expected_ticket_stream_id req' = [] \<longrightarrow> s1 = ?s)"
      using c by (auto simp: check_stream_def ticket_stream_def step_runs ask_def on_db_Inr TicketStreamID_def db_update_def
          Let_def split: if_splits option.splits prod.splits)
    ultimately show ?thesis using 1 replay [OF rec] by (auto simp: settled_def recorded_def)
  qed
qed

text \<open>The sample payer mints, and its retry is answered.\<close>

lemma sample_retry:
  "\<exists>st out out'. CreatePayment sample_payer sample_pay_request sample_start = (st, Inr out) \<and>
     CreatePayment sample_payer sample_pay_request st = (st, Inr out')"
proof -
  obtain st out where m: "CreatePayment sample_payer sample_pay_request sample_start = (st, Inr out)"
    using sample_mint by blast
  have id: "TrimSpace (cp_mint_request_id sample_pay_request) = ''m''" "cp_expected_ticket_stream_id sample_pay_request = []"
    "cp_recipient sample_pay_request \<noteq> []" "store_configured sample_payer"
    by (simp_all add: sample_pay_request_def trim_samples sample_payer_def sample_payer_of_def)
  have "mints_ok (pdb sample_start)" by (simp add: mints_ok_def sample_start_empty)
  then have ok: "mints_ok (pdb st)"
    using mint_ledger_kept.keepsD [OF mint_ledger_kept.keeps_CreatePayment [OF TrueI], where st = sample_start] m by (metis fst_conv)
  have "recorded_as sample_payer ''m'' (MintFingerprint (payerwire sample_payer) sample_pay_request) out (pdb st)"
  proof (rule CreatePayment_runs [OF m, unfolded id])
    fix s1 s2 prior
    assume "check_stream sample_payer [] sample_start = (s1, Inr ())"
      and "reserve_mint sample_payer mint_refusal ''m'' (MintFingerprint (payerwire sample_payer) sample_pay_request) s1 = (s2, Inr prior)"
      and "prior = None \<Longrightarrow> mint_payment sample_payer sample_pay_request ''m'' (MintFingerprint (payerwire sample_payer) sample_pay_request) s2 = (st, Inr out)"
    then show ?thesis
      using endsD [OF ends_mint] sample_reserve [of sample_start]
      by (auto simp: check_stream_def yield_def sample_start_empty sample_payer_def)
  qed
  then obtain rec tomb where
    "fmlookup (mints (pdb st)) (MintKey (Address sample_payer) ''m'') = Some rec"
    "mr_Fingerprint rec = MintFingerprint (payerwire sample_payer) sample_pay_request"
    "fmlookup (mint_tombstones (pdb st)) (MintKey (Address sample_payer) ''m'') = Some tomb" "mt_Fingerprint tomb = mr_Fingerprint rec"
    using ok unfolding recorded_as_def recorded_def mints_ok_def by fastforce
  then have "CreatePayment sample_payer sample_pay_request st = (st, Inr (mintResponseFrom (payerwire sample_payer) rec))"
    using id by (simp add: CreatePayment_def Let_def rejectI maxMintRequestIDBytes_def check_stream_def perform_def
        reserve_mint_used yield_eq)
  with m show ?thesis by blast
qed

theorem same_mint_id_same_payment_witness:
  "\<exists>st out out'. CreatePayment sample_payer sample_pay_request sample_start = (st, Inr out) \<and>
     CreatePayment sample_payer sample_pay_request st = (st, Inr out') \<and> replayed_fields out' = replayed_fields out"
proof -
  have "mints_ok (pdb sample_start)" by (simp add: mints_ok_def sample_start_empty)
  then show ?thesis
    using sample_retry same_mint_id_same_payment [of sample_start sample_payer sample_pay_request _ _ sample_pay_request "[]"]
    by fastforce
qed

end
