(* ===== verification/Sender_World.thy ===== *)
theory Sender_World
  imports Sender_Laws
begin

text \<open>
  How a call of the payer's service moves the world outside the process: only by the questions it asks. The
  round that the clock reads is then known all through a call in which no new round was initialised.
\<close>

section \<open>Questions to the world\<close>

inductive env_step :: "'w payer_env \<Rightarrow> 'w \<Rightarrow> 'w \<Rightarrow> bool" for H where
  sign: "env_step H w (fst (Sign H w h))"
| now: "env_step H w (fst (Now H w))"
| random: "env_step H w (fst (RandRead H w))"
| rnd: "env_step H w (fst (LastInitializedRound H w))"
| hash: "env_step H w (fst (LastInitializedL1BlockHash H w))"
| info: "env_step H w (fst (GetSenderInfo H w a))"
| validity: "env_step H w (fst (TicketValidityPeriod H w))"
| fetch: "Fetch H = Some f \<Longrightarrow> env_step H w (fst (f w r))"

abbreviation later :: "'w payer_env \<Rightarrow> 'w \<Rightarrow> 'w \<Rightarrow> bool" where
  "later H \<equiv> rtranclp (env_step H)"

lemma later_step: "env_step H w w' \<Longrightarrow> later H w w'"
  by (rule r_into_rtranclp)

definition travels :: "'w payer_env \<Rightarrow> ('w, 'r) step \<Rightarrow> bool" where
  "travels H m \<longleftrightarrow> (\<forall>st. later H (outside st) (outside (fst (m st))))"

lemma travelsD: "travels H m \<Longrightarrow> m st = (st', r) \<Longrightarrow> later H (outside st) (outside st')"
  unfolding travels_def by (metis fst_conv)

lemma travels_still: "(\<And>st. outside (fst (m st)) = outside st) \<Longrightarrow> travels H m"
  by (simp add: travels_def)

lemma travels_pure:
  "travels H (yield x)" "travels H (fail e)" "travels H (look f)" "travels H (result err y)" "travels H (on_db err' u)"
  by (rule travels_still; simp add: yield_def fail_def look_def result_def on_db_def split: prod.split)+

lemma travels_change: "(\<And>st. outside (f st) = outside st) \<Longrightarrow> travels H (change f)"
  by (rule travels_still) (simp add: change_def)

lemma travels_ask: "(\<And>w. env_step H w (fst (g w))) \<Longrightarrow> travels H (ask g)"
  by (auto simp: travels_def ask_def case_prod_beta intro: later_step)

lemma travels_call: "(\<And>w. env_step H w (fst (g w))) \<Longrightarrow> travels H (call err g)"
  by (auto simp: travels_def call_def case_prod_beta intro: later_step)

lemma travels_perform:
  assumes "travels H m" "\<And>x. travels H (k x)"
  shows "travels H (perform m k)"
proof -
  have "later H (outside st) (outside (fst (perform m k st)))" for st
  proof (cases "m st")
    case (Pair st1 r)
    note 1 = travelsD [OF assms(1) Pair]
    then show ?thesis
      using Pair assms(2) unfolding travels_def by (cases r) (auto simp: perform_def intro: rtranclp_trans)
  qed
  then show ?thesis by (simp add: travels_def)
qed

lemma travels_reject: "travels H k \<Longrightarrow> travels H (reject bad e k)"
  by (simp add: travels_def reject_def)

lemma travels_wrapping: "travels H m \<Longrightarrow> travels H (wrapping text m)"
proof -
  have "fst (wrapping text m st) = fst (m st)" for st by (simp add: wrapping_def split: prod.split sum.split)
  then show "travels H m \<Longrightarrow> travels H (wrapping text m)" by (simp add: travels_def)
qed

lemma travels_answer:
  assumes "travels H m"
  shows "travels H (\<lambda>st. case m st of (st', Inl e) \<Rightarrow> (st', f e) | (st', Inr v) \<Rightarrow> (st', g v))"
proof -
  have "fst (case m st of (st', Inl e) \<Rightarrow> (st', f e) | (st', Inr v) \<Rightarrow> (st', g v)) = fst (m st)" for st
    by (simp split: prod.split sum.split)
  then show ?thesis using assms by (simp add: travels_def)
qed

lemma travels_if: "(b \<Longrightarrow> travels H m) \<Longrightarrow> (\<not> b \<Longrightarrow> travels H n) \<Longrightarrow> travels H (if b then m else n)"
  by simp

lemma travels_option: "travels H n \<Longrightarrow> (\<And>x. travels H (k x)) \<Longrightarrow> travels H (case y of None \<Rightarrow> n | Some x \<Rightarrow> k x)"
  by (cases y) simp_all

lemma travels_split: "(\<And>x y. travels H (k x y)) \<Longrightarrow> travels H (case p of (x, y) \<Rightarrow> k x y)"
  by (cases p) simp

lemma travels_let: "(\<And>x. travels H (k x)) \<Longrightarrow> travels H (let x = v in k x)"
  by simp

lemmas travels_rules = travels_pure travels_change travels_ask travels_call travels_perform travels_reject travels_wrapping
  travels_if travels_option travels_split travels_let env_step.sign env_step.now env_step.random env_step.rnd env_step.hash
  env_step.info env_step.validity

section \<open>The steps of a payment\<close>

lemma travels_stream: "travels H (ticket_stream H err)"
  unfolding ticket_stream_def by (intro travels_rules)

lemma travels_reserve: "travels H (reserve_mint H err mintID fp)"
  unfolding reserve_mint_def by (intro travels_rules)

lemma travels_record: "travels H (record_mint H err mintID rec)"
  unfolding record_mint_def by (intro travels_rules)

lemma travels_fetch: "travels H (fetch_params H req)"
  unfolding fetch_params_def
  by (cases "Fetch H") (auto intro: travels_pure travels_call env_step.fetch)

lemma travels_rescale: "travels H (rescaleTicketParams H rcpt want capability offering baseURL current)"
  unfolding rescaleTicketParams_def by (intro travels_rules travels_fetch)

lemma travels_find: "travels H (findOrOpenSession H rcpt want capability offering baseURL price quote domain account)"
  unfolding findOrOpenSession_def reuse_session_def open_session_def
  by (intro travels_rules travels_stream travels_fetch travels_rescale; simp)

lemma travels_rotate: "travels H (rotateExhaustedSession H old rcpt price baseURL quote funding)"
  unfolding rotateExhaustedSession_def
  by (intro travels_rules travels_find) (simp add: drop_cached_def split: option.split)

lemma travels_nonce: "travels H (nextNonce H session)"
  unfolding nextNonce_def by (intro travels_rules; simp)

lemma travels_validity: "travels H (readValidityPeriod H fresh)"
  unfolding readValidityPeriod_def by (intro travels_rules) simp

lemma travels_used: "travels H (nonces_used workID)"
  unfolding nonces_used_def by (intro travels_rules)

lemma travels_choose: "travels H (choose_session H req price funding)"
  unfolding choose_session_def Let_def by (intro travels_rules travels_find travels_rotate travels_used)

lemma travels_roll_over: "travels H (roll_over H req price funding n session predecessor refreshed)"
  unfolding roll_over_def by (intro travels_rules travels_rotate travels_used)

lemma travels_check_stream: "travels H (check_stream H expected)"
  unfolding check_stream_def by (intro travels_rules travels_stream)

lemma travels_record_payment: "travels H (record_payment H mintID fp out)"
  unfolding record_payment_def by (intro travels_rules travels_record)

section \<open>Rounds\<close>

definition round_at :: "'w payer_env \<Rightarrow> 'w \<Rightarrow> int" where
  "round_at H w = snd (LastInitializedRound H w)"

definition hash_at :: "'w payer_env \<Rightarrow> 'w \<Rightarrow> bytes" where
  "hash_at H w = snd (LastInitializedL1BlockHash H w)"

text \<open>Rounds are initialised one after the other, at any moment, and the block hash that the clock answers belongs
  to the round that it answers: from one question to the next the round may have risen, and as long as it has not,
  the hash is the same.\<close>

definition rounds_in_order :: "'w payer_env \<Rightarrow> bool" where
  "rounds_in_order H \<longleftrightarrow>
     (\<forall>w w'. env_step H w w' \<longrightarrow> round_at H w \<le> round_at H w' \<and> (round_at H w = round_at H w' \<longrightarrow> hash_at H w = hash_at H w'))"

lemma rounds_rise: "later H w w' \<Longrightarrow> rounds_in_order H \<Longrightarrow> round_at H w \<le> round_at H w'"
proof (induction rule: rtranclp_induct)
  case (step y z)
  then show ?case unfolding rounds_in_order_def by (meson order_trans)
qed simp

lemma round_kept:
  "later H w w' \<Longrightarrow> rounds_in_order H \<Longrightarrow> round_at H w = round_at H w' \<Longrightarrow> hash_at H w = hash_at H w'"
proof (induction rule: rtranclp_induct)
  case (step y z)
  have "round_at H w \<le> round_at H y" "round_at H y \<le> round_at H z"
    using rounds_rise [OF step.hyps(1)] rounds_rise [OF later_step [OF step.hyps(2)]] step.prems(1) by simp_all
  with step show ?case unfolding rounds_in_order_def by (metis order_antisym)
qed simp

lemma round_between:
  assumes "later H w0 w" "later H w w1" "rounds_in_order H" "round_at H w1 = round_at H w0"
  shows "round_at H w = round_at H w0" "hash_at H w = hash_at H w0"
proof -
  show "round_at H w = round_at H w0"
    using rounds_rise [OF assms(1,3)] rounds_rise [OF assms(2,3)] assms(4) by simp
  then show "hash_at H w = hash_at H w0" using round_kept [OF assms(1,3)] by simp
qed

end
