(* ===== verification/Sender_Mints.thy ===== *)
theory Sender_Mints
  imports Sender_World Receiver_Sessions
begin

text \<open>
  What a minted payment is: how it is sized, what is signed, and that the payee accepts it.
\<close>

section \<open>Sizing\<close>

abbreviation session_EV :: "senderSession \<Rightarrow> int" where
  "session_EV se \<equiv> CreditedEV (tp_FaceValue (se_ticketParams se)) (tp_WinProb (se_ticketParams se))"

lemma ends_bind:
  "ends (\<lambda>_. R) m \<Longrightarrow> (\<And>x. R x \<Longrightarrow> ends P (k x)) \<Longrightarrow> ends P (perform m k)"
  by (fastforce simp: ends_def step_runs)

lemma ends_yield: "(\<And>st. P st x) \<Longrightarrow> ends P (yield x)"
  by (auto simp: ends_def step_runs)

lemma ends_wrapping: "ends P m \<Longrightarrow> ends P (wrapping text m)"
  by (auto simp: ends_def step_runs)

lemma ends_rejected: "(\<not> bad \<Longrightarrow> ends P k) \<Longrightarrow> ends P (reject bad e k)"
  by (auto simp: ends_def step_runs)

lemma ends_let: "(\<And>x. x = v \<Longrightarrow> ends P (k x)) \<Longrightarrow> ends P (let x = v in k x)"
  by simp

lemma ends_rescale:
  "ends (\<lambda>_ tp. CreditedEV (tp_FaceValue tp) (tp_WinProb tp) = want \<and>
      tp_SettlementDomainID tp = tp_SettlementDomainID current)
    (rescaleTicketParams H rcpt want capability offering baseURL current)"
  unfolding rescaleTicketParams_def by (intro ends_rejected ends_perform ends_yield) auto

lemma ends_reuse:
  "ends (\<lambda>_ se. session_EV se = want \<and> tp_SettlementDomainID (se_ticketParams se) = tp_SettlementDomainID (se_ticketParams sess))
    (reuse_session H key sess rcpt want capability offering baseURL price quote)"
  unfolding reuse_session_def Let_def
  by (rule ends_perform, rule ends_if)
    (auto intro!: ends_yield ends_perform ends_bind [OF ends_rescale])

lemma ends_open:
  "ends (\<lambda>_ se. session_EV se = want) (open_session H key account stream rcpt want capability offering baseURL price quote)"
proof -
  have "ends (\<lambda>_ tp. CreditedEV (tp_FaceValue tp) (tp_WinProb tp) = want)
      (if CreditedEV (tp_FaceValue first) (tp_WinProb first) \<noteq> want
       then rescaleTicketParams H rcpt want capability offering baseURL first else yield first)" for first
    using ends_rescale [of want first H rcpt capability offering baseURL] by (auto simp: ends_def step_runs)
  then show ?thesis
    unfolding open_session_def Let_def
    by (rule_tac ends_perform) (rule ends_reject, rule ends_bind, assumption, (rule ends_perform)+, rule ends_yield, simp)
qed

lemma ends_find:
  "ends (\<lambda>_ se. session_EV se = want)
    (findOrOpenSession H rcpt want capability offering baseURL price quote domain account)"
proof -
  have "ends (\<lambda>_ se. session_EV se = want) (reuse_session H key sess rcpt want capability offering baseURL price quote)"
    for key sess using ends_reuse by (fastforce simp: ends_def)
  then show ?thesis
    unfolding findOrOpenSession_def Let_def by (intro ends_reject ends_perform ends_option ends_open)
qed

lemma ends_rotate:
  "ends (\<lambda>_ se. session_EV se = fundedValueWei funding)
    (rotateExhaustedSession H old rcpt price baseURL quote funding)"
  unfolding rotateExhaustedSession_def
  by (rule ends_perform, rule ends_bind, rule ends_wrapping, rule ends_find) (intro ends_reject ends_yield)

lemma ends_choose:
  "ends (\<lambda>_ (se, _, _). session_EV se = fundedValueWei funding) (choose_session H req price funding)"
proof -
  have find: "ends (\<lambda>_ (se, _, _). session_EV se = fundedValueWei funding)
     (perform (wrapping ''ticket params: '' (findOrOpenSession H (cp_recipient req) (fundedValueWei funding)
               (ai_CapabilityName price) (ai_Offering price) (cp_ticket_params_base_url req)
               (toPriceInfo price (estimatedUnits funding)) (quote_of req) (domain_of req) (account_of req)))
              (\<lambda>session. yield (session, [], False)))"
    by (rule ends_bind, rule ends_wrapping, rule ends_find) (simp add: ends_yield)
  have rotate: "ends (\<lambda>_ (se, _, _). session_EV se = fundedValueWei funding)
     (perform (rotateExhaustedSession H old (cp_recipient req) price (cp_ticket_params_base_url req)
                     (quote_of req) funding) (\<lambda>session.
                  yield (session, if se_workID session \<noteq> se_workID old then se_workID old else [], True)))" for old
    by (rule ends_bind, rule ends_rotate) (simp add: ends_yield)
  show ?thesis
    unfolding choose_session_def Let_def
    by (rule ends_perform, rule ends_option, rule find, rule ends_perform, rule ends_if, rule rotate, rule find)
qed

lemma ticket_count_one: "0 < want \<Longrightarrow> ticket_count want want = 1"
  by (simp add: ticket_count_def Quo_def)

lemma size_batch_exact:
  assumes "session_EV se = fundedValueWei funding" "size_batch H req funding se st = (st', Inr (n, ev))"
  shows "st' = st \<and> n = 1 \<and> ev = fundedValueWei funding \<and> 0 < fundedValueWei funding \<and>
    tp_SettlementDomainID (se_ticketParams se) = domain_of req \<and>
    CheckSignedTicketBatch (limits H) (Some ev) (tp_FaceValue (se_ticketParams se)) = None"
  using assms by (auto simp: size_batch_def Let_def step_runs ticket_count_one)

lemma ends_roll_over:
  "session_EV se = fundedValueWei funding \<Longrightarrow>
   ends (\<lambda>_ (se', _). session_EV se' = fundedValueWei funding) (roll_over H req price funding n se pred refreshed)"
  unfolding roll_over_def
  by (rule ends_if, simp add: ends_yield, rule ends_perform, rule ends_if, rule ends_bind, rule ends_rotate)
    (simp_all add: ends_yield)

section \<open>Where the parameters come from\<close>

text \<open>A property of ticket parameters that every answer of the fetcher has, every cached session has and
  keeps, and every session that a step hands out.\<close>

definition fetch_good :: "'w payer_env \<Rightarrow> (TicketParams \<Rightarrow> bool) \<Rightarrow> bool" where
  "fetch_good H G \<longleftrightarrow> (\<forall>f w r w' tp. Fetch H = Some f \<longrightarrow> f w r = (w', Inr tp) \<longrightarrow> G tp)"

definition cached_good :: "(TicketParams \<Rightarrow> bool) \<Rightarrow> 'w payer \<Rightarrow> bool" where
  "cached_good G st \<longleftrightarrow> (\<forall>k se. fmlookup (cached st) k = Some se \<longrightarrow> G (se_ticketParams se))"

definition triple :: "(TicketParams \<Rightarrow> bool) \<Rightarrow> ('w, 'r) step \<Rightarrow> ('r \<Rightarrow> bool) \<Rightarrow> bool" where
  "triple G m R \<longleftrightarrow>
     (\<forall>st. cached_good G st \<longrightarrow> cached_good G (fst (m st)) \<and> (\<forall>x. snd (m st) = Inr x \<longrightarrow> R x))"

lemma tripleD: "triple G m R \<Longrightarrow> m st = (st', Inr x) \<Longrightarrow> cached_good G st \<Longrightarrow> cached_good G st' \<and> R x"
  by (auto simp: triple_def dest!: spec [of _ st])

lemma triple_perform:
  assumes "triple G m R" "\<And>x. R x \<Longrightarrow> triple G (k x) S"
  shows "triple G (perform m k) S"
proof -
  have "cached_good G (fst (perform m k st)) \<and> (\<forall>x. snd (perform m k st) = Inr x \<longrightarrow> S x)" if "cached_good G st" for st
  proof -
    obtain st1 r where m: "m st = (st1, r)" by fastforce
    then have 1: "cached_good G st1" "\<And>x. r = Inr x \<Longrightarrow> R x" using assms(1) that unfolding triple_def by fastforce+
    show ?thesis
    proof (cases r)
      case (Inl e)
      then show ?thesis using m 1 by (simp add: perform_def)
    next
      case (Inr x)
      then show ?thesis using m 1 assms(2) [of x] unfolding triple_def by (simp add: perform_def)
    qed
  qed
  then show ?thesis by (simp add: triple_def)
qed

lemma triple_silent:
  assumes "\<And>st. cached (fst (m st)) = cached st" "\<And>st x. snd (m st) = Inr x \<Longrightarrow> R x"
  shows "triple G m R"
  using assms by (simp add: triple_def cached_good_def)

lemma triple_yield: "R x \<Longrightarrow> triple G (yield x) R"
  by (rule triple_silent) (simp_all add: yield_def)

lemma triple_fail: "triple G (fail e) R"
  by (rule triple_silent) (simp_all add: fail_def)

lemma triple_reject: "(\<not> bad \<Longrightarrow> triple G k R) \<Longrightarrow> triple G (reject bad e k) R"
  by (auto simp: triple_def reject_def)

lemma triple_wrapping: "triple G m R \<Longrightarrow> triple G (wrapping text m) R"
proof -
  have "fst (wrapping text m st) = fst (m st)" "snd (wrapping text m st) = Inr x \<longleftrightarrow> snd (m st) = Inr x" for st x
    by (auto simp: wrapping_def split: prod.split sum.split)
  then show "triple G m R \<Longrightarrow> ?thesis" by (simp add: triple_def)
qed

lemma triple_change: "(\<And>st. cached_good G st \<Longrightarrow> cached_good G (f st)) \<Longrightarrow> triple G (change f) (\<lambda>_. True)"
  by (simp add: triple_def change_def)

lemma triple_world: "triple G (ask g) (\<lambda>_. True)" "triple G (call err h) (\<lambda>_. True)" "triple G (on_db err' u) (\<lambda>_. True)"
  "triple G (look v) (\<lambda>_. True)"
  by (rule triple_silent; simp add: ask_def call_def on_db_def look_def split: prod.split)+

lemma triple_if: "(b \<Longrightarrow> triple G m R) \<Longrightarrow> (\<not> b \<Longrightarrow> triple G n R) \<Longrightarrow> triple G (if b then m else n) R"
  by simp

lemma cached_good_upd: "cached_good G st \<Longrightarrow> G (se_ticketParams se) \<Longrightarrow> cached_good G (st\<lparr>cached := fmupd k se (cached st)\<rparr>)"
  by (simp add: cached_good_def)

lemma triple_fetch: "fetch_good H G \<Longrightarrow> triple G (fetch_params H r) G"
  by (rule triple_silent)
    (auto simp: fetch_params_def fetch_good_def fail_def call_def split: option.splits prod.splits sum.splits)

lemma triple_rescale:
  "fetch_good H G \<Longrightarrow> triple G (rescaleTicketParams H rcpt want capability offering baseURL current) G"
  unfolding rescaleTicketParams_def
  by (rule triple_reject, rule triple_perform, rule triple_wrapping, erule triple_fetch)
    (intro triple_reject triple_yield)

lemma triple_stream: "triple G (ticket_stream H err) (\<lambda>_. True)"
  unfolding ticket_stream_def
  by (rule triple_silent)
    (auto simp: perform_def look_def ask_def yield_def on_db_def split: prod.split sum.split)

abbreviation good_session :: "(TicketParams \<Rightarrow> bool) \<Rightarrow> senderSession \<Rightarrow> bool" where
  "good_session G se \<equiv> G (se_ticketParams se)"

lemma triple_reuse:
  assumes "fetch_good H G" "good_session G sess"
  shows "triple G (reuse_session H key sess rcpt want capability offering baseURL price quote) (good_session G)"
  unfolding reuse_session_def Let_def
  by (rule triple_perform, rule triple_change, rule cached_good_upd, assumption, simp add: assms(2), rule triple_if,
      rule triple_yield, simp add: assms(2), rule triple_perform, rule triple_rescale, rule assms(1),
      rule triple_perform, rule triple_change, erule cached_good_upd, simp, rule triple_yield, simp)

lemma triple_open:
  assumes "fetch_good H G"
  shows "triple G (open_session H key account stream rcpt want capability offering baseURL price quote) (good_session G)"
proof -
  have size: "triple G (if CreditedEV (tp_FaceValue first) (tp_WinProb first) \<noteq> want
       then rescaleTicketParams H rcpt want capability offering baseURL first else yield first) G" if "G first" for first
    using that by (intro triple_if triple_rescale assms triple_yield)
  have resync: "triple G (if b then on_db err f else yield False) (\<lambda>_. True)" for b err and f :: "bool store_op"
    by (intro triple_if triple_world triple_yield) simp
  show ?thesis
    unfolding open_session_def Let_def
    by (rule triple_perform, rule triple_fetch, rule assms, rule triple_reject, rule triple_perform, erule size,
        rule triple_perform, rule resync, rule triple_perform, rule triple_change)
      (simp_all add: cached_good_def triple_yield)
qed

lemma triple_find:
  assumes "fetch_good H G"
  shows "triple G (findOrOpenSession H rcpt want capability offering baseURL price quote domain account) (good_session G)"
proof -
  have look: "triple G (look (\<lambda>st. fmlookup (cached st) key)) (\<lambda>hit. \<forall>se. hit = Some se \<longrightarrow> good_session G se)" for key
    by (simp add: triple_def look_def cached_good_def)
  show ?thesis
    unfolding findOrOpenSession_def Let_def
    by (rule triple_reject, rule triple_perform, rule triple_stream, rule triple_perform, rule look)
      (auto split: option.split intro: triple_reuse triple_open assms)
qed

lemma triple_rotate:
  assumes "fetch_good H G"
  shows "triple G (rotateExhaustedSession H old rcpt price baseURL quote funding) (good_session G)"
proof -
  have "cached_good G st \<Longrightarrow> cached_good G (drop_cached old st)" for st :: "'a payer"
    by (auto simp: cached_good_def drop_cached_def split: option.split if_splits)
  then show ?thesis
    unfolding rotateExhaustedSession_def
    by (rule_tac triple_perform, rule_tac triple_change, assumption) (rule triple_perform, rule triple_wrapping,
        rule triple_find, rule assms, rule triple_reject, rule triple_yield, simp)
qed

lemma triple_used: "triple G (nonces_used workID) (\<lambda>_. True)"
  unfolding nonces_used_def by (rule triple_silent) (simp_all add: perform_def look_def result_def)

lemma triple_choose:
  assumes "fetch_good H G"
  shows "triple G (choose_session H req price funding) (\<lambda>(se, _, _). good_session G se)"
proof -
  have find: "triple G
     (perform (wrapping ''ticket params: '' (findOrOpenSession H (cp_recipient req) (fundedValueWei funding)
               (ai_CapabilityName price) (ai_Offering price) (cp_ticket_params_base_url req)
               (toPriceInfo price (estimatedUnits funding)) (quote_of req) (domain_of req) (account_of req)))
              (\<lambda>session. yield (session, [], False))) (\<lambda>(se, _, _). good_session G se)"
    by (rule triple_perform, rule triple_wrapping, rule triple_find, rule assms) (simp add: triple_yield)
  have rotate: "triple G
     (perform (rotateExhaustedSession H old (cp_recipient req) price (cp_ticket_params_base_url req)
                     (quote_of req) funding) (\<lambda>session.
                  yield (session, if se_workID session \<noteq> se_workID old then se_workID old else [], True)))
     (\<lambda>(se, _, _). good_session G se)" for old
    by (rule triple_perform, rule triple_rotate, rule assms) (simp add: triple_yield)
  show ?thesis
    unfolding choose_session_def Let_def
    by (rule triple_perform, rule triple_world(4))
      (auto split: option.split intro!: find rotate triple_perform [OF triple_used])
qed

lemma triple_roll_over:
  assumes "fetch_good H G" "good_session G se"
  shows "triple G (roll_over H req price funding n se pred refreshed) (\<lambda>(se', _). good_session G se')"
  unfolding roll_over_def
  by (rule triple_if, simp add: triple_yield assms, rule triple_perform, rule triple_used, rule triple_if,
      rule triple_perform, rule triple_rotate, rule assms) (simp_all add: triple_yield assms)

section \<open>What is signed\<close>

text \<open>The ticket that was signed, and the batch that carries it. The signature and the batch each read the
  clock.\<close>

definition signed_payment :: "'w payer_env \<Rightarrow> senderSession \<Rightarrow> uint32 \<Rightarrow> bytes \<Rightarrow> int \<Rightarrow> bytes \<Rightarrow> bytes \<Rightarrow> bool" where
  "signed_payment H se nonce sig rnd hash wire \<longleftrightarrow>
     (\<exists>w w' rw rw' hw hw' rnd' hash'.
        LastInitializedRound H rw = (rw', rnd') \<and> LastInitializedL1BlockHash H hw = (hw', hash') \<and>
        Sign H w (Ticket_Hash (ethlib H) (signed_ticket H (se_ticketParams se) nonce rnd' hash')) = (w', Inr sig)) \<and>
     (\<exists>rw rw' hw hw'. LastInitializedRound H rw = (rw', rnd) \<and> LastInitializedL1BlockHash H hw = (hw', hash)) \<and>
     Marshal_Payment (payerwire H) (the (ToWirePayment (Some
       (payment_batch H se rnd hash [\<lparr>sp_SenderNonce = nonce, sp_Sig = sig\<rparr>])))) = Some wire"

text \<open>The same, with the readings where the call makes them: between the world it started in and the one it
  ended in, the round, the hash, the signature, the round and the hash, one right after the other.\<close>

definition signed_run ::
  "'w payer_env \<Rightarrow> 'w \<Rightarrow> 'w \<Rightarrow> senderSession \<Rightarrow> uint32 \<Rightarrow> bytes \<Rightarrow> int \<Rightarrow> bytes \<Rightarrow> bytes \<Rightarrow> bool" where
  "signed_run H w0 w1 se nonce sig rnd hash wire \<longleftrightarrow>
     (\<exists>a b c d e f rnd' hash'. later H w0 a \<and>
        LastInitializedRound H a = (b, rnd') \<and> LastInitializedL1BlockHash H b = (c, hash') \<and>
        Sign H c (Ticket_Hash (ethlib H) (signed_ticket H (se_ticketParams se) nonce rnd' hash')) = (d, Inr sig) \<and>
        LastInitializedRound H d = (e, rnd) \<and> LastInitializedL1BlockHash H e = (f, hash) \<and> later H f w1) \<and>
     Marshal_Payment (payerwire H) (the (ToWirePayment (Some
       (payment_batch H se rnd hash [\<lparr>sp_SenderNonce = nonce, sp_Sig = sig\<rparr>])))) = Some wire"

lemma signed_run_payment: "signed_run H w0 w1 se nonce sig rnd hash wire \<Longrightarrow> signed_payment H se nonce sig rnd hash wire"
  unfolding signed_run_def signed_payment_def by blast

lemma signed_run_earlier:
  "later H w w0 \<Longrightarrow> signed_run H w0 w1 se nonce sig rnd hash wire \<Longrightarrow> signed_run H w w1 se nonce sig rnd hash wire"
  unfolding signed_run_def by (meson rtranclp_trans)

lemma signOneTicket_signs:
  assumes "signOneTicket H se st = (st', Inr t)"
  shows "\<exists>a b c rnd hash. later H (outside st) a \<and>
    LastInitializedRound H a = (b, rnd) \<and> LastInitializedL1BlockHash H b = (c, hash) \<and>
    Sign H c (Ticket_Hash (ethlib H) (signed_ticket H (se_ticketParams se) (sp_SenderNonce t) rnd hash)) =
      (outside st', Inr (sp_Sig t))"
proof -
  obtain st1 st2 rnd st3 hash where n: "nextNonce H se st = (st1, Inr (sp_SenderNonce t))"
    and r: "ask (LastInitializedRound H) st1 = (st2, Inr rnd)" "ask (LastInitializedL1BlockHash H) st2 = (st3, Inr hash)"
    and s: "call plain (\<lambda>w. Sign H w (ticketHash H (signed_ticket H (se_ticketParams se) (sp_SenderNonce t) rnd hash))) st3 =
      (st', Inr (sp_Sig t))"
    using assms by (simp only: signOneTicket_def perform_Inr yield_Inr) (elim exE conjE, simp)
  have "later H (outside st) (outside st1)" by (rule travelsD [OF travels_nonce n])
  moreover have "LastInitializedRound H (outside st1) = (outside st2, rnd)"
    "LastInitializedL1BlockHash H (outside st2) = (outside st3, hash)" using r by (auto simp: ask_def split: prod.splits)
  ultimately show ?thesis
    using s by (intro exI conjI) (auto simp: call_def ticketHash_def split: prod.splits sum.splits)
qed

lemma nextNonce_rises:
  assumes "nextNonce H se st = (st', Inr n)" "store_configured H" "se_workID se \<noteq> []"
  shows "watermark (se_workID se) (pdb st) < n \<and> watermark (se_workID se) (pdb st') = n"
proof -
  have "store_configured H \<and> se_workID se \<noteq> []" using assms by simp
  then obtain s where s: "NextSenderNonce (se_workID se) (pdb st) = (s, Inr n)" "pdb st' = s"
    using assms(1)
    by (simp only: nextNonce_def perform_Inr look_Inr if_True on_db_Inr change_Inr yield_Inr)
      (elim exE conjE, simp add: perform_Inr on_db_Inr change_Inr yield_Inr, elim exE conjE, simp split: if_splits)
  then show ?thesis using watermark_step_issue [of "pdb st" "OpNext (se_workID se)" "se_workID se" n] by simp
qed

lemma record_payment_Inr:
  "record_payment H i fp out st = (st', Inr r) \<Longrightarrow> r = out \<and> watermark w (pdb st') = watermark w (pdb st)"
  by (auto simp: record_payment_def record_mint_def step_runs ask_Inr on_db_Inr Store_MintRecord_def db_update_def
      watermark_def Let_def split: option.splits)

lemma issue_payment_signs:
  assumes "issue_payment H i fp funded validity 1 ev se pred st = (st', Inr out)"
  shows "\<exists>nonce sig rnd hash. signed_run H (outside st) (outside st') se nonce sig rnd hash (pr_payment_bytes out) \<and>
    out = payment_response funded validity 1 ev se pred rnd (pr_payment_bytes out) \<and>
    (store_configured H \<and> se_workID se \<noteq> [] \<longrightarrow>
       watermark (se_workID se) (pdb st) < nonce \<and> nonce \<le> watermark (se_workID se) (pdb st'))"
proof -
  obtain st1 t where t: "signOneTicket H se st = (st1, Inr t)"
    and rest: "perform (ask (LastInitializedRound H)) (\<lambda>rnd.
     perform (ask (LastInitializedL1BlockHash H)) (\<lambda>hash.
     case Marshal_Payment (payerwire H) (the (ToWirePayment (Some (payment_batch H se rnd hash [t])))) of
       None \<Rightarrow> fail (plain ''marshal payment'')
     | Some wire \<Rightarrow> record_payment H i fp (payment_response funded validity 1 ev se pred rnd wire))) st1 = (st', Inr out)"
    using assms unfolding issue_payment_def One_nat_def sign_tickets.simps perform_Inr wrapping_Inr yield_Inr by blast
  obtain st2 rnd st3 hash wire where
    2: "ask (LastInitializedRound H) st1 = (st2, Inr rnd)" and 3: "ask (LastInitializedL1BlockHash H) st2 = (st3, Inr hash)"
    and wire: "Marshal_Payment (payerwire H) (the (ToWirePayment (Some (payment_batch H se rnd hash [t])))) = Some wire"
    and rec: "record_payment H i fp (payment_response funded validity 1 ev se pred rnd wire) st3 = (st', Inr out)"
    using rest unfolding perform_Inr by (auto simp: fail_def split: option.splits)
  note out = record_payment_Inr [OF rec]
  obtain sta where n: "nextNonce H se st = (sta, Inr (sp_SenderNonce t))" and "pdb st1 = pdb sta"
    using t unfolding signOneTicket_def perform_Inr by (auto simp: yield_def ask_Inr call_Inr)
  moreover have "pdb st3 = pdb st1" using 2 3 by (auto simp: ask_Inr)
  ultimately have w: "watermark w (pdb st') = watermark w (pdb sta)" for w using out by simp
  have eta: "\<lparr>sp_SenderNonce = sp_SenderNonce t, sp_Sig = sp_Sig t\<rparr> = t" by simp
  have "LastInitializedRound H (outside st1) = (outside st2, rnd)"
    "LastInitializedL1BlockHash H (outside st2) = (outside st3, hash)" "later H (outside st3) (outside st')"
    using 2 3 travelsD [OF travels_record_payment rec] by (auto simp: ask_def split: prod.splits)
  then have "signed_run H (outside st) (outside st') se (sp_SenderNonce t) (sp_Sig t) rnd hash wire"
    unfolding signed_run_def eta using signOneTicket_signs [OF t] wire by blast
  then show ?thesis
    using out w nextNonce_rises [OF n] by (fastforce simp: payment_response_def)
qed

lemma cached_readValidity: "cached (fst (readValidityPeriod H fresh st)) = cached st"
  by (auto simp: readValidityPeriod_def perform_def look_def ask_def call_def change_def yield_def
      split: prod.split sum.split)

lemma fund_shortfall_signs:
  assumes "fund_shortfall H req i fp price funding st = (st', Inr out)"
  shows "\<exists>validity se pred nonce sig rnd hash.
    signed_run H (outside st) (outside st') se nonce sig rnd hash (pr_payment_bytes out) \<and>
    out = payment_response (fundedValueWei funding) validity 1 (fundedValueWei funding) se pred rnd (pr_payment_bytes out) \<and>
    session_EV se = fundedValueWei funding \<and> 0 < fundedValueWei funding \<and>
    CheckMint (limits H) (ai_WorkUnitName price) (Some (ai_PricePerUnitWei price)) (ai_UnitsPerPrice price)
      (Some (fundedValueWei funding)) = None \<and>
    (store_configured H \<and> se_workID se \<noteq> [] \<longrightarrow>
       watermark (se_workID se) (pdb st) < nonce \<and> nonce \<le> watermark (se_workID se) (pdb st')) \<and>
    (\<forall>G. fetch_good H G \<longrightarrow> cached_good G st \<longrightarrow> good_session G se)"
proof -
  note run = assms [unfolded fund_shortfall_def]
  from run obtain st1 info st2 rnd0 st3 st4 validity st5 se0 pred0 refreshed st6 n ev st7 se pred where
    0: "CheckMint (limits H) (ai_WorkUnitName price) (Some (ai_PricePerUnitWei price)) (ai_UnitsPerPrice price)
      (Some (fundedValueWei funding)) = None" and
    1: "call (\<lambda>_. plain ''get sender info'') (\<lambda>w. GetSenderInfo H w (Address H)) st = (st1, Inr info)" and
    2: "ask (LastInitializedRound H) st1 = (st2, Inr rnd0)" and
    3: "(case validateSenderInfo (Some info) rnd0 of
        None \<Rightarrow> yield () | Some m \<Rightarrow> fail (plain (''sender validation: '' @ m))) st2 = (st3, Inr ())" and
    4: "(case readValidityPeriod H False st3 of
          (st', Inl e) \<Rightarrow> (st', Inl (status_Error Unavailable ''cannot read the chain's ticketValidityPeriod''))
        | (st', Inr v) \<Rightarrow> (st', Inr v)) = (st4, Inr validity)" and
    5: "choose_session H req price funding st4 = (st5, Inr (se0, pred0, refreshed))" and
    6: "size_batch H req funding se0 st5 = (st6, Inr (n, ev))" and
    7: "roll_over H req price funding n se0 pred0 refreshed st6 = (st7, Inr (se, pred))" and
    8: "issue_payment H i fp (fundedValueWei funding) validity n ev se pred st7 = (st', Inr out)"
    by (simp only: perform_Inr reject_runs within_limit_Inr split_paired_Ex prod.case) (elim exE conjE, simp)
  have EV0: "session_EV se0 = fundedValueWei funding" using endsD [OF ends_choose 5] by simp
  note size = size_batch_exact [OF EV0 6]
  have EV: "session_EV se = fundedValueWei funding" using endsD [OF ends_roll_over [OF EV0] 7] by simp
  have "watermark w (pdb st) \<le> watermark w (pdb st7)" for w
  proof -
    have "pdb st1 = pdb st" "pdb st2 = pdb st1" "st3 = st2"
      using 1 2 3 by (auto simp: call_Inr ask_Inr yield_def fail_def split: option.splits)
    moreover have "watermark w (pdb st3) \<le> watermark w (pdb st4)"
      using 4 watermarks.keepsD [OF watermarks.keeps_validity [of H False], of st3]
      by (auto split: prod.splits sum.splits)
    moreover have "watermark w (pdb st4) \<le> watermark w (pdb st5)"
      using 5 watermarks.keepsD [OF watermarks.keeps_choose [of H req price funding], of st4] by simp
    moreover have "watermark w (pdb st6) \<le> watermark w (pdb st7)"
      using 7 watermarks.keepsD [OF watermarks.keeps_roll_over [of H req price funding n se0 pred0 refreshed], of st6] by simp
    ultimately show ?thesis using size by (metis order_trans)
  qed
  moreover have "good_session G se" if f: "fetch_good H G" and c: "cached_good G st" for G
  proof -
    have "cached st3 = cached st" using 1 2 3 by (auto simp: call_Inr ask_Inr yield_def fail_def split: option.splits)
    moreover have "cached st4 = cached st3" using 4 cached_readValidity [of H False st3] by (auto split: prod.splits sum.splits)
    ultimately have "cached_good G st4" using c by (simp add: cached_good_def)
    then have "cached_good G st5 \<and> good_session G se0" using tripleD [OF triple_choose [OF f] 5] by simp
    then show ?thesis using tripleD [OF triple_roll_over [OF f] 7] size by simp
  qed
  moreover have "later H (outside st) (outside st7)"
  proof -
    have "later H (outside st) (outside st2)"
      using travelsD [OF travels_call 1] travelsD [OF travels_ask 2] env_step.info env_step.rnd rtranclp_trans by metis
    moreover have "outside st3 = outside st2" using 3 by (auto simp: yield_def fail_def split: option.splits)
    moreover have "later H (outside st3) (outside st4)"
      using 4 travelsD [OF travels_validity [of H False], of st3] by (auto split: prod.splits sum.splits)
    ultimately show ?thesis
      using travelsD [OF travels_choose 5] travelsD [OF travels_roll_over 7] size by (metis rtranclp_trans)
  qed
  moreover obtain nonce sig rnd hash where "signed_run H (outside st7) (outside st') se nonce sig rnd hash (pr_payment_bytes out)"
    "out = payment_response (fundedValueWei funding) validity 1 ev se pred rnd (pr_payment_bytes out)"
    "store_configured H \<and> se_workID se \<noteq> [] \<longrightarrow>
       watermark (se_workID se) (pdb st7) < nonce \<and> nonce \<le> watermark (se_workID se) (pdb st')"
    using issue_payment_signs 8 size by metis
  moreover note signed_run_earlier [OF calculation(3) this(1)]
  ultimately show ?thesis using 0 EV size order_le_less_trans by blast
qed

section \<open>A minted payment\<close>

text \<open>A call that mints: its id is new and the account lacks something.\<close>

definition mints_shortfall :: "'w payer_env \<Rightarrow> CreatePaymentRequest \<Rightarrow> 'w payer \<Rightarrow> int \<Rightarrow> bool" where
  "mints_shortfall H req st shortfall \<longleftrightarrow>
     fmlookup (mint_tombstones (pdb st)) (MintKey (Address H) (TrimSpace (cp_mint_request_id req))) = None \<and>
     (\<exists>f target observed. cp_account_funding req = Some f \<and> af_target_available_wei f = Some target \<and>
        af_observed_available_wei f = Some observed \<and> shortfall = SetBytes target - SetBytes observed) \<and> 0 < shortfall"

lemma tombstone_check_stream:
  "check_stream H e st = (st1, Inr u) \<Longrightarrow>
     mint_tombstones (pdb st1) = mint_tombstones (pdb st) \<and> watermark w (pdb st1) = watermark w (pdb st) \<and> cached st1 = cached st"
  by (auto simp: check_stream_def ticket_stream_def step_runs ask_def on_db_Inr TicketStreamID_def db_update_def
      watermark_def Let_def split: if_splits option.splits prod.splits)

lemma reserve_mint_new:
  assumes "fmlookup (mint_tombstones (pdb st)) (MintKey (Address H) i) = None" "reserve_mint H err i fp st = (st', Inr prior)"
  shows "prior = None \<and> cached st' = cached st \<and> watermark w (pdb st') = watermark w (pdb st)"
  using assms by (auto simp: reserve_mint_def perform_def look_def ask_def on_db_def MintReserve_def db_update_def
      watermark_def Let_def split: prod.splits)

lemma accountShortfall_Inr:
  "accountShortfall (Some f) (Some m) = Inr s \<Longrightarrow> af_target_available_wei f = Some t \<Longrightarrow> af_observed_available_wei f = Some u \<Longrightarrow>
     s = (if SetBytes t \<le> SetBytes u then 0 else SetBytes t - SetBytes u)"
  by (auto simp: accountShortfall_def parseBigUInt_def Let_def split: if_splits)

lemma mint_payment_funds:
  assumes "mint_payment H req i fp st = (st', Inr out)"
    and "cp_account_funding req = Some f" "af_target_available_wei f = Some t" "af_observed_available_wei f = Some u"
    and "SetBytes u < SetBytes t"
  obtains price funding where "fund_shortfall H req i fp price funding st = (st', Inr out)"
    "fundedValueWei funding = SetBytes t - SetBytes u"
proof -
  obtain price funding shortfall where s: "accountShortfall (cp_account_funding req) (Some (fundedValueWei funding)) = Inr shortfall"
    and r: "(if shortfall = 0 then mint_nothing H req i fp
      else fund_shortfall H req i fp price (funding\<lparr>fundedValueWei := shortfall\<rparr>)) st = (st', Inr out)"
    using assms(1) by (simp only: mint_payment_def perform_Inr reject_runs result_Inr) (elim exE conjE, simp)
  have "shortfall = SetBytes t - SetBytes u" using accountShortfall_Inr [OF s [unfolded assms(2)] assms(3,4)] assms(5) by simp
  then show ?thesis using r assms(5) by (intro that [of price "funding\<lparr>fundedValueWei := shortfall\<rparr>"]) simp_all
qed

lemma CreatePayment_mints:
  assumes "CreatePayment H req st = (st', Inr out)" "mints_shortfall H req st shortfall"
  shows "\<exists>validity se pred nonce sig rnd hash.
    signed_run H (outside st) (outside st') se nonce sig rnd hash (pr_payment_bytes out) \<and>
    out = payment_response shortfall validity 1 shortfall se pred rnd (pr_payment_bytes out) \<and>
    session_EV se = shortfall \<and> \<not> exceeds (MaxPaymentWei (limits H)) (Some shortfall) \<and>
    (se_workID se \<noteq> [] \<longrightarrow> watermark (se_workID se) (pdb st) < nonce \<and> nonce \<le> watermark (se_workID se) (pdb st')) \<and>
    (\<forall>G. fetch_good H G \<longrightarrow> cached_good G st \<longrightarrow> good_session G se)"
proof (rule CreatePayment_runs [OF assms(1)])
  fix st1 st2 prior
  assume c: "check_stream H (cp_expected_ticket_stream_id req) st = (st1, Inr ())"
    and r: "reserve_mint H mint_refusal (TrimSpace (cp_mint_request_id req)) (MintFingerprint (payerwire H) req) st1 = (st2, Inr prior)"
    and m: "prior = None \<Longrightarrow>
       mint_payment H req (TrimSpace (cp_mint_request_id req)) (MintFingerprint (payerwire H) req) st2 = (st', Inr out)"
  obtain f t u where f: "cp_account_funding req = Some f" "af_target_available_wei f = Some t" "af_observed_available_wei f = Some u"
    "shortfall = SetBytes t - SetBytes u" "SetBytes u < SetBytes t"
    and new: "fmlookup (mint_tombstones (pdb st)) (MintKey (Address H) (TrimSpace (cp_mint_request_id req))) = None"
    using assms(2) by (auto simp: mints_shortfall_def)
  have new1: "fmlookup (mint_tombstones (pdb st1)) (MintKey (Address H) (TrimSpace (cp_mint_request_id req))) = None"
    using new tombstone_check_stream [OF c] by simp
  note same = reserve_mint_new [OF new1 r] tombstone_check_stream [OF c]
  obtain price funding where fund: "fund_shortfall H req (TrimSpace (cp_mint_request_id req)) (MintFingerprint (payerwire H) req)
      price funding st2 = (st', Inr out)" "fundedValueWei funding = shortfall"
    using mint_payment_funds [OF m f(1-3,5)] same f(4) by blast
  have "store_configured H" using assms(1) by (simp add: CreatePayment_def Let_def reject_runs)
  moreover have "watermark w (pdb st2) = watermark w (pdb st)" for w using same by metis
  moreover have "cached_good G st2 = cached_good G st" for G using same by (simp add: cached_good_def)
  moreover have "later H (outside st) (outside st2)"
    using travelsD [OF travels_check_stream c] travelsD [OF travels_reserve r] by (rule rtranclp_trans)
  ultimately show ?thesis
    using fund_shortfall_signs [OF fund(1)] unfolding fund(2)
    by (elim exE conjE) (intro exI conjI, erule (1) signed_run_earlier, assumption+, auto simp: CheckMint_def split: if_splits)
qed

text \<open>C5: a minted payment is worth exactly what the account lacks. When a call with a new mint id returns a
  payment, the payment consists of one ticket whose credited value, at the payee's face value and
  probability, is the target balance less the observed one; that amount is also what the response reports
  as expected, funded and missing, it is within the payer's own payment limit, and the ticket carries a
  nonce above every one used before for its work id. All of this holds whatever the payee and the chain
  answered on the way, including a rotation of the ticket session.\<close>

theorem minted_payment_is_exact:
  assumes "CreatePayment H req st = (st', Inr out)" "mints_shortfall H req st shortfall"
  shows "\<exists>se nonce sig rnd hash.
    signed_payment H se nonce sig rnd hash (pr_payment_bytes out) \<and> pr_tickets_created out = 1 \<and>
    CreditedEV (tp_FaceValue (se_ticketParams se)) (tp_WinProb (se_ticketParams se)) = shortfall \<and>
    map_option SetBytes (pr_expected_value out) = Some shortfall \<and>
    map_option SetBytes (pr_funded_value_wei out) = Some shortfall \<and>
    map_option SetBytes (pr_account_shortfall_wei out) = Some shortfall \<and>
    (\<forall>limit. MaxPaymentWei (limits H) = Some limit \<longrightarrow> shortfall \<le> limit) \<and> pr_work_id out = se_workID se \<and>
    (se_workID se \<noteq> [] \<longrightarrow> watermark (se_workID se) (pdb st) < nonce \<and> nonce \<le> watermark (se_workID se) (pdb st'))"
proof -
  have "0 < shortfall" using assms(2) by (simp add: mints_shortfall_def)
  obtain validity se pred nonce sig rnd hash where
    run: "signed_run H (outside st) (outside st') se nonce sig rnd hash (pr_payment_bytes out)" and
    m: "out = payment_response shortfall validity 1 shortfall se pred rnd (pr_payment_bytes out)"
    "session_EV se = shortfall" "\<not> exceeds (MaxPaymentWei (limits H)) (Some shortfall)"
    "se_workID se \<noteq> [] \<longrightarrow> watermark (se_workID se) (pdb st) < nonce \<and> nonce \<le> watermark (se_workID se) (pdb st')"
    using CreatePayment_mints [OF assms] by blast
  from m(1) have "pr_tickets_created out = 1" "pr_work_id out = se_workID se"
    "pr_expected_value out = Some (big_Bytes shortfall)" "pr_funded_value_wei out = Some (big_Bytes shortfall)"
    "pr_account_shortfall_wei out = Some (big_Bytes shortfall)"
    unfolding payment_response_def by (metis CreatePaymentResponse.select_convs of_nat_1)+
  with m(2-4) signed_run_payment [OF run] \<open>0 < shortfall\<close> show ?thesis
    by (intro exI [of _ se] exI [of _ nonce] exI [of _ sig] exI [of _ rnd] exI [of _ hash]) (auto simp: exceeds_def)
qed

theorem minted_payment_is_exact_witness:
  "\<exists>st out. CreatePayment sample_payer sample_pay_request sample_start = (st, Inr out) \<and>
     map_option SetBytes (pr_expected_value out) = Some 2"
proof -
  have "mints_shortfall sample_payer sample_pay_request sample_start 2"
    by (simp add: mints_shortfall_def sample_pay_request_def sample_start_empty SetBytes_def be_value_def)
  then show ?thesis using sample_mint minted_payment_is_exact [of sample_payer sample_pay_request sample_start] by blast
qed

end
