(* ===== verification/Receiver_Laws.thy ===== *)
theory Receiver_Laws
  imports Receiver_Wholesale
begin

text \<open>
  The payee's service: what ticket parameters are worth, what they disclose, what a payment is
  credited, that an admission can be retried, and that a frozen source takes nothing.
\<close>

section \<open>Checks before a handler's work\<close>

lemma reject_Inr [simp]: "reject bad e k s = (s', Inr r) \<longleftrightarrow> \<not> bad \<and> k s = (s', Inr r)"
  by (simp add: reject_def)

lemma gated_Inr [simp]:
  "gated k s = (s', Inr r) \<longleftrightarrow> requireUnfrozenSource s = Inr () \<and> k s = (s', Inr r)"
  by (simp add: gated_def split: sum.split)

section \<open>Ticket values\<close>

lemma winProb_ceil: "winProbForExactEV face target = ceil_quo (target * MaxWinProb) face"
  by (simp add: winProbForExactEV_def ceil_quo_def Let_def)

lemma le_div_iff_int: "0 < b \<Longrightarrow> e \<le> a div b \<longleftrightarrow> e * b \<le> a" for a b e :: int
proof
  assume b: "0 < b" and "e \<le> a div b"
  then have "e * b \<le> a div b * b" by simp
  also have "\<dots> \<le> a" using b by (simp add: div_mult_mod_eq pos_mod_sign minus_mod_eq_div_mult [symmetric])
  finally show "e * b \<le> a" .
next
  assume b: "0 < b" and "e * b \<le> a"
  then have "e * b div b \<le> a div b" by (intro zdiv_mono1)
  then show "e \<le> a div b" using b by simp
qed

lemma CreditedEV_ge_iff:
  assumes "0 \<le> face" "0 \<le> q"
  shows "ev \<le> CreditedEV (Some face) (Some q) \<longleftrightarrow> ev * MaxWinProb \<le> face * q"
  using assms MaxWinProb_pos by (simp add: CreditedEV_def le_div_iff_int)

lemma winProb_le_iff:
  "0 < face \<Longrightarrow> 0 \<le> ev \<Longrightarrow> winProbForExactEV face ev \<le> q \<longleftrightarrow> ev * MaxWinProb \<le> face * q"
  using ceil_quo_le_iff [of "ev * MaxWinProb" face q] MaxWinProb_pos by (simp add: winProb_ceil mult.commute)

lemma winProb_exact:
  assumes "0 < ev" "ev \<le> face" "face \<le> MaxWinProb"
  shows "0 < winProbForExactEV face ev" "winProbForExactEV face ev \<le> MaxWinProb"
    "CreditedEV (Some face) (Some (winProbForExactEV face ev)) = ev"
proof -
  let ?p = "winProbForExactEV face ev"
  have f: "0 < face" "0 \<le> ev" using assms by simp_all
  have "\<not> ?p \<le> 0" using assms(1) MaxWinProb_pos by (simp add: winProb_le_iff [OF f] not_le)
  then show p: "0 < ?p" by simp
  show "?p \<le> MaxWinProb" using assms MaxWinProb_pos by (simp add: winProb_le_iff [OF f] mult_right_mono)
  have ge: "ev \<le> CreditedEV (Some face) (Some ?p)"
    using p f winProb_le_iff [OF f, of ?p] by (simp add: CreditedEV_ge_iff)
  have "face * (?p - 1) < ev * MaxWinProb" using winProb_le_iff [OF f, of "?p - 1"] by simp
  then have "face * ?p < ev * MaxWinProb + face" by (simp add: right_diff_distrib)
  then have "\<not> (ev + 1) * MaxWinProb \<le> face * ?p" using assms(3) by (simp add: distrib_right)
  then have "\<not> ev + 1 \<le> CreditedEV (Some face) (Some ?p)" using p f by (simp add: CreditedEV_ge_iff)
  with ge show "CreditedEV (Some face) (Some ?p) = ev" by linarith
qed

lemma GetOrCreate_indexed:
  "GetOrCreateTicketSession key seed now s = (s', Inr (sess, b)) \<Longrightarrow> TicketSessionFor key s' = Some sess"
  by (auto simp: GetOrCreateTicketSession_def TicketSessionFor_def db_update_def Let_def
      split: if_splits option.splits)

lemma issue_params_Inr:
  assumes "issue_params E svc req oev pre sess s = (s', Inr resp)"
  obtains rand face prob where "s' = s" "SetString (ss_RecipientRand sess) = Some rand"
    "pb_recipient_rand_hash (the (gr_ticket_params resp)) = HashRecipientRand E (Some rand)"
    "pb_seed (the (gr_ticket_params resp)) = LeftPadBytes E (big_Bytes rand) 32"
    "pb_face_value (the (gr_ticket_params resp)) = big_Bytes face" "pb_win_prob (the (gr_ticket_params resp)) = big_Bytes prob"
    "\<And>ev. oev = Some ev \<Longrightarrow> (face, prob) = quote_for svc ev" "gr_ticket_params resp \<noteq> None"
proof -
  obtain rand face prob where "SetString (ss_RecipientRand sess) = Some rand"
    and q: "\<And>ev. oev = Some ev \<Longrightarrow> (face, prob) = quote_for svc ev" and
    "(s, Inr \<lparr>gr_wholesale_account_id = gp_wholesale_account_id req, gr_ticket_stream_id = gp_ticket_stream_id req,
       gr_isolation_version = 1, gr_predecessor_work_id = pre, gr_highest_seen_nonce = fst (HighestSenderNonce (Some rand) s),
       gr_has_seen_nonces = snd (HighestSenderNonce (Some rand) s), gr_ticket_params = Some
         \<lparr>pb_recipient = recipient svc, pb_face_value = big_Bytes face, pb_win_prob = big_Bytes prob,
          pb_recipient_rand_hash = HashRecipientRand E (Some rand), pb_seed = LeftPadBytes E (big_Bytes rand) 32,
          pb_expiration_block = [], pb_expiration_params = None\<rparr>\<rparr>) = (s', Inr resp)"
    using assms by (auto simp: issue_params_def case_prod_beta split: option.splits)
  then show ?thesis by (intro that [of rand face prob]) auto
qed

lemma GetTicketParams_Inr:
  assumes "GetTicketParams E svc req random now s = (s', Inr resp)"
  obtains sess pre where "TicketSessionFor (tuple_of svc req) s' = Some sess"
    "issue_params E svc req (if gp_face_value req = [] then None else Some (SetBytes (gp_face_value req))) pre sess s' =
       (s', Inr resp)"
    "gp_face_value req \<noteq> [] \<Longrightarrow> 0 < SetBytes (gp_face_value req) \<and>
       quote_ok (SetBytes (gp_face_value req)) (quote_for svc (SetBytes (gp_face_value req)))"
proof -
  let ?oev = "if gp_face_value req = [] then None else Some (SetBytes (gp_face_value req))"
  obtain s1 pre seed sess s2 b where "GetOrCreateTicketSession (tuple_of svc req) seed now s1 = (s2, Inr (sess, b))"
    and i: "issue_params E svc req ?oev pre sess s2 = (s', Inr resp)"
    and g: "gp_face_value req \<noteq> [] \<Longrightarrow> 0 < SetBytes (gp_face_value req) \<and>
       quote_ok (SetBytes (gp_face_value req)) (quote_for svc (SetBytes (gp_face_value req)))"
    using assms by (auto simp: GetTicketParams_def Let_def split: prod.splits sum.splits if_splits)
  moreover have "s' = s2" using i by (rule issue_params_Inr)
  ultimately show ?thesis using that GetOrCreate_indexed by metis
qed

text \<open>C16: parameters issued for a target value are worth exactly that. For a positive target that, like
  the default face value, fits in 256 bits, the quoted win probability is in range, a ticket with the
  quoted terms is credited exactly the target, the face value is never below the default, and no
  smaller probability would do; so the quote is never refused. Whatever the target, parameters that
  \<open>GetTicketParams\<close> does hand out for it are credited exactly it.\<close>

theorem target_value_is_exact:
  assumes "0 < ev" "ev \<le> MaxWinProb" "0 < defaultFaceValue svc" "defaultFaceValue svc \<le> MaxWinProb"
  shows "quote_ok ev (quote_for svc ev) \<and> defaultFaceValue svc \<le> fst (quote_for svc ev) \<and>
    (0 \<le> q \<longrightarrow> ev \<le> CreditedEV (Some (fst (quote_for svc ev))) (Some q) \<longrightarrow> snd (quote_for svc ev) \<le> q) \<and>
    (GetTicketParams E svc req random now s = (s', Inr resp) \<longrightarrow> gp_face_value req \<noteq> [] \<longrightarrow>
       gr_ticket_params resp \<noteq> None \<and>
       CreditedEV (Some (SetBytes (pb_face_value (the (gr_ticket_params resp)))))
                  (Some (SetBytes (pb_win_prob (the (gr_ticket_params resp))))) = SetBytes (gp_face_value req))"
proof -
  have f: "0 < fst (quote_for svc ev)" "fst (quote_for svc ev) \<le> MaxWinProb" "ev \<le> fst (quote_for svc ev)"
    "snd (quote_for svc ev) = winProbForExactEV (fst (quote_for svc ev)) ev"
    "defaultFaceValue svc \<le> fst (quote_for svc ev)"
    using assms by (auto simp: quote_for_def Let_def)
  have "quote_ok ev (quote_for svc ev)"
    using winProb_exact [OF assms(1) f(3,2)] f(4) by (simp add: quote_ok_def case_prod_beta)
  moreover have "snd (quote_for svc ev) \<le> q" if "0 \<le> q" "ev \<le> CreditedEV (Some (fst (quote_for svc ev))) (Some q)"
    using that f assms(1) by (simp add: CreditedEV_ge_iff winProb_le_iff)
  moreover have "gr_ticket_params resp \<noteq> None \<and> CreditedEV (Some (SetBytes (pb_face_value (the (gr_ticket_params resp)))))
        (Some (SetBytes (pb_win_prob (the (gr_ticket_params resp))))) = SetBytes (gp_face_value req)"
    if g: "GetTicketParams E svc req random now s = (s', Inr resp)" and n: "gp_face_value req \<noteq> []"
  proof -
    let ?ev = "SetBytes (gp_face_value req)"
    from g obtain sess pre where
      i: "issue_params E svc req (Some ?ev) pre sess s' = (s', Inr resp)"
      and q: "0 < ?ev" "quote_ok ?ev (quote_for svc ?ev)"
      by (rule GetTicketParams_Inr) (use n in simp)
    from i obtain face prob where
      "pb_face_value (the (gr_ticket_params resp)) = big_Bytes face" "pb_win_prob (the (gr_ticket_params resp)) = big_Bytes prob"
      "(face, prob) = quote_for svc ?ev" "gr_ticket_params resp \<noteq> None" by (rule issue_params_Inr) simp
    moreover from this(3) have "0 < face" using q(1) by (auto simp: quote_for_def Let_def split: if_splits)
    ultimately show ?thesis using q(2) by (auto simp: quote_ok_def simp flip: \<open>(face, prob) = _\<close>)
  qed
  ultimately show ?thesis using f(5) by blast
qed

section \<open>The default terms\<close>

text \<open>A payee never issues tickets that are worth nothing. Whatever face value the operator
  configures, the service starts with a default face value at which a ticket with the default win
  probability is credited at least one wei, and it raises the configured value only when a lower one
  would be credited nothing.\<close>

theorem default_terms_credit_a_wei:
  assumes "Receiver_New cfg random s = Some (s', svc)" "0 < defaultWinProb svc"
  shows "1 \<le> CreditedEV (Some (defaultFaceValue svc)) (Some (defaultWinProb svc)) \<and>
    (0 \<le> f \<longrightarrow> cf_DefaultFaceValue cfg = Some f \<longrightarrow> defaultFaceValue svc \<noteq> f \<longrightarrow>
       CreditedEV (Some f) (Some (defaultWinProb svc)) < 1)"
proof -
  let ?w = "defaultWinProb svc"
  let ?m = "ceil_quo MaxWinProb ?w"
  have le: "?m \<le> x \<longleftrightarrow> MaxWinProb \<le> x * ?w" for x
    using ceil_quo_le_iff [of MaxWinProb ?w x] assms(2) MaxWinProb_pos by simp
  have "\<not> ?m \<le> 0" unfolding le using MaxWinProb_pos by (simp add: not_le)
  then have m: "minimum_face ?w = Some ?m" using assms(2) by (simp add: minimum_face_def ceil_quo_def Let_def)
  define g where "g = (case cf_DefaultFaceValue cfg of None \<Rightarrow> 10 ^ 15 | Some f \<Rightarrow> f)"
  have d: "defaultFaceValue svc = (if g < ?m then ?m else g)"
    using assms(1) m unfolding g_def
    by (auto simp: Receiver_New_def Let_def split: prod.splits option.splits)
  then have "?m \<le> defaultFaceValue svc" by simp
  then have "1 * MaxWinProb \<le> defaultFaceValue svc * ?w" "0 \<le> defaultFaceValue svc"
    using le [of "defaultFaceValue svc"] \<open>\<not> ?m \<le> 0\<close> by simp_all
  then have "1 \<le> CreditedEV (Some (defaultFaceValue svc)) (Some ?w)"
    using assms(2) by (subst CreditedEV_ge_iff) simp_all
  moreover have "CreditedEV (Some f) (Some ?w) < 1"
    if "0 \<le> f" "cf_DefaultFaceValue cfg = Some f" "defaultFaceValue svc \<noteq> f"
  proof -
    have "\<not> ?m \<le> f" using that d by (simp add: g_def split: if_splits)
    then have "\<not> 1 \<le> CreditedEV (Some f) (Some ?w)" using that(1) assms(2) by (simp add: CreditedEV_ge_iff le)
    then show ?thesis by simp
  qed
  ultimately show ?thesis by blast
qed

section \<open>What ticket parameters disclose\<close>

text \<open>C36: the seed that travels with ticket parameters is the recipient's secret. Parameters are only
  issued from the session that is indexed for the tuple, and for a secret of 256 bits their seed, read
  as a number, is that session's recipient rand: the hash in the same message is its hash, and
  everybody who has the message can tell, for every ticket and signature, whether it wins.\<close>

theorem issued_seed_is_the_secret:
  assumes "GetTicketParams E svc req random now s = (s', Inr resp)" "zero_padding (LeftPadBytes E)"
  shows "\<exists>sess rand. TicketSessionFor (tuple_of svc req) s' = Some sess \<and>
    SetString (ss_RecipientRand sess) = Some rand \<and> gr_ticket_params resp \<noteq> None \<and>
    pb_recipient_rand_hash (the (gr_ticket_params resp)) = HashRecipientRand E (Some rand) \<and>
    (0 \<le> rand \<longrightarrow> rand < 2 ^ 256 \<longrightarrow>
       SetBytes (pb_seed (the (gr_ticket_params resp))) = rand \<and>
       IsWinning E t sig (Some (SetBytes (pb_seed (the (gr_ticket_params resp))))) = IsWinning E t sig (Some rand))"
proof -
  from GetTicketParams_Inr [OF assms(1)] obtain sess pre where
    t: "TicketSessionFor (tuple_of svc req) s' = Some sess" and
    i: "issue_params E svc req (if gp_face_value req = [] then None else Some (SetBytes (gp_face_value req))) pre sess s' =
       (s', Inr resp)" .
  from i obtain rand where r: "SetString (ss_RecipientRand sess) = Some rand"
    "pb_recipient_rand_hash (the (gr_ticket_params resp)) = HashRecipientRand E (Some rand)"
    "pb_seed (the (gr_ticket_params resp)) = LeftPadBytes E (big_Bytes rand) 32" "gr_ticket_params resp \<noteq> None"
    by (rule issue_params_Inr)
  have "SetBytes (pb_seed (the (gr_ticket_params resp))) = rand" if "0 \<le> rand" "rand < 2 ^ 256"
    using zero_padding.SetBytes_pad_big [OF assms(2), of rand 32] that by (simp add: r(3) pow256)
  then show ?thesis using t r by auto
qed

section \<open>Crediting a payment\<close>

definition accepted :: "TicketStatus list \<Rightarrow> TicketStatus list" where
  "accepted sts = filter (\<lambda>st. ts_rejection_reason st = REASON_UNSPECIFIED) sts"

lemma accepted_append [simp]: "accepted (xs @ ys) = accepted xs @ accepted ys"
  by (simp add: accepted_def)

lemma accepted_Nil [simp]: "accepted [] = []"
  by (simp add: accepted_def)

text \<open>The face value a payment's tickets are credited.\<close>

definition ticket_credit :: "pb_TicketParams \<Rightarrow> int" where
  "ticket_credit tp = CreditedEV (Some (SetBytes (pb_face_value tp))) (Some (SetBytes (pb_win_prob tp)))"

lemma Enqueue_frame:
  assumes "EnqueueRedemption h t s = (s', r)"
  shows "sessions s' = sessions s" "nonces s' = nonces s"
  using assms by (auto simp: EnqueueRedemption_def enqueueRedemption_def db_update_def Let_def
      split: option.splits if_splits sum.splits prod.splits)

lemma credit_step:
  assumes "credit_loop E svc pay tp sess rand now (tsp # tsps) (c, w, sts) s = (s', Inr r)"
  obtains (refused) reason where "reason \<noteq> REASON_UNSPECIFIED"
      "credit_loop E svc pay tp sess rand now tsps
         (c, w, sts @ [(ticket_status (sp_SenderNonce tsp))\<lparr>ts_rejection_reason := reason\<rparr>]) s = (s', Inr r)"
  | (stopped) b where "ResetTicketSessionIfCurrent (session_tuple svc sess) (ss_WorkID sess) now s = (s', Inr b)"
      "r = (c, w, sts @ [(ticket_status (sp_SenderNonce tsp))\<lparr>ts_rejection_reason := INVALID_RECIPIENT_RAND\<rparr>])"
  | (credited) w1 st s1 where "Validate E (recipient svc) (payment_ticket pay tp tsp) (sp_Sig tsp) (Some rand) = None"
      "\<not> NonceSeen (Some rand) (sp_SenderNonce tsp) s" "sessions s1 = sessions s"
      "nonces s1 = fmupd (nonceKey (Some rand) (sp_SenderNonce tsp)) [byte_of_nat 1] (nonces s)"
      "ts_rejection_reason st = REASON_UNSPECIFIED" "ts_sender_nonce st = sp_SenderNonce tsp"
      "credit_loop E svc pay tp sess rand now tsps (c + ticket_credit tp, w1, sts @ [st]) s1 = (s', Inr r)"
proof (cases "Validate E (recipient svc) (payment_ticket pay tp tsp) (sp_Sig tsp) (Some rand)")
  case (Some err)
  have "validationErrorReason err \<noteq> REASON_UNSPECIFIED" by (simp add: validationErrorReason_def split: validator_error.split)
  then show ?thesis using assms Some refused by simp
next
  case None
  let ?n = "sp_SenderNonce tsp"
  consider "NonceSeen (Some rand) ?n s" | "\<not> NonceSeen (Some rand) ?n s" "MaxSenderNonces \<le> NonceCount (Some rand) s"
    | "\<not> NonceSeen (Some rand) ?n s" "\<not> MaxSenderNonces \<le> NonceCount (Some rand) s" by blast
  then show ?thesis
  proof cases
    case 1
    then show ?thesis using assms None refused [of NONCE_REPLAY] by (simp add: RecordNonce_cases errors_Is_def)
  next
    case 2
    then show ?thesis
      using assms None stopped by (auto simp: RecordNonce_cases errors_Is_def split: prod.splits sum.splits)
  next
    case 3
    let ?s1 = "s\<lparr>nonces := fmupd (nonceKey (Some rand) ?n) [byte_of_nat 1] (nonces s)\<rparr>"
    have ev: "CreditedEV (FaceValue (payment_ticket pay tp tsp)) (WinProb (payment_ticket pay tp tsp)) = ticket_credit tp"
      by (simp add: payment_ticket_def ticket_credit_def)
    show ?thesis
    proof (cases "IsWinning E (payment_ticket pay tp tsp) (sp_Sig tsp) (Some rand) = Some True")
      case True
      obtain s2 q where e: "EnqueueRedemption (Ticket_Hash E (payment_ticket pay tp tsp))
          (Some (winning_ticket (payment_ticket pay tp tsp) (sp_Sig tsp) rand)) ?s1 = (s2, q)" by fastforce
      have f: "sessions s2 = sessions s" "nonces s2 = nonces ?s1" using Enqueue_frame [OF e] by simp_all
      let ?st = "(ticket_status ?n)\<lparr>ts_credited_ev := big_Bytes (ticket_credit tp), ts_was_winning := True\<rparr>"
      obtain w1 where "credit_loop E svc pay tp sess rand now tsps (c + ticket_credit tp, w1, sts @ [?st]) s2 = (s', Inr r)"
        using assms None 3 True e by (cases q) (auto simp: RecordNonce_cases Let_def ev)
      from credited [OF None 3(1) f(1) _ _ _ this] show ?thesis by (simp add: ticket_status_def f(2))
    next
      case False
      let ?st = "(ticket_status ?n)\<lparr>ts_credited_ev := big_Bytes (ticket_credit tp)\<rparr>"
      have "credit_loop E svc pay tp sess rand now tsps (c + ticket_credit tp, w, sts @ [?st]) ?s1 = (s', Inr r)"
        using assms None 3 False by (simp add: RecordNonce_cases Let_def ev)
      from credited [OF None 3(1) _ _ _ _ this] show ?thesis by (simp add: ticket_status_def)
    qed
  qed
qed

lemma ResetIf_balance:
  assumes "ResetTicketSessionIfCurrent key w now s = (s', r)"
  shows "GetBalance a v s' = GetBalance a v s"
  using assms
  by (auto simp: ResetTicketSessionIfCurrent_def retireIndexedSession_def db_update_def GetBalance_def Store_Get_def
      Let_def split: if_splits option.splits)

text \<open>What the loop over the tickets adds to the accumulator, and what it leaves alone.\<close>

definition credits_exactly ::
  "eth \<Rightarrow> Service \<Rightarrow> pb_Payment \<Rightarrow> pb_TicketParams \<Rightarrow> int \<Rightarrow> store \<Rightarrow> TicketSenderParams list \<Rightarrow> int \<Rightarrow>
   TicketStatus list \<Rightarrow> bool" where
  "credits_exactly E svc pay tp rand s tsps credit new \<longleftrightarrow>
     credit = int (length (accepted new)) * ticket_credit tp \<and>
     distinct (map ts_sender_nonce (accepted new)) \<and>
     (\<forall>st \<in> set (accepted new). \<not> NonceSeen (Some rand) (ts_sender_nonce st) s \<and>
        (\<exists>tsp \<in> set tsps. sp_SenderNonce tsp = ts_sender_nonce st \<and>
           Validate E (recipient svc) (payment_ticket pay tp tsp) (sp_Sig tsp) (Some rand) = None))"

lemma credits_exactly_refused:
  assumes "credits_exactly E svc pay tp rand s tsps credit new" "ts_rejection_reason st \<noteq> REASON_UNSPECIFIED"
  shows "credits_exactly E svc pay tp rand s (tsp # tsps) credit (st # new)"
  using assms by (auto simp: credits_exactly_def accepted_def)

lemma credits_exactly_credited:
  assumes "credits_exactly E svc pay tp rand s1 tsps credit new" "ts_rejection_reason st = REASON_UNSPECIFIED"
    and "nonces s1 = fmupd (nonceKey (Some rand) (sp_SenderNonce tsp)) [byte_of_nat 1] (nonces s)"
    and "ts_sender_nonce st = sp_SenderNonce tsp" "\<not> NonceSeen (Some rand) (sp_SenderNonce tsp) s"
    and "Validate E (recipient svc) (payment_ticket pay tp tsp) (sp_Sig tsp) (Some rand) = None"
  shows "credits_exactly E svc pay tp rand s (tsp # tsps) (ticket_credit tp + credit) (st # new)"
proof -
  have seen: "NonceSeen (Some rand) n s1 \<longleftrightarrow> n = sp_SenderNonce tsp \<or> NonceSeen (Some rand) n s" for n
    using assms(3) by (auto simp: NonceSeen_def nonceKey_eq_iff)
  have "sp_SenderNonce tsp \<notin> ts_sender_nonce ` set (accepted new)"
    using assms(1) seen by (auto simp: credits_exactly_def)
  then show ?thesis
    using assms seen by (auto simp: credits_exactly_def accepted_def distrib_right)
qed

lemma credit_loop_exact:
  assumes "credit_loop E svc pay tp sess rand now tsps (c, w, sts) s = (s', Inr (c', w', sts'))"
  shows "\<exists>new. sts' = sts @ new \<and> credits_exactly E svc pay tp rand s tsps (c' - c) new \<and>
    (\<forall>a v. GetBalance a v s' = GetBalance a v s)"
  using assms
proof (induction tsps arbitrary: c w sts s)
  case Nil
  then show ?case by (auto simp: credits_exactly_def)
next
  case (Cons tsp tsps)
  from Cons.prems show ?case
  proof (cases rule: credit_step)
    case (refused reason)
    from Cons.IH [OF refused(2)] credits_exactly_refused [of E svc pay tp rand s tsps "c' - c"] refused(1)
    show ?thesis by (metis (no_types, lifting) append.assoc append_Cons append_Nil TicketStatus.select_convs(2)
          TicketStatus.surjective TicketStatus.update_convs(2))
  next
    case (stopped b)
    have "credits_exactly E svc pay tp rand s (tsp # tsps) 0
        [(ticket_status (sp_SenderNonce tsp))\<lparr>ts_rejection_reason := INVALID_RECIPIENT_RAND\<rparr>]"
      by (simp add: credits_exactly_def accepted_def)
    then show ?thesis using stopped ResetIf_balance [OF stopped(1)] by auto
  next
    case (credited w1 st s1)
    from Cons.IH [OF credited(7)] obtain new where
      n: "sts' = (sts @ [st]) @ new" "credits_exactly E svc pay tp rand s1 tsps (c' - (c + ticket_credit tp)) new"
      "\<forall>a v. GetBalance a v s' = GetBalance a v s1" by blast
    from credits_exactly_credited [OF n(2) credited(5,4,6,2,1)]
    have "credits_exactly E svc pay tp rand s (tsp # tsps) (c' - c) (st # new)" by simp
    moreover have "GetBalance a v s1 = GetBalance a v s" for a v
      using credited(3) by (simp add: GetBalance_def Store_Get_def)
    ultimately show ?thesis using n(1,3) by auto
  qed
qed

lemma refused_closed_credits [simp]:
  "pp_credited_ev (refused_closed pay sess) = []" "accepted (pp_ticket_status (refused_closed pay sess)) = []"
  by (simp_all add: refused_closed_def Let_def case_prod_beta accepted_def filter_empty_conv)

lemma CreditBalance_Inr:
  assumes "CreditBalance a v (Some credit) s = (s', Inr b)"
  shows "\<exists>old. GetBalance a v s = Inr old \<and> GetBalance a v s' = Inr (old + credit)"
  using assms by (auto simp: CreditBalance_def mutate_def db_update_def GetBalance_def Store_Get_def Let_def
      split: option.splits)

text \<open>C3: a payment is credited exactly its acceptable tickets. When a payment is processed for a session
  with a recipient secret, a closed session takes nothing from it and credits nothing. Otherwise the
  session's balance rises by the number of tickets reported as accepted times the value of one; those
  tickets carry valid signatures for this payee and secret, and nonces that are different from one
  another and from every nonce seen before, so that nothing is credited twice.\<close>

theorem payment_credit_is_exact:
  assumes "processPayment E C svc w b now s = (s', Inr resp)" "Unmarshal_Payment C b = Some pay"
    and "pb_ticket_params pay = Some tp" "SealSender w (pb_sender pay) s = (s1, Inr ())"
    and "Store_Get (pb_sender pay) w s1 = Inr sess" "SetString (ss_RecipientRand sess) = Some rand"
  shows "if ss_Closed sess
    then s' = s1 \<and> pp_credited_ev resp = [] \<and> accepted (pp_ticket_status resp) = []
    else \<exists>credit balance.
      credits_exactly E svc pay tp rand s1 (pb_ticket_sender_params pay) credit (pp_ticket_status resp) \<and>
      SetBytes (pp_credited_ev resp) = \<bar>credit\<bar> \<and>
      GetBalance (pb_sender pay) w s1 = Inr balance \<and> GetBalance (pb_sender pay) w s' = Inr (balance + credit)"
proof (cases "ss_Closed sess")
  case True
  then show ?thesis using assms by (auto simp: processPayment_def split: if_splits)
next
  case False
  have "ss_RecipientRand sess \<noteq> []" using assms(6) by auto
  then have "credit_payment E svc w pay sess (Some rand) now s1 = (s', Inr resp)"
    using assms False by (auto simp: processPayment_def Let_def split: if_splits option.splits)
  then obtain s2 credit wn sts where
    v: "validateAndCredit E svc pay tp sess rand now s1 = (s2, Inr (credit, wn, sts))"
    and r: "pp_ticket_status resp = sts" "pp_credited_ev resp = big_Bytes credit"
    and c: "\<exists>bal. CreditBalance (pb_sender pay) w (Some credit) s2 = (s', Inr bal)"
    using assms(3) by (auto simp: credit_payment_def Let_def split: prod.splits sum.splits)
  from credit_loop_exact [OF v [unfolded validateAndCredit_def]]
  have x: "credits_exactly E svc pay tp rand s1 (pb_ticket_sender_params pay) credit sts"
    "GetBalance (pb_sender pay) w s2 = GetBalance (pb_sender pay) w s1" by auto
  from c CreditBalance_Inr obtain old where
    "GetBalance (pb_sender pay) w s2 = Inr old" "GetBalance (pb_sender pay) w s' = Inr (old + credit)" by blast
  with x r False show ?thesis by auto
qed

section \<open>A frozen source\<close>

definition frozen :: "store \<Rightarrow> bool" where
  "frozen s \<longleftrightarrow> (\<exists>f. source_fence s = Some (Some f) \<and> \<not> fence_invalid f)"

lemma frozen_gate:
  "frozen s \<Longrightarrow> gated k s = (s, Inl (admissionFailure ''RECEIVER_SOURCE_FROZEN''
     ''receiver source permanently frozen for retirement''))"
  by (auto simp: frozen_def gated_def requireUnfrozenSource_def Store_SourceFence_def fence_invalid_def)

lemma freeze_freezes:
  assumes "FreezeRevenueSource svc d reason now s = (s', Inr st)"
  shows "frozen s'"
proof -
  obtain f where f: "FreezeSource reason now s = (s', Inr f)" and "\<exists>x. Store_SourceFence s' = Inr x"
    using assms by (auto simp: FreezeRevenueSource_def GetRevenueSourceStatus_def split: prod.splits sum.splits if_splits)
  then show ?thesis
    by (auto simp: frozen_def FreezeSource_def db_update_def Store_SourceFence_def Let_def split: if_splits option.splits)
qed

text \<open>Every handler that takes on new work or money, with whatever request.\<close>

datatype gated_call =
    CallOpenSession OpenSessionRequest bytes time
  | CallProcessPayment string bytes time
  | CallDebitBalance bytes string int uint64
  | CallCloseSession bytes string time
  | CallResetSession bytes bytes string string string string time
  | CallGetTicketParams GetTicketParamsRequest bytes time
  | CallFund FundWholesaleAccountRequest time
  | CallAdmit AdmitAuthorizationRequest time time
  | CallAdvance AdvanceAuthorizationRequest time time

primrec call_result :: "eth \<Rightarrow> codec \<Rightarrow> Service \<Rightarrow> gated_call \<Rightarrow> store \<Rightarrow> store \<times> rpc_error option" where
  "call_result E C svc (CallOpenSession req r now) s =
     map_prod id (case_sum Some (\<lambda>_. None)) (Receiver_OpenSession svc req r now s)"
| "call_result E C svc (CallProcessPayment w b now) s =
     map_prod id (case_sum Some (\<lambda>_. None)) (ProcessPayment E C svc w b now s)"
| "call_result E C svc (CallDebitBalance a w u q) s =
     map_prod id (case_sum Some (\<lambda>_. None)) (Receiver_DebitBalance a w u q s)"
| "call_result E C svc (CallCloseSession a w now) s =
     map_prod id (case_sum Some (\<lambda>_. None)) (Receiver_CloseSession a w now s)"
| "call_result E C svc (CallResetSession a g cap off acc str now) s =
     map_prod id (case_sum Some (\<lambda>_. None)) (ResetSession svc a g cap off acc str now s)"
| "call_result E C svc (CallGetTicketParams req r now) s =
     map_prod id (case_sum Some (\<lambda>_. None)) (GetTicketParams E svc req r now s)"
| "call_result E C svc (CallFund req now) s =
     map_prod id (case_sum Some (\<lambda>_. None)) (FundWholesaleAccount E C svc req now s)"
| "call_result E C svc (CallAdmit req now later) s =
     map_prod id (case_sum Some (\<lambda>_. None)) (admitAuthorization E C svc req now later s)"
| "call_result E C svc (CallAdvance req now later) s =
     map_prod id (case_sum Some (\<lambda>_. None)) (AdvanceAuthorization E C svc req now later s)"

text \<open>C24: a frozen source takes nothing more. Once the fence has been set, every call that opens a
  session, takes a payment, bills work, closes or rotates a session, issues ticket parameters, funds
  an account, or admits or advances an authorization, with whatever arguments, is refused and leaves
  the ledger exactly as it was; the refusal is the frozen one, or the one for a missing account id
  that two of the calls check first.\<close>

theorem frozen_source_takes_nothing:
  assumes "FreezeRevenueSource svc d reason now s = (s', Inr st)"
  shows "\<exists>e. call_result E C svc call s' = (s', Some e) \<and>
    (rpc_Reason e = ''RECEIVER_SOURCE_FROZEN'' \<or> rpc_Message e = ''wholesale_account_id is required'')"
  using freeze_freezes [OF assms]
  by (cases call)
    (simp_all add: frozen_gate Receiver_OpenSession_def ProcessPayment_def Receiver_DebitBalance_def Receiver_CloseSession_def
      ResetSession_def GetTicketParams_def FundWholesaleAccount_def admitAuthorization_def AdvanceAuthorization_def
      reject_def admissionFailure_def admissionStatus_def status_Error_def)

section \<open>Sample calls\<close>

definition sample_service :: Service where
  "sample_service = \<lparr>recipient = replicate 20 (CHR ''r''), chainID = 1, settlementDomainID = ''d'',
     settlementDomainErr = False, defaultFaceValue = 9, defaultWinProb = 1, RevenueReporter = None\<rparr>"

definition sample_request :: GetTicketParamsRequest where
  "sample_request = \<lparr>gp_wholesale_account_id = ''acct'', gp_ticket_stream_id = ''strm'',
     gp_sender = replicate 20 (CHR ''s''), gp_recipient = [], gp_capability = ''c'', gp_offering = ''o'',
     gp_face_value = [CHR 0x05]\<rparr>"

lemma sample_params: "\<exists>s' resp. GetTicketParams sample_eth sample_service sample_request ''r'' 1 Open = (s', Inr resp)"
proof -
  have e: "SetBytes [CHR 0x05] = 5" by (simp add: SetBytes_def be_value_def)
  have q: "quote_ok 5 (quote_for sample_service 5)"
    using winProb_exact [of 5 9] by (simp add: quote_ok_def quote_for_def sample_service_def MaxWinProb_def)
  have w: "HashRecipientRand sample_eth x \<noteq> []" for x
    by (auto simp: HashRecipientRand_def sample_eth_def leftPad_def uint256Size_def)
  show ?thesis
    by (simp add: GetTicketParams_def reject_def gated_def requireUnfrozenSource_def Store_SourceFence_def
        ValidWholesaleAccountID_def byte_in_def sample_request_def e q w recipient_mismatch_def
        rotate_exhausted_def TicketSessionFor_def GetOrCreateTicketSession_def db_update_def issue_params_def
        Let_def case_prod_beta zero_Session_def zero_SourceFence_def Open_def split: option.split)
qed

theorem target_value_is_exact_witness:
  "\<exists>s' resp. GetTicketParams sample_eth sample_service sample_request ''r'' 1 Open = (s', Inr resp) \<and>
     CreditedEV (Some (SetBytes (pb_face_value (the (gr_ticket_params resp)))))
       (Some (SetBytes (pb_win_prob (the (gr_ticket_params resp))))) = SetBytes (gp_face_value sample_request)"
proof -
  obtain s' resp where "GetTicketParams sample_eth sample_service sample_request ''r'' 1 Open = (s', Inr resp)"
    using sample_params by blast
  then show ?thesis
    using target_value_is_exact [of 5 sample_service 0 sample_eth sample_request "''r''" 1 Open s' resp]
    by (simp add: sample_service_def sample_request_def MaxWinProb_def)
qed

definition sample_payee_config :: receiver_config where
  "sample_payee_config = \<lparr>cf_Recipient = replicate 20 (CHR ''r''), cf_ChainID = 1, cf_SettlementDomainID = [],
     cf_DefaultFaceValue = Some 7, cf_DefaultWinProb = None\<rparr>"

theorem default_terms_credit_a_wei_witness:
  "\<exists>s' svc. Receiver_New sample_payee_config [] Open = Some (s', svc) \<and>
     1 \<le> CreditedEV (Some (defaultFaceValue svc)) (Some (defaultWinProb svc)) \<and>
     CreditedEV (Some 7) (Some (defaultWinProb svc)) < 1"
proof -
  have w: "Quo MaxWinProb 1024 = MaxWinProb div 1024" by (intro Quo_nonneg) (simp_all add: MaxWinProb_def)
  obtain s' svc where n: "Receiver_New sample_payee_config [] Open = Some (s', svc)"
    and d: "defaultWinProb svc = MaxWinProb div 1024" "defaultFaceValue svc \<noteq> 7"
    by (simp add: Receiver_New_def sample_payee_config_def w minimum_face_def Let_def MaxWinProb_def case_prod_beta)
  then show ?thesis
    using default_terms_credit_a_wei [OF n, of 7] by (simp add: sample_payee_config_def MaxWinProb_def)
qed

theorem issued_seed_is_the_secret_witness:
  "\<exists>s' resp sess rand. GetTicketParams sample_eth sample_service sample_request ''r'' 1 Open = (s', Inr resp) \<and>
     TicketSessionFor (tuple_of sample_service sample_request) s' = Some sess \<and>
     SetString (ss_RecipientRand sess) = Some rand"
proof -
  obtain s' resp where g: "GetTicketParams sample_eth sample_service sample_request ''r'' 1 Open = (s', Inr resp)"
    using sample_params by blast
  have "zero_padding (LeftPadBytes sample_eth)" by (simp add: sample_eth_def lp.zero_padding_axioms)
  from issued_seed_is_the_secret [OF g this] g show ?thesis by blast
qed

definition sample_codec :: codec where
  "sample_codec = \<lparr>Unmarshal_Payment = (\<lambda>_. None), Unmarshal_SpendAuthorization = (\<lambda>_. None),
     Marshal_Payload = (\<lambda>_. None)\<rparr>"

theorem frozen_source_takes_nothing_witness:
  "\<exists>s' st e. FreezeRevenueSource sample_service ''d'' ''move'' 7 Open = (s', Inr st) \<and>
     call_result sample_eth sample_codec sample_service (CallGetTicketParams sample_request ''r'' 8) s' = (s', Some e)"
proof -
  obtain s' st where f: "FreezeRevenueSource sample_service ''d'' ''move'' 7 Open = (s', Inr st)"
    by (simp add: FreezeRevenueSource_def reject_def domain_mismatch_def sample_service_def FreezeSource_def
        db_update_def Open_def activeAuthorizations_def Let_def GetRevenueSourceStatus_def Store_SourceFence_def
        fence_invalid_def RedemptionHistory_def ActiveAuthorizations_def)
  from frozen_source_takes_nothing [OF f, of sample_eth sample_codec "CallGetTicketParams sample_request ''r'' 8"] f
  show ?thesis by blast
qed

definition sample_sender :: bytes where "sample_sender = replicate 20 (CHR ''s'')"

definition sample_payment :: pb_Payment where
  "sample_payment = \<lparr>pb_ticket_params = Some \<lparr>pb_recipient = recipient sample_service, pb_face_value = [CHR 0x09],
       pb_win_prob = big_Bytes MaxWinProb, pb_recipient_rand_hash = HashRecipientRand sample_eth (Some 5),
       pb_seed = [], pb_expiration_block = [], pb_expiration_params = None\<rparr>,
     pb_sender = sample_sender, pb_pay_expiration_params = None,
     pb_ticket_sender_params = [\<lparr>sp_SenderNonce = 1, sp_Sig = sample_sig\<rparr>, \<lparr>sp_SenderNonce = 2, sp_Sig = []\<rparr>],
     pb_expected_price = None\<rparr>"

definition sample_open :: store where
  "sample_open = Open\<lparr>sessions := fmupd (compositeKey sample_sender ''w'') (sample_session\<lparr>ss_Sender := sample_sender\<rparr>) fmempty,
     capability_index := fmupd ''w'' sample_sender fmempty\<rparr>"

abbreviation payment_codec :: codec where
  "payment_codec \<equiv> sample_codec\<lparr>Unmarshal_Payment := \<lambda>_. Some sample_payment\<rparr>"

lemma sample_valid: "Validate sample_eth (recipient sample_service) t sample_sig (Some 5) = None"
  if "Recipient t = recipient sample_service" "Sender t = sample_sender"
    "RecipientRandHash t = HashRecipientRand sample_eth (Some 5)" for t
proof -
  have s: "SetBytes (take 32 (drop 32 sample_sig)) = 1"
    by (simp add: sample_sig_def SetBytes_def be_value_be_bytes)
  have "length sample_sig = 65" "sample_sig ! 64 = byte_of_nat 27" "take 20 sample_sig = sample_sender"
    by (simp_all add: sample_sig_def sample_sender_def nth_append)
  then have "verifySig sample_eth sample_sender m sample_sig" for m
    using s by (simp add: verifySig_def sample_eth_def secp256k1halfN_def Let_def)
  moreover have "\<not> isZeroAddr sample_sender" by code_simp
  ultimately show ?thesis using that by (simp add: Validate_def)
qed

lemma sample_seal:
  "SealSender ''w'' sample_sender sample_open = (sample_open, Inr ())"
  by (simp add: SealSender_def db_update_def sample_open_def Open_def Let_def)

lemma sample_digits: "SetString (ss_RecipientRand (sample_session\<lparr>ss_Sender := a\<rparr>)) = Some 5"
  by (simp add: sample_session_def SetString_def decimal_nat_def is_digit_def)

lemma sample_credit:
  "\<exists>s' resp. processPayment sample_eth payment_codec sample_service ''w'' ''b'' 1 sample_open = (s', Inr resp)"
proof -
  let ?sess = "sample_session\<lparr>ss_Sender := sample_sender\<rparr>" and ?tp = "the (pb_ticket_params sample_payment)"
  let ?run = "validateAndCredit sample_eth sample_service sample_payment ?tp ?sess 5 1 sample_open"
  have h: "length (Ticket_Hash sample_eth t) = 32" for t by (simp add: Ticket_Hash_def sample_eth_def leftPad_def)
  have e: "\<exists>s1 q. EnqueueRedemption (Ticket_Hash sample_eth t) (Some x) s = (s1, Inr q) \<and> sessions s1 = sessions s" for t x s
    by (auto simp: EnqueueRedemption_def enqueueRedemption_def db_update_def h Let_def)
  have v1: "Validate sample_eth (recipient sample_service) (payment_ticket sample_payment ?tp tsp) sample_sig (Some 5) = None" for tsp
    by (rule sample_valid) (simp_all add: payment_ticket_def sample_payment_def)
  have v2: "\<exists>err. Validate sample_eth r t [] x = Some err" for r t x by (simp add: Validate_def verifySig_def)
  have fresh: "\<not> NonceSeen (Some 5) 1 sample_open" "NonceCount (Some 5) sample_open = 0"
    by (simp_all add: NonceSeen_def NonceCount_def sample_open_def Open_def scan_prefix_def)
  have p: "pb_ticket_sender_params sample_payment =
      [\<lparr>sp_SenderNonce = 1, sp_Sig = sample_sig\<rparr>, \<lparr>sp_SenderNonce = 2, sp_Sig = []\<rparr>]"
    by (simp add: sample_payment_def)
  have "\<exists>s1 c w sts. ?run = (s1, Inr (c, w, sts)) \<and> sessions s1 = sessions sample_open"
  proof -
    obtain err where b: "Validate sample_eth (recipient sample_service)
        (payment_ticket sample_payment ?tp \<lparr>sp_SenderNonce = 2, sp_Sig = []\<rparr>) [] (Some 5) = Some err"
      using v2 by blast
    let ?t = "payment_ticket sample_payment ?tp \<lparr>sp_SenderNonce = 1, sp_Sig = sample_sig\<rparr>"
    obtain s1 q where "EnqueueRedemption (Ticket_Hash sample_eth ?t) (Some (winning_ticket ?t sample_sig 5))
        (sample_open\<lparr>nonces := fmupd (nonceKey (Some 5) 1) [byte_of_nat 1] (nonces sample_open)\<rparr>) = (s1, Inr q)"
      "sessions s1 = sessions sample_open" using e by fastforce
    then show ?thesis
      using fresh by (simp add: validateAndCredit_def p v1 b RecordNonce_cases MaxSenderNonces_def Let_def)
  qed
  then obtain s1 c w sts where v: "?run = (s1, Inr (c, w, sts))" "sessions s1 = sessions sample_open" by blast
  obtain s2 b where c: "CreditBalance sample_sender ''w'' (Some c) s1 = (s2, Inr b)"
    using v(2) by (simp add: CreditBalance_def mutate_def db_update_def sample_open_def Let_def)
  have g: "Store_Get sample_sender ''w'' sample_open = Inr ?sess"
    by (simp add: Store_Get_def sample_open_def)
  have t: "pb_ticket_params sample_payment = Some ?tp" "pb_sender sample_payment = sample_sender"
    "pb_expected_price sample_payment = None" "sample_sender \<noteq> []"
    by (simp_all add: sample_payment_def sample_sender_def)
  have r: "ss_RecipientRand ?sess = ''5''" "SetString ''5'' = Some 5" "\<not> ss_Closed ?sess" "ss_WholesaleAccountID ?sess = []"
    by (simp_all add: sample_session_def SetString_def decimal_nat_def is_digit_def)
  obtain tp where tp: "pb_ticket_params sample_payment = Some tp" by (simp add: sample_payment_def)
  with v(1) c t(2) obtain x where
    "credit_payment sample_eth sample_service ''w'' sample_payment ?sess (Some 5) 1 sample_open = (s2, Inr x)"
    by (cases "summarizeTicketStatus sts") (simp add: credit_payment_def Let_def)
  then show ?thesis
    using t(2-) r g by (simp add: processPayment_def reject_def sample_seal checkSignedPrice_def)
qed

theorem payment_credit_is_exact_witness:
  "\<exists>s' resp credit balance.
     processPayment sample_eth payment_codec sample_service ''w'' ''b'' 1 sample_open = (s', Inr resp) \<and>
     SetBytes (pp_credited_ev resp) = \<bar>credit\<bar> \<and> GetBalance sample_sender ''w'' sample_open = Inr balance \<and>
     GetBalance sample_sender ''w'' s' = Inr (balance + credit)"
proof -
  obtain s' resp where p: "processPayment sample_eth payment_codec sample_service ''w'' ''b'' 1 sample_open = (s', Inr resp)"
    using sample_credit by blast
  have h: "Unmarshal_Payment payment_codec ''b'' = Some sample_payment"
    "pb_ticket_params sample_payment = Some (the (pb_ticket_params sample_payment))"
    "SealSender ''w'' (pb_sender sample_payment) sample_open = (sample_open, Inr ())"
    "Store_Get (pb_sender sample_payment) ''w'' sample_open = Inr (sample_session\<lparr>ss_Sender := sample_sender\<rparr>)"
    "SetString (ss_RecipientRand (sample_session\<lparr>ss_Sender := sample_sender\<rparr>)) = Some 5"
    using sample_seal sample_digits by (simp_all add: sample_payment_def) (simp add: Store_Get_def sample_open_def)
  have "pb_sender sample_payment = sample_sender" "\<not> ss_Closed (sample_session\<lparr>ss_Sender := sample_sender\<rparr>)"
    by (simp_all add: sample_payment_def sample_session_def)
  with payment_credit_is_exact [OF p h] p show ?thesis by auto
qed

end
