(* ===== verification/Ticket_Path.thy ===== *)
theory Ticket_Path
  imports Ticket_Fetcher Sender_Mints Receiver_Laws
begin

text \<open>
  From the payee's service to the payer's session cache: the parameters a payer fetches over HTTP through a
  broker are exactly the ones the payee's service issued, and a payment minted on them passes the payee's
  validation for exactly the amount the payer meant to fund. At the end, what the payer can rely on when the
  server is anybody, and what it cannot.
\<close>

section \<open>Texts that survive the trip\<close>

lemma hex_digit_visible: "d < 16 \<Longrightarrow> visible (hex_digit d)"
  by (auto simp: hex_digit_def visible_def)

lemma hex_encode_visible: "list_all visible (hex_encode b)"
proof (induction b)
  case (Cons c b)
  have "nat_of_byte c div 16 < 16" using nat_of_byte_lt [of c] by (simp add: less_mult_imp_div_less)
  then show ?case using Cons by (simp add: hex_digit_visible)
qed simp

lemma visible_ends: "s \<noteq> [] \<Longrightarrow> list_all visible s \<Longrightarrow> TrimSpace s = s"
  by (rule TrimSpace_visible) (auto simp: list_all_iff)

lemma TrimSpace_hex [simp]: "TrimSpace (CHR ''0'' # CHR ''x'' # hex_encode b) = CHR ''0'' # CHR ''x'' # hex_encode b"
  using hex_encode_visible by (intro visible_ends) (auto simp: visible_def)

lemma is_digit_visible: "is_digit c \<Longrightarrow> visible c"
  by (simp add: is_digit_def visible_def)

lemma TrimSpace_big_String [simp]: "TrimSpace (big_String i) = big_String i"
proof (rule visible_ends)
  have "list_all visible (nat_decimal n)" for n
    using nat_decimal_digits [of n] is_digit_visible by (auto simp: list_all_iff)
  then show "list_all visible (big_String i)" by (simp add: big_String_def visible_def)
qed simp

lemma has_0x_hex [simp]: "has_0x (CHR ''0'' # CHR ''x'' # s)"
  by (simp add: has_0x_def hasPrefix_def ascii_lower_def)

lemma parseHexAddress_hex:
  "parseHexAddress (CHR ''0'' # CHR ''x'' # hex_encode b) (Some n) =
     (if length b = n then Inr b else Inl ''must be of the expected length'')"
  "parseHexAddress (CHR ''0'' # CHR ''x'' # hex_encode b) None = Inr b"
  by (simp_all add: parseHexAddress_def Let_def)

lemma broker_parseHexAddress_hex:
  "broker_parseHexAddress field (CHR ''0'' # CHR ''x'' # hex_encode b) =
     (if length b = 20 then Inr b else Inl (field @ '' must be a 0x-prefixed 20-byte hex address''))"
  by (auto simp: broker_parseHexAddress_def Let_def)

text \<open>\<open>utf8.ValidString\<close>. The length of the rune that a text starts with is 0 when it starts with none.\<close>

definition rune_length :: "bytes \<Rightarrow> nat" where
  "rune_length s =
     (let lies = (\<lambda>i lo hi. i < length s \<and> lo \<le> nat_of_byte (s ! i) \<and> nat_of_byte (s ! i) \<le> hi);
          tail = (\<lambda>i. lies i 0x80 0xBF)
      in if lies 0 0 0x7F then 1
         else if lies 0 0xC2 0xDF \<and> tail 1 then 2
         else if (lies 0 0xE0 0xE0 \<and> lies 1 0xA0 0xBF \<or> lies 0 0xE1 0xEC \<and> tail 1 \<or>
                  lies 0 0xED 0xED \<and> lies 1 0x80 0x9F \<or> lies 0 0xEE 0xEF \<and> tail 1) \<and> tail 2 then 3
         else if (lies 0 0xF0 0xF0 \<and> lies 1 0x90 0xBF \<or> lies 0 0xF1 0xF3 \<and> tail 1 \<or>
                  lies 0 0xF4 0xF4 \<and> lies 1 0x80 0x8F) \<and> tail 2 \<and> tail 3 then 4
         else 0)"

fun utf8 :: "string \<Rightarrow> bool" where
  "utf8 [] \<longleftrightarrow> True"
| "utf8 (c # s) \<longleftrightarrow> (let k = rune_length (c # s) in 0 < k \<and> utf8 (drop (k - 1) s))"

lemma utf8_visible: "list_all visible s \<Longrightarrow> utf8 s"
proof (induction s)
  case (Cons c s)
  then have "rune_length (c # s) = 1" by (simp add: rune_length_def visible_def)
  with Cons show ?case by simp
qed simp

declare utf8.simps(2) [simp del]

lemma account_visible: "ValidWholesaleAccountID s \<Longrightarrow> list_all visible s"
  by (fastforce simp: ValidWholesaleAccountID_def list_all_iff visible_def byte_in_def)

lemma domain_visible: "ValidDomain d \<Longrightarrow> list_all visible d"
proof -
  assume d: "ValidDomain d"
  then have "list_all visible (drop 2 d)" by (fastforce simp: ValidDomain_def list_all_iff visible_def byte_in_def)
  moreover have "list_all visible (take 2 d)" using d by (simp add: ValidDomain_def visible_def)
  moreover have "d = take 2 d @ drop 2 d" by simp
  ultimately show "list_all visible d" by (metis list_all_append)
qed

lemma hex_text [simp]: "utf8 (CHR ''0'' # CHR ''x'' # hex_encode b)"
  using hex_encode_visible [of b] by (intro utf8_visible) (simp add: visible_def)

lemma big_String_visible: "list_all visible (big_String i)"
proof -
  have "list_all visible (nat_decimal n)" for n
    using nat_decimal_digits [of n] is_digit_visible by (auto simp: list_all_iff)
  then show ?thesis by (simp add: big_String_def visible_def)
qed

section \<open>The request\<close>

definition payee_request :: "TicketParamsRequest \<Rightarrow> int \<Rightarrow> GetTicketParamsRequest" where
  "payee_request req v =
     \<lparr>gp_wholesale_account_id = tr_WholesaleAccountID req, gp_ticket_stream_id = tr_TicketStreamID req,
      gp_sender = tr_Sender req, gp_recipient = tr_Recipient req, gp_capability = TrimSpace (tr_Capability req),
      gp_offering = TrimSpace (tr_Offering req), gp_face_value = big_Bytes v\<rparr>"

definition askable :: "TicketParamsRequest \<Rightarrow> int \<Rightarrow> bool" where
  "askable req v \<longleftrightarrow>
     tr_FaceValue req = Some v \<and> 0 < v \<and> fetch_url req \<noteq> [] \<and> length (tr_Sender req) = 20 \<and> length (tr_Recipient req) = 20 \<and>
     ValidWholesaleAccountID (tr_WholesaleAccountID req) \<and> ValidWholesaleAccountID (tr_TicketStreamID req) \<and>
     TrimSpace (tr_Capability req) \<noteq> [] \<and> TrimSpace (tr_Offering req) \<noteq> [] \<and>
     utf8 (tr_Capability req) \<and> utf8 (tr_Offering req)"

lemma parse_http_request:
  assumes "askable req v"
  shows "parseTicketParamsRequest (http_request req v) =
    Inr \<lparr>bq_TicketStreamID = tr_TicketStreamID req, bq_WholesaleAccountID = tr_WholesaleAccountID req,
      bq_Sender = tr_Sender req, bq_Recipient = tr_Recipient req, bq_FaceValue = Some v,
      bq_Capability = TrimSpace (tr_Capability req), bq_Offering = TrimSpace (tr_Offering req)\<rparr>"
  using assms by (simp add: askable_def parseTicketParamsRequest_def http_request_def hexAddress_def broker_parseHexAddress_hex)

section \<open>The answer\<close>

text \<open>What the payer should hold after the payee's answer.\<close>

definition issued :: "string \<Rightarrow> GetTicketParamsResponse \<Rightarrow> pb_TicketParams \<Rightarrow> TicketParams" where
  "issued domain resp tp =
     \<lparr>tp_WholesaleAccountID = gr_wholesale_account_id resp, tp_TicketStreamID = gr_ticket_stream_id resp,
      tp_SettlementDomainID = domain, tp_Recipient = pb_recipient tp,
      tp_FaceValue = Some (SetBytes (pb_face_value tp)), tp_WinProb = Some (SetBytes (pb_win_prob tp)),
      tp_RecipientRandHash = pb_recipient_rand_hash tp, tp_Seed = pb_seed tp,
      tp_ExpirationBlock = Some (SetBytes (pb_expiration_block tp)), tp_ExpirationParams = pb_expiration_params tp,
      tp_HighestSeenNonce = gr_highest_seen_nonce resp, tp_HasSeenNonces = gr_has_seen_nonces resp\<rparr>"

lemma GetTicketParams_answers:
  assumes "GetTicketParams E svc req random now s = (s', Inr resp)"
  obtains tp rand where "gr_ticket_params resp = Some tp" "pb_recipient tp = recipient svc"
    "pb_recipient_rand_hash tp = HashRecipientRand E (Some rand)" "pb_expiration_params tp = None"
    "gr_wholesale_account_id resp = gp_wholesale_account_id req" "gr_ticket_stream_id resp = gp_ticket_stream_id req"
    "gr_isolation_version resp = 1"
proof -
  from GetTicketParams_Inr [OF assms] obtain sess pre where
    "issue_params E svc req (if gp_face_value req = [] then None else Some (SetBytes (gp_face_value req))) pre sess s' =
       (s', Inr resp)" .
  then show ?thesis
    unfolding issue_params_def
    by (auto simp: case_prod_beta split: option.splits if_splits intro!: that)
qed

lemma toTypes_render:
  assumes "length (bt_Recipient p) = 20" "length (bt_RecipientRandHash p) = 32" "bt_ExpirationParams p = None"
    "bt_FaceValue p = Some f" "bt_WinProb p = Some q" "bt_ExpirationBlock p = Some x"
  shows "toTypes (renderTicketParamsJSON p) =
    Inr \<lparr>tp_WholesaleAccountID = [], tp_TicketStreamID = [], tp_SettlementDomainID = [], tp_Recipient = bt_Recipient p,
      tp_FaceValue = Some f, tp_WinProb = Some q, tp_RecipientRandHash = bt_RecipientRandHash p, tp_Seed = bt_Seed p,
      tp_ExpirationBlock = Some x, tp_ExpirationParams = None, tp_HighestSeenNonce = 0, tp_HasSeenNonces = False\<rparr>"
  using assms
  by (simp add: toTypes_def renderTicketParamsJSON_def parseHexAddress_hex big_field_def decimalString_def
      expiration_params_def)

lemma read_issued:
  assumes "askable req v" "gr_wholesale_account_id resp = tr_WholesaleAccountID req"
    "gr_ticket_stream_id resp = tr_TicketStreamID req" "gr_isolation_version resp = 1"
    "length (pb_recipient tp) = 20" "length (pb_recipient_rand_hash tp) = 32" "pb_expiration_params tp = None"
  shows "read_response req (response_json \<lparr>bt_IsolationVersion = gr_isolation_version resp,
      bt_TicketStreamID = gr_ticket_stream_id resp, bt_WholesaleAccountID = gr_wholesale_account_id resp,
      bt_SettlementDomainID = domain, bt_Recipient = pb_recipient tp, bt_FaceValue = Some (SetBytes (pb_face_value tp)),
      bt_WinProb = Some (SetBytes (pb_win_prob tp)), bt_RecipientRandHash = pb_recipient_rand_hash tp,
      bt_Seed = pb_seed tp, bt_ExpirationBlock = Some (SetBytes (pb_expiration_block tp)),
      bt_ExpirationParams = pb_expiration_params tp, bt_HighestSeenNonce = gr_highest_seen_nonce resp,
      bt_HasSeenNonces = gr_has_seen_nonces resp\<rparr>) = Inr (issued domain resp tp)"
  using assms
  by (auto simp: read_response_def response_json_def toTypes_render issued_def askable_def ValidWholesaleAccountID_def)

section \<open>The path is transparent\<close>

text \<open>The messages that JSON carries unchanged: their texts are UTF-8, and a round is an \<open>int64\<close>.\<close>

definition request_fields :: "ticketParamsHTTPRequest \<Rightarrow> string list" where
  "request_fields r =
     [jq_wholesale_account_id r, jq_ticket_stream_id r, jq_sender_eth_address r, jq_recipient_eth_address r,
      jq_face_value_wei r, jq_capability r, jq_offering r]"

definition request_carried :: "ticketParamsHTTPRequest \<Rightarrow> bool" where
  "request_carried r \<longleftrightarrow> list_all utf8 (request_fields r)"

definition response_carried :: "ticketParamsHTTPResponse \<Rightarrow> bool" where
  "response_carried r \<longleftrightarrow>
     (let p = jr_ticket_params r; e = jp_expiration_params p in
      list_all utf8 [jr_wholesale_account_id r, jr_ticket_stream_id r, jr_settlement_domain_id r, jp_recipient p,
        jp_face_value p, jp_win_prob p, jp_recipient_rand_hash p, jp_seed p, jp_expiration_block p,
        je_creation_round_block_hash e] \<and>
      - (2 ^ 63) \<le> je_creation_round e \<and> je_creation_round e < 2 ^ 63)"

text \<open>What \<open>encoding/json\<close> promises: such messages survive being written and read.\<close>

definition json_agrees :: "'w http \<Rightarrow> json \<Rightarrow> bool" where
  "json_agrees N J \<longleftrightarrow>
     (\<forall>r. request_carried r \<longrightarrow> (\<exists>body. Marshal_Request N r = Some body \<and> Decode_Request J body = Some (r, Tail_EOF))) \<and>
     (\<forall>r. response_carried r \<longrightarrow> Decode_Response N (Encode_Response J r) = Some r)"

text \<open>A broker that \<open>NewGRPC\<close> connected to the payee: it has the payee's settlement domain, which is a valid one.\<close>

definition connected :: "payee_state GRPC \<Rightarrow> eth \<Rightarrow> codec \<Rightarrow> Service \<Rightarrow> payee_inputs \<Rightarrow> bool" where
  "connected g E C svc I \<longleftrightarrow>
     g_client g = payee_client E C svc I \<and> g_settlementDomainID g = settlementDomainID svc \<and>
     \<not> settlementDomainErr svc \<and> ValidDomain (settlementDomainID svc)"

lemma http_request_carried: "askable req v \<Longrightarrow> request_carried (http_request req v)"
  by (auto simp: request_carried_def request_fields_def http_request_def hexAddress_def askable_def
      intro!: utf8_visible account_visible big_String_visible)

lemma response_json_carried:
  assumes "ValidWholesaleAccountID (bt_WholesaleAccountID p)" "ValidWholesaleAccountID (bt_TicketStreamID p)"
    and "ValidDomain (bt_SettlementDomainID p)" "bt_ExpirationParams p = None"
  shows "response_carried (response_json p)"
proof -
  have "utf8 (decimalString n)" for n
  proof (cases n)
    case None
    then show ?thesis by (auto simp: decimalString_def visible_def intro!: utf8_visible)
  next
    case (Some i)
    then show ?thesis using utf8_visible [OF big_String_visible] by (simp add: decimalString_def)
  qed
  then show ?thesis
    using assms utf8_visible [OF account_visible] utf8_visible [OF domain_visible]
    by (simp add: response_carried_def response_json_def renderTicketParamsJSON_def)
qed

lemma connected_domain:
  "connected g E C svc I \<Longrightarrow> SettlementDomain g (s, n) = ((s, Suc n), Inr (settlementDomainID svc))"
  by (auto simp: connected_def ValidDomain_def SettlementDomain_def payee_client_def serve_query_def serve_def Health_def perform_def
      reject_def yield_def)

text \<open>The broker's call, on the payee's answer.\<close>

lemma Broker_GetTicketParams_connected:
  assumes "connected g E C svc I"
  shows "Broker_GetTicketParams g \<lparr>bq_TicketStreamID = tr_TicketStreamID req, bq_WholesaleAccountID = tr_WholesaleAccountID req,
      bq_Sender = tr_Sender req, bq_Recipient = tr_Recipient req, bq_FaceValue = Some v,
      bq_Capability = TrimSpace (tr_Capability req), bq_Offering = TrimSpace (tr_Offering req)\<rparr> (s, n) =
    (case GetTicketParams E svc (payee_request req v) (pi_random I (Suc n)) (pi_now I (Suc n)) s of
       (s', Inl e) \<Rightarrow> ((s', n + 2), Inl e)
     | (s', Inr resp) \<Rightarrow> ((s', n + 2), Inr (let tp = the (gr_ticket_params resp) in
         \<lparr>bt_IsolationVersion = gr_isolation_version resp,
          bt_TicketStreamID = gr_ticket_stream_id resp, bt_WholesaleAccountID = gr_wholesale_account_id resp,
          bt_SettlementDomainID = settlementDomainID svc, bt_Recipient = pb_recipient tp,
          bt_FaceValue = Some (SetBytes (pb_face_value tp)),
          bt_WinProb = Some (SetBytes (pb_win_prob tp)), bt_RecipientRandHash = pb_recipient_rand_hash tp,
          bt_Seed = pb_seed tp, bt_ExpirationBlock = Some (SetBytes (pb_expiration_block tp)),
          bt_ExpirationParams = pb_expiration_params tp, bt_HighestSeenNonce = gr_highest_seen_nonce resp,
          bt_HasSeenNonces = gr_has_seen_nonces resp\<rparr>)))"
proof -
  have c: "g_client g = payee_client E C svc I" "g_settlementDomainID g = settlementDomainID svc"
    using assms by (simp_all add: connected_def)
  obtain s' r where g: "GetTicketParams E svc (payee_request req v) (pi_random I (Suc n)) (pi_now I (Suc n)) s = (s', r)"
    by fastforce
  show ?thesis
  proof (cases r)
    case (Inl e)
    then show ?thesis
      using g by (simp add: Broker_GetTicketParams_def perform_def connected_domain [OF assms] c payee_client_def serve_def
          payee_request_def Bytes_or_nil_def)
  next
    case (Inr resp)
    then obtain tp where "gr_ticket_params resp = Some tp" using g GetTicketParams_answers by metis
    then show ?thesis
      using g Inr by (simp add: Broker_GetTicketParams_def perform_def connected_domain [OF assms] c payee_client_def
          serve_def payee_request_def Bytes_or_nil_def yield_def)
  qed
qed

lemma HTTP_Fetch_through_broker:
  assumes "json_agrees N J" "Do N = through_broker J g" "connected g E C svc I" "askable req v"
    and "NewRequest N (fetch_url req @ ''/v1/payment/ticket-params'')"
    and "length (the (Marshal_Request N (http_request req v))) \<le> maxTicketParamsBodyBytes"
    and "length (recipient svc) = 20" "\<And>b. length (Keccak256 E b) = 32"
  shows "case GetTicketParams E svc (payee_request req v) (pi_random I (Suc n)) (pi_now I (Suc n)) s of
      (s', Inl e) \<Rightarrow> \<exists>m. HTTP_Fetch N (s, n) req = ((s', n + 2), Inl (plain m))
    | (s', Inr resp) \<Rightarrow>
        \<exists>tp. gr_ticket_params resp = Some tp \<and>
          HTTP_Fetch N (s, n) req = ((s', n + 2), Inr (issued (settlementDomainID svc) resp tp))"
proof -
  obtain body where body: "Marshal_Request N (http_request req v) = Some body" "Decode_Request J body = Some (http_request req v, Tail_EOF)"
    using assms(1) http_request_carried [OF assms(4)] unfolding json_agrees_def by blast
  have fits: "\<not> maxTicketParamsBodyBytes < length body" using assms(6) body(1) by simp
  have v: "tr_FaceValue req = Some v" "\<not> v \<le> 0" "fetch_url req \<noteq> []" using assms(4) by (simp_all add: askable_def)
  note path = HTTP_Fetch_def Let_def v body fits assms(2,5) through_broker_def ticketParamsHandler_def
    ensureSingleJSONDocument_def parse_http_request [OF assms(4)] Broker_GetTicketParams_connected [OF assms(3)]
  obtain s' r where g: "GetTicketParams E svc (payee_request req v) (pi_random I (Suc n)) (pi_now I (Suc n)) s = (s', r)"
    by fastforce
  show ?thesis
  proof (cases r)
    case (Inl e)
    then show ?thesis using g by (simp add: path http_Error_def) blast
  next
    case (Inr resp)
    then obtain tp rand where tp: "gr_ticket_params resp = Some tp" "pb_recipient tp = recipient svc"
      "pb_recipient_rand_hash tp = HashRecipientRand E (Some rand)" "pb_expiration_params tp = None"
      "gr_wholesale_account_id resp = tr_WholesaleAccountID req" "gr_ticket_stream_id resp = tr_TicketStreamID req"
      "gr_isolation_version resp = 1"
      using g by (auto simp: payee_request_def elim!: GetTicketParams_answers)
    have len: "length (pb_recipient tp) = 20" "length (pb_recipient_rand_hash tp) = 32"
      using assms(7,8) tp by (simp_all add: HashRecipientRand_def)
    have "Decode_Response N (Encode_Response J (response_json x)) = Some (response_json x)"
      if "bt_WholesaleAccountID x = tr_WholesaleAccountID req" "bt_TicketStreamID x = tr_TicketStreamID req"
        "bt_SettlementDomainID x = settlementDomainID svc" "bt_ExpirationParams x = None" for x
      using assms(1,3,4) that response_json_carried [of x] by (simp add: json_agrees_def askable_def connected_def)
    then show ?thesis
      using g Inr tp(1,4-7) read_issued [OF assms(4) tp(5-7) len tp(4), of "settlementDomainID svc"]
      by (simp add: path) (simp add: http_request_def)
  qed
qed

text \<open>C9: the way from the payee to the payer is transparent. When the broker in front of a payee has the
  payee's settlement domain and JSON carries UTF-8 texts, a well-formed request of the payer's HTTP
  client, its capability and offering in UTF-8, has the effect of one call of the payee's \<open>GetTicketParams\<close>, with the capability and offering
  trimmed; on success the payer holds exactly the parameters the service issued, under the service's
  settlement domain, and on an error of the service it gets an error and nothing else happens.\<close>

theorem ticket_params_path_is_transparent:
  assumes "json_agrees N J" "Do N = through_broker J g" "connected g E C svc I" "askable req v"
    and "NewRequest N (fetch_url req @ ''/v1/payment/ticket-params'')"
    and "length (the (Marshal_Request N (http_request req v))) \<le> maxTicketParamsBodyBytes"
    and "length (recipient svc) = 20" "\<And>b. length (Keccak256 E b) = 32"
  shows "case GetTicketParams E svc (payee_request req v) (pi_random I (Suc n)) (pi_now I (Suc n)) s of
      (s', Inl e) \<Rightarrow> \<exists>m. HTTP_Fetch N (s, n) req = ((s', n + 2), Inl (plain m))
    | (s', Inr resp) \<Rightarrow>
        \<exists>tp. gr_ticket_params resp = Some tp \<and>
          HTTP_Fetch N (s, n) req = ((s', n + 2), Inr (issued (settlementDomainID svc) resp tp))"
  using HTTP_Fetch_through_broker [OF assms] .

section \<open>A minted payment at the payee\<close>

definition issued_by :: "eth \<Rightarrow> Service \<Rightarrow> TicketParams \<Rightarrow> bool" where
  "issued_by E svc tp \<longleftrightarrow>
     tp_Recipient tp = recipient svc \<and> (\<exists>rand. tp_RecipientRandHash tp = HashRecipientRand E (Some rand)) \<and>
     (\<exists>f q. tp_FaceValue tp = Some f \<and> 0 \<le> f \<and> tp_WinProb tp = Some q \<and> 0 \<le> q)"

lemma Broker_GetTicketParams_issued:
  assumes "connected g E C svc I" "Broker_GetTicketParams g dreq w = (w', Inr p)"
  shows "bt_Recipient p = recipient svc" "\<exists>rand. bt_RecipientRandHash p = HashRecipientRand E (Some rand)"
    "\<exists>f. bt_FaceValue p = Some f \<and> 0 \<le> f" "\<exists>q. bt_WinProb p = Some q \<and> 0 \<le> q"
    "bt_ExpirationParams p = None" "bt_SettlementDomainID p = settlementDomainID svc"
proof -
  obtain s n where w: "w = (s, n)" by (cases w)
  have c: "g_client g = payee_client E C svc I" "g_settlementDomainID g = settlementDomainID svc"
    using assms(1) by (simp_all add: connected_def)
  obtain s' resp preq where r: "GetTicketParams E svc preq (pi_random I (Suc n)) (pi_now I (Suc n)) s = (s', Inr resp)"
    and q: "(case gr_ticket_params resp of
       None \<Rightarrow> yield (zero_params\<lparr>bt_SettlementDomainID := g_settlementDomainID g\<rparr>)
     | Some tp \<Rightarrow> yield \<lparr>bt_IsolationVersion = gr_isolation_version resp, bt_TicketStreamID = gr_ticket_stream_id resp,
         bt_WholesaleAccountID = gr_wholesale_account_id resp, bt_SettlementDomainID = g_settlementDomainID g,
         bt_Recipient = pb_recipient tp, bt_FaceValue = Some (SetBytes (pb_face_value tp)),
         bt_WinProb = Some (SetBytes (pb_win_prob tp)), bt_RecipientRandHash = pb_recipient_rand_hash tp,
         bt_Seed = pb_seed tp, bt_ExpirationBlock = Some (SetBytes (pb_expiration_block tp)),
         bt_ExpirationParams = pb_expiration_params tp, bt_HighestSeenNonce = gr_highest_seen_nonce resp,
         bt_HasSeenNonces = gr_has_seen_nonces resp\<rparr>) (s', Suc (Suc n)) = (w', Inr p)"
    using assms(2) unfolding w Broker_GetTicketParams_def perform_def connected_domain [OF assms(1)]
    by (auto simp: c payee_client_def serve_def split: prod.splits sum.splits)
  from r obtain tp rand where "gr_ticket_params resp = Some tp" "pb_recipient tp = recipient svc"
    "pb_recipient_rand_hash tp = HashRecipientRand E (Some rand)" "pb_expiration_params tp = None"
    by (rule GetTicketParams_answers)
  with q c(2) show "bt_Recipient p = recipient svc" "\<exists>rand. bt_RecipientRandHash p = HashRecipientRand E (Some rand)"
    "\<exists>f. bt_FaceValue p = Some f \<and> 0 \<le> f" "\<exists>q. bt_WinProb p = Some q \<and> 0 \<le> q"
    "bt_ExpirationParams p = None" "bt_SettlementDomainID p = settlementDomainID svc"
    by (auto simp: yield_def SetBytes_def)
qed

lemma toTypes_render_keeps:
  assumes "toTypes (renderTicketParamsJSON p) = Inr tp" "bt_FaceValue p = Some f" "bt_WinProb p = Some q"
  shows "tp_Recipient tp = bt_Recipient p" "tp_RecipientRandHash tp = bt_RecipientRandHash p"
    "tp_FaceValue tp = Some f" "tp_WinProb tp = Some q"
  using assms
  by (auto simp: toTypes_def renderTicketParamsJSON_def parseHexAddress_hex big_field_def decimalString_def
      sum_bind_Inr_iff split: if_splits)

lemma HTTP_Fetch_decodes:
  assumes "HTTP_Fetch N w req = (w', Inr tp)"
  obtains v body status answer parsed where "Marshal_Request N (http_request req v) = Some body"
    "Do N (fetch_url req @ ''/v1/payment/ticket-params'') body w = (w', Inr (200, answer))"
    "Decode_Response N answer = Some parsed" "read_response req parsed = Inr tp"
  using assms by (auto simp: HTTP_Fetch_def Let_def split: if_splits option.splits prod.splits sum.splits)

lemma ticketParamsHandler_answers:
  assumes "ticketParamsHandler J client body w = (w', 200, answer)"
  obtains dreq params where "client dreq w = (w', Inr params)" "answer = Encode_Response J (response_json params)"
    "ValidWholesaleAccountID (bt_WholesaleAccountID params)" "ValidWholesaleAccountID (bt_TicketStreamID params)"
proof -
  have "ValidWholesaleAccountID (jq_wholesale_account_id r) \<and> ValidWholesaleAccountID (jq_ticket_stream_id r)"
    if "parseTicketParamsRequest r = Inr d" for r d
    using that by (auto simp: parseTicketParamsRequest_def split: if_splits)
  then show ?thesis
    using assms that
    by (auto simp: ticketParamsHandler_def http_Error_def split: if_splits option.splits prod.splits sum.splits)
qed

text \<open>Whatever a payer fetches through the broker was issued by the payee.\<close>

lemma fetched_is_issued:
  assumes "json_agrees N J" "Do N = through_broker J g" "connected g E C svc I" "HTTP_Fetch N w req = (w', Inr tp)"
  shows "issued_by E svc tp"
proof -
  from assms(4) obtain body answer parsed where
    d: "Do N (fetch_url req @ ''/v1/payment/ticket-params'') body w = (w', Inr (200, answer))"
    and p: "Decode_Response N answer = Some parsed" "read_response req parsed = Inr tp"
    by (rule HTTP_Fetch_decodes)
  then have "ticketParamsHandler J (Broker_GetTicketParams g) body w = (w', 200, answer)"
    by (auto simp: assms(2) through_broker_def split: prod.splits)
  then obtain dreq params where c: "Broker_GetTicketParams g dreq w = (w', Inr params)"
    and a: "answer = Encode_Response J (response_json params)"
    and ids: "ValidWholesaleAccountID (bt_WholesaleAccountID params)" "ValidWholesaleAccountID (bt_TicketStreamID params)"
    by (rule ticketParamsHandler_answers)
  note i = Broker_GetTicketParams_issued [OF assms(3) c]
  obtain f q where fq: "bt_FaceValue params = Some f" "0 \<le> f" "bt_WinProb params = Some q" "0 \<le> q" using i(3,4) by blast
  have "response_carried (response_json params)"
    using response_json_carried [OF ids _ i(5)] i(6) assms(3) by (simp add: connected_def)
  then have "read_response req (response_json params) = Inr tp" using p a assms(1) by (auto simp: json_agrees_def)
  then obtain out where t: "toTypes (renderTicketParamsJSON params) = Inr out" and
    "tp_Recipient tp = tp_Recipient out" "tp_RecipientRandHash tp = tp_RecipientRandHash out"
    "tp_FaceValue tp = tp_FaceValue out" "tp_WinProb tp = tp_WinProb out"
    by (auto simp: read_response_def response_json_def sum_bind_Inr_iff split: if_splits)
  then show ?thesis using toTypes_render_keeps [OF t fq(1,3)] i(1,2) fq unfolding issued_by_def by auto
qed

text \<open>What the payer's keystore and wire format promise. Encoding a payment may fail, as it does for texts that are not
  UTF-8; decoding what was encoded gives the payment back.\<close>

definition keystore_signs :: "'w payer_env \<Rightarrow> bool" where
  "keystore_signs H \<longleftrightarrow> \<not> isZeroAddr (Address H) \<and>
     (\<forall>w w' h sig. Sign H w h = (w', Inr sig) \<longrightarrow> verifySig (ethlib H) (Address H) h sig)"

definition payment_wire :: "'w payer_env \<Rightarrow> codec \<Rightarrow> bool" where
  "payment_wire H C \<longleftrightarrow>
     (\<forall>p b. Marshal_Payment (payerwire H) p = Some b \<longrightarrow> Unmarshal_Payment C b = Some p)"

lemma signed_ticket_is_the_payees:
  assumes "issued_by E svc (se_ticketParams se)"
    and "pay = the (ToWirePayment (Some (payment_batch H se rnd hash [\<lparr>sp_SenderNonce = nonce, sp_Sig = sig\<rparr>])))"
  shows "pb_sender pay = Address H" "pb_ticket_sender_params pay = [\<lparr>sp_SenderNonce = nonce, sp_Sig = sig\<rparr>]"
    "\<exists>tp. pb_ticket_params pay = Some tp \<and> pb_recipient_rand_hash tp = tp_RecipientRandHash (se_ticketParams se) \<and>
       payment_ticket pay tp \<lparr>sp_SenderNonce = nonce, sp_Sig = sig\<rparr> = signed_ticket H (se_ticketParams se) nonce rnd hash"
  using assms
  by (auto simp: ToWirePayment_def payment_batch_def ticketParamsToWire_def payment_ticket_def signed_ticket_def issued_by_def
      bigIntBytes_def)

text \<open>In a call during which no round was initialised, the payment carries the round and the hash that the ticket was
  signed for. The code reads the clock once for the signature and once more for the payment.\<close>

lemma signed_in_one_round:
  assumes "signed_run H w0 w1 se nonce sig rnd hash wire" "rounds_in_order H" "round_at H w1 = round_at H w0"
  shows "\<exists>w w'. Sign H w (Ticket_Hash (ethlib H) (signed_ticket H (se_ticketParams se) nonce rnd hash)) = (w', Inr sig)"
proof -
  obtain a b c d e f rnd' hash' where r: "later H w0 a" "LastInitializedRound H a = (b, rnd')"
    "LastInitializedL1BlockHash H b = (c, hash')"
    "Sign H c (Ticket_Hash (ethlib H) (signed_ticket H (se_ticketParams se) nonce rnd' hash')) = (d, Inr sig)"
    "LastInitializedRound H d = (e, rnd)" "LastInitializedL1BlockHash H e = (f, hash)" "later H f w1"
    using assms(1) unfolding signed_run_def by blast
  have s: "env_step H a b" "env_step H b c" "env_step H c d" "env_step H d e" "env_step H e f"
    using env_step.rnd [of H a] env_step.hash [of H b] env_step.sign [of H c] env_step.rnd [of H d] env_step.hash [of H e] r
    by (metis fst_conv)+
  have up: "later H w0 b" "later H w0 d" "later H w0 e" using r(1) s by (meson rtranclp.rtrancl_into_rtrancl)+
  have down: "later H e w1" "later H d w1" "later H b w1" "later H a w1"
    using r(7) s by (meson converse_rtranclp_into_rtranclp)+
  note same = round_between [OF _ _ assms(2,3)]
  have "rnd' = rnd" "hash' = hash"
    using same(1) [OF r(1) down(4)] same(1) [OF up(2) down(2)] same(2) [OF up(1) down(3)] same(2) [OF up(3) down(1)] r(2,3,5,6)
    by (simp_all add: round_at_def hash_at_def)
  with r(4) show ?thesis by blast
qed

text \<open>C6: a minted payment passes the payee's validation for exactly the amount it funds. Take a payer whose
  fetcher reaches a payee through a broker, whose cached sessions came from there, and whose keystore signs for
  its address. Rounds are initialised in order, and none is initialised during the call: the clock reads the
  same round before it and after it. When the call mints, the payee decodes the payment, and with the secret
  behind the ticket parameters \<open>FundWholesaleAccount\<close> validates the one ticket in it and credits it exactly
  the payer's shortfall. Without the condition on the round this is false of the code, which reads the clock for
  the signature and again for the payment.\<close>

theorem minted_payment_passes_validation:
  assumes "CreatePayment H req st = (st', Inr out)" "mints_shortfall H req st shortfall"
    and "Fetch H = Some (HTTP_Fetch N)" "json_agrees N J" "Do N = through_broker J g" "connected g (ethlib H) C svc I"
    and "cached_good (issued_by (ethlib H) svc) st" "keystore_signs H" "payment_wire H C"
    and "rounds_in_order H" "round_at H (outside st') = round_at H (outside st)"
  shows "\<exists>pay tp. Unmarshal_Payment C (pr_payment_bytes out) = Some pay \<and> pb_sender pay = Address H \<and>
    pb_ticket_params pay = Some tp \<and> (\<exists>rand. HashRecipientRand (ethlib H) (Some rand) = pb_recipient_rand_hash tp) \<and>
    (\<forall>rand. HashRecipientRand (ethlib H) (Some rand) = pb_recipient_rand_hash tp \<longrightarrow>
       (\<exists>t. funding_batch (ethlib H) svc pay tp rand (pb_ticket_sender_params pay) = Inr [t] \<and>
          ft_Credit t = Some shortfall \<and> pr_tickets_created out = 1))"
proof -
  have good: "fetch_good H (issued_by (ethlib H) svc)"
    using fetched_is_issued [OF assms(4-6)] assms(3) by (auto simp: fetch_good_def)
  obtain validity se pred nonce sig rnd hash where
    m: "signed_run H (outside st) (outside st') se nonce sig rnd hash (pr_payment_bytes out)"
    "out = payment_response shortfall validity 1 shortfall se pred rnd (pr_payment_bytes out)" "session_EV se = shortfall"
    and i: "issued_by (ethlib H) svc (se_ticketParams se)"
    using CreatePayment_mints [OF assms(1,2)] good assms(7) by blast
  have n: "pr_tickets_created out = 1" using m(2) unfolding payment_response_def
    by (metis CreatePaymentResponse.select_convs(2) of_nat_1)
  let ?tsp = "\<lparr>sp_SenderNonce = nonce, sp_Sig = sig\<rparr>"
  let ?pay = "the (ToWirePayment (Some (payment_batch H se rnd hash [?tsp])))"
  obtain tp where p: "pb_sender ?pay = Address H" "pb_ticket_sender_params ?pay = [?tsp]" "pb_ticket_params ?pay = Some tp"
    "pb_recipient_rand_hash tp = tp_RecipientRandHash (se_ticketParams se)"
    "payment_ticket ?pay tp ?tsp = signed_ticket H (se_ticketParams se) nonce rnd hash"
    using signed_ticket_is_the_payees [OF i refl] by metis
  have "verifySig (ethlib H) (Address H) (Ticket_Hash (ethlib H) (signed_ticket H (se_ticketParams se) nonce rnd hash)) sig"
    using signed_in_one_round [OF m(1) assms(10,11)] assms(8) unfolding keystore_signs_def by blast
  moreover have "\<not> isZeroAddr (Address H)" using assms(8) by (simp add: keystore_signs_def)
  ultimately have "Validate (ethlib H) (recipient svc) (payment_ticket ?pay tp ?tsp) sig (Some rand) = None"
    if "HashRecipientRand (ethlib H) (Some rand) = pb_recipient_rand_hash tp" for rand
    using that i p(4) by (simp add: p(5) Validate_def signed_ticket_def issued_by_def)
  moreover have "ft_Credit (funding_ticket (ethlib H) ?pay tp rand ?tsp) = Some shortfall" for rand
    using m(3) by (simp add: funding_ticket_def Let_def p(5) signed_ticket_def)
  moreover have "Unmarshal_Payment C (pr_payment_bytes out) = Some ?pay"
    using m(1) assms(9) by (simp add: signed_run_def payment_wire_def)
  moreover have "\<exists>rand. HashRecipientRand (ethlib H) (Some rand) = pb_recipient_rand_hash tp"
    using i p(4) by (auto simp: issued_by_def)
  ultimately show ?thesis
    using p(1-3) n by (intro exI [of _ ?pay] exI [of _ tp]) simp
qed

section \<open>A payer, a broker and a payee\<close>

definition request_of :: "string list \<Rightarrow> ticketParamsHTTPRequest" where
  "request_of f =
     \<lparr>jq_wholesale_account_id = f ! 0, jq_ticket_stream_id = f ! 1, jq_sender_eth_address = f ! 2,
      jq_recipient_eth_address = f ! 3, jq_face_value_wei = f ! 4, jq_capability = f ! 5, jq_offering = f ! 6\<rparr>"

definition response_fields :: "ticketParamsHTTPResponse \<Rightarrow> string list" where
  "response_fields r =
     (let p = jr_ticket_params r; e = jp_expiration_params p in
      [jr_wholesale_account_id r, jr_ticket_stream_id r, nat_decimal (unat (jr_isolation_version r)),
       jr_settlement_domain_id r, jp_recipient p, jp_face_value p, jp_win_prob p, jp_recipient_rand_hash p, jp_seed p,
       jp_expiration_block p, big_String (je_creation_round e), je_creation_round_block_hash e,
       nat_decimal (unat (jr_highest_seen_nonce r)), if jr_has_seen_nonces r then ''1'' else ''0''])"

definition response_of :: "string list \<Rightarrow> ticketParamsHTTPResponse" where
  "response_of f =
     \<lparr>jr_wholesale_account_id = f ! 0, jr_ticket_stream_id = f ! 1, jr_isolation_version = word_of_nat (the (decimal_nat (f ! 2))),
      jr_settlement_domain_id = f ! 3,
      jr_ticket_params = \<lparr>jp_recipient = f ! 4, jp_face_value = f ! 5, jp_win_prob = f ! 6, jp_recipient_rand_hash = f ! 7,
        jp_seed = f ! 8, jp_expiration_block = f ! 9,
        jp_expiration_params = \<lparr>je_creation_round = the (SetString (f ! 10)), je_creation_round_block_hash = f ! 11\<rparr>\<rparr>,
      jr_highest_seen_nonce = word_of_nat (the (decimal_nat (f ! 12))), jr_has_seen_nonces = (f ! 13 = ''1'')\<rparr>"

lemma request_of_fields: "request_of (request_fields r) = r"
  by (cases r) (simp add: request_of_def request_fields_def)

lemma response_of_fields: "response_of (response_fields r) = r"
  by (cases r; cases "jr_ticket_params r"; cases "jp_expiration_params (jr_ticket_params r)")
    (simp add: response_of_def response_fields_def Let_def)

definition sample_json :: json where
  "sample_json =
     \<lparr>Decode_Request = (\<lambda>b. map_option (\<lambda>f. (request_of f, Tail_EOF)) (unpack b)),
      Encode_Response = (\<lambda>r. pack (response_fields r))\<rparr>"

definition linked_eth :: eth where
  "linked_eth = sample_eth\<lparr>Keccak256 := (\<lambda>b. take 32 (leftPad b 32))\<rparr>"

definition linked_service :: Service where
  "linked_service = \<lparr>recipient = replicate 20 (CHR ''r''), chainID = 1, settlementDomainID = sample_payer_domain,
     settlementDomainErr = False, defaultFaceValue = 2, defaultWinProb = 1, RevenueReporter = None\<rparr>"

definition linked_codec :: codec where
  "linked_codec =
     \<lparr>Unmarshal_Payment = unmarshal_payment, Unmarshal_SpendAuthorization = (\<lambda>b. None), Marshal_Payload = (\<lambda>p. Some [])\<rparr>"

definition linked_inputs :: payee_inputs where
  "linked_inputs = \<lparr>pi_random = (\<lambda>_. ''r''), pi_now = (\<lambda>_. 1), pi_later = (\<lambda>_. 1)\<rparr>"

definition linked_broker :: "payee_state GRPC" where
  "linked_broker = \<lparr>g_client = payee_client linked_eth linked_codec linked_service linked_inputs,
     g_settlementDomainID = sample_payer_domain\<rparr>"

definition linked_http :: "payee_state http" where
  "linked_http =
     \<lparr>Marshal_Request = (\<lambda>r. Some (pack (request_fields r))), NewRequest = (\<lambda>_. True),
      Do = through_broker sample_json linked_broker, Decode_Response = (\<lambda>b. map_option response_of (unpack b))\<rparr>"

lemma linked_json: "json_agrees linked_http sample_json"
proof -
  have "request_fields r \<noteq> []" "response_fields x \<noteq> []" for r x
    by (simp_all add: request_fields_def response_fields_def Let_def)
  then show ?thesis
    by (auto simp: json_agrees_def linked_http_def sample_json_def unpack_pack request_of_fields response_of_fields)
qed

lemma linked_connected: "connected linked_broker linked_eth linked_codec linked_service linked_inputs"
  using sample_domain_ok(1) by (simp add: connected_def linked_broker_def linked_service_def)

lemma linked_keccak: "length (Keccak256 linked_eth b) = 32"
  by (simp add: linked_eth_def leftPad_def)

lemma linked_texts: "utf8 ''cap''" "utf8 ''off''"
  by (auto intro!: utf8_visible simp: visible_def)

lemma linked_askable: "askable sample_ask 2"
  by (simp add: linked_texts askable_def sample_ask_def fetch_url_def trim_samples TrimRight_def ValidWholesaleAccountID_def byte_in_def
      hex_digit_def list_all_iff)

lemma linked_body: "length (the (Marshal_Request linked_http (http_request sample_ask 2))) \<le> maxTicketParamsBodyBytes"
  by (simp add: linked_http_def http_request_def request_fields_def pack_def sample_ask_def hexAddress_def
      maxTicketParamsBodyBytes_def big_String_def nat_decimal.simps)

lemma linked_issues:
  "\<exists>s resp tp. GetTicketParams linked_eth linked_service (payee_request sample_ask 2) ''r'' 1 Open = (s, Inr resp) \<and>
     gr_ticket_params resp = Some tp \<and> sample_answer (issued sample_payer_domain resp tp)"
proof -
  have e: "big_Bytes 2 \<noteq> []" by (simp add: big_Bytes_def nat_Bytes.simps)
  have q: "quote_for linked_service 2 = (2, MaxWinProb)"
    by (simp add: quote_for_def linked_service_def winProbForExactEV_def MaxWinProb_def Rem_def)
  have ok: "quote_ok 2 (2, MaxWinProb)" using sample_EV by (simp add: quote_ok_def MaxWinProb_def)
  have w: "HashRecipientRand linked_eth x \<noteq> []" for x
    by (metis HashRecipientRand_def linked_keccak list.size(3) zero_neq_numeral)
  have pad: "LeftPadBytes linked_eth b 32 \<noteq> []" for b
    by (auto simp: linked_eth_def sample_eth_def leftPad_def)
  have svc: "recipient linked_service = replicate 20 (CHR ''r'')" "defaultFaceValue linked_service = 2"
    "defaultWinProb linked_service = 1" by (simp_all add: linked_service_def)
  have m: "\<bar>MaxWinProb\<bar> = MaxWinProb" by (simp add: MaxWinProb_def)
  have none: "nonces s = fmempty \<Longrightarrow> HighestSenderNonce r s = (0, False)" for r s
    by (simp add: HighestSenderNonce_def scan_prefix_def)
  show ?thesis
    by (simp add: GetTicketParams_def reject_def gated_def requireUnfrozenSource_def Store_SourceFence_def
        ValidWholesaleAccountID_def byte_in_def payee_request_def sample_ask_def hex_digit_def e q ok w pad svc
        recipient_mismatch_def trim_samples none m sample_answer_def issued_def
        rotate_exhausted_def TicketSessionFor_def GetOrCreateTicketSession_def db_update_def issue_params_def
        Let_def case_prod_beta zero_Session_def zero_SourceFence_def Open_def split: option.split)
qed

theorem ticket_params_path_is_transparent_witness:
  "\<exists>s tp. HTTP_Fetch linked_http (Open, 0) sample_ask = ((s, 2), Inr tp) \<and> sample_answer tp"
proof -
  have "length (recipient linked_service) = 20" "NewRequest linked_http url" "Do linked_http = through_broker sample_json linked_broker"
    "pi_random linked_inputs n = ''r''" "pi_now linked_inputs n = 1" "settlementDomainID linked_service = sample_payer_domain"
    for url n by (simp_all add: linked_service_def linked_http_def linked_inputs_def)
  then show ?thesis
    using linked_issues ticket_params_path_is_transparent [OF linked_json _ linked_connected linked_askable _ linked_body _ linked_keccak,
        where s = Open and n = 0]
    by (fastforce simp: numeral_2_eq_2)
qed

definition linked_payer :: "payee_state payer_env" where
  "linked_payer = sample_payer_of (HTTP_Fetch linked_http) linked_eth"

lemma linked_signs: "keystore_signs linked_payer"
proof -
  have "sig_s sample_sig = 1" by (simp add: sample_sig_def SetBytes_def be_value_be_bytes)
  then have "verifySig linked_eth (replicate 20 (CHR ''s'')) h sample_sig" for h
    by (simp add: verifySig_def linked_eth_def sample_eth_def sample_sig_def nth_append secp256k1halfN_def secp256k1_n_def
        list_update_append)
  moreover have "\<not> isZeroAddr (replicate 20 (CHR ''s''))" by code_simp
  ultimately show ?thesis by (simp add: keystore_signs_def linked_payer_def sample_payer_of_def)
qed

lemma linked_mints:
  "\<exists>st out. CreatePayment linked_payer sample_pay_request (Sender_New (Open, 0) Open) = (st, Inr out)"
proof -
  have f: "length (recipient linked_service) = 20" "NewRequest linked_http url" "Do linked_http = through_broker sample_json linked_broker"
    "pi_random linked_inputs n = ''r''" "pi_now linked_inputs n = 1" "settlementDomainID linked_service = sample_payer_domain"
    for url n by (simp_all add: linked_service_def linked_http_def linked_inputs_def)
  obtain s tp where "HTTP_Fetch linked_http (Open, 0) sample_ask = ((s, 2), Inr tp)" "sample_answer tp"
    using linked_issues f HTTP_Fetch_through_broker [OF linked_json _ linked_connected linked_askable _ linked_body _ linked_keccak,
        where s = Open and n = 0] by (fastforce simp: numeral_2_eq_2)
  then show ?thesis unfolding linked_payer_def by (rule sample_mints)
qed

theorem minted_payment_passes_validation_witness:
  "\<exists>st out pay tp rand t. CreatePayment linked_payer sample_pay_request (Sender_New (Open, 0) Open) = (st, Inr out) \<and>
     Unmarshal_Payment linked_codec (pr_payment_bytes out) = Some pay \<and>
     funding_batch linked_eth linked_service pay tp rand (pb_ticket_sender_params pay) = Inr [t] \<and> ft_Credit t = Some 2"
proof -
  obtain st out where m: "CreatePayment linked_payer sample_pay_request (Sender_New (Open, 0) Open) = (st, Inr out)"
    using linked_mints by blast
  have H: "Fetch linked_payer = Some (HTTP_Fetch linked_http)" "ethlib linked_payer = linked_eth"
    "Do linked_http = through_broker sample_json linked_broker" "rounds_in_order linked_payer"
    "payment_wire linked_payer linked_codec" "cached_good G (Sender_New w s)"
    "round_at linked_payer w' = round_at linked_payer w" for G w w' s
    by (simp_all add: linked_payer_def sample_payer_of_def linked_http_def rounds_in_order_def round_at_def hash_at_def payment_wire_def linked_codec_def
        sample_payer_codec_def unmarshal_marshal_payment cached_good_def Sender_New_def)
  have short: "mints_shortfall linked_payer sample_pay_request (Sender_New (Open, 0) Open) 2"
    by (simp add: mints_shortfall_def sample_pay_request_def Sender_New_def Open_def SetBytes_def be_value_def)
  show ?thesis
    using m minted_payment_passes_validation [OF m short H(1) linked_json H(3) linked_connected [folded H(2)] H(6) linked_signs H(5,4,7)]
    unfolding H(2) by metis
qed

section \<open>Whatever a server answers\<close>

lemma parseHexAddress_length: "parseHexAddress raw (Some n) = Inr b \<Longrightarrow> length b = n"
  by (auto simp: parseHexAddress_def Let_def split: if_splits option.splits)

lemma toTypes_sized:
  assumes "toTypes j = Inr tp"
  shows "length (tp_Recipient tp) = 20" "length (tp_RecipientRandHash tp) = 32"
    and "tp_FaceValue tp \<noteq> None" "tp_WinProb tp \<noteq> None" "tp_ExpirationBlock tp \<noteq> None"
    and "\<And>e. tp_ExpirationParams tp = Some e \<Longrightarrow> length (CreationRoundBlockHash e) = 32"
proof -
  obtain rcpt face prob hash seed block exp where
    "parseHexAddress (jp_recipient j) (Some 20) = Inr rcpt" "parseHexAddress (jp_recipient_rand_hash j) (Some 32) = Inr hash"
    and e: "expiration_params (jp_expiration_params j) = Inr exp"
    and tp: "tp = \<lparr>tp_WholesaleAccountID = [], tp_TicketStreamID = [], tp_SettlementDomainID = [],
       tp_Recipient = rcpt, tp_FaceValue = Some face, tp_WinProb = Some prob,
       tp_RecipientRandHash = hash, tp_Seed = seed, tp_ExpirationBlock = Some block,
       tp_ExpirationParams = exp, tp_HighestSeenNonce = 0, tp_HasSeenNonces = False\<rparr>"
    using assms by (auto simp: toTypes_def sum_bind_case split: sum.splits)
  then show "length (tp_Recipient tp) = 20" "length (tp_RecipientRandHash tp) = 32"
    "tp_FaceValue tp \<noteq> None" "tp_WinProb tp \<noteq> None" "tp_ExpirationBlock tp \<noteq> None"
    using parseHexAddress_length by auto
  show "length (CreationRoundBlockHash e') = 32" if "tp_ExpirationParams tp = Some e'" for e'
    using e tp that by (auto simp: expiration_params_def sum_bind_case parseHexAddress_length split: if_splits sum.splits)
qed

text \<open>C20: fetched parameters are well formed, whatever the server at the other end answers. When the fetcher succeeds,
  addresses and hashes have their sizes, no amount is missing, the account and stream are the ones asked for and are not
  empty, and a creation round comes with a block hash of 32 bytes; the answer had status 200. The fetcher does not check the sign of an
  amount.\<close>

theorem fetched_params_are_well_formed:
  assumes "HTTP_Fetch N w req = (w', Inr tp)"
  shows "length (tp_Recipient tp) = 20 \<and> length (tp_RecipientRandHash tp) = 32 \<and>
    tp_FaceValue tp \<noteq> None \<and> tp_WinProb tp \<noteq> None \<and> tp_ExpirationBlock tp \<noteq> None \<and>
    (\<forall>e. tp_ExpirationParams tp = Some e \<longrightarrow> length (CreationRoundBlockHash e) = 32) \<and>
    tp_WholesaleAccountID tp = tr_WholesaleAccountID req \<and> tp_TicketStreamID tp = tr_TicketStreamID req \<and>
    tp_WholesaleAccountID tp \<noteq> [] \<and> tp_TicketStreamID tp \<noteq> [] \<and>
    (\<exists>body answer. Do N (fetch_url req @ ''/v1/payment/ticket-params'') body w = (w', Inr (200, answer)))"
proof -
  obtain body answer parsed where a: "Do N (fetch_url req @ ''/v1/payment/ticket-params'') body w = (w', Inr (200, answer))"
    and r: "read_response req parsed = Inr tp"
    using assms by (auto simp: HTTP_Fetch_def Let_def split: if_splits option.splits sum.splits prod.splits)
  obtain out where t: "toTypes (jr_ticket_params parsed) = Inr out"
    and out: "tp = out\<lparr>tp_WholesaleAccountID := jr_wholesale_account_id parsed,
       tp_TicketStreamID := jr_ticket_stream_id parsed, tp_SettlementDomainID := jr_settlement_domain_id parsed,
       tp_HighestSeenNonce := jr_highest_seen_nonce parsed, tp_HasSeenNonces := jr_has_seen_nonces parsed\<rparr>"
    and ids: "jr_wholesale_account_id parsed = tr_WholesaleAccountID req" "jr_ticket_stream_id parsed = tr_TicketStreamID req"
      "jr_wholesale_account_id parsed \<noteq> []" "jr_ticket_stream_id parsed \<noteq> []"
    using r by (auto simp: read_response_def sum_bind_case split: sum.splits if_splits)
  show ?thesis using toTypes_sized [OF t] ids a unfolding out by auto
qed

definition negative_answer :: ticketParamsHTTPResponse where
  "negative_answer =
     \<lparr>jr_wholesale_account_id = tr_WholesaleAccountID sample_ask, jr_ticket_stream_id = tr_TicketStreamID sample_ask,
      jr_isolation_version = 1, jr_settlement_domain_id = [],
      jr_ticket_params =
        \<lparr>jp_recipient = ''0x'' @ hex_encode (replicate 20 (CHR ''r'')), jp_face_value = big_String (- 5), jp_win_prob = big_String 1,
         jp_recipient_rand_hash = ''0x'' @ hex_encode (replicate 32 (CHR ''h'')), jp_seed = [], jp_expiration_block = [],
         jp_expiration_params = \<lparr>je_creation_round = 0, je_creation_round_block_hash = []\<rparr>\<rparr>,
      jr_highest_seen_nonce = 0, jr_has_seen_nonces = False\<rparr>"

definition negative_http :: "unit http" where
  "negative_http =
     \<lparr>Marshal_Request = (\<lambda>r. Some []), NewRequest = (\<lambda>_. True), Do = (\<lambda>_ _ w. (w, Inr (200, []))),
      Decode_Response = (\<lambda>_. Some negative_answer)\<rparr>"

theorem fetched_params_are_well_formed_witness:
  "\<exists>tp. HTTP_Fetch negative_http () sample_ask = ((), Inr tp) \<and> length (tp_Recipient tp) = 20 \<and>
     tp_WholesaleAccountID tp \<noteq> [] \<and> tp_FaceValue tp = Some (- 5)"
proof -
  have url: "fetch_url sample_ask = ''u''" "tr_FaceValue sample_ask = Some 2"
    by (simp_all add: fetch_url_def sample_ask_def trim_samples TrimRight_def)
  obtain tp where r: "read_response sample_ask negative_answer = Inr tp" "tp_FaceValue tp = Some (- 5)"
    by (simp add: read_response_def negative_answer_def sample_ask_def toTypes_def parseHexAddress_hex big_field_def
        expiration_params_def parseHexAddress_def [of "[]"])
  then have "HTTP_Fetch negative_http () sample_ask = ((), Inr tp)"
    by (simp add: HTTP_Fetch_def url negative_http_def)
  then show ?thesis using fetched_params_are_well_formed [of negative_http "()" sample_ask "()" tp] r(2) by blast
qed

text \<open>The answer \<open>j\<close> with both amounts negated.\<close>

definition negated :: "ticketParamsJSON \<Rightarrow> int \<Rightarrow> int \<Rightarrow> ticketParamsJSON" where
  "negated j face prob = j\<lparr>jp_face_value := big_String (- face), jp_win_prob := big_String (- prob)\<rparr>"

lemma toTypes_negated:
  assumes "toTypes j = Inr tp" "tp_FaceValue tp = Some face" "tp_WinProb tp = Some prob"
  shows "toTypes (negated j face prob) = Inr (tp\<lparr>tp_FaceValue := Some (- face), tp_WinProb := Some (- prob)\<rparr>)"
proof -
  have "big_field name (big_String i) = Inr i" for name i by (simp add: big_field_def)
  then show ?thesis using assms by (auto simp: toTypes_def negated_def sum_bind_case split: sum.splits if_splits)
qed

lemma CheckSignedTicketBatch_negated:
  assumes "0 \<le> face" "\<And>m. MaxTicketFaceValueWei l = Some m \<Longrightarrow> 0 \<le> m"
  shows "CheckSignedTicketBatch l ev (Some (- face)) = CheckSignedTicketBatch (l\<lparr>MaxTicketFaceValueWei := None\<rparr>) ev (Some face)"
proof -
  have "\<not> exceeds (MaxTicketFaceValueWei l) (Some (- face))"
    using assms by (cases "MaxTicketFaceValueWei l") (fastforce simp: exceeds_def)+
  then show ?thesis by (simp add: CheckSignedTicketBatch_def exceeds_def [of None])
qed

text \<open>C19: negated terms switch off the limit on a ticket's face value. Take any answer of a payee. The same answer with the
  face value and the win probability negated is accepted by the fetcher, is worth the same to the payer, so that it is not
  asked for again, and passes the sizing of a batch as if the payer had no limit on face values. The ticket the payer then signs
  and the parameters it sends are those of the answer with positive amounts: the sign is lost where an
  amount becomes bytes.\<close>

theorem negated_terms_escape_the_face_limit:
  assumes "toTypes j = Inr tp" "tp_FaceValue tp = Some face" "tp_WinProb tp = Some prob" "0 \<le> face"
    and "\<And>m. MaxTicketFaceValueWei (limits H) = Some m \<Longrightarrow> 0 \<le> m"
  shows "\<exists>tp'. toTypes (negated j face prob) = Inr tp' \<and>
    CreditedEV (tp_FaceValue tp') (tp_WinProb tp') = CreditedEV (Some face) (Some prob) \<and>
    size_batch H req funding (session\<lparr>se_ticketParams := tp'\<rparr>) =
      size_batch (H\<lparr>limits := limits H\<lparr>MaxTicketFaceValueWei := None\<rparr>\<rparr>) req funding (session\<lparr>se_ticketParams := tp\<rparr>) \<and>
    ticketHash H (signed_ticket H tp' nonce rnd hash) = ticketHash H (signed_ticket H tp nonce rnd hash) \<and>
    ticketParamsToWire (Some tp') = ticketParamsToWire (Some tp)"
proof -
  let ?tp = "tp\<lparr>tp_FaceValue := Some (- face), tp_WinProb := Some (- prob)\<rparr>"
  have ev: "CreditedEV (Some (- face)) (Some (- prob)) = CreditedEV (Some face) (Some prob)"
    by (simp add: CreditedEV_def)
  have "size_batch H req funding (session\<lparr>se_ticketParams := ?tp\<rparr>) =
      size_batch (H\<lparr>limits := limits H\<lparr>MaxTicketFaceValueWei := None\<rparr>\<rparr>) req funding (session\<lparr>se_ticketParams := tp\<rparr>)"
    using assms(2,3) CheckSignedTicketBatch_negated [OF assms(4,5)] by (simp add: size_batch_def ev)
  moreover have "ticketHash H (signed_ticket H ?tp nonce rnd hash) = ticketHash H (signed_ticket H tp nonce rnd hash)"
    using assms(2,3) by (simp add: ticketHash_def Ticket_Hash_def flatten_def AuxData_def signed_ticket_def safeBytes_def big_Bytes_def)
  moreover have "ticketParamsToWire (Some ?tp) = ticketParamsToWire (Some tp)"
    using assms(2,3) by (simp add: ticketParamsToWire_def bigIntBytes_def big_Bytes_def)
  ultimately show ?thesis using toTypes_negated [OF assms(1-3)] ev by simp
qed

text \<open>A ticket for a hundred times the limit, worth two wei.\<close>

definition large_answer :: ticketParamsJSON where
  "large_answer = (jr_ticket_params negative_answer)
     \<lparr>jp_face_value := big_String 10000, jp_win_prob := big_String (MaxWinProb div 5000 + 1), jp_seed := ''0x'' @ hex_encode ''seed''\<rparr>"

theorem negated_terms_escape_the_face_limit_witness:
  "\<exists>tp tp'. toTypes large_answer = Inr tp \<and> toTypes (negated large_answer 10000 (MaxWinProb div 5000 + 1)) = Inr tp' \<and>
     CheckSignedTicketBatch (limits sample_payer) (Some 2) (tp_FaceValue tp) \<noteq> None \<and>
     CheckSignedTicketBatch (limits sample_payer) (Some 2) (tp_FaceValue tp') = None \<and>
     CreditedEV (tp_FaceValue tp') (tp_WinProb tp') = 2 \<and>
     ticketHash sample_payer (signed_ticket sample_payer tp' 1 5 []) = ticketHash sample_payer (signed_ticket sample_payer tp 1 5 [])"
proof -
  obtain tp where tp: "toTypes large_answer = Inr tp" "tp_FaceValue tp = Some 10000" "tp_WinProb tp = Some (MaxWinProb div 5000 + 1)"
    by (simp add: large_answer_def negative_answer_def toTypes_def parseHexAddress_hex big_field_def expiration_params_def del: hex_encode.simps)
  have l: "MaxTicketFaceValueWei (limits sample_payer) = Some 100" "MaxPaymentWei (limits sample_payer) = Some 100"
    by (simp_all add: sample_payer_def sample_payer_of_def)
  obtain tp' where tp': "toTypes (negated large_answer 10000 (MaxWinProb div 5000 + 1)) = Inr tp'"
    "CreditedEV (tp_FaceValue tp') (tp_WinProb tp') = CreditedEV (Some 10000) (Some (MaxWinProb div 5000 + 1))"
    "ticketHash sample_payer (signed_ticket sample_payer tp' 1 5 []) = ticketHash sample_payer (signed_ticket sample_payer tp 1 5 [])"
    using negated_terms_escape_the_face_limit [OF tp, of sample_payer undefined undefined undefined 1 5 "[]"] l(1) by auto
  moreover have "tp_FaceValue tp' = Some (- 10000)" using tp'(1) toTypes_negated [OF tp] by auto
  moreover have "CreditedEV (Some 10000) (Some (MaxWinProb div 5000 + 1)) = 2" by (simp add: CreditedEV_def MaxWinProb_def Quo_def)
  ultimately show ?thesis using tp l by (auto simp: CheckSignedTicketBatch_def exceeds_def)
qed

end
