(* ===== verification/Identity_Laws.thy ===== *)
theory Identity_Laws
  imports Identity
begin

text \<open>
  Canonical broker addresses are canonical: taking the canonical form again changes nothing, for the addresses
  whose path needs no escapes. The payer signs the canonical form of the address it was given, and the broker
  compares the canonical form of what was signed with its own.
\<close>

section \<open>Hosts\<close>

text \<open>The characters of host names and of addresses, after lowering.\<close>

definition host_char :: "char \<Rightarrow> bool" where
  "host_char c \<longleftrightarrow> label_char c \<or> c = CHR ''.'' \<or> c = CHR '':''"

lemma host_char_code:
  "host_char c \<Longrightarrow> nat_of_byte c < 123 \<and> ascii_lower c = c \<and> c \<noteq> CHR ''['' \<and> c \<noteq> CHR '']'' \<and> c \<noteq> CHR ''/''"
  by (auto simp: host_char_def label_char_def ascii_lower_def Let_def)

lemma host_lower_ascii: "list_all (\<lambda>c. nat_of_byte c < 128) s \<Longrightarrow> host_lower s = map ascii_lower s"
proof (induction s)
  case (Cons c s)
  then have "c \<noteq> byte_of_nat 0xE2" "c \<noteq> byte_of_nat 0xC4" by auto
  with Cons show ?case by (simp add: hasPrefix_def)
qed simp

lemma host_lower_fixed: "list_all host_char s \<Longrightarrow> host_lower s = s"
  using host_char_code by (subst host_lower_ascii) (fastforce simp: list_all_iff intro: map_idI)+

lemma Split_chars: "list_all (list_all P) (Split s sep) \<Longrightarrow> c \<in> set s \<Longrightarrow> c = sep \<or> P c"
  by (induction s) (auto split: if_splits list.splits)

lemma valid_hostname_chars: "valid_hostname h \<Longrightarrow> c \<in> set h \<Longrightarrow> label_char c \<or> c = CHR ''.''"
  using Split_chars [of label_char h "CHR ''.''" c] by (auto simp: valid_hostname_def valid_label_def list_all_iff)

lemma Contains_char [simp]: "Contains s [c] \<longleftrightarrow> c \<in> set s"
  by (induction s) (auto simp: hasPrefix_def)

lemma hasSuffix_char [simp]: "hasSuffix s [c] \<longleftrightarrow> s \<noteq> [] \<and> last s = c"
  by (cases s rule: rev_cases) (auto simp: hasSuffix_def hasPrefix_def)

text \<open>Splitting what \<open>BrokerURI\<close> joins.\<close>

definition join_host :: "string \<Rightarrow> string \<Rightarrow> string" where
  "join_host name port =
     (if Contains name '':'' then ''['' @ name @ '']'' else name) @ (if port = [] then [] else CHR '':'' # port)"

lemma splitHostPort_port:
  assumes "list_all is_digit port"
  shows "splitHostPort (h @ CHR '':'' # port) =
    (if hasPrefix h ''['' \<and> hasSuffix h '']'' then (take (length h - 2) (drop 1 h), port) else (h, port))"
proof -
  have "CHR '':'' \<notin> set port" using assms by (auto simp: list_all_iff is_digit_def)
  then have "takeWhile (\<lambda>c. c \<noteq> CHR '':'') (rev (h @ CHR '':'' # port)) = rev port"
    by (auto simp: takeWhile_append)
  then show ?thesis using assms by (simp add: splitHostPort_def validOptionalPort_def)
qed

lemma splitHostPort_none:
  assumes "CHR '':'' \<notin> set h" "\<not> hasPrefix h ''[''"
  shows "splitHostPort h = (h, [])"
proof -
  have tail: "takeWhile (\<lambda>c. c \<noteq> CHR '':'') (rev h) = rev h" using assms(1) by (auto simp: takeWhile_eq_all_conv)
  show ?thesis using assms(2) unfolding splitHostPort_def tail by simp
qed

lemma splitHostPort_bracket: "splitHostPort (''['' @ n @ '']'') = (n, [])"
proof -
  have "\<not> validOptionalPort (CHR '':'' # rev (takeWhile (\<lambda>c. c \<noteq> CHR '':'') (rev (''['' @ n @ '']''))))"
    by (simp add: validOptionalPort_def is_digit_def)
  then show ?thesis by (simp add: splitHostPort_def hasPrefix_def Let_def)
qed

lemma split_join_host:
  assumes "list_all host_char name" "name \<noteq> []" "list_all is_digit port"
  shows "splitHostPort (join_host name port) = (name, port)"
proof -
  have "\<not> hasPrefix name ''[''" using assms(1,2) host_char_code by (cases name) (auto simp: hasPrefix_def)
  then show ?thesis
    using splitHostPort_port [OF assms(3)] splitHostPort_none [of name] splitHostPort_bracket [of name]
    by (auto simp: join_host_def hasPrefix_def)
qed

lemma canonical_port_fixed: "canonical_port scheme port = Some p \<Longrightarrow> canonical_port scheme p = Some p \<and> list_all is_digit p"
  using nat_decimal_digits by (auto simp: canonical_port_def split: if_splits option.splits)

text \<open>An address is written with hexadecimal digits, dots and colons.\<close>

definition ip_texts :: "urllib \<Rightarrow> bool" where
  "ip_texts L \<longleftrightarrow> (\<forall>h. ParseIP L h \<longrightarrow> (\<forall>c \<in> set h. hex_value c \<noteq> None \<or> c = CHR ''.'' \<or> c = CHR '':''))"

lemma host_lower_no_capital: "c \<in> set (host_lower s) \<Longrightarrow> \<not> (65 \<le> nat_of_byte c \<and> nat_of_byte c \<le> 90)"
proof (induction s rule: host_lower.induct)
  case (2 x xs)
  have "\<not> (65 \<le> nat_of_byte (ascii_lower x) \<and> nat_of_byte (ascii_lower x) \<le> 90)"
    by (simp add: ascii_lower_def Let_def)
  with 2 show ?case by (auto split: if_splits)
qed simp

lemma lowered_host_chars:
  assumes "ParseIP L (host_lower name) \<or> valid_hostname (host_lower name)" "ip_texts L"
  shows "list_all host_char (host_lower name)"
proof -
  have "host_char c" if "c \<in> set (host_lower name)" for c
  proof (cases "valid_hostname (host_lower name)")
    case True
    from valid_hostname_chars [OF this that] show ?thesis by (auto simp: host_char_def)
  next
    case False
    then have "hex_value c \<noteq> None \<or> c = CHR ''.'' \<or> c = CHR '':''" using assms that by (auto simp: ip_texts_def)
    with host_lower_no_capital [OF that] show ?thesis
      by (auto simp: host_char_def label_char_def hex_value_def Let_def split: if_splits)
  qed
  then show ?thesis by (auto simp: list_all_iff)
qed

lemma host_lower_not_Nil: "s \<noteq> [] \<Longrightarrow> host_lower s \<noteq> []"
  by (cases s) auto

lemma canonical_host_joins:
  assumes "canonical_host L scheme hp = Some h" "ip_texts L"
  obtains name p where "h = join_host name p" "name \<noteq> []" "list_all host_char name" "canonical_port scheme p = Some p"
    "list_all is_digit p" "ParseIP L name \<or> valid_hostname name"
proof -
  obtain name port where sp: "splitHostPort hp = (name, port)" by (cases "splitHostPort hp")
  obtain p where p: "canonical_port scheme port = Some p" "h = join_host (host_lower name) p"
    and n: "name \<noteq> []" "ParseIP L (host_lower name) \<or> valid_hostname (host_lower name)"
    using assms(1) sp by (auto simp: canonical_host_def join_host_def Let_def split: if_splits)
  show ?thesis
    using that [OF p(2) host_lower_not_Nil [OF n(1)] lowered_host_chars [OF n(2) assms(2)] _ _ n(2)]
      canonical_port_fixed [OF p(1)] by blast
qed

lemma join_host_end:
  assumes "list_all host_char name" "name \<noteq> []" "list_all is_digit p"
  shows "join_host name p \<noteq> [] \<and> last (join_host name p) \<noteq> CHR '':''"
proof -
  have "p \<noteq> [] \<Longrightarrow> is_digit (last p)" using assms(3) by (simp add: list_all_iff)
  then have "p \<noteq> [] \<Longrightarrow> last p \<noteq> CHR '':''" by (auto simp: is_digit_def)
  moreover have "CHR '':'' \<notin> set name \<Longrightarrow> last name \<noteq> CHR '':''" using assms(2) last_in_set [of name] by metis
  ultimately show ?thesis using assms(2) by (auto simp: join_host_def)
qed

lemma canonical_host_fixed:
  assumes "canonical_host L scheme hp = Some h" "ip_texts L"
  shows "canonical_host L scheme h = Some h"
proof -
  obtain name p where h: "h = join_host name p" "name \<noteq> []" "list_all host_char name" "canonical_port scheme p = Some p"
    "list_all is_digit p" "ParseIP L name \<or> valid_hostname name"
    by (rule canonical_host_joins [OF assms])
  have "splitHostPort h = (name, p)" "h \<noteq> [] \<and> last h \<noteq> CHR '':''" "host_lower name = name"
    using split_join_host join_host_end host_lower_fixed h by simp_all
  then show ?thesis using h by (auto simp: canonical_host_def join_host_def)
qed

section \<open>Paths\<close>

lemma Contains_Nil [simp]: "Contains s []"
  by (cases s) (simp_all add: hasPrefix_def)

lemma Contains_append: "Contains s t \<Longrightarrow> Contains (s @ r) t"
proof (induction s)
  case (Cons c s)
  moreover have "hasPrefix (c # s) t \<Longrightarrow> hasPrefix ((c # s) @ r) t" by (auto simp: hasPrefix_def take_append [of _ "c # s" r, simplified])
  ultimately show ?case by auto
qed simp

lemma Split_trailing: "Split (s @ [sep]) sep = Split s sep @ [[]]"
  by (induction s) (auto split: list.splits)

lemma canonical_path_fixed:
  assumes "canonical_path path = Some q"
  shows "canonical_path q = Some q"
proof (cases "path \<noteq> [] \<and> last path = CHR ''/''")
  case True
  then have path: "path = q @ ''/''"
    using assms append_butlast_last_id [of path] by (simp add: canonical_path_def split: if_splits)
  have "\<not> (q \<noteq> [] \<and> last q = CHR ''/'')"
  proof
    assume "q \<noteq> [] \<and> last q = CHR ''/''"
    then obtain r where "path = r @ ''//''" using path by (cases q rule: rev_cases) auto
    then have "Contains path ''//''" by (induction r arbitrary: path) (auto simp: hasPrefix_def)
    with assms show False by (simp add: canonical_path_def)
  qed
  then show ?thesis
    using assms Contains_append [of q _ "''/''"] unfolding path by (auto simp: canonical_path_def Split_trailing split: if_splits)
next
  case False
  with assms show ?thesis by (auto simp: canonical_path_def split: if_splits)
qed

section \<open>Addresses\<close>

definition path_char :: "char \<Rightarrow> bool" where
  "path_char c \<longleftrightarrow> (let n = nat_of_byte c in 97 \<le> n \<and> n \<le> 122 \<or> 65 \<le> n \<and> n \<le> 90 \<or> 48 \<le> n \<and> n \<le> 57) \<or>
     c \<in> {CHR ''-'', CHR ''.'', CHR ''_'', CHR ''~'', CHR ''/''}"

definition plain_path :: "string \<Rightarrow> bool" where
  "plain_path path \<longleftrightarrow> list_all path_char path \<and> (path = [] \<or> hd path = CHR ''/'')"

text \<open>A plain URL: nothing but a scheme, a host and a path that needs no escapes. The host is a lower-case
  host name or an IP address, in brackets if it has colons, with or without a port from 1 to 65535.\<close>

definition plain_url :: "urllib \<Rightarrow> URL \<Rightarrow> bool" where
  "plain_url L u \<longleftrightarrow>
     (url_Scheme u = ''http'' \<or> url_Scheme u = ''https'') \<and> url_Opaque u = [] \<and> \<not> url_User u \<and> url_RawQuery u = [] \<and>
     \<not> url_ForceQuery u \<and> url_RawPath u = [] \<and> plain_path (url_Path u) \<and>
     canonical_host L (url_Scheme u) (url_Host u) = Some (url_Host u)"

text \<open>What \<open>net/url\<close> and \<open>net\<close> promise for those: such a URL is printed part by part, and parsing what
  was printed gives the URL back. Nothing is asked of the parser for any other text.\<close>

definition net_url :: "urllib \<Rightarrow> bool" where
  "net_url L \<longleftrightarrow> ip_texts L \<and>
     (\<forall>u. plain_url L u \<longrightarrow>
        url_String L u = url_Scheme u @ ''://'' @ url_Host u @ url_Path u \<and> url_Parse L (url_String L u) = Some u)"

lemma join_host_chars:
  assumes "list_all host_char name" "name \<noteq> []" "list_all is_digit p"
  shows "join_host name p \<noteq> []"
    and "list_all (\<lambda>c. host_char c \<or> c = CHR ''['' \<or> c = CHR '']'') (join_host name p)"
proof -
  have "list_all host_char p"
    using assms(3) by (auto simp: list_all_iff is_digit_def host_char_def label_char_def Let_def)
  then show "list_all (\<lambda>c. host_char c \<or> c = CHR ''['' \<or> c = CHR '']'') (join_host name p)"
    using assms(1) by (auto simp: join_host_def list_all_iff host_char_def [of "CHR '':''"])
qed (use assms(2) in \<open>simp add: join_host_def\<close>)

lemma plain_path_canonical: "canonical_path path = Some q \<Longrightarrow> plain_path path \<Longrightarrow> plain_path q"
  using in_set_butlastD [of _ "tl path"]
  by (cases path) (auto simp: canonical_path_def plain_path_def list_all_iff split: if_splits)

definition text_char :: "char \<Rightarrow> bool" where
  "text_char c \<longleftrightarrow> visible c \<and> c \<noteq> CHR ''#'' \<and> c \<noteq> CHR ''%''"

lemma host_text_char: "host_char c \<Longrightarrow> text_char c"
  by (auto simp: text_char_def visible_def host_char_def label_char_def Let_def)

lemma path_text_char: "path_char c \<Longrightarrow> text_char c"
  by (auto simp: text_char_def visible_def path_char_def Let_def)

lemma other_text_char:
  "text_char (CHR ''['')" "text_char (CHR '']'')" "text_char (CHR '':'')" "text_char (CHR ''/'')"
  "text_char (CHR ''h'')" "text_char (CHR ''t'')" "text_char (CHR ''p'')" "text_char (CHR ''s'')"
  by (simp_all add: text_char_def visible_def)

lemma plain_url_host:
  assumes "plain_url L u" "ip_texts L"
  shows "list_all (\<lambda>c. host_char c \<or> c = CHR ''['' \<or> c = CHR '']'') (url_Host u)"
proof -
  have "canonical_host L (url_Scheme u) (url_Host u) = Some (url_Host u)" using assms(1) by (simp add: plain_url_def)
  from canonical_host_joins [OF this assms(2)] obtain name p where
    "url_Host u = join_host name p" "name \<noteq> []" "list_all host_char name" "list_all is_digit p" by blast
  then show ?thesis using join_host_chars by simp
qed

lemma plain_url_text:
  assumes "plain_url L u" "ip_texts L"
  shows "list_all text_char (url_Scheme u @ ''://'' @ url_Host u @ url_Path u)"
proof -
  have "list_all text_char (url_Scheme u)" using assms other_text_char by (auto simp: plain_url_def)
  moreover have "list_all text_char (url_Host u)"
    using plain_url_host [OF assms] other_text_char host_text_char by (auto simp: list_all_iff)
  moreover have "list_all text_char (url_Path u)"
    using assms(1) path_text_char by (auto simp: plain_url_def plain_path_def list_all_iff)
  ultimately show ?thesis using other_text_char by simp
qed

lemma keep_scheme: "url_Scheme v = s \<Longrightarrow> v\<lparr>url_Scheme := s\<rparr> = (v :: URL)"
  by (cases v) simp

lemma BrokerURI_parts:
  assumes "BrokerURI L raw = Some c" "url_Parse L raw = Some u" "ip_texts L" "plain_path (url_Path u)" "url_RawPath u = []"
  obtains v where "c = url_String L v" "plain_url L v" "canonical_path (url_Path v) = Some (url_Path v)"
proof -
  define scheme where "scheme = map ascii_lower (url_Scheme u)"
  obtain host path where hp: "canonical_host L scheme (url_Host u) = Some host" "canonical_path (url_Path u) = Some path"
    and c: "c = url_String L (u\<lparr>url_Scheme := scheme, url_Host := host, url_Path := path\<rparr>)"
    and u: "scheme = ''https'' \<or> scheme = ''http''" "\<not> url_User u" "url_Opaque u = []" "url_RawQuery u = []" "\<not> url_ForceQuery u"
    using assms(1,2) by (auto simp: BrokerURI_def Let_def scheme_def split: if_splits option.splits)
  let ?v = "u\<lparr>url_Scheme := scheme, url_Host := host, url_Path := path\<rparr>"
  have "plain_url L ?v"
    using u assms(5) canonical_host_fixed [OF hp(1) assms(3)] plain_path_canonical [OF hp(2) assms(4)]
    unfolding plain_url_def by auto
  moreover have "canonical_path (url_Path ?v) = Some (url_Path ?v)" using canonical_path_fixed [OF hp(2)] by simp
  ultimately show ?thesis by (rule that [OF c])
qed

text \<open>C21: a canonical address is its own canonical form. For an address whose path needs no escapes, what
  \<open>BrokerURI\<close> answers is accepted again and unchanged, so comparing the canonical form with any address
  gives the same result as comparing the address itself: the broker recognises the address the payer signed
  exactly when it recognises the one the payer was given.\<close>

theorem canonical_address_is_stable:
  assumes "net_url L" "BrokerURI L raw = Some c" "url_Parse L raw = Some u" "plain_path (url_Path u)" "url_RawPath u = []"
  shows "BrokerURI L c = Some c \<and> SameBrokerURI L c b = SameBrokerURI L raw b"
proof -
  have ip: "ip_texts L" using assms(1) by (simp add: net_url_def)
  obtain v where v: "c = url_String L v" "plain_url L v" "canonical_path (url_Path v) = Some (url_Path v)"
    by (rule BrokerURI_parts [OF assms(2,3) ip assms(4,5)])
  have form: "c = url_Scheme v @ ''://'' @ url_Host v @ url_Path v" and parse: "url_Parse L c = Some v"
    using assms(1) v(1,2) by (auto simp: net_url_def)
  have ok: "visible x \<and> x \<noteq> CHR ''#'' \<and> x \<noteq> CHR ''%''" if "x \<in> set c" for x
    using plain_url_text [OF v(2) ip] that unfolding form [symmetric] by (auto simp: list_all_iff text_char_def)
  have "c \<noteq> []" using form by simp
  then have "TrimSpace c = c" using ok by (intro TrimSpace_visible) auto
  moreover have "CHR ''#'' \<notin> set c" "CHR ''%'' \<notin> set c" using ok by auto
  moreover have "map ascii_lower (url_Scheme v) = url_Scheme v"
    using v(2) by (auto simp: plain_url_def ascii_lower_def)
  ultimately have "BrokerURI L c = Some c"
    using v parse by (auto simp: BrokerURI_def plain_url_def keep_scheme)
  then show ?thesis using assms(2) by (simp add: SameBrokerURI_def)
qed

text \<open>A parser for \<open>http\<close> and \<open>https\<close> addresses with a host. As in \<open>net/url\<close>, a bracket has to be closed, and
  what follows it, or follows the last colon outside brackets, has to be a port. It refuses every other text.\<close>

definition host_part_ok :: "string \<Rightarrow> bool" where
  "host_part_ok h \<longleftrightarrow>
     h \<noteq> [] \<and> list_all (\<lambda>c. host_char (ascii_lower c) \<or> c = CHR ''['' \<or> c = CHR '']'') h \<and>
     (if hasPrefix h ''['' then
        CHR '']'' \<in> set h \<and> validOptionalPort (rev (takeWhile (\<lambda>c. c \<noteq> CHR '']'') (rev h)))
      else CHR '':'' \<in> set h \<longrightarrow> validOptionalPort (CHR '':'' # rev (takeWhile (\<lambda>c. c \<noteq> CHR '':'') (rev h))))"

definition parse_plain :: "string \<Rightarrow> URL option" where
  "parse_plain s =
     (let scheme = takeWhile (\<lambda>c. c \<noteq> CHR '':'') s;
          rest = drop (length scheme) s;
          host = takeWhile (\<lambda>c. c \<noteq> CHR ''/'') (drop 3 rest);
          path = dropWhile (\<lambda>c. c \<noteq> CHR ''/'') (drop 3 rest)
      in if map ascii_lower scheme \<in> {''http'', ''https''} \<and> take 3 rest = ''://'' \<and> host_part_ok host \<and> list_all path_char path
         then Some \<lparr>url_Scheme = scheme, url_Opaque = [], url_User = False, url_Host = host,
           url_Path = path, url_RawPath = [], url_RawQuery = [], url_ForceQuery = False\<rparr>
         else None)"

text \<open>Of the IP addresses it knows the dotted ones.\<close>

definition dotted :: "string \<Rightarrow> bool" where
  "dotted h \<longleftrightarrow>
     (let parts = Split h (CHR ''.'') in length parts = 4 \<and>
      list_all (\<lambda>b. case decimal_nat b of None \<Rightarrow> False | Some n \<Rightarrow> n \<le> 255 \<and> b = nat_decimal n) parts)"

definition plain_lib :: urllib where
  "plain_lib =
     \<lparr>url_Parse = parse_plain, url_String = (\<lambda>u. url_Scheme u @ ''://'' @ url_Host u @ url_Path u), ParseIP = dotted\<rparr>"

lemma dotted_chars: "dotted h \<Longrightarrow> c \<in> set h \<Longrightarrow> c = CHR ''.'' \<or> is_digit c"
  using Split_chars [of is_digit h "CHR ''.''" c]
  by (fastforce simp: dotted_def Let_def list_all_iff decimal_nat_def split: option.splits if_splits)

lemma plain_lib_ips: "ip_texts plain_lib"
  using dotted_chars by (fastforce simp: ip_texts_def plain_lib_def hex_value_def is_digit_def Let_def)

lemma plain_host_part:
  assumes "plain_url plain_lib u"
  shows "host_part_ok (url_Host u)"
proof -
  have "canonical_host plain_lib (url_Scheme u) (url_Host u) = Some (url_Host u)" using assms by (simp add: plain_url_def)
  from canonical_host_joins [OF this plain_lib_ips] obtain name p where h: "url_Host u = join_host name p"
    "name \<noteq> []" "list_all host_char name" "list_all is_digit p" "ParseIP plain_lib name \<or> valid_hostname name"
    by blast
  have n: "CHR '':'' \<notin> set name"
    using h(5) dotted_chars [of name "CHR '':''"] valid_hostname_chars [of name "CHR '':''"]
    by (auto simp: plain_lib_def is_digit_def label_char_def)
  then have j: "url_Host u = name @ (if p = [] then [] else CHR '':'' # p)" by (simp add: h(1) join_host_def)
  have "CHR '':'' \<notin> set p" using h(4) by (auto simp: list_all_iff is_digit_def)
  then have t: "takeWhile (\<lambda>c. c \<noteq> CHR '':'') (rev (name @ CHR '':'' # p)) = rev p" by (auto simp: takeWhile_append)
  have "hd name \<noteq> CHR ''[''" using h(2,3) host_char_code [of "hd name"] by (cases name) simp_all
  then have b: "\<not> hasPrefix (url_Host u) ''[''" using h(2) by (cases name) (simp_all add: j hasPrefix_def)
  have "host_char (ascii_lower c) \<or> c = CHR ''['' \<or> c = CHR '']''" if "c \<in> set (url_Host u)" for c
    using plain_url_host [OF assms plain_lib_ips] that host_char_code [of c] by (auto simp: list_all_iff)
  then have "list_all (\<lambda>c. host_char (ascii_lower c) \<or> c = CHR ''['' \<or> c = CHR '']'') (url_Host u)"
    unfolding list_all_iff by blast
  moreover have "validOptionalPort (CHR '':'' # rev (takeWhile (\<lambda>c. c \<noteq> CHR '':'') (rev (url_Host u))))"
    if "CHR '':'' \<in> set (url_Host u)"
  proof (cases "p = []")
    case True
    with that n j show ?thesis by simp
  next
    case False
    then show ?thesis unfolding j using t h(4) by (simp add: validOptionalPort_def)
  qed
  moreover have "url_Host u \<noteq> []" using h(2) j by simp
  ultimately show ?thesis using b by (simp add: host_part_ok_def)
qed

lemma split_at_slash:
  assumes "CHR ''/'' \<notin> set h" "q = [] \<or> hd q = CHR ''/''"
  shows "takeWhile (\<lambda>c. c \<noteq> CHR ''/'') (h @ q) = h \<and> dropWhile (\<lambda>c. c \<noteq> CHR ''/'') (h @ q) = q"
  using assms
proof (induction h)
  case Nil
  then show ?case by (cases q) simp_all
qed auto

lemma parse_plain_text:
  assumes "plain_url plain_lib u"
  shows "parse_plain (url_Scheme u @ ''://'' @ url_Host u @ url_Path u) = Some u"
proof -
  have "c \<noteq> CHR ''/''" if "c \<in> set (url_Host u)" for c
    using plain_url_host [OF assms plain_lib_ips] that host_char_code [of c] by (auto simp: list_all_iff)
  then have "CHR ''/'' \<notin> set (url_Host u)" by blast
  moreover have "url_Path u = [] \<or> hd (url_Path u) = CHR ''/''" using assms by (simp add: plain_url_def plain_path_def)
  ultimately have rest: "takeWhile (\<lambda>c. c \<noteq> CHR ''/'') (url_Host u @ url_Path u) = url_Host u"
    "dropWhile (\<lambda>c. c \<noteq> CHR ''/'') (url_Host u @ url_Path u) = url_Path u"
    using split_at_slash by blast+
  have "takeWhile (\<lambda>c. c \<noteq> CHR '':'') (url_Scheme u @ ''://'' @ r) = url_Scheme u" for r
    using assms by (auto simp: plain_url_def)
  moreover have "map ascii_lower (url_Scheme u) \<in> {''http'', ''https''}" "list_all path_char (url_Path u)"
    using assms by (auto simp: plain_url_def ascii_lower_def plain_path_def)
  ultimately have "parse_plain (url_Scheme u @ ''://'' @ url_Host u @ url_Path u) =
    Some \<lparr>url_Scheme = url_Scheme u, url_Opaque = [], url_User = False, url_Host = url_Host u, url_Path = url_Path u,
      url_RawPath = [], url_RawQuery = [], url_ForceQuery = False\<rparr>"
    using plain_host_part [OF assms] by (simp add: parse_plain_def rest)
  then show ?thesis using assms by (cases u) (simp add: plain_url_def)
qed

lemma plain_lib_net_url: "net_url plain_lib"
  using parse_plain_text plain_lib_ips by (simp add: net_url_def) (simp add: plain_lib_def)

lemma byte_of_nat_is: "byte_of_nat n = c \<longleftrightarrow> nat_of_byte c = n mod 256"
  using eq_byte_of_nat_iff by metis

lemma sample_host_part: "host_part_ok ''Node.example:0443''"
  by (simp add: host_part_ok_def hasPrefix_def validOptionalPort_def is_digit_def host_char_def label_char_def
      ascii_lower_def)

lemma sample_parse_plain:
  "parse_plain ''HTTPS://Node.example:0443/pay/'' =
     Some \<lparr>url_Scheme = ''HTTPS'', url_Opaque = [], url_User = False, url_Host = ''Node.example:0443'',
       url_Path = ''/pay/'', url_RawPath = [], url_RawQuery = [], url_ForceQuery = False\<rparr>"
proof -
  have "map ascii_lower ''HTTPS'' = ''https''" by (simp add: ascii_lower_def byte_of_nat_is)
  then show ?thesis by (simp add: parse_plain_def sample_host_part path_char_def del: list.map)
qed

lemma plain_lib_parse: "url_Parse plain_lib = parse_plain"
  by (simp add: plain_lib_def)

lemma sample_split: "splitHostPort ''Node.example:0443'' = (''Node.example'', ''0443'')"
  by code_simp

lemma sample_lower: "host_lower ''Node.example'' = ''node.example''"
  by (subst host_lower_ascii) (simp_all add: ascii_lower_def byte_of_nat_is del: host_lower.simps)

lemma sample_port: "canonical_port ''https'' ''0443'' = Some []"
  by (simp add: canonical_port_def decimal_nat_def is_digit_def)

lemma sample_hostname_valid: "valid_hostname ''node.example''"
  by (simp add: valid_hostname_def valid_label_def label_char_def)

lemma sample_path: "canonical_path ''/pay/'' = Some ''/pay''"
  by (simp add: canonical_path_def hasPrefix_def byte_of_nat_is)

lemma sample_host: "canonical_host plain_lib ''https'' ''Node.example:0443'' = Some ''node.example''"
  by (simp add: canonical_host_def sample_split sample_lower sample_port sample_hostname_valid del: host_lower.simps)

lemma sample_address: "BrokerURI plain_lib ''HTTPS://Node.example:0443/pay/'' = Some ''https://node.example/pay''"
proof -
  have "TrimSpace ''HTTPS://Node.example:0443/pay/'' = ''HTTPS://Node.example:0443/pay/''"
    by (rule TrimSpace_visible) (simp_all add: visible_def)
  moreover have "map ascii_lower ''HTTPS'' = ''https''" by (simp add: ascii_lower_def byte_of_nat_is)
  moreover have "url_String plain_lib u = url_Scheme u @ ''://'' @ url_Host u @ url_Path u" for u
    by (simp add: plain_lib_def)
  ultimately show ?thesis
    by (simp add: BrokerURI_def plain_lib_parse sample_parse_plain sample_host sample_path Let_def del: list.map)
qed

theorem canonical_address_is_stable_witness:
  "BrokerURI plain_lib ''https://node.example/pay'' = Some ''https://node.example/pay'' \<and>
   SameBrokerURI plain_lib ''https://node.example/pay'' ''HTTPS://Node.example:0443/pay/''"
proof -
  note parse = sample_parse_plain [folded plain_lib_parse]
  have "plain_path ''/pay/''" by (simp add: plain_path_def path_char_def)
  then show ?thesis
    using canonical_address_is_stable [OF plain_lib_net_url sample_address parse, of "''HTTPS://Node.example:0443/pay/''"]
    by (simp add: SameBrokerURI_def sample_address)
qed

end
