(* ===== verification/Authorization_Path.thy ===== *)
theory Authorization_Path
  imports Sender_Laws Receiver_Laws Identity_Laws
begin

text \<open>
  From the payer's signature to the payee's admission: what \<open>CreateSpendAuthorization\<close> signs, and which of
  those authorizations the payee's service accepts.
\<close>

section \<open>What was signed\<close>

definition verifies :: "eth \<Rightarrow> bytes \<Rightarrow> bytes \<Rightarrow> bytes \<Rightarrow> bool" where
  "verifies E addr digest sig \<longleftrightarrow>
     length sig = 65 \<and> (nat_of_byte (sig ! 64) = 27 \<or> nat_of_byte (sig ! 64) = 28) \<and>
     (\<exists>pub. SigToPub E (TextHash E digest) (sig[64 := byte_of_nat (nat_of_byte (sig ! 64) - 27)]) = Some pub \<and>
        PubkeyToAddress E pub = addr)"

text \<open>The keystore's address is one, and its signatures are its own.\<close>

definition keystore_authorizes :: "'w payer_env \<Rightarrow> bool" where
  "keystore_authorizes H \<longleftrightarrow> length (Address H) = 20 \<and>
     (\<forall>w w' h sig. Sign H w h = (w', Inr sig) \<longrightarrow> verifies (ethlib H) (Address H) h sig)"

text \<open>Payer and payee encode payloads alike. Decoding what was encoded gives the authorization back, and the
  encoding of one that has a payload is not empty. Encoding fails where it does, as for texts that are not UTF-8.\<close>

definition authorization_wire :: "'w payer_env \<Rightarrow> codec \<Rightarrow> bool" where
  "authorization_wire H C \<longleftrightarrow>
     Marshal_Payload C = Marshal_Payload (pbwire H) \<and>
     (\<forall>a b. Marshal_SpendAuthorization (payerwire H) a = Some b \<longrightarrow>
        (sa_payload a \<noteq> None \<longrightarrow> b \<noteq> []) \<and> Unmarshal_SpendAuthorization C b = Some a)"

definition unused :: "'w payer_env \<Rightarrow> SpendAuthorizationPayload \<Rightarrow> store \<Rightarrow> bool" where
  "unused H p s \<longleftrightarrow> fmlookup (mint_tombstones s) (MintKey (Address H) (authorization_store_id p)) = None"

lemma reserve_unused:
  assumes "unused H p (pdb st)" "reserve_mint H err (authorization_store_id p) fp st = (st1, Inr prior)"
  shows "prior = None"
  using assms
  by (auto simp: unused_def reserve_mint_def perform_def look_def ask_def on_db_def MintReserve_def db_update_def Let_def
      split: prod.splits)

lemma Create_signs:
  assumes "CreateSpendAuthorization H req st = (st', Inr resp)" "check_request H req = Inr p" "unused H p (pdb st)"
  obtains digest w w' sig where "Digest (ethlib H) (pbwire H) (Some p) = Inr digest" "Sign H w digest = (w', Inr sig)"
    "Marshal_SpendAuthorization (payerwire H) \<lparr>sa_payload = Some p, sa_signature = sig\<rparr> = Some (cr_authorization_bytes resp)"
proof -
  obtain wire st1 prior where r: "reserve_mint H (\<lambda>_. status_Error AlreadyExists ''authorization idempotency'')
        (authorization_store_id p) (sha256 wire) st = (st1, Inr prior)"
    and k: "(case prior of
          Some rec \<Rightarrow> yield \<lparr>cr_authorization_bytes = mr_PaymentBytes rec, cr_authorization_id = pl_authorization_id p, cr_payer = pl_payer p\<rparr>
        | None \<Rightarrow>
            perform (result (\<lambda>_. status_Error Internal ''authorization digest'')
               (Digest (ethlib H) (pbwire H) (Some p))) (\<lambda>digest.
            perform (call (\<lambda>_. status_Error Internal ''authorization signature'') (\<lambda>w. Sign H w digest)) (\<lambda>sig.
            case Marshal_SpendAuthorization (payerwire H) \<lparr>sa_payload = Some p, sa_signature = sig\<rparr> of
              None \<Rightarrow> fail (status_Error Internal ''authorization marshal'')
            | Some b \<Rightarrow>
                perform (record_mint H (status_Error Internal ''record authorization'') (authorization_store_id p)
                   (authorization_record (sha256 wire) b)) (\<lambda>_. yield \<lparr>cr_authorization_bytes = b,
                     cr_authorization_id = pl_authorization_id p, cr_payer = pl_payer p\<rparr>)))) st1 = (st', Inr resp)"
    using assms(1,2)
    by (auto simp: CreateSpendAuthorization_def result_def perform_Inr sign_authorization_def Let_def reject_runs fail_def
        split: option.splits)
  have "prior = None" using reserve_unused [OF assms(3) r] .
  with k show ?thesis
    by (auto simp: perform_Inr result_def call_def fail_def yield_def split: option.splits sum.splits prod.splits intro: that)
qed

section \<open>What the payee checks\<close>

text \<open>A blank text is one of spaces only. The payer trims before it asks whether a field is there, the payee
  does not.\<close>

definition not_blank :: "string \<Rightarrow> bool" where
  "not_blank s \<longleftrightarrow> (TrimSpace s = [] \<longrightarrow> s = [])"

definition tidy :: "CreateSpendAuthorizationRequest \<Rightarrow> bool" where
  "tidy req \<longleftrightarrow>
     (\<forall>price. ca_accepted_price req = Some price \<longrightarrow>
        TrimSpace (ap_capability price) = ap_capability price \<and> TrimSpace (ap_offering price) = ap_offering price) \<and>
     (ca_protocol req = ''paid-job/v1'' \<longrightarrow> not_blank (ca_session_id req)) \<and>
     not_blank (ca_predecessor_authorization_id req)"

definition meant_for :: "Service \<Rightarrow> CreateSpendAuthorizationRequest \<Rightarrow> bool" where
  "meant_for svc req \<longleftrightarrow>
     \<not> settlementDomainErr svc \<and> settlementDomainID svc = ca_settlement_domain_id req \<and> recipient svc = ca_payee req \<and>
     (chainID svc = 0 \<or> chainID svc = ca_chain_id req)"

definition window :: "CreateSpendAuthorizationRequest \<Rightarrow> time \<Rightarrow> time \<Rightarrow> bool" where
  "window req notBefore expiresAt \<longleftrightarrow>
     time_Parse (ca_not_before req) = Some notBefore \<and> time_Parse (ca_expires_at req) = Some expiresAt \<and>
     year_range notBefore \<and> year_range expiresAt"

lemma check_request_Inr:
  assumes "check_request H req = Inr p" "window req notBefore expiresAt"
  obtains uri price ai where "BrokerURI (urls H) (ca_broker_uri req) = Some uri"
    "ca_accepted_price req = Some price" "parseAcceptedPrice (Some price) = Inr ai"
    "check_amounts H req ai = None" "p = authorization_payload H req uri ai notBefore expiresAt"
    "notBefore < expiresAt" "revision_fields req = None"
    "ValidWholesaleAccountID (ca_wholesale_account_id req)" "length (ca_payee req) = 20"
    "TrimSpace (ca_authorization_id req) \<noteq> []" "TrimSpace (ca_request_id req) \<noteq> []"
    "ValidSettlementDomainID (ca_settlement_domain_id req)" "ca_chain_id req \<noteq> 0" "ca_denomination req = ''wei''"
    "ca_protocol req = ''paid-job/v1'' \<or> ca_protocol req = ''paid-session/v1''"
proof (cases "ca_accepted_price req")
  case None
  with assms(1) show ?thesis by (simp add: check_request_def parseAcceptedPrice_def split: if_splits option.splits)
next
  case (Some price)
  with assms show ?thesis
    by (auto simp: check_request_def check_times_def window_def Let_def split: if_splits option.splits sum.splits intro: that)
qed

lemma Verify_signed:
  assumes "keystore_authorizes H" "Marshal_Payload C = Marshal_Payload (pbwire H)"
    and "Digest (ethlib H) (pbwire H) (Some p) = Inr digest" "Sign H w digest = (w', Inr sig)" "pl_payer p = Address H"
  shows "Verify (ethlib H) C \<lparr>sa_payload = Some p, sa_signature = sig\<rparr> = Inr ()"
proof -
  have "Digest (ethlib H) C (Some p) = Inr digest" using assms(2,3) by (simp add: Digest_def split: if_splits)
  moreover have "verifies (ethlib H) (Address H) digest sig" "length (Address H) = 20"
    using assms(1,4) by (auto simp: keystore_authorizes_def)
  ultimately show ?thesis using assms(5) by (auto simp: Verify_def verifies_def Let_def)
qed

lemma identity_checked:
  assumes "p = authorization_payload H req uri ai notBefore expiresAt" "meant_for svc req" "uri \<noteq> []"
    and "ValidWholesaleAccountID (ca_wholesale_account_id req)" "ValidSettlementDomainID (ca_settlement_domain_id req)"
    and "TrimSpace (ca_authorization_id req) \<noteq> []" "TrimSpace (ca_request_id req) \<noteq> []" "ca_accepted_price req = Some price"
    and "ca_chain_id req \<noteq> 0" "ca_denomination req = ''wei''" "check_amounts H req ai = None"
  shows "check_identity svc p = check_protocol p"
proof -
  have "length (ca_request_digest req) = 32" "length (ca_caller_public_key req) \<in> {0, 33, 65}"
    using assms(11) by (auto simp: check_amounts_def caller_key_ok_def Let_def split: if_splits option.splits)
  moreover have "settlementDomainID svc \<noteq> []"
    using assms(2,5) by (auto simp: meant_for_def ValidSettlementDomainID_def ValidDomain_def)
  moreover have "ca_authorization_id req \<noteq> []" "ca_request_id req \<noteq> []" using assms(6,7) by auto
  ultimately show ?thesis
    using assms(2-4,8-10) unfolding assms(1) check_identity_def meant_for_def authorization_payload_def by fastforce
qed

lemma protocol_checked:
  assumes "p = authorization_payload H req uri ai notBefore expiresAt" "revision_fields req = None"
    and "ca_protocol req = ''paid-job/v1'' \<or> ca_protocol req = ''paid-session/v1''"
  shows "check_protocol p = None \<longleftrightarrow>
    (ca_protocol req = ''paid-job/v1'' \<longrightarrow> not_blank (ca_session_id req)) \<and> not_blank (ca_predecessor_authorization_id req)"
  using assms
  by (auto simp: check_protocol_def authorization_payload_def revision_fields_def not_blank_def Let_def word_neq_0_conv
      split: if_splits)

lemma terms_checked:
  assumes "p = authorization_payload H req uri ai notBefore expiresAt" "window req notBefore expiresAt"
    and "parseAcceptedPrice (Some price) = Inr ai" "check_amounts H req ai = None" "notBefore < expiresAt"
  shows "check_terms p price now = Inr t \<longleftrightarrow>
    TrimSpace (ap_capability price) = ap_capability price \<and> TrimSpace (ap_offering price) = ap_offering price \<and>
    notBefore \<le> now \<and> t = \<lparr>tm_payload = p, tm_price = price, tm_expiresAt = expiresAt\<rparr>"
proof -
  obtain v where v: "price_per_unit_wei price = Some v" "ai_PricePerUnitWei ai = SetBytes v"
    and a: "ai_UnitsPerPrice ai = units_per_price price" "units_per_price price \<noteq> 0" "TrimSpace (work_unit_name price) \<noteq> []"
      "ai_CapabilityName ai = TrimSpace (ap_capability price)" "ai_Offering ai = TrimSpace (ap_offering price)"
    using assms(3) by (auto simp: parseAcceptedPrice_def parseBigUInt_def split: option.splits if_splits sum.splits)
  have t: "time_Parse (pl_not_before p) = Some notBefore" "time_Parse (pl_expires_at p) = Some expiresAt"
    using assms(1,2) time_Parse_Format by (auto simp: authorization_payload_def window_def)
  have m: "0 < SetBytes (GetValue (ca_max_debit_wei req))" "ca_max_total_units req \<noteq> 0"
    "BillFor (Some (SetBytes v)) (units_per_price price) (ca_max_total_units req) \<le> SetBytes (GetValue (ca_max_debit_wei req))"
    using assms(4) v a by (auto simp: check_amounts_def Let_def split: if_splits option.splits)
  have p: "pl_capability p = TrimSpace (ap_capability price)" "pl_offering p = TrimSpace (ap_offering price)"
    "SetBytes (pl_max_debit_wei p) = SetBytes (GetValue (ca_max_debit_wei req))" "pl_max_total_units p = ca_max_total_units req"
    using assms(1) a m by (auto simp: authorization_payload_def)
  have "work_unit_name price \<noteq> []" using a(3) by auto
  moreover have nonneg: "(SetBytes v < 0) = False" by (simp add: SetBytes_def)
  ultimately show ?thesis
    using t m p a v(1) assms(5)
    by (auto simp: check_terms_def Let_def tm_maxDebit_def tm_unitPrice_def GetValue_def [of "Some v"] nonneg)
qed

text \<open>C7: the payee accepts exactly the tidy authorizations of a payer. Take a payer whose keystore signs for its
  address and who encodes as the payee decodes, and a request with an unused id that is meant for this payee. When
  the payer's service signs it, the payee's checks of the signed bytes succeed exactly when the authorization has
  started and the request is tidy: the capability and offering of its price carry no surrounding spaces, and the
  predecessor id, and for a job the session id, is not made of spaces only. What is accepted then is the payload
  that was checked and signed, with the price of the request and its expiry. The payer's service signs untidy
  requests as well.\<close>

theorem payee_accepts_tidy_authorizations:
  assumes "CreateSpendAuthorization H req st = (st', Inr resp)" "check_request H req = Inr p" "unused H p (pdb st)"
    and "keystore_authorizes H" "authorization_wire H C" "meant_for svc req" "window req notBefore expiresAt"
    and "BrokerURI (urls H) (ca_broker_uri req) \<noteq> Some []"
  shows "check_authorization (ethlib H) C svc (cr_authorization_bytes resp) now = Inr t \<longleftrightarrow>
    tidy req \<and> notBefore \<le> now \<and>
    t = \<lparr>tm_payload = p, tm_price = the (ca_accepted_price req), tm_expiresAt = expiresAt\<rparr>"
proof -
  obtain digest w w' sig where d: "Digest (ethlib H) (pbwire H) (Some p) = Inr digest" "Sign H w digest = (w', Inr sig)"
    "Marshal_SpendAuthorization (payerwire H) \<lparr>sa_payload = Some p, sa_signature = sig\<rparr> = Some (cr_authorization_bytes resp)"
    using Create_signs [OF assms(1-3)] by blast
  obtain uri price ai where c: "BrokerURI (urls H) (ca_broker_uri req) = Some uri"
    "ca_accepted_price req = Some price" "parseAcceptedPrice (Some price) = Inr ai" "check_amounts H req ai = None"
    "p = authorization_payload H req uri ai notBefore expiresAt" "notBefore < expiresAt" "revision_fields req = None"
    "ValidWholesaleAccountID (ca_wholesale_account_id req)" "TrimSpace (ca_authorization_id req) \<noteq> []"
    "TrimSpace (ca_request_id req) \<noteq> []" "ValidSettlementDomainID (ca_settlement_domain_id req)"
    "ca_chain_id req \<noteq> 0" "ca_denomination req = ''wei''"
    "ca_protocol req = ''paid-job/v1'' \<or> ca_protocol req = ''paid-session/v1''"
    by (rule check_request_Inr [OF assms(2,7)])
  have "pl_payer p = Address H" "pl_accepted_price p = Some price" using c(2,5) by (simp_all add: authorization_payload_def)
  note v = Verify_signed [OF assms(4) _ d(1,2) this(1), of C] and price = this(2)
  have wire: "cr_authorization_bytes resp \<noteq> []" "Marshal_Payload C = Marshal_Payload (pbwire H)"
    "Unmarshal_SpendAuthorization C (cr_authorization_bytes resp) = Some \<lparr>sa_payload = Some p, sa_signature = sig\<rparr>"
    using assms(5) d(3) by (force simp: authorization_wire_def)+
  have id: "check_identity svc p = check_protocol p"
    using c assms(8) by (intro identity_checked [OF c(5) assms(6)]) auto
  have "check_authorization (ethlib H) C svc (cr_authorization_bytes resp) now =
    (case check_protocol p of Some e \<Rightarrow> Inl e | None \<Rightarrow> check_terms p price now)"
    using wire v price id by (simp add: check_authorization_def split: option.splits)
  then show ?thesis
    using protocol_checked [OF c(5,7,14)] terms_checked [OF c(5) assms(7) c(3,4,6), of now t] c(2)
    by (auto simp: tidy_def split: option.splits)
qed

section \<open>A payer and its payee\<close>

definition auth_codec :: codec where
  "auth_codec =
     \<lparr>Unmarshal_Payment = unmarshal_payment, Unmarshal_SpendAuthorization = unmarshal_authorization,
      Marshal_Payload = (\<lambda>p. Some (pack (payload_fields p)))\<rparr>"

definition auth_payer :: "unit payer_env" where
  "auth_payer = sample_payer\<lparr>urls := plain_lib, pbwire := auth_codec,
     payerwire := sample_payer_codec\<lparr>Marshal_SpendAuthorization := (\<lambda>a. Some (marshal_authorization a))\<rparr>\<rparr>"

definition auth_service :: Service where
  "auth_service = \<lparr>recipient = replicate 20 (CHR ''r''), chainID = 1, settlementDomainID = sample_payer_domain,
     settlementDomainErr = False, defaultFaceValue = 2, defaultWinProb = 1, RevenueReporter = None\<rparr>"

definition auth_request :: "string \<Rightarrow> CreateSpendAuthorizationRequest" where
  "auth_request predecessor =
     \<lparr>ca_wholesale_account_id = ''acct'', ca_payee = replicate 20 (CHR ''r''), ca_authorization_id = ''m'',
      ca_request_id = ''q'', ca_session_id = [], ca_protocol = ''paid-job/v1'', ca_accepted_price = Some sample_price,
      ca_max_debit_wei = Some [CHR 0x06], ca_max_total_units = 3, ca_not_before = time_Format 0,
      ca_expires_at = time_Format 1000000000, ca_request_digest = replicate 32 (CHR ''d''), ca_caller_public_key = [],
      ca_revision = 0, ca_predecessor_authorization_id = predecessor, ca_broker_uri = ''HTTPS://Node.example:0443/pay/'', ca_chain_id = 1,
      ca_denomination = ''wei'', ca_settlement_domain_id = sample_payer_domain\<rparr>"

lemma auth_keystore: "keystore_authorizes auth_payer"
proof -
  have "length sample_sig = 65" "nat_of_byte (sample_sig ! 64) = 27" "take 20 sample_sig = replicate 20 (CHR ''s'')"
    by (simp_all add: sample_sig_def nth_append)
  then show ?thesis
    by (simp add: keystore_authorizes_def verifies_def auth_payer_def sample_payer_def sample_payer_of_def sample_eth_def take_update_cancel)
qed

lemma auth_wire: "authorization_wire auth_payer auth_codec"
  by (simp add: authorization_wire_def auth_payer_def auth_codec_def unmarshal_marshal_authorization
      marshal_authorization_not_Nil)

lemma auth_times: "window (auth_request pre) 0 1000000000"
proof -
  have "year_range 0" "year_range 1000000000" by (simp_all add: year_range_def days_before_def)
  then show ?thesis by (simp add: window_def auth_request_def time_Parse_Format)
qed

definition auth_payload :: "string \<Rightarrow> SpendAuthorizationPayload" where
  "auth_payload pre =
     authorization_payload auth_payer (auth_request pre) ''https://node.example/pay''
       \<lparr>ai_PricePerUnitWei = 2, ai_UnitsPerPrice = 1, ai_WorkUnitName = ''token'', ai_QuoteRef = Some sample_quote,
         ai_CapabilityName = ''cap'', ai_Offering = ''off''\<rparr> 0 1000000000"

lemma auth_checked:
  assumes "TrimSpace pre = []"
  shows "check_request auth_payer (auth_request pre) = Inr (auth_payload pre)"
proof -
  have u: "urls auth_payer = plain_lib" by (simp add: auth_payer_def)
  have "check_amounts auth_payer (auth_request pre)
      \<lparr>ai_PricePerUnitWei = 2, ai_UnitsPerPrice = 1, ai_WorkUnitName = ''token'', ai_QuoteRef = Some sample_quote,
         ai_CapabilityName = ''cap'', ai_Offering = ''off''\<rparr> = None"
    by (simp add: check_amounts_def auth_request_def auth_payer_def sample_payer_def sample_payer_of_def CheckAuthorization_def
        exceeds_def GetValue_def SetBytes_def be_value_def BillFor_def caller_key_ok_def)
  moreover have "revision_fields (auth_request pre) = None"
    using assms by (simp add: revision_fields_def auth_request_def)
  ultimately show ?thesis
    using auth_times [of pre] sample_domain_ok sample_address
    by (simp add: check_request_def check_times_def u window_def auth_payload_def auth_request_def trim_samples
        sample_accepted ValidSettlementDomainID_def)
qed

lemma auth_signed:
  assumes "TrimSpace pre = []"
  shows "\<exists>st resp. CreateSpendAuthorization auth_payer (auth_request pre) (Sender_New () Open) = (st, Inr resp)"
proof -
  have "pl_domain (auth_payload pre) = spendauth_Domain" by (simp add: auth_payload_def authorization_payload_def)
  moreover have "store_configured auth_payer" "Marshal_Payload (pbwire auth_payer) p = Some (pack (payload_fields p))"
    "Sign auth_payer w h = (w, Inr sample_sig)" "Now auth_payer w = (w, 0)"
    "Marshal_SpendAuthorization (payerwire auth_payer) a = Some (marshal_authorization a)" for p w h a
    by (simp_all add: auth_payer_def auth_codec_def sample_payer_def sample_payer_of_def)
  ultimately show ?thesis
    by (simp add: CreateSpendAuthorization_def auth_checked [OF assms] sign_authorization_def perform_def result_def yield_def
        reject_def call_def Digest_def reserve_mint_def record_mint_def look_def ask_def on_db_def Sender_New_def
        MintReserve_def Store_MintRecord_def db_update_def Open_def Let_def authorization_record_def)
qed

lemma blank_space: "TrimSpace '' '' = []"
proof -
  have "leading_word space_runes '' '' = Some '' ''"
    by (simp add: leading_word_def space_runes_def hasPrefix_def byte_of_nat_is eq_byte_of_nat_iff)
  then have "drop_words space_runes '' '' = drop_words space_runes []" by (subst drop_words.simps) simp
  then show ?thesis using TrimSpace_Nil by (simp add: TrimSpace_def)
qed

theorem payee_accepts_tidy_authorizations_witness:
  "(\<exists>st resp t. CreateSpendAuthorization auth_payer (auth_request []) (Sender_New () Open) = (st, Inr resp) \<and>
      check_authorization sample_eth auth_codec auth_service (cr_authorization_bytes resp) 5 = Inr t \<and>
      tm_payload t = auth_payload [] \<and> tm_expiresAt t = 1000000000) \<and>
   (\<exists>st resp. CreateSpendAuthorization auth_payer (auth_request '' '') (Sender_New () Open) = (st, Inr resp) \<and>
      (\<forall>t. check_authorization sample_eth auth_codec auth_service (cr_authorization_bytes resp) 5 \<noteq> Inr t))"
proof -
  have "BrokerURI (urls auth_payer) (ca_broker_uri (auth_request pre)) \<noteq> Some []"
    "unused auth_payer p (pdb (Sender_New () Open))" "meant_for auth_service (auth_request pre)" "ethlib auth_payer = sample_eth" for pre p
    by (simp_all add: auth_payer_def auth_request_def sample_address unused_def Sender_New_def Open_def meant_for_def
        auth_service_def sample_payer_def sample_payer_of_def)
  note hyps = auth_keystore auth_wire this(3) auth_times this(1)
    and run = payee_accepts_tidy_authorizations [OF _ auth_checked this(2) hyps, unfolded this(4)]
  have "tidy (auth_request [])" "\<not> tidy (auth_request '' '')"
    by (simp_all add: tidy_def auth_request_def not_blank_def blank_space sample_price_def trim_samples)
  moreover obtain st resp st' resp' where
    "CreateSpendAuthorization auth_payer (auth_request []) (Sender_New () Open) = (st, Inr resp)"
    "CreateSpendAuthorization auth_payer (auth_request '' '') (Sender_New () Open) = (st', Inr resp')"
    using auth_signed [OF TrimSpace_Nil] auth_signed [OF blank_space] by blast
  moreover note run [OF this(1) TrimSpace_Nil, of 5] run [OF this(2) blank_space, of 5]
  ultimately show ?thesis by auto
qed

end
