(* ===== verification/Wholesale_Laws.thy ===== *)
theory Wholesale_Laws
  imports Funding_Store
begin

text \<open>
  Laws of the wholesale ledger (\<open>wholesale.go\<close>, \<open>funding.go\<close>, \<open>admission_recovery.go\<close>,
  \<open>unexecuted.go\<close>).

  \<open>ledger_inv\<close> is the double entry of the ledger: what an account has reserved is what its
  admitted authorizations hold, what it has debited is what its admitted and settled authorizations
  were billed, no account is overdrawn, every authorization is billed exactly \<open>BillFor\<close> its units
  and within its signed maximum, and the totals row is the sum of the accounts. Every operation
  keeps it. Authorizations are stored under a hash of their identity; the laws assume that the
  identities in play do not collide.
\<close>

section \<open>The books\<close>

definition auth_identity :: "WholesaleAuthorization \<Rightarrow> bytes \<times> string \<times> string" where
  "auth_identity a = (au_Payer a, au_ID a, au_WholesaleAccountID a)"

definition identity_key :: "bytes \<times> string \<times> string \<Rightarrow> bytes" where
  "identity_key i = (case i of (payer, ident, acc) \<Rightarrow> wholesaleAuthorizationKey payer ident acc)"

definition auth_account :: "WholesaleAuthorization \<Rightarrow> bytes" where
  "auth_account a = wholesaleAccountKey (au_Payer a) (au_Payee a) (au_WholesaleAccountID a)"

definition held :: "WholesaleAuthorization \<Rightarrow> int" where
  "held a = (if au_State a = AuthorizationAdmitted then parseDecimalBig (au_ReservedWei a) else 0)"

definition charged :: "WholesaleAuthorization \<Rightarrow> int" where
  "charged a =
     (if au_State a = AuthorizationAdmitted \<or> au_State a = AuthorizationSettled
      then parseDecimalBig (au_BilledWei a) else 0)"

definition on_account :: "(WholesaleAuthorization \<Rightarrow> int) \<Rightarrow> bytes \<Rightarrow> bytes \<Rightarrow> WholesaleAuthorization \<Rightarrow> int" where
  "on_account f k = (\<lambda>_ a. if auth_account a = k then f a else 0)"

definition bill_of :: "WholesaleAuthorization \<Rightarrow> int" where
  "bill_of a = BillFor (Some (parseDecimalBig (au_PriceWei a))) (au_PerUnits a) (au_ActualUnits a)"

definition auth_ok :: "bytes \<Rightarrow> (bytes \<times> string \<times> string) set \<Rightarrow> bytes \<Rightarrow> WholesaleAuthorization \<Rightarrow> bool" where
  "auth_ok payee K k a \<longleftrightarrow>
     k = identity_key (auth_identity a) \<and> auth_identity a \<in> K \<and> au_Payee a = payee \<and>
     (au_State a = AuthorizationAdmitted \<longrightarrow>
        0 \<le> parseDecimalBig (au_ReservedWei a) \<and>
        parseDecimalBig (au_BilledWei a) + parseDecimalBig (au_ReservedWei a) \<le> parseDecimalBig (au_MaxDebitWei a)) \<and>
     (au_State a = AuthorizationAdmitted \<or> au_State a = AuthorizationSettled \<longrightarrow>
        0 \<le> parseDecimalBig (au_BilledWei a) \<and>
        parseDecimalBig (au_BilledWei a) \<le> parseDecimalBig (au_MaxDebitWei a) \<and>
        parseDecimalBig (au_BilledWei a) = bill_of a)"

definition auths_ok :: "bytes \<Rightarrow> (bytes \<times> string \<times> string) set \<Rightarrow> store \<Rightarrow> bool" where
  "auths_ok payee K s \<longleftrightarrow> (\<forall>k a. fmlookup (spend_authorizations s) k = Some a \<longrightarrow> auth_ok payee K k a)"

abbreviation credited_at :: "bytes \<Rightarrow> store \<Rightarrow> int" where
  "credited_at k s \<equiv> fmval (\<lambda>_ a. parseDecimalBig (wa_CreditedWei a)) (wholesale_accounts s) k"

abbreviation reserved_at :: "bytes \<Rightarrow> store \<Rightarrow> int" where
  "reserved_at k s \<equiv> fmval (\<lambda>_ a. parseDecimalBig (wa_ReservedWei a)) (wholesale_accounts s) k"

abbreviation debited_at :: "bytes \<Rightarrow> store \<Rightarrow> int" where
  "debited_at k s \<equiv> fmval (\<lambda>_ a. parseDecimalBig (wa_DebitedWei a)) (wholesale_accounts s) k"

definition books_ok :: "store \<Rightarrow> bool" where
  "books_ok s \<longleftrightarrow>
     (\<forall>k. reserved_at k s = fmsum (on_account held k) (spend_authorizations s) \<and>
          debited_at k s = fmsum (on_account charged k) (spend_authorizations s) \<and>
          reserved_at k s + debited_at k s \<le> credited_at k s)"

definition accounts_keyed :: "store \<Rightarrow> bool" where
  "accounts_keyed s \<longleftrightarrow> (\<forall>k a. fmlookup (wholesale_accounts s) k = Some a \<longrightarrow> account_key a = k)"

definition totals_ok :: "store \<Rightarrow> bool" where
  "totals_ok s \<longleftrightarrow>
     parseDecimalBig (wt_CreditedWei (GetWholesaleTotals s)) =
       fmsum (\<lambda>_ a. parseDecimalBig (wa_CreditedWei a)) (wholesale_accounts s) \<and>
     parseDecimalBig (wt_ReservedWei (GetWholesaleTotals s)) =
       fmsum (\<lambda>_ a. parseDecimalBig (wa_ReservedWei a)) (wholesale_accounts s) \<and>
     parseDecimalBig (wt_DebitedWei (GetWholesaleTotals s)) =
       fmsum (\<lambda>_ a. parseDecimalBig (wa_DebitedWei a)) (wholesale_accounts s)"

definition ledger_inv :: "bytes \<Rightarrow> (bytes \<times> string \<times> string) set \<Rightarrow> store \<Rightarrow> bool" where
  "ledger_inv payee K s \<longleftrightarrow> auths_ok payee K s \<and> books_ok s \<and> accounts_keyed s \<and> totals_ok s"

lemma ledger_inv_Open: "ledger_inv payee K Open"
  by (simp add: ledger_inv_def auths_ok_def books_ok_def accounts_keyed_def totals_ok_def Open_def
      GetWholesaleTotals_def fmval_def)

lemma books_at:
  assumes "ledger_inv payee K s"
  shows "reserved_at k s = fmsum (on_account held k) (spend_authorizations s)"
    "debited_at k s = fmsum (on_account charged k) (spend_authorizations s)"
    "reserved_at k s + debited_at k s \<le> credited_at k s"
  using assms unfolding ledger_inv_def books_ok_def by blast+

section \<open>One account is written\<close>

lemma account_key_load:
  "accounts_keyed s \<Longrightarrow>
   account_key (loadWholesaleAccount payer payee acc s) = wholesaleAccountKey payer payee acc"
  by (auto simp: loadWholesaleAccount_def accounts_keyed_def account_key_def split: option.split)

lemma load_amounts:
  "parseDecimalBig (wa_CreditedWei (loadWholesaleAccount payer payee acc s)) =
     credited_at (wholesaleAccountKey payer payee acc) s"
  "parseDecimalBig (wa_ReservedWei (loadWholesaleAccount payer payee acc s)) =
     reserved_at (wholesaleAccountKey payer payee acc) s"
  "parseDecimalBig (wa_DebitedWei (loadWholesaleAccount payer payee acc s)) =
     debited_at (wholesaleAccountKey payer payee acc) s"
  by (simp_all add: loadWholesaleAccount_def fmval_def split: option.split)

lemma put_simps [simp]:
  "spend_authorizations (putWholesaleAccount a s) = spend_authorizations s"
  "wholesale_accounts (putWholesaleAccount a s) = fmupd (account_key a) a (wholesale_accounts s)"
  "sessions (putWholesaleAccount a s) = sessions s"
  "wholesale_advance_history (putWholesaleAccount a s) = wholesale_advance_history s"
  "canceled_admissions (putWholesaleAccount a s) = canceled_admissions s"
  "unexecuted_fences (putWholesaleAccount a s) = unexecuted_fences s"
  "wholesale_funding_receipts (putWholesaleAccount a s) = wholesale_funding_receipts s"
  "nonces (putWholesaleAccount a s) = nonces s"
  "redemptions_pending (putWholesaleAccount a s) = redemptions_pending s"
  "source_fence (putWholesaleAccount a s) = source_fence s"
  by (simp_all add: putWholesaleAccount_def Let_def)

lemma accounts_keyed_put: "accounts_keyed s \<Longrightarrow> accounts_keyed (putWholesaleAccount a s)"
  by (simp add: accounts_keyed_def)

lemma totals_ok_put: "totals_ok s \<Longrightarrow> totals_ok (putWholesaleAccount a s)"
  by (simp add: totals_ok_def GetWholesaleTotals_def putWholesaleAccount_def Let_def adjust_def
      fmsum_upd fmval_def split: option.splits)

lemma totals_ok_cong:
  "wholesale_accounts s' = wholesale_accounts s \<Longrightarrow> wholesale_totals s' = wholesale_totals s \<Longrightarrow>
   totals_ok s' = totals_ok s"
  by (simp add: totals_ok_def GetWholesaleTotals_def)

lemma ledger_inv_cong:
  "wholesale_accounts s' = wholesale_accounts s \<Longrightarrow> wholesale_totals s' = wholesale_totals s \<Longrightarrow>
   spend_authorizations s' = spend_authorizations s \<Longrightarrow> ledger_inv payee K s' = ledger_inv payee K s"
  by (simp add: ledger_inv_def auths_ok_def books_ok_def accounts_keyed_def totals_ok_cong [of s' s])

lemma ledger_inv_frame:
  "ledger_inv payee K s \<Longrightarrow> wholesale_accounts s' = wholesale_accounts s \<Longrightarrow>
   wholesale_totals s' = wholesale_totals s \<Longrightarrow> spend_authorizations s' = spend_authorizations s \<Longrightarrow>
   ledger_inv payee K s'"
  using ledger_inv_cong by blast

text \<open>Writing an account after changing authorizations of that account only.\<close>

lemma ledger_inv_put:
  assumes "ledger_inv payee K s" "wholesale_accounts s1 = wholesale_accounts s"
    and "wholesale_totals s1 = wholesale_totals s" "auths_ok payee K s1"
    and "account_key a = k"
    and "\<And>f j. j \<noteq> k \<Longrightarrow> fmsum (on_account f j) (spend_authorizations s1) =
           fmsum (on_account f j) (spend_authorizations s)"
    and "parseDecimalBig (wa_ReservedWei a) = fmsum (on_account held k) (spend_authorizations s1)"
    and "parseDecimalBig (wa_DebitedWei a) = fmsum (on_account charged k) (spend_authorizations s1)"
    and "0 \<le> Account_Available a"
  shows "ledger_inv payee K (putWholesaleAccount a s1)"
proof -
  have "accounts_keyed s1" "totals_ok s1" "books_ok s"
    using assms(1-3) by (simp_all add: ledger_inv_def accounts_keyed_def totals_ok_cong [of s1 s])
  then have "accounts_keyed (putWholesaleAccount a s1)" "totals_ok (putWholesaleAccount a s1)"
    by (simp_all add: accounts_keyed_put totals_ok_put)
  moreover have "auths_ok payee K (putWholesaleAccount a s1)" using assms(4) by (simp add: auths_ok_def)
  moreover have "books_ok (putWholesaleAccount a s1)"
    using \<open>books_ok s\<close> assms(2,5-9) by (auto simp: books_ok_def Account_Available_def) (metis (no_types, lifting))
  ultimately show ?thesis by (simp add: ledger_inv_def)
qed

section \<open>One authorization is written\<close>

lemma auths_ok_upd:
  "auths_ok payee K s \<Longrightarrow> auth_ok payee K k a \<Longrightarrow>
   auths_ok payee K (s\<lparr>spend_authorizations := fmupd k a (spend_authorizations s)\<rparr>)"
  by (simp add: auths_ok_def)

lemma on_account_upd:
  "fmsum (on_account f j) (fmupd k a m) =
     fmsum (on_account f j) m - fmval (on_account f j) m k + (if auth_account a = j then f a else 0)"
  by (simp add: fmsum_upd on_account_def)

lemma on_account_val:
  "fmlookup m k = Some a \<Longrightarrow> fmval (on_account f j) m k = (if auth_account a = j then f a else 0)"
  "fmlookup m k = None \<Longrightarrow> fmval (on_account f j) m k = 0"
  by (simp_all add: fmval_def on_account_def)

text \<open>An authorization of account \<open>ak\<close> goes from \<open>a\<close> to \<open>a'\<close> and the account follows.\<close>

lemma ledger_inv_move:
  assumes "ledger_inv payee K s" "wholesale_accounts s1 = wholesale_accounts s"
    and "wholesale_totals s1 = wholesale_totals s"
    and "spend_authorizations s1 = fmupd k a' (spend_authorizations s)"
    and "fmlookup (spend_authorizations s) k = Some a" "auth_ok payee K k a'" "auth_account a' = auth_account a"
    and "account_key acc = auth_account a"
    and "parseDecimalBig (wa_ReservedWei acc) = reserved_at (auth_account a) s - held a + held a'"
    and "parseDecimalBig (wa_DebitedWei acc) = debited_at (auth_account a) s - charged a + charged a'"
    and "0 \<le> Account_Available acc"
  shows "ledger_inv payee K (putWholesaleAccount acc s1)"
proof (rule ledger_inv_put [OF assms(1-3)])
  show "auths_ok payee K s1" using assms(1,4,6) by (simp add: ledger_inv_def auths_ok_def)
  have b: "books_ok s" using assms(1) by (simp add: ledger_inv_def)
  show "fmsum (on_account f j) (spend_authorizations s1) = fmsum (on_account f j) (spend_authorizations s)"
    if "j \<noteq> auth_account a" for f j
    using that assms(4,7) by (simp add: on_account_upd on_account_val(1) [OF assms(5)])
  show "parseDecimalBig (wa_ReservedWei acc) = fmsum (on_account held (auth_account a)) (spend_authorizations s1)"
    "parseDecimalBig (wa_DebitedWei acc) = fmsum (on_account charged (auth_account a)) (spend_authorizations s1)"
    using b assms(4,7,9,10) by (simp_all add: books_ok_def on_account_upd on_account_val(1) [OF assms(5)])
qed (use assms in simp_all)

text \<open>A new authorization, while the account holds it.\<close>

lemma ledger_inv_new:
  assumes "ledger_inv payee K s" "wholesale_accounts s1 = wholesale_accounts s"
    and "wholesale_totals s1 = wholesale_totals s"
    and "spend_authorizations s1 = fmupd k a' (spend_authorizations s)"
    and "fmlookup (spend_authorizations s) k = None" "auth_ok payee K k a'"
    and "account_key acc = auth_account a'"
    and "parseDecimalBig (wa_ReservedWei acc) = reserved_at (auth_account a') s + held a'"
    and "parseDecimalBig (wa_DebitedWei acc) = debited_at (auth_account a') s + charged a'"
    and "0 \<le> Account_Available acc"
  shows "ledger_inv payee K (putWholesaleAccount acc s1)"
proof (rule ledger_inv_put [OF assms(1-3)])
  show "auths_ok payee K s1" using assms(1,4,6) by (simp add: ledger_inv_def auths_ok_def)
  have b: "books_ok s" using assms(1) by (simp add: ledger_inv_def)
  show "fmsum (on_account f j) (spend_authorizations s1) = fmsum (on_account f j) (spend_authorizations s)"
    if "j \<noteq> auth_account a'" for f j
    using that assms(4) by (simp add: on_account_upd on_account_val(2) [OF assms(5)])
  show "parseDecimalBig (wa_ReservedWei acc) = fmsum (on_account held (auth_account a')) (spend_authorizations s1)"
    "parseDecimalBig (wa_DebitedWei acc) = fmsum (on_account charged (auth_account a')) (spend_authorizations s1)"
    using b assms(4,8,9) by (simp_all add: books_ok_def on_account_upd on_account_val(2) [OF assms(5)])
qed (use assms in simp_all)

text \<open>The account is written and no authorization has changed.\<close>

lemma ledger_inv_credit:
  assumes "ledger_inv payee K s" "wholesale_accounts s1 = wholesale_accounts s"
    and "wholesale_totals s1 = wholesale_totals s" "spend_authorizations s1 = spend_authorizations s"
    and "account_key acc = k" "parseDecimalBig (wa_ReservedWei acc) = reserved_at k s"
    and "parseDecimalBig (wa_DebitedWei acc) = debited_at k s"
    and "credited_at k s \<le> parseDecimalBig (wa_CreditedWei acc)"
  shows "ledger_inv payee K (putWholesaleAccount acc s1)"
proof -
  note b = books_at [OF assms(1), of k]
  show ?thesis
  proof (rule ledger_inv_put [OF assms(1-3)])
    show "auths_ok payee K s1" using assms(1,4) by (simp add: ledger_inv_def auths_ok_def)
    show "0 \<le> Account_Available acc" using b(3) assms(6-8) by (simp add: Account_Available_def)
  qed (use assms b in simp_all)
qed

lemma available_nonneg:
  assumes "ledger_inv payee K s"
  shows "0 \<le> Account_Available (loadWholesaleAccount payer p acc s)"
  using books_at(3) [OF assms, of "wholesaleAccountKey payer p acc"]
  by (simp add: Account_Available_def load_amounts)

text \<open>A stored authorization found under an identity in play is the one of that identity.\<close>

lemma found_identity:
  assumes "auths_ok payee K s" "inj_on identity_key K" "(payer, ident, acc) \<in> K"
    and "fmlookup (spend_authorizations s) (wholesaleAuthorizationKey payer ident acc) = Some a"
  shows "au_Payer a = payer" "au_ID a = ident" "au_WholesaleAccountID a = acc" "au_Payee a = payee"
    "auth_ok payee K (wholesaleAuthorizationKey payer ident acc) a"
    "auth_account a = wholesaleAccountKey payer payee acc"
proof -
  have ok: "auth_ok payee K (wholesaleAuthorizationKey payer ident acc) a"
    using assms(1,4) by (simp add: auths_ok_def)
  then have "identity_key (payer, ident, acc) = identity_key (auth_identity a)" "auth_identity a \<in> K"
    "au_Payee a = payee"
    by (simp_all add: auth_ok_def identity_key_def)
  with assms(2,3) have "(payer, ident, acc) = auth_identity a" by (auto dest: inj_onD)
  with ok \<open>au_Payee a = payee\<close> show "au_Payer a = payer" "au_ID a = ident" "au_WholesaleAccountID a = acc"
    "au_Payee a = payee" "auth_ok payee K (wholesaleAuthorizationKey payer ident acc) a"
    "auth_account a = wholesaleAccountKey payer payee acc"
    by (simp_all add: auth_identity_def auth_account_def)
qed

section \<open>Every operation keeps the books\<close>

lemma account_key_update [simp]:
  "account_key (x\<lparr>wa_CreditedWei := c\<rparr>) = account_key x"
  "account_key (x\<lparr>wa_ReservedWei := c\<rparr>) = account_key x"
  "account_key (x\<lparr>wa_DebitedWei := c\<rparr>) = account_key x"
  "account_key (x\<lparr>wa_Version := v\<rparr>) = account_key x"
  "account_key (x\<lparr>wa_UpdatedAt := t\<rparr>) = account_key x"
  by (simp_all add: account_key_def)

text \<open>What a settlement writes when it writes anything.\<close>

definition settled_auth :: "WholesaleAuthorization \<Rightarrow> uint64 \<Rightarrow> uint64 \<Rightarrow> time \<Rightarrow> int \<Rightarrow> WholesaleAuthorization" where
  "settled_auth a units seq now billed = a\<lparr>au_State := AuthorizationSettled, au_ActualUnits := units,
     au_SettlementSeq := seq, au_BilledWei := big_String billed,
     au_ReleasedWei := big_String (parseDecimalBig (au_ReservedWei a) - (billed - parseDecimalBig (au_BilledWei a))),
     au_ReservedWei := ''0'', au_UpdatedAt := now\<rparr>"

definition settled_account :: "WholesaleAccount \<Rightarrow> WholesaleAuthorization \<Rightarrow> time \<Rightarrow> int \<Rightarrow> WholesaleAccount" where
  "settled_account x a now billed = x\<lparr>
     wa_ReservedWei := big_String (parseDecimalBig (wa_ReservedWei x) - parseDecimalBig (au_ReservedWei a)),
     wa_DebitedWei := big_String (parseDecimalBig (wa_DebitedWei x) + (billed - parseDecimalBig (au_BilledWei a))),
     wa_Version := wa_Version x + 1, wa_UpdatedAt := now\<rparr>"

lemma settle_cases:
  assumes "fmlookup (spend_authorizations s) (wholesaleAuthorizationKey payer ident acc) = Some a"
  obtains (same) "fst (SettleWholesale payer payee ident units seq now acc s) = s"
  | (settled) billed where "au_State a = AuthorizationAdmitted" "au_Payee a = payee"
      "billed = BillFor (Some (parseDecimalBig (au_PriceWei a))) (au_PerUnits a) units"
      "parseDecimalBig (au_BilledWei a) \<le> billed" "billed \<le> parseDecimalBig (au_MaxDebitWei a)"
      "billed - parseDecimalBig (au_BilledWei a) \<le> parseDecimalBig (au_ReservedWei a)"
      "au_SettlementSeq a < seq" "units \<le> au_MaxTotalUnits a"
      "SettleWholesale payer payee ident units seq now acc s =
        (putWholesaleAccount (settled_account (loadWholesaleAccount payer payee acc s) a now billed)
           (s\<lparr>spend_authorizations := fmupd (wholesaleAuthorizationKey payer ident acc)
               (settled_auth a units seq now billed) (spend_authorizations s)\<rparr>),
         Inr \<lparr>tr_Account = settled_account (loadWholesaleAccount payer payee acc s) a now billed,
              tr_Authorization = settled_auth a units seq now billed, tr_Billed = billed,
              tr_Released = parseDecimalBig (au_ReservedWei a) - (billed - parseDecimalBig (au_BilledWei a)),
              tr_Replayed = False\<rparr>)"
proof -
  let ?billed = "BillFor (Some (parseDecimalBig (au_PriceWei a))) (au_PerUnits a) units"
  show ?thesis
  proof (cases "au_Payee a = payee \<and> au_State a = AuthorizationAdmitted \<and> units \<le> au_MaxTotalUnits a \<and>
      au_SettlementSeq a < seq \<and> ?billed \<le> parseDecimalBig (au_MaxDebitWei a) \<and>
      parseDecimalBig (au_BilledWei a) \<le> ?billed \<and>
      ?billed - parseDecimalBig (au_BilledWei a) \<le> parseDecimalBig (au_ReservedWei a)")
    case True
    show ?thesis
    proof (rule settled)
      show "SettleWholesale payer payee ident units seq now acc s =
        (putWholesaleAccount (settled_account (loadWholesaleAccount payer payee acc s) a now ?billed)
           (s\<lparr>spend_authorizations := fmupd (wholesaleAuthorizationKey payer ident acc)
               (settled_auth a units seq now ?billed) (spend_authorizations s)\<rparr>),
         Inr \<lparr>tr_Account = settled_account (loadWholesaleAccount payer payee acc s) a now ?billed,
              tr_Authorization = settled_auth a units seq now ?billed, tr_Billed = ?billed,
              tr_Released = parseDecimalBig (au_ReservedWei a) - (?billed - parseDecimalBig (au_BilledWei a)),
              tr_Replayed = False\<rparr>)"
        using True assms
        by (simp add: SettleWholesale_def db_update_def Let_def settled_account_def settled_auth_def not_less not_le)
    qed (use True in simp_all)
  next
    case False
    then show ?thesis using assms
      by (intro same) (auto simp: SettleWholesale_def db_update_def Let_def not_less not_le)
  qed
qed

lemma settle_keeps:
  assumes "ledger_inv payee K s" "inj_on identity_key K" "(payer, ident, acc) \<in> K"
  shows "ledger_inv payee K (fst (SettleWholesale payer payee ident units seq now acc s))"
proof (cases "fmlookup (spend_authorizations s) (wholesaleAuthorizationKey payer ident acc)")
  case (Some a)
  have aok: "auths_ok payee K s" and keyed: "accounts_keyed s" using assms(1) by (simp_all add: ledger_inv_def)
  note f = found_identity [OF aok assms(2,3) Some]
  from Some show ?thesis
  proof (cases rule: settle_cases [where payee = payee and units = units and seq = seq and now = now])
    case same
    then show ?thesis using assms(1) by simp
  next
    case (settled billed)
    have "ledger_inv payee K (putWholesaleAccount (settled_account (loadWholesaleAccount payer payee acc s) a now billed)
        (s\<lparr>spend_authorizations := fmupd (wholesaleAuthorizationKey payer ident acc)
            (settled_auth a units seq now billed) (spend_authorizations s)\<rparr>))"
    proof (rule ledger_inv_move [OF assms(1) _ _ _ Some])
      show "auth_ok payee K (wholesaleAuthorizationKey payer ident acc) (settled_auth a units seq now billed)"
        using f(5) settled(1-6) by (simp add: auth_ok_def auth_identity_def settled_auth_def bill_of_def)
      show "0 \<le> Account_Available (settled_account (loadWholesaleAccount payer payee acc s) a now billed)"
        using available_nonneg [OF assms(1), of payer payee acc] settled(6)
        by (simp add: Account_Available_def settled_account_def)
    qed (use f(1-4,6) settled(1) account_key_load [OF keyed] in
        \<open>simp_all add: settled_account_def settled_auth_def auth_account_def load_amounts held_def charged_def\<close>)
    then show ?thesis using settled(9) by simp
  qed
qed (use assms in \<open>simp add: SettleWholesale_def db_update_def Let_def\<close>)

subsection \<open>Closing and cancelling\<close>

lemma cancel_frame:
  assumes "s' = fst (CancelAuthorizationAdmission payer payee ident fp acc now s)"
  shows "wholesale_accounts s' = wholesale_accounts s" "wholesale_totals s' = wholesale_totals s"
    "spend_authorizations s' = spend_authorizations s" "sessions s' = sessions s"
  unfolding assms by (auto simp: CancelAuthorizationAdmission_def db_update_def Let_def split: option.splits)

lemma close_cases:
  obtains (kept) "wholesale_accounts (fst (CloseUnexecutedAuthorization payer payee ident reason acc now s)) = wholesale_accounts s"
      "wholesale_totals (fst (CloseUnexecutedAuthorization payer payee ident reason acc now s)) = wholesale_totals s"
      "spend_authorizations (fst (CloseUnexecutedAuthorization payer payee ident reason acc now s)) = spend_authorizations s"
      "sessions (fst (CloseUnexecutedAuthorization payer payee ident reason acc now s)) = sessions s"
  | (released) a x where
      "fmlookup (spend_authorizations s) (wholesaleAuthorizationKey payer ident acc) = Some a"
      "au_State a = AuthorizationAdmitted" "au_Payee a = payee" "au_ActualUnits a = 0"
      "parseDecimalBig (au_BilledWei a) = 0"
      "x = loadWholesaleAccount payer payee acc s"
      "fst (CloseUnexecutedAuthorization payer payee ident reason acc now s) =
        (putWholesaleAccount (x\<lparr>
            wa_ReservedWei := big_String (parseDecimalBig (wa_ReservedWei x) - parseDecimalBig (au_ReservedWei a)),
            wa_Version := wa_Version x + 1, wa_UpdatedAt := now\<rparr>)
          (s\<lparr>spend_authorizations := fmupd (wholesaleAuthorizationKey payer ident acc)
             (a\<lparr>au_State := AuthorizationSettled, au_BilledWei := ''0'', au_ReservedWei := ''0'',
                au_ReleasedWei := big_String (parseDecimalBig (au_ReservedWei a)),
                au_SettlementSeq := au_SettlementSeq a + 1, au_UpdatedAt := now\<rparr>) (spend_authorizations s)\<rparr>))
        \<lparr>unexecuted_fences := fmupd (wholesaleAuthorizationKey payer ident acc)
          \<lparr>uf_Reason = reason, uf_At = now\<rparr> (unexecuted_fences s)\<rparr>"
proof (cases "\<exists>a. fmlookup (spend_authorizations s) (wholesaleAuthorizationKey payer ident acc) = Some a \<and>
    length payer = 20 \<and> length payee = 20 \<and> ident \<noteq> [] \<and> reason \<noteq> [] \<and>
    fmlookup (unexecuted_fences s) (wholesaleAuthorizationKey payer ident acc) = None \<and>
    au_Payee a = payee \<and> au_ActualUnits a = 0 \<and> parseDecimalBig (au_BilledWei a) = 0 \<and>
    au_State a = AuthorizationAdmitted \<and> 0 \<le> parseDecimalBig (au_ReservedWei a) \<and>
    parseDecimalBig (au_ReservedWei a) \<le> parseDecimalBig (wa_ReservedWei (loadWholesaleAccount payer payee acc s)) \<and>
    au_SettlementSeq a \<noteq> - 1")
  case True
  then obtain a where a: "fmlookup (spend_authorizations s) (wholesaleAuthorizationKey payer ident acc) = Some a"
    "length payer = 20" "length payee = 20" "ident \<noteq> []" "reason \<noteq> []"
    "fmlookup (unexecuted_fences s) (wholesaleAuthorizationKey payer ident acc) = None"
    "au_Payee a = payee" "au_ActualUnits a = 0" "parseDecimalBig (au_BilledWei a) = 0"
    "au_State a = AuthorizationAdmitted" "0 \<le> parseDecimalBig (au_ReservedWei a)"
    "parseDecimalBig (au_ReservedWei a) \<le> parseDecimalBig (wa_ReservedWei (loadWholesaleAccount payer payee acc s))"
    "au_SettlementSeq a \<noteq> - 1" by blast
  show ?thesis
    by (rule released [OF a(1,10,7-9) refl])
      (use a in \<open>simp add: CloseUnexecutedAuthorization_def db_update_def Let_def\<close>)
next
  case False
  let ?fence = "s\<lparr>unexecuted_fences := fmupd (wholesaleAuthorizationKey payer ident acc)
    \<lparr>uf_Reason = reason, uf_At = now\<rparr> (unexecuted_fences s)\<rparr>"
  have "fst (CloseUnexecutedAuthorization payer payee ident reason acc now s) \<in> {s, ?fence}"
  proof (cases "fmlookup (spend_authorizations s) (wholesaleAuthorizationKey payer ident acc)")
    case (Some a)
    show ?thesis
      using False unfolding Some
      by (simp add: CloseUnexecutedAuthorization_def db_update_def Let_def Some not_less del: not_None_eq)
        blast
  qed (simp add: CloseUnexecutedAuthorization_def db_update_def Let_def)
  then consider "fst (CloseUnexecutedAuthorization payer payee ident reason acc now s) = s"
    | "fst (CloseUnexecutedAuthorization payer payee ident reason acc now s) = ?fence" by blast
  then show ?thesis by cases (rule kept; simp)+
qed

lemma close_keeps:
  assumes "ledger_inv payee K s" "inj_on identity_key K" "(payer, ident, acc) \<in> K"
  shows "ledger_inv payee K (fst (CloseUnexecutedAuthorization payer payee ident reason acc now s))"
proof (cases rule: close_cases [of payer payee ident reason acc now s])
  case kept
  then show ?thesis using ledger_inv_frame [OF assms(1) kept(1-3)] by blast
next
  case (released a x)
  have aok: "auths_ok payee K s" and keyed: "accounts_keyed s" using assms(1) by (simp_all add: ledger_inv_def)
  note f = found_identity [OF aok assms(2,3) released(1)]
  let ?a = "a\<lparr>au_State := AuthorizationSettled, au_BilledWei := ''0'', au_ReservedWei := ''0'',
    au_ReleasedWei := big_String (parseDecimalBig (au_ReservedWei a)),
    au_SettlementSeq := au_SettlementSeq a + 1, au_UpdatedAt := now\<rparr>"
  let ?x = "x\<lparr>wa_ReservedWei := big_String (parseDecimalBig (wa_ReservedWei x) - parseDecimalBig (au_ReservedWei a)),
    wa_Version := wa_Version x + 1, wa_UpdatedAt := now\<rparr>"
  let ?s = "s\<lparr>spend_authorizations := fmupd (wholesaleAuthorizationKey payer ident acc) ?a (spend_authorizations s)\<rparr>"
  have "ledger_inv payee K (putWholesaleAccount ?x ?s)"
  proof (rule ledger_inv_move [OF assms(1) _ _ _ released(1)])
    show "auth_ok payee K (wholesaleAuthorizationKey payer ident acc) ?a"
      using f(5) released(2,4,5) by (simp add: auth_ok_def auth_identity_def bill_of_def)
    show "0 \<le> Account_Available ?x"
      using available_nonneg [OF assms(1), of payer payee acc] f(5) released(2,6)
      by (simp add: Account_Available_def auth_ok_def)
  qed (use f(1-4,6) released(2,5,6) account_key_load [OF keyed] in
      \<open>simp_all add: auth_account_def load_amounts held_def charged_def\<close>)
  then show ?thesis unfolding released(7) by (rule ledger_inv_frame) simp_all
qed

subsection \<open>Advancing\<close>

definition session_value :: "store \<Rightarrow> int" where
  "session_value s = fmsum (\<lambda>_ sess. parseDecimalBig (ss_BalanceWei sess)) (sessions s)"

definition account_value :: "store \<Rightarrow> int" where
  "account_value s = fmsum (\<lambda>_ a. parseDecimalBig (wa_CreditedWei a)) (wholesale_accounts s)"

lemma migrate_facts:
  assumes "migrate_balance payer acc fw x s = Inr (s1, x1, tr)"
  shows "wholesale_accounts s1 = wholesale_accounts s" "wholesale_totals s1 = wholesale_totals s"
    "spend_authorizations s1 = spend_authorizations s"
    "account_key x1 = account_key x" "wa_ReservedWei x1 = wa_ReservedWei x" "wa_DebitedWei x1 = wa_DebitedWei x"
    "parseDecimalBig (wa_CreditedWei x1) = parseDecimalBig (wa_CreditedWei x) + tr" "0 \<le> tr"
    "session_value s1 = session_value s - tr"
  using assms
  by (auto simp: migrate_balance_def Let_def session_value_def fmsum_upd fmval_def split: if_splits option.splits)

lemma migrate_available:
  "migrate_balance payer acc fw x s = Inr (s1, x1, tr) \<Longrightarrow> Account_Available x1 = Account_Available x + tr"
  using migrate_facts by (simp add: Account_Available_def)

definition advanced_auth :: "WholesaleAuthorization \<Rightarrow> uint64 \<Rightarrow> int \<Rightarrow> int \<Rightarrow> uint64 \<Rightarrow> time \<Rightarrow> WholesaleAuthorization" where
  "advanced_auth a units billed target seq now = a\<lparr>au_ActualUnits := units, au_BilledWei := big_String billed,
     au_ReservedWei := big_String target, au_SettlementSeq := seq, au_UpdatedAt := now\<rparr>"

definition advanced_account :: "WholesaleAccount \<Rightarrow> WholesaleAuthorization \<Rightarrow> int \<Rightarrow> int \<Rightarrow> time \<Rightarrow> WholesaleAccount" where
  "advanced_account x a billed target now = x\<lparr>
     wa_ReservedWei := big_String (parseDecimalBig (wa_ReservedWei x) - parseDecimalBig (au_ReservedWei a) + target),
     wa_DebitedWei := big_String (parseDecimalBig (wa_DebitedWei x) + (billed - parseDecimalBig (au_BilledWei a))),
     wa_Version := wa_Version x + 1, wa_UpdatedAt := now\<rparr>"

lemma advance_apply_Inr:
  assumes "advance_apply payer ident acc units target seq now a x tr s = Inr (s', r)"
  obtains billed where
    "billed = BillFor (Some (parseDecimalBig (au_PriceWei a))) (au_PerUnits a) units"
    "parseDecimalBig (au_BilledWei a) \<le> billed" "billed + target \<le> parseDecimalBig (au_MaxDebitWei a)"
    "billed - parseDecimalBig (au_BilledWei a) + target \<le> Account_Available x + parseDecimalBig (au_ReservedWei a)"
    "s' = (putWholesaleAccount (advanced_account x a billed target now)
       (s\<lparr>spend_authorizations := fmupd (wholesaleAuthorizationKey payer ident acc)
           (advanced_auth a units billed target seq now) (spend_authorizations s)\<rparr>))
       \<lparr>wholesale_advance_history := fmupd (advance_history_key payer ident acc seq)
           (advanced_auth a units billed target seq now) (wholesale_advance_history s)\<rparr>"
    "r = \<lparr>vr_Account = advanced_account x a billed target now,
       vr_Authorization = advanced_auth a units billed target seq now,
       vr_BilledDelta = billed - parseDecimalBig (au_BilledWei a), vr_Transferred = tr, vr_Replayed = False\<rparr>"
  using assms
  by (auto simp: advance_apply_def Let_def advanced_account_def advanced_auth_def split: if_splits)

lemma advance_cases:
  obtains (same) "fst (AdvanceWholesale payer payee ident units otarget seq fw now acc s) = s"
  | (advanced) a target s1 x1 tr s' r where "otarget = Some target" "0 \<le> target" "seq \<noteq> 0"
      "fmlookup (wholesale_advance_history s) (advance_history_key payer ident acc seq) = None"
      "fmlookup (spend_authorizations s) (wholesaleAuthorizationKey payer ident acc) = Some a"
      "au_Payee a = payee" "au_State a = AuthorizationAdmitted" "au_SettlementSeq a < seq"
      "units \<le> au_MaxTotalUnits a" "now < au_ExpiresAt a"
      "migrate_balance payer acc fw (loadWholesaleAccount payer payee acc s) s = Inr (s1, x1, tr)"
      "advance_apply payer ident acc units target seq now a x1 tr s1 = Inr (s', r)"
      "AdvanceWholesale payer payee ident units otarget seq fw now acc s = (s', Inr r)"
proof (cases "fst (AdvanceWholesale payer payee ident units otarget seq fw now acc s) = s")
  case False
  then obtain target where t: "otarget = Some target" "seq \<noteq> 0" "0 \<le> target"
    by (auto simp: AdvanceWholesale_def split: option.splits if_splits)
  from False t have h: "fmlookup (wholesale_advance_history s) (advance_history_key payer ident acc seq) = None"
    by (auto simp: AdvanceWholesale_def db_update_def Let_def split: option.splits if_splits)
  from False t h obtain a where a: "fmlookup (spend_authorizations s) (wholesaleAuthorizationKey payer ident acc) = Some a"
    by (cases "fmlookup (spend_authorizations s) (wholesaleAuthorizationKey payer ident acc)")
      (simp_all add: AdvanceWholesale_def db_update_def Let_def)
  from False t h a have g: "au_Payee a = payee" "au_State a = AuthorizationAdmitted" "au_SettlementSeq a < seq"
      "units \<le> au_MaxTotalUnits a" "now < au_ExpiresAt a"
    by (auto simp: AdvanceWholesale_def db_update_def Let_def not_less not_le split: if_splits)
  have n: "\<not> au_MaxTotalUnits a < units" "\<not> seq < au_SettlementSeq a" "seq \<noteq> au_SettlementSeq a"
    using g by auto
  have eq: "AdvanceWholesale payer payee ident units otarget seq fw now acc s =
      db_update (\<lambda>s. sum_bind (migrate_balance payer acc fw (loadWholesaleAccount payer payee acc s) s)
        (\<lambda>(s1, x1, tr). advance_apply payer ident acc units target seq now a x1 tr s1)) s"
    using t h a g n by (simp add: AdvanceWholesale_def db_update_def Let_def)
  from False eq obtain s1 x1 tr where
    m: "migrate_balance payer acc fw (loadWholesaleAccount payer payee acc s) s = Inr (s1, x1, tr)"
    by (cases "migrate_balance payer acc fw (loadWholesaleAccount payer payee acc s) s")
      (auto simp: db_update_def)
  from False eq m obtain s' r where
    "advance_apply payer ident acc units target seq now a x1 tr s1 = Inr (s', r)"
    by (cases "advance_apply payer ident acc units target seq now a x1 tr s1") (auto simp: db_update_def)
  then show ?thesis using eq m by (intro advanced [OF t(1,3,2) h a g m]) (simp_all add: db_update_def)
qed (rule same)

lemma advance_keeps:
  assumes "ledger_inv payee K s" "inj_on identity_key K" "(payer, ident, acc) \<in> K"
  shows "ledger_inv payee K (fst (AdvanceWholesale payer payee ident units otarget seq fw now acc s))"
proof (cases rule: advance_cases [of payer payee ident units otarget seq fw now acc s])
  case same
  then show ?thesis using assms(1) by simp
next
  case (advanced a target s1 x1 tr s' r)
  have aok: "auths_ok payee K s" and keyed: "accounts_keyed s" using assms(1) by (simp_all add: ledger_inv_def)
  note f = found_identity [OF aok assms(2,3) advanced(5)]
  note m = migrate_facts [OF advanced(11)]
  note av = migrate_available [OF advanced(11)]
  from advanced(12) show ?thesis
  proof (rule advance_apply_Inr)
    fix billed
    assume b: "billed = BillFor (Some (parseDecimalBig (au_PriceWei a))) (au_PerUnits a) units"
      "parseDecimalBig (au_BilledWei a) \<le> billed" "billed + target \<le> parseDecimalBig (au_MaxDebitWei a)"
      "billed - parseDecimalBig (au_BilledWei a) + target \<le> Account_Available x1 + parseDecimalBig (au_ReservedWei a)"
    let ?s = "s1\<lparr>spend_authorizations := fmupd (wholesaleAuthorizationKey payer ident acc)
      (advanced_auth a units billed target seq now) (spend_authorizations s1)\<rparr>"
    assume s': "s' = (putWholesaleAccount (advanced_account x1 a billed target now) ?s)
       \<lparr>wholesale_advance_history := fmupd (advance_history_key payer ident acc seq)
           (advanced_auth a units billed target seq now) (wholesale_advance_history s1)\<rparr>"
    have "ledger_inv payee K (putWholesaleAccount (advanced_account x1 a billed target now) ?s)"
    proof (rule ledger_inv_move [OF assms(1) _ _ _ advanced(5)])
      show "auth_ok payee K (wholesaleAuthorizationKey payer ident acc) (advanced_auth a units billed target seq now)"
        using f(5) advanced(2,7) b(1-3) by (simp add: auth_ok_def auth_identity_def advanced_auth_def bill_of_def)
      show "0 \<le> Account_Available (advanced_account x1 a billed target now)"
        using b(4) by (simp add: Account_Available_def advanced_account_def)
    qed (use f(1-4,6) m advanced(7) account_key_load [OF keyed] in
      \<open>simp_all add: advanced_account_def advanced_auth_def auth_account_def load_amounts held_def charged_def\<close>)
    then have "ledger_inv payee K s'" unfolding s' by (rule ledger_inv_frame) simp_all
    then show ?thesis using advanced(13) by simp
  qed
qed

subsection \<open>Admission\<close>

definition inherited_billed :: "(bytes \<times> WholesaleAuthorization) option \<Rightarrow> int" where
  "inherited_billed opred = (case opred of None \<Rightarrow> 0 | Some (_, pred) \<Rightarrow> parseDecimalBig (au_BilledWei pred))"

definition old_reserve :: "(bytes \<times> WholesaleAuthorization) option \<Rightarrow> int" where
  "old_reserve opred = (case opred of None \<Rightarrow> 0 | Some (_, pred) \<Rightarrow> parseDecimalBig (au_ReservedWei pred))"

definition admitted_auth ::
  "WholesaleAuthorizationSeed \<Rightarrow> (bytes \<times> WholesaleAuthorization) option \<Rightarrow> int \<Rightarrow> time \<Rightarrow> WholesaleAuthorization" where
  "admitted_auth seed opred reservation now = authorization_of seed AuthorizationAdmitted
     (case opred of None \<Rightarrow> 0 | Some (_, pred) \<Rightarrow> au_ActualUnits pred)
     (big_String (inherited_billed opred)) (big_String reservation)
     (case opred of None \<Rightarrow> 0 | Some (_, pred) \<Rightarrow> au_SettlementSeq pred) now"

definition superseded_in :: "(bytes \<times> WholesaleAuthorization) option \<Rightarrow> time \<Rightarrow> WholesaleAuthorization bucket \<Rightarrow> WholesaleAuthorization bucket" where
  "superseded_in opred now m = (case opred of None \<Rightarrow> m | Some (k, pred) \<Rightarrow> fmupd k (supersede pred now) m)"

definition seed_key :: "WholesaleAuthorizationSeed \<Rightarrow> bytes" where
  "seed_key seed = wholesaleAuthorizationKey (sd_Payer seed) (sd_ID seed) (sd_WholesaleAccountID seed)"

lemma admit_reserve_cases:
  assumes "admit_reserve seed oreservation now x tr opred s = Inr (s', r)"
  obtains (short) x' where "s' = (if 0 < tr then putWholesaleAccount x' s else s)" "snd r"
      "account_key x' = account_key x" "wa_ReservedWei x' = wa_ReservedWei x"
      "wa_DebitedWei x' = wa_DebitedWei x" "wa_CreditedWei x' = wa_CreditedWei x"
      "ar_Authorization (fst r) = None" "ar_Transferred (fst r) = tr"
  | (granted) x' reservation where "\<not> snd r" "0 \<le> reservation"
      "inherited_billed opred + reservation \<le> parseDecimalBig (sd_MaxDebitWei seed)"
      "reservation \<le> Account_Available x + old_reserve opred"
      "s' = putWholesaleAccount x' (s\<lparr>spend_authorizations :=
          fmupd (seed_key seed) (admitted_auth seed opred reservation now)
            (superseded_in opred now (spend_authorizations s))\<rparr>)"
      "account_key x' = account_key x" "wa_CreditedWei x' = wa_CreditedWei x" "wa_DebitedWei x' = wa_DebitedWei x"
      "parseDecimalBig (wa_ReservedWei x') = parseDecimalBig (wa_ReservedWei x) - old_reserve opred + reservation"
      "ar_Authorization (fst r) = Some (admitted_auth seed opred reservation now)"
      "ar_Transferred (fst r) = tr"
proof -
  define reservation where "reservation = (case oreservation of
      None \<Rightarrow> parseDecimalBig (sd_MaxDebitWei seed) - inherited_billed opred
    | Some r \<Rightarrow> if r = 0 then parseDecimalBig (sd_MaxDebitWei seed) - inherited_billed opred else r)"
  define short_account where "short_account =
    (if 0 < tr then x\<lparr>wa_Version := wa_Version x + 1, wa_UpdatedAt := now\<rparr> else x)"
  define full_account where "full_account = x\<lparr>
    wa_ReservedWei := big_String (parseDecimalBig (case opred of None \<Rightarrow> wa_ReservedWei x
      | Some _ \<Rightarrow> big_String (parseDecimalBig (wa_ReservedWei x) - old_reserve opred)) + reservation),
    wa_Version := wa_Version x + 1, wa_UpdatedAt := now\<rparr>"
  have eq: "admit_reserve seed oreservation now x tr opred s =
    (if reservation < 0 \<or> parseDecimalBig (sd_MaxDebitWei seed) - inherited_billed opred < reservation
     then Inl ErrReservationExceedsRemaining
     else if Account_Available x + old_reserve opred < reservation then
       Inr (if 0 < tr then putWholesaleAccount short_account s else s,
         (\<lparr>ar_Account = Some short_account, ar_Authorization = None, ar_Transferred = tr, ar_Replayed = False\<rparr>, True))
     else Inr (putWholesaleAccount full_account (s\<lparr>spend_authorizations :=
          fmupd (seed_key seed) (admitted_auth seed opred reservation now)
            (superseded_in opred now (spend_authorizations s))\<rparr>),
         (\<lparr>ar_Account = Some full_account, ar_Authorization = Some (admitted_auth seed opred reservation now),
           ar_Transferred = tr, ar_Replayed = False\<rparr>, False)))"
    unfolding admit_reserve_def Let_def reservation_def inherited_billed_def old_reserve_def
      short_account_def full_account_def seed_key_def superseded_in_def admitted_auth_def
    by (cases opred) (simp_all add: split_beta)
  consider "Account_Available x + old_reserve opred < reservation" | "reservation \<le> Account_Available x + old_reserve opred"
    by linarith
  then show ?thesis
  proof cases
    case 1
    then show ?thesis using assms eq
      by (intro short [of short_account]) (auto simp: short_account_def split: if_splits)
  next
    case 2
    then show ?thesis using assms eq
      by (intro granted [of reservation full_account])
        (auto simp: full_account_def old_reserve_def split: if_splits option.splits)
  qed
qed

lemma admit_predecessor_Some:
  assumes "admit_predecessor seed s = Inr (Some (k, pred))"
  shows "k = wholesaleAuthorizationKey (sd_Payer seed) (sd_PredecessorID seed) (sd_WholesaleAccountID seed)"
    "fmlookup (spend_authorizations s) k = Some pred" "au_State pred = AuthorizationAdmitted"
    "au_PriceWei pred = sd_PriceWei seed" "au_PerUnits pred = sd_PerUnits seed"
    "sd_PredecessorID seed \<noteq> []"
  using assms by (auto simp: admit_predecessor_def Let_def split: if_splits option.splits)

lemma admit_cases:
  obtains (same) "fst (AdmitWholesale seed fw reservation now s) = s"
  | (expired) "fst (AdmitWholesale seed fw reservation now s) = s\<lparr>spend_authorizations :=
        fmupd (seed_key seed) (authorization_of seed AuthorizationExpiredUnused 0 [] [] 0 now) (spend_authorizations s)\<rparr>"
      "fmlookup (spend_authorizations s) (seed_key seed) = None"
  | (reserve) s1 x1 tr opred s' r where "fmlookup (spend_authorizations s) (seed_key seed) = None"
      "migrate_balance (sd_Payer seed) (sd_WholesaleAccountID seed) fw
         (loadWholesaleAccount (sd_Payer seed) (sd_Payee seed) (sd_WholesaleAccountID seed) s) s = Inr (s1, x1, tr)"
      "admit_predecessor seed s1 = Inr opred"
      "admit_reserve seed reservation now x1 tr opred s1 = Inr (s', r)"
      "fst (AdmitWholesale seed fw reservation now s) = s'"
proof (cases "fst (AdmitWholesale seed fw reservation now s) = s")
  case False
  let ?x = "loadWholesaleAccount (sd_Payer seed) (sd_Payee seed) (sd_WholesaleAccountID seed) s"
  have fst: "fst (AdmitWholesale seed fw reservation now s) = fst (db_update (admit_body seed fw reservation now) s)"
    using False by (auto simp: AdmitWholesale_def split: prod.splits sum.splits if_splits)
  with False have c: "canceledAdmissionIn (seed_key seed) s = None"
    "fmlookup (unexecuted_fences s) (seed_key seed) = None"
    by (auto simp: db_update_def admit_body_def Let_def seed_key_def split: option.splits if_splits)
  with False fst have n: "fmlookup (spend_authorizations s) (seed_key seed) = None"
    by (cases "fmlookup (spend_authorizations s) (seed_key seed)")
      (simp_all add: db_update_def admit_body_def Let_def seed_key_def)
  show ?thesis
  proof (cases "now < sd_ExpiresAt seed")
    case True
    have eq: "admit_body seed fw reservation now s =
        sum_bind (migrate_balance (sd_Payer seed) (sd_WholesaleAccountID seed) fw ?x s)
          (\<lambda>(s1, x1, tr). sum_bind (admit_predecessor seed s1)
            (\<lambda>opred. admit_reserve seed reservation now x1 tr opred s1))"
      using c n True by (simp add: admit_body_def Let_def seed_key_def)
    from False fst eq obtain s1 x1 tr opred s' r where
      "migrate_balance (sd_Payer seed) (sd_WholesaleAccountID seed) fw ?x s = Inr (s1, x1, tr)"
      "admit_predecessor seed s1 = Inr opred" "admit_reserve seed reservation now x1 tr opred s1 = Inr (s', r)"
      "s' = fst (AdmitWholesale seed fw reservation now s)"
      by (auto simp: db_update_def sum_bind_case split: sum.splits prod.splits)
    with n show ?thesis by (intro reserve) auto
  next
    case False
    with fst c n show ?thesis
      by (intro expired) (simp_all add: db_update_def admit_body_def Let_def seed_key_def)
  qed
qed (rule same)

lemma authorization_of_simps [simp]:
  "au_Payer (authorization_of seed st u b r q now) = sd_Payer seed"
  "au_Payee (authorization_of seed st u b r q now) = sd_Payee seed"
  "au_ID (authorization_of seed st u b r q now) = sd_ID seed"
  "au_WholesaleAccountID (authorization_of seed st u b r q now) = sd_WholesaleAccountID seed"
  "au_State (authorization_of seed st u b r q now) = st"
  "au_ActualUnits (authorization_of seed st u b r q now) = u"
  "au_BilledWei (authorization_of seed st u b r q now) = b"
  "au_ReservedWei (authorization_of seed st u b r q now) = r"
  "au_SettlementSeq (authorization_of seed st u b r q now) = q"
  "au_MaxDebitWei (authorization_of seed st u b r q now) = sd_MaxDebitWei seed"
  "au_PriceWei (authorization_of seed st u b r q now) = sd_PriceWei seed"
  "au_PerUnits (authorization_of seed st u b r q now) = sd_PerUnits seed"
  "au_Fingerprint (authorization_of seed st u b r q now) = sd_Fingerprint seed"
  by (simp_all add: authorization_of_def)

definition seed_identity :: "WholesaleAuthorizationSeed \<Rightarrow> bytes \<times> string \<times> string" where
  "seed_identity seed = (sd_Payer seed, sd_ID seed, sd_WholesaleAccountID seed)"

definition predecessor_identity :: "WholesaleAuthorizationSeed \<Rightarrow> bytes \<times> string \<times> string" where
  "predecessor_identity seed = (sd_Payer seed, sd_PredecessorID seed, sd_WholesaleAccountID seed)"

lemma BillFor_zero [simp]: "BillFor p q 0 = 0"
  by (simp add: BillFor_def ceil_quo_def Quo_def Rem_def Let_def split: option.split)

lemma granted_keeps:
  assumes inv: "ledger_inv payee K s" "inj_on identity_key K"
    and seed: "sd_Payee seed = payee" "seed_identity seed \<in> K"
      "sd_PredecessorID seed \<noteq> [] \<Longrightarrow> predecessor_identity seed \<in> K"
    and new: "fmlookup (spend_authorizations s) (seed_key seed) = None"
    and s1: "wholesale_accounts s1 = wholesale_accounts s" "wholesale_totals s1 = wholesale_totals s"
      "spend_authorizations s1 = spend_authorizations s"
    and pred: "admit_predecessor seed s1 = Inr opred"
    and x: "account_key x = wholesaleAccountKey (sd_Payer seed) payee (sd_WholesaleAccountID seed)"
      "parseDecimalBig (wa_DebitedWei x) = debited_at (account_key x) s"
      "parseDecimalBig (wa_ReservedWei x) = reserved_at (account_key x) s - old_reserve opred + reservation"
      "0 \<le> Account_Available x"
    and r: "0 \<le> reservation" "inherited_billed opred + reservation \<le> parseDecimalBig (sd_MaxDebitWei seed)"
  shows "ledger_inv payee K (putWholesaleAccount x (s1\<lparr>spend_authorizations :=
      fmupd (seed_key seed) (admitted_auth seed opred reservation now)
        (superseded_in opred now (spend_authorizations s1))\<rparr>))"
proof (cases opred)
  case None
  show ?thesis
  proof (rule ledger_inv_new [OF inv(1), where k = "seed_key seed" and a' = "admitted_auth seed opred reservation now"])
    show "auth_ok payee K (seed_key seed) (admitted_auth seed opred reservation now)"
      using None seed r
      by (simp add: auth_ok_def auth_identity_def admitted_auth_def seed_identity_def identity_key_def seed_key_def
          inherited_billed_def bill_of_def)
  qed (use None x s1 new seed(1) in \<open>simp_all add: superseded_in_def auth_account_def admitted_auth_def held_def
      charged_def old_reserve_def inherited_billed_def\<close>)
next
  case (Some kp)
  obtain pk pred where kp: "kp = (pk, pred)" by (cases kp)
  have aok: "auths_ok payee K s" using inv(1) by (simp add: ledger_inv_def)
  note p = admit_predecessor_Some [OF pred [unfolded Some kp]]
  have pin: "(sd_Payer seed, sd_PredecessorID seed, sd_WholesaleAccountID seed) \<in> K"
    using seed(3) p(6) by (simp add: predecessor_identity_def)
  have pl: "fmlookup (spend_authorizations s) pk = Some pred" using p(2) s1(3) by simp
  note f = found_identity [OF aok inv(2) pin pl [unfolded p(1)]]
  have ne: "seed_key seed \<noteq> pk" using pl new by auto
  let ?new = "admitted_auth seed opred reservation now"
  let ?m = "fmupd (seed_key seed) ?new (fmupd pk (supersede pred now) (spend_authorizations s))"
  have acct: "auth_account ?new = account_key x" "auth_account (supersede pred now) = account_key x"
    "auth_account pred = account_key x"
    using x(1) f(1-4,6) seed(1) by (simp_all add: auth_account_def admitted_auth_def supersede_def)
  have sums: "fmsum (on_account g j) ?m = fmsum (on_account g j) (spend_authorizations s)
      + (if j = account_key x then g ?new + g (supersede pred now) - g pred else 0)" for g j
    using acct ne by (simp add: on_account_upd on_account_val(1) [OF pl] on_account_val(2)
        on_account_val(2) [where m = "fmupd pk (supersede pred now) (spend_authorizations s)"] new)
  have pk: "pk = identity_key (auth_identity pred)" using f(5) p(1) by (simp add: auth_ok_def)
  show ?thesis
  proof (rule ledger_inv_put [OF inv(1)])
    have newok: "auth_ok payee K (seed_key seed) ?new"
      using Some kp seed r f(5) p(3-5)
      by (simp add: auth_ok_def auth_identity_def admitted_auth_def seed_identity_def identity_key_def seed_key_def
          inherited_billed_def bill_of_def)
    have "auth_ok payee K pk (supersede pred now)"
      using f(5) p(1) pk by (simp add: auth_ok_def auth_identity_def supersede_def)
    with newok aok show "auths_ok payee K (s1\<lparr>spend_authorizations :=
        fmupd (seed_key seed) ?new (superseded_in opred now (spend_authorizations s1))\<rparr>)"
      using s1(3) Some kp by (auto simp: auths_ok_def superseded_in_def)
  qed (use Some kp s1 x sums books_at [OF inv(1), of "account_key x"] p(3) in
      \<open>simp_all add: superseded_in_def held_def charged_def admitted_auth_def supersede_def old_reserve_def inherited_billed_def\<close>)
qed

lemma expired_keeps:
  assumes "ledger_inv payee K s" "fmlookup (spend_authorizations s) k = None" "auth_ok payee K k a"
    and "au_State a = AuthorizationExpiredUnused"
  shows "ledger_inv payee K (s\<lparr>spend_authorizations := fmupd k a (spend_authorizations s)\<rparr>)"
proof -
  have "fmsum (on_account f j) (fmupd k a (spend_authorizations s)) = fmsum (on_account f j) (spend_authorizations s)"
    if "f a = 0" for f j
    using that assms(2) by (simp add: on_account_upd on_account_val(2))
  moreover have "held a = 0" "charged a = 0" using assms(4) by (simp_all add: held_def charged_def)
  ultimately have "books_ok (s\<lparr>spend_authorizations := fmupd k a (spend_authorizations s)\<rparr>)"
    using books_at [OF assms(1)] unfolding books_ok_def by simp
  then show ?thesis using assms(1,3) auths_ok_upd [of payee K s k a]
    by (simp add: ledger_inv_def accounts_keyed_def
        totals_ok_cong [of "s\<lparr>spend_authorizations := fmupd k a (spend_authorizations s)\<rparr>" s])
qed

lemma admit_keeps:
  assumes "ledger_inv payee K s" "inj_on identity_key K" "sd_Payee seed = payee" "seed_identity seed \<in> K"
    and "sd_PredecessorID seed \<noteq> [] \<Longrightarrow> predecessor_identity seed \<in> K"
  shows "ledger_inv payee K (fst (AdmitWholesale seed fw reservation now s))"
proof (cases rule: admit_cases [of seed fw reservation now s])
  case same
  then show ?thesis using assms(1) by simp
next
  case expired
  then show ?thesis using assms
    by (simp add: expired_keeps auth_ok_def auth_identity_def seed_identity_def identity_key_def seed_key_def)
next
  case (reserve s1 x1 tr opred s' r)
  have keyed: "accounts_keyed s" using assms(1) by (simp add: ledger_inv_def)
  note m = migrate_facts [OF reserve(2)]
  have x: "account_key x1 = wholesaleAccountKey (sd_Payer seed) payee (sd_WholesaleAccountID seed)"
    using m(4) account_key_load [OF keyed] assms(3) by simp
  have amt: "parseDecimalBig (wa_ReservedWei x1) = reserved_at (account_key x1) s"
    "parseDecimalBig (wa_DebitedWei x1) = debited_at (account_key x1) s"
    "parseDecimalBig (wa_CreditedWei x1) = credited_at (account_key x1) s + tr"
    unfolding x using m(5-7) assms(3) load_amounts [of "sd_Payer seed" payee "sd_WholesaleAccountID seed" s] by simp_all
  from reserve(4) have "ledger_inv payee K s'"
  proof (cases rule: admit_reserve_cases)
    case (short x')
    then show ?thesis
      using ledger_inv_credit [OF assms(1) m(1-3), of x' "account_key x1"] ledger_inv_frame [OF assms(1) m(1-3)]
        amt m(8) by simp
  next
    case (granted x' rs)
    then show ?thesis unfolding granted(5) using x amt m(8)
      by (intro granted_keeps [OF assms(1,2,3,4,5) reserve(1) m(1-3) reserve(3)])
        (simp_all add: Account_Available_def)
  qed
  then show ?thesis using reserve(5) by simp
qed

subsection \<open>Funding\<close>

lemma fund_tickets_frame:
  "fund_tickets rand c ts s = Inr (s', c') \<Longrightarrow>
   wholesale_accounts s' = wholesale_accounts s \<and> wholesale_totals s' = wholesale_totals s \<and>
   spend_authorizations s' = spend_authorizations s \<and> sessions s' = sessions s \<and>
   wholesale_funding_receipts s' = wholesale_funding_receipts s \<and> c \<le> c' \<and> (ts \<noteq> [] \<longrightarrow> c < c') \<and>
   c' = c + sum_list (map (\<lambda>t. the (ft_Credit t)) ts)"
proof (induction ts arbitrary: c s)
  case (Cons t ts)
  from Cons.prems obtain k where k: "ft_Credit t = Some k" "0 < k"
    by (auto split: option.splits if_splits)
  with Cons.prems obtain s1 u s2 b where
        rec: "recordNonce (Some rand) (ft_Nonce t) s = Inr (s1, u)"
    and enq: "(case ft_Winner t of None \<Rightarrow> Inr (s1, False) | Some w \<Rightarrow> enqueueRedemption (ft_Hash t) w s1) = Inr (s2, b)"
    and rest: "fund_tickets rand (c + k) ts s2 = Inr (s', c')"
    by auto
  have "wholesale_accounts s2 = wholesale_accounts s \<and> wholesale_totals s2 = wholesale_totals s \<and>
    spend_authorizations s2 = spend_authorizations s \<and> sessions s2 = sessions s \<and>
    wholesale_funding_receipts s2 = wholesale_funding_receipts s"
    using rec enq by (auto simp: recordNonce_def enqueueRedemption_def Let_def split: option.splits if_splits)
  with Cons.IH [OF rest] k show ?case by auto
qed simp

definition funded_account :: "WholesaleAccount \<Rightarrow> int \<Rightarrow> time \<Rightarrow> WholesaleAccount" where
  "funded_account x c now = x\<lparr>wa_CreditedWei := big_String (parseDecimalBig (wa_CreditedWei x) + c),
     wa_Version := wa_Version x + 1, wa_UpdatedAt := now\<rparr>"

definition funding_receipt :: "string \<Rightarrow> WholesaleAccount \<Rightarrow> int \<Rightarrow> FundingReceipt" where
  "funding_receipt fid x c = \<lparr>fr_FundingID = fid, fr_Account = Some x, fr_CreditedWei = big_String c\<rparr>"

lemma fund_cases:
  obtains (same) "fst (ApplyWholesaleFunding payer payee acc w fid ts now s) = s"
      "\<And>r. snd (ApplyWholesaleFunding payer payee acc w fid ts now s) \<noteq> Inr (r, False)"
  | (funded) sess rand s1 c where "fmlookup (sessions s) (compositeKey payer w) = Some sess"
      "SetString (ss_RecipientRand sess) = Some rand" "fund_tickets rand 0 ts s = Inr (s1, c)" "ts \<noteq> []"
      "fmlookup (wholesale_funding_receipts s) fid = None"
      "ApplyWholesaleFunding payer payee acc w fid ts now s =
        (let x = funded_account (loadWholesaleAccount payer payee acc s1) c now
         in ((putWholesaleAccount x s1)\<lparr>wholesale_funding_receipts :=
               fmupd fid (funding_receipt fid x c) (wholesale_funding_receipts s1)\<rparr>,
             Inr (funding_receipt fid x c, False)))"
proof -
  consider (no) "fst (ApplyWholesaleFunding payer payee acc w fid ts now s) = s"
      "\<And>r. snd (ApplyWholesaleFunding payer payee acc w fid ts now s) \<noteq> Inr (r, False)"
    | (yes) sess rand where "ValidWholesaleAccountID acc" "length fid = 64" "ts \<noteq> []"
      "fmlookup (wholesale_funding_receipts s) fid = None"
      "fmlookup (sessions s) (compositeKey payer w) = Some sess"
      "\<not> ss_Closed sess" "ss_WholesaleAccountID sess = acc" "ss_TicketStreamID sess \<noteq> []" "ss_Recipient sess = payee"
      "SetString (ss_RecipientRand sess) = Some rand"
    by (force simp: ApplyWholesaleFunding_def db_update_def split: option.splits if_splits)
  then show ?thesis
  proof cases
    case no
    then show ?thesis by (rule same)
  next
    case yes
    have eq: "ApplyWholesaleFunding payer payee acc w fid ts now s =
      db_update (\<lambda>s. sum_bind (fund_tickets rand 0 ts s) (\<lambda>(s1, c).
        let x = funded_account (loadWholesaleAccount payer payee acc s1) c now
        in Inr ((putWholesaleAccount x s1)\<lparr>wholesale_funding_receipts :=
               fmupd fid (funding_receipt fid x c) (wholesale_funding_receipts s1)\<rparr>,
             (funding_receipt fid x c, False)))) s"
      using yes by (simp add: ApplyWholesaleFunding_def db_update_def Let_def funded_account_def funding_receipt_def)
    show ?thesis
    proof (cases "fund_tickets rand 0 ts s")
      case (Inl e)
      then show ?thesis using eq by (intro same) (simp_all add: db_update_def)
    next
      case (Inr sc)
      then show ?thesis using eq yes(3-5,10)
        by (cases sc) (rule funded, auto simp: db_update_def Let_def)
    qed
  qed
qed

lemma fund_keeps:
  assumes "ledger_inv payee K s"
  shows "ledger_inv payee K (fst (ApplyWholesaleFunding payer payee acc w fid ts now s))"
proof (cases rule: fund_cases [of payer payee acc w fid ts now s])
  case same
  then show ?thesis using assms by simp
next
  case (funded sess rand s1 c)
  note fr = fund_tickets_frame [OF funded(3)]
  have "accounts_keyed s1" using assms fr by (simp add: ledger_inv_def accounts_keyed_def)
  then have "ledger_inv payee K (putWholesaleAccount (funded_account (loadWholesaleAccount payer payee acc s1) c now) s1)"
    using fr account_key_load [of s1 payer payee acc] load_amounts [of payer payee acc s1]
    by (intro ledger_inv_credit [OF assms, where k = "wholesaleAccountKey payer payee acc"])
      (simp_all add: funded_account_def)
  then show ?thesis unfolding funded(6) by (auto simp: Let_def intro: ledger_inv_frame)
qed

end
