(* ===== verification/Wholesale_Properties.thy ===== *)
theory Wholesale_Properties
  imports Wholesale_Laws
begin

text \<open>
  What the wholesale ledger guarantees over any history of its operations, interleaved with the
  operations on sessions: the books balance, value is conserved, an authorization is admitted at
  most once, a funding is credited at most once, cancellation and admission exclude each other, a
  settlement is final. \<open>FundWholesale\<close>, which the service does not call, is not part of the histories.
\<close>

section \<open>Histories of the wholesale ledger\<close>

datatype wholesale_op =
    WAdmit WholesaleAuthorizationSeed string "int option" time
  | WAdvance bytes string uint64 "int option" uint64 string time string
  | WSettle bytes string uint64 uint64 time string
  | WClose bytes string string string time
  | WCancel bytes string bytes string time
  | WFund bytes string string string "FundingTicket list" time
  | WSession session_op

text \<open>What an operation brought about: an authorization record was created under a key, or an amount
  was credited under a funding id.\<close>

datatype wholesale_event = Nothing | Recorded bytes | Funded string int

definition admit_event :: "WholesaleAuthorizationSeed \<Rightarrow> store_error \<times> WholesaleAdmissionResult option + WholesaleAdmissionResult \<Rightarrow> wholesale_event" where
  "admit_event seed r =
     (case r of Inr res \<Rightarrow> if ar_Replayed res then Nothing else Recorded (seed_key seed) | Inl _ \<Rightarrow> Nothing)"

definition fund_event :: "store_error + FundingReceipt \<times> bool \<Rightarrow> wholesale_event" where
  "fund_event r =
     (case r of
        Inr (receipt, replayed) \<Rightarrow>
          if replayed then Nothing else Funded (fr_FundingID receipt) (parseDecimalBig (fr_CreditedWei receipt))
      | Inl _ \<Rightarrow> Nothing)"

fun wholesale_step :: "bytes \<Rightarrow> store \<Rightarrow> wholesale_op \<Rightarrow> store \<times> wholesale_event" where
  "wholesale_step payee s (WAdmit seed fw res now) =
     (fst (AdmitWholesale seed fw res now s), admit_event seed (snd (AdmitWholesale seed fw res now s)))"
| "wholesale_step payee s (WAdvance payer ident units target seq fw now acc) =
     (fst (AdvanceWholesale payer payee ident units target seq fw now acc s), Nothing)"
| "wholesale_step payee s (WSettle payer ident units seq now acc) =
     (fst (SettleWholesale payer payee ident units seq now acc s), Nothing)"
| "wholesale_step payee s (WClose payer ident reason acc now) =
     (fst (CloseUnexecutedAuthorization payer payee ident reason acc now s), Nothing)"
| "wholesale_step payee s (WCancel payer ident fp acc now) =
     (fst (CancelAuthorizationAdmission payer payee ident fp acc now s), Nothing)"
| "wholesale_step payee s (WFund payer acc w fid ts now) =
     (fst (ApplyWholesaleFunding payer payee acc w fid ts now s),
      fund_event (snd (ApplyWholesaleFunding payer payee acc w fid ts now s)))"
| "wholesale_step payee s (WSession op) = (fst (session_step s op), Nothing)"

text \<open>The operations of a ledger with one payee and the authorization identities of \<open>K\<close>.\<close>

fun op_within :: "bytes \<Rightarrow> (bytes \<times> string \<times> string) set \<Rightarrow> wholesale_op \<Rightarrow> bool" where
  "op_within payee K (WAdmit seed fw res now) \<longleftrightarrow>
     sd_Payee seed = payee \<and> seed_identity seed \<in> K \<and>
     (sd_PredecessorID seed \<noteq> [] \<longrightarrow> predecessor_identity seed \<in> K)"
| "op_within payee K (WAdvance payer ident units target seq fw now acc) \<longleftrightarrow> (payer, ident, acc) \<in> K"
| "op_within payee K (WSettle payer ident units seq now acc) \<longleftrightarrow> (payer, ident, acc) \<in> K"
| "op_within payee K (WClose payer ident reason acc now) \<longleftrightarrow> (payer, ident, acc) \<in> K"
| "op_within payee K _ \<longleftrightarrow> True"

section \<open>A sample ledger\<close>

definition sample_payer :: bytes where "sample_payer = replicate 20 (CHR ''p'')"
definition sample_payee :: bytes where "sample_payee = replicate 20 (CHR ''q'')"

definition sample_seed :: WholesaleAuthorizationSeed where
  "sample_seed = \<lparr>sd_WholesaleAccountID = [], sd_ID = ''job'', sd_Fingerprint = ''f'',
     sd_Payer = sample_payer, sd_Payee = sample_payee, sd_RequestID = ''r'', sd_SessionID = [],
     sd_Protocol = ''http'', sd_Capability = ''c'', sd_Offering = ''o'', sd_PriceWei = ''2'', sd_PerUnits = 1,
     sd_WorkUnit = ''token'', sd_MaxDebitWei = ''9'', sd_MaxTotalUnits = 4, sd_ExpiresAt = 100,
     sd_Revision = 1, sd_PredecessorID = []\<rparr>"

definition sample_ledger :: store where
  "sample_ledger = Open\<lparr>sessions := fmupd (compositeKey sample_payer ''w'')
     (sample_session\<lparr>ss_Sender := sample_payer, ss_BalanceWei := ''9''\<rparr>) fmempty\<rparr>"

definition sample_ids :: "(bytes \<times> string \<times> string) set" where
  "sample_ids = {(sample_payer, ''job'', []), (sample_payer, ''next'', ''acct'')}"

definition sample_history :: "wholesale_op list" where
  "sample_history =
    [WAdmit sample_seed ''w'' None 1, WAdvance sample_payer ''job'' 2 (Some 3) 1 [] 2 [],
     WSettle sample_payer ''job'' 3 2 3 [], WCancel sample_payer ''next'' (replicate 32 (CHR ''f'')) ''acct'' 4]"

lemma sample_ids_inj: "inj_on identity_key sample_ids"
proof -
  have "length (identity_key (sample_payer, ''job'', [])) \<noteq> length (identity_key (sample_payer, ''next'', ''acct''))"
    by (simp add: identity_key_def wholesaleAuthorizationKey_def)
  then show ?thesis by (auto simp: sample_ids_def inj_on_def)
qed

lemma sample_ledger_inv: "ledger_inv payee K sample_ledger"
  by (rule ledger_inv_frame [OF ledger_inv_Open]) (simp_all add: sample_ledger_def)

lemma sample_history_within: "\<forall>op \<in> set sample_history. op_within sample_payee sample_ids op"
  by (simp add: sample_history_def sample_ids_def seed_identity_def sample_seed_def)

section \<open>The books balance\<close>

lemma session_wholesale_frame [simp]:
  "wholesale_accounts (fst (session_step s op)) = wholesale_accounts s"
  "wholesale_totals (fst (session_step s op)) = wholesale_totals s"
  "spend_authorizations (fst (session_step s op)) = spend_authorizations s"
  "canceled_admissions (fst (session_step s op)) = canceled_admissions s"
  "unexecuted_fences (fst (session_step s op)) = unexecuted_fences s"
  "wholesale_funding_receipts (fst (session_step s op)) = wholesale_funding_receipts s"
  by (cases op; simp add: session_op_defs sum_bind_case Let_def split: sum.split option.split prod.split)+

interpretation books: guarded_machine "wholesale_step payee"
  "\<lambda>s. inj_on identity_key K \<and> ledger_inv payee K s" "op_within payee K" for payee K
proof unfold_locales
  fix s op assume "inj_on identity_key K \<and> ledger_inv payee K s" "op_within payee K op"
  then show "inj_on identity_key K \<and> ledger_inv payee K (fst (wholesale_step payee s op))"
    by (cases op)
      (auto intro: admit_keeps advance_keeps settle_keeps close_keeps fund_keeps
        ledger_inv_frame [OF _ cancel_frame(1-3) [OF refl]]
        ledger_inv_frame [OF _ session_wholesale_frame(1-3)])
qed

lemma totals_available:
  assumes "ledger_inv payee K s"
  shows "Totals_Available (GetWholesaleTotals s) = fmsum (\<lambda>_ a. Account_Available a) (wholesale_accounts s)"
  using assms
  by (simp add: ledger_inv_def totals_ok_def Totals_Available_def Account_Available_def fmsum_def
      sum_subtractf sum.distrib)

text \<open>C1: the wholesale books balance. Over any interleaving of admissions with or without a
  predecessor, advances, settlements, closings, cancellations, fundings and session operations of
  one payee's ledger, from a ledger that balances, and provided the identities in play have
  different keys: what every account reserves is what its admitted authorizations hold, what it has
  debited is what its authorizations were billed, every bill is \<open>BillFor\<close> the units used and within
  the signed maximum, no account is ever overdrawn, and the totals row is the sum of the accounts.\<close>

theorem wholesale_books_balance:
  assumes "ledger_inv payee K s" "inj_on identity_key K" "\<forall>op \<in> set ops. op_within payee K op"
  shows "ledger_inv payee K (run (wholesale_step payee) s ops) \<and>
    0 \<le> Account_Available (GetWholesaleAccount payer payee acc (run (wholesale_step payee) s ops)) \<and>
    Totals_Available (GetWholesaleTotals (run (wholesale_step payee) s ops)) =
      fmsum (\<lambda>_ a. Account_Available a) (wholesale_accounts (run (wholesale_step payee) s ops))"
proof -
  have "ledger_inv payee K (run (wholesale_step payee) s ops)"
    using books.guarded_run [of K payee s ops] assms by blast
  then show ?thesis
    by (simp add: available_nonneg [of payee K] totals_available [of payee K] GetWholesaleAccount_def)
qed

theorem wholesale_books_balance_witness:
  "inj_on identity_key sample_ids \<and> ledger_inv sample_payee sample_ids sample_ledger \<and>
   0 \<le> Account_Available (GetWholesaleAccount sample_payer sample_payee []
     (run (wholesale_step sample_payee) sample_ledger sample_history))"
  using wholesale_books_balance [OF sample_ledger_inv sample_ids_inj sample_history_within, of sample_payer "[]"]
    sample_ids_inj sample_ledger_inv by blast

section \<open>Value is conserved\<close>

definition ledger_value :: "store \<Rightarrow> int" where
  "ledger_value s = session_value s + account_value s"

primrec funded_amount :: "wholesale_event \<Rightarrow> int" where
  "funded_amount Nothing = 0"
| "funded_amount (Recorded k) = 0"
| "funded_amount (Funded fid c) = c"

fun is_session_op :: "wholesale_op \<Rightarrow> bool" where
  "is_session_op (WSession op) = True"
| "is_session_op _ = False"

lemma account_value_put:
  "account_value (putWholesaleAccount x s) =
     account_value s - credited_at (account_key x) s + parseDecimalBig (wa_CreditedWei x)"
  by (simp add: account_value_def fmsum_upd)

lemma value_frame:
  "sessions s' = sessions s \<Longrightarrow> wholesale_accounts s' = wholesale_accounts s \<Longrightarrow> ledger_value s' = ledger_value s"
  by (simp add: ledger_value_def session_value_def account_value_def)

text \<open>Writing an account whose credit has grown by what left the sessions.\<close>

lemma value_put:
  assumes "session_value mid = session_value s - tr" "wholesale_accounts mid = wholesale_accounts s"
    and "parseDecimalBig (wa_CreditedWei x) = credited_at (account_key x) s + tr + c"
    and "sessions fin = sessions mid" "wholesale_accounts fin = wholesale_accounts (putWholesaleAccount x mid)"
  shows "ledger_value fin = ledger_value s + c"
proof -
  have "session_value fin = session_value mid" "account_value fin = account_value (putWholesaleAccount x mid)"
    using assms(4,5) by (simp_all add: session_value_def account_value_def)
  moreover have "account_value mid = account_value s" using assms(2) by (simp add: account_value_def)
  ultimately show ?thesis using assms(1-3) by (simp add: ledger_value_def account_value_put)
qed

lemma loaded_credit:
  assumes "accounts_keyed s" "migrate_balance payer acc fw (loadWholesaleAccount payer p acc s) s = Inr (s1, x1, tr)"
  shows "parseDecimalBig (wa_CreditedWei x1) = credited_at (account_key x1) s + tr"
  using migrate_facts(4,7) [OF assms(2)] account_key_load [OF assms(1)] load_amounts(1) [of payer p acc s] by simp

lemma admit_value:
  assumes "accounts_keyed s"
  shows "ledger_value (fst (AdmitWholesale seed fw res now s)) = ledger_value s"
proof (cases rule: admit_cases [of seed fw res now s])
  case (reserve s1 x1 tr opred s' r)
  note m = migrate_facts [OF reserve(2)] and cr = loaded_credit [OF assms reserve(2)]
  from reserve(4) have "ledger_value s' = ledger_value s"
  proof (cases rule: admit_reserve_cases)
    case (short x')
    show ?thesis
    proof (cases "0 < tr")
      case True
      then have "ledger_value s' = ledger_value s + 0"
        using short m(1,9) cr by (intro value_put [where mid = s1 and x = x' and tr = tr]) simp_all
      then show ?thesis by simp
    next
      case False
      then show ?thesis using short(1) m(1,8,9) by (simp add: ledger_value_def account_value_def)
    qed
  next
    case (granted x' reservation)
    then have "ledger_value s' = ledger_value s + 0"
      using m(1,9) cr by (intro value_put [where mid = s1 and x = x' and tr = tr]) simp_all
    then show ?thesis by simp
  qed
  then show ?thesis using reserve(5) by simp
next
  case expired
  show ?thesis unfolding expired(1) by (rule value_frame) simp_all
qed simp

lemma advance_value:
  assumes "accounts_keyed s"
  shows "ledger_value (fst (AdvanceWholesale payer payee ident units target seq fw now acc s)) = ledger_value s"
proof (cases rule: advance_cases [of payer payee ident units target seq fw now acc s])
  case (advanced a tg s1 x1 tr s' r)
  note m = migrate_facts [OF advanced(11)] and cr = loaded_credit [OF assms advanced(11)]
  from advanced(12) show ?thesis
  proof (rule advance_apply_Inr)
    fix billed assume "s' = (putWholesaleAccount (advanced_account x1 a billed tg now)
       (s1\<lparr>spend_authorizations := fmupd (wholesaleAuthorizationKey payer ident acc)
           (advanced_auth a units billed tg seq now) (spend_authorizations s1)\<rparr>))
       \<lparr>wholesale_advance_history := fmupd (advance_history_key payer ident acc seq)
           (advanced_auth a units billed tg seq now) (wholesale_advance_history s1)\<rparr>"
    then have "ledger_value s' = ledger_value s + 0"
      using m(1,9) cr
      by (intro value_put [where mid = s1 and x = "advanced_account x1 a billed tg now" and tr = tr])
        (simp_all add: advanced_account_def)
    then show ?thesis using advanced(13) by simp
  qed
qed simp

lemma settle_value:
  assumes "accounts_keyed s"
  shows "ledger_value (fst (SettleWholesale payer payee ident units seq now acc s)) = ledger_value s"
proof (cases "fmlookup (spend_authorizations s) (wholesaleAuthorizationKey payer ident acc)")
  case (Some a)
  from Some show ?thesis
  proof (cases rule: settle_cases [where payee = payee and units = units and seq = seq and now = now])
    case (settled billed)
    have "ledger_value (fst (SettleWholesale payer payee ident units seq now acc s)) = ledger_value s + 0"
      using account_key_load [OF assms, of payer payee acc] load_amounts(1) [of payer payee acc s]
      by (intro value_put [where mid = s and x = "settled_account (loadWholesaleAccount payer payee acc s) a now billed"
            and tr = 0]) (simp_all add: settled(9) settled_account_def)
    then show ?thesis by simp
  qed simp
qed (simp add: SettleWholesale_def db_update_def Let_def)

lemma close_value:
  assumes "accounts_keyed s"
  shows "ledger_value (fst (CloseUnexecutedAuthorization payer payee ident reason acc now s)) = ledger_value s"
proof (cases rule: close_cases [of payer payee ident reason acc now s])
  case kept
  from kept(4,1) show ?thesis by (rule value_frame)
next
  case (released a x)
  have "ledger_value (fst (CloseUnexecutedAuthorization payer payee ident reason acc now s)) = ledger_value s + 0"
    unfolding released(7)
    by (rule value_put [where mid = s and tr = 0 and x = "x\<lparr>
        wa_ReservedWei := big_String (parseDecimalBig (wa_ReservedWei x) - parseDecimalBig (au_ReservedWei a)),
        wa_Version := wa_Version x + 1, wa_UpdatedAt := now\<rparr>"])
      (use account_key_load [OF assms, of payer payee acc] load_amounts(1) [of payer payee acc s] released(6)
        in simp_all)
  then show ?thesis by simp
qed

lemma fund_value:
  assumes "accounts_keyed s"
  shows "ledger_value (fst (ApplyWholesaleFunding payer payee acc w fid ts now s)) =
    ledger_value s + funded_amount (fund_event (snd (ApplyWholesaleFunding payer payee acc w fid ts now s)))"
proof (cases rule: fund_cases [of payer payee acc w fid ts now s])
  case same
  have "fund_event (snd (ApplyWholesaleFunding payer payee acc w fid ts now s)) = Nothing"
    using same(2) by (cases "snd (ApplyWholesaleFunding payer payee acc w fid ts now s)") (auto simp: fund_event_def)
  then show ?thesis using same(1) by simp
next
  case (funded sess rand s1 c)
  note fr = fund_tickets_frame [OF funded(3)]
  have "accounts_keyed s1" using assms fr by (simp add: accounts_keyed_def)
  then have "ledger_value (fst (ApplyWholesaleFunding payer payee acc w fid ts now s)) = ledger_value s + c"
    unfolding funded(6) Let_def
    by (intro value_put [where mid = s1 and tr = 0 and x = "funded_account (loadWholesaleAccount payer payee acc s1) c now"])
      (use fr account_key_load [of s1 payer payee acc] load_amounts(1) [of payer payee acc s1] in
        \<open>simp_all add: funded_account_def session_value_def\<close>)
  then show ?thesis unfolding funded(6) by (simp add: fund_event_def funding_receipt_def Let_def)
qed

lemma step_value:
  assumes "accounts_keyed s" "\<not> is_session_op op"
  shows "ledger_value (fst (wholesale_step payee s op)) =
    ledger_value s + funded_amount (snd (wholesale_step payee s op))"
proof (cases op)
  case (WAdmit seed fw res now)
  then show ?thesis using admit_value [OF assms(1)]
    by (simp add: admit_event_def split: sum.split)
next
  case (WCancel payer ident fp acc now)
  then show ?thesis using value_frame [OF cancel_frame(4,1) [OF refl]] by simp
qed (use assms in \<open>simp_all add: advance_value settle_value close_value fund_value\<close>)

text \<open>C14: value is conserved. Over any history of admissions, advances, settlements, closings,
  cancellations and fundings, the value in session balances and account credits together changes
  by exactly the amounts of the fundings that were applied: moving a session balance into an account
  neither loses nor duplicates it, also when the admission that moves it is refused for lack of
  funds, and no reservation, bill or release changes it.\<close>

theorem wholesale_value_conserved:
  assumes "ledger_inv payee K s" "inj_on identity_key K"
    and "\<forall>op \<in> set ops. op_within payee K op \<and> \<not> is_session_op op"
  shows "ledger_value (run (wholesale_step payee) s ops) =
    ledger_value s + sum_list (map funded_amount (answers (wholesale_step payee) s ops))"
  using assms
proof (induction ops arbitrary: s)
  case (Cons op ops)
  have "ledger_inv payee K (fst (wholesale_step payee s op))"
    using books.guarded_step [of K payee s op] Cons.prems by simp
  with Cons step_value [of s op payee] show ?case by (simp add: ledger_inv_def)
qed simp

theorem wholesale_value_conserved_witness:
  "ledger_value sample_ledger = 9 \<and>
   ledger_value (run (wholesale_step sample_payee) sample_ledger sample_history) = 9"
proof -
  have "ledger_value sample_ledger = 9"
    by (simp add: ledger_value_def session_value_def account_value_def sample_ledger_def Open_def fmsum_upd fmval_def)
  moreover have "\<forall>op \<in> set sample_history. op_within sample_payee sample_ids op \<and> \<not> is_session_op op"
    using sample_history_within by (simp add: sample_history_def)
  moreover have "map funded_amount (answers (wholesale_step sample_payee) s sample_history) = [0, 0, 0, 0]" for s
    by (simp add: sample_history_def admit_event_def split: sum.split)
  ultimately show ?thesis
    using wholesale_value_conserved [OF sample_ledger_inv sample_ids_inj, of sample_history sample_payee] by simp
qed

section \<open>Authorization records\<close>

text \<open>An admission either records nothing, or records its identity for the first time and replaces
  at most its admitted predecessor.\<close>

lemma admit_records:
  obtains (unrecorded) "admit_event seed (snd (AdmitWholesale seed fw res now s)) = Nothing"
      "spend_authorizations (fst (AdmitWholesale seed fw res now s)) = spend_authorizations s"
  | (recorded) a opred where "admit_event seed (snd (AdmitWholesale seed fw res now s)) = Recorded (seed_key seed)"
      "fmlookup (spend_authorizations s) (seed_key seed) = None"
      "fmlookup (canceled_admissions s) (seed_key seed) = None"
      "fmlookup (unexecuted_fences s) (seed_key seed) = None"
      "spend_authorizations (fst (AdmitWholesale seed fw res now s)) =
         fmupd (seed_key seed) a (superseded_in opred now (spend_authorizations s))"
      "\<And>k pred. opred = Some (k, pred) \<Longrightarrow>
         fmlookup (spend_authorizations s) k = Some pred \<and> au_State pred = AuthorizationAdmitted"
proof -
  let ?ok = "sd_ID seed \<noteq> [] \<and> length (sd_Payer seed) = 20 \<and> length (sd_Payee seed) = 20 \<and>
    fmlookup (canceled_admissions s) (seed_key seed) = None \<and>
    fmlookup (unexecuted_fences s) (seed_key seed) = None \<and>
    fmlookup (spend_authorizations s) (seed_key seed) = None"
  let ?x = "loadWholesaleAccount (sd_Payer seed) (sd_Payee seed) (sd_WholesaleAccountID seed) s"
  consider (no) "\<not> ?ok" | (old) ?ok "\<not> now < sd_ExpiresAt seed" | (live) ?ok "now < sd_ExpiresAt seed" by blast
  then show ?thesis
  proof cases
    case no
    then show ?thesis
      by (intro unrecorded)
        (auto simp: AdmitWholesale_def admit_body_def db_update_def Let_def admit_event_def canceledAdmissionIn_def
          seed_key_def split: option.splits if_splits)
  next
    case old
    then show ?thesis
      by (intro recorded [where opred = None])
        (simp_all add: AdmitWholesale_def admit_body_def db_update_def Let_def admit_event_def
          canceledAdmissionIn_def seed_key_def superseded_in_def)
  next
    case live
    have eq: "AdmitWholesale seed fw res now s =
      (case db_update (\<lambda>s. sum_bind (migrate_balance (sd_Payer seed) (sd_WholesaleAccountID seed) fw ?x s)
          (\<lambda>(s1, x1, tr). sum_bind (admit_predecessor seed s1)
            (\<lambda>opred. admit_reserve seed res now x1 tr opred s1))) s of
         (s', Inl e) \<Rightarrow> (s', Inl (e, None))
       | (s', Inr (r, insufficient)) \<Rightarrow>
           (s', if insufficient then Inl (ErrInsufficientWholesale, Some r) else Inr r))"
      using live by (simp add: AdmitWholesale_def admit_body_def db_update_def Let_def canceledAdmissionIn_def seed_key_def)
    show ?thesis
    proof (cases "\<exists>s1 x1 tr opred s' r.
        migrate_balance (sd_Payer seed) (sd_WholesaleAccountID seed) fw ?x s = Inr (s1, x1, tr) \<and>
        admit_predecessor seed s1 = Inr opred \<and> admit_reserve seed res now x1 tr opred s1 = Inr (s', r)")
      case True
      then obtain s1 x1 tr opred s' r where
        c: "migrate_balance (sd_Payer seed) (sd_WholesaleAccountID seed) fw ?x s = Inr (s1, x1, tr)"
          "admit_predecessor seed s1 = Inr opred" "admit_reserve seed res now x1 tr opred s1 = Inr (s', r)" by blast
      have sn: "AdmitWholesale seed fw res now s =
          (s', if snd r then Inl (ErrInsufficientWholesale, Some (fst r)) else Inr (fst r))"
        unfolding eq using c by (simp add: db_update_def split: prod.split)
      note m = migrate_facts [OF c(1)]
      from c(3) show ?thesis
      proof (cases rule: admit_reserve_cases)
        case (short x')
        then show ?thesis using m(3) sn by (intro unrecorded) (simp_all add: admit_event_def)
      next
        case (granted x' reservation)
        have "\<not> ar_Replayed (fst r)"
          using c(3) granted(1) by (auto simp: admit_reserve_def Let_def split: if_splits)
        moreover have "fmlookup (spend_authorizations s) k = Some pred \<and> au_State pred = AuthorizationAdmitted"
          if "opred = Some (k, pred)" for k pred
          using that admit_predecessor_Some(2,3) [of seed s1 k pred] c(2) m(3) by simp
        ultimately show ?thesis using granted(1,5) m(3) sn live(1)
          by (intro recorded [where opred = opred]) (auto simp: admit_event_def)
      qed
    next
      case False
      then have "\<exists>e. AdmitWholesale seed fw res now s = (s, Inl (e, None))"
        unfolding eq by (auto simp: db_update_def sum_bind_case split: sum.split prod.split)
      then show ?thesis by (intro unrecorded) (auto simp: admit_event_def)
    qed
  qed
qed

text \<open>What one operation does to the record under one key.\<close>

lemma step_record:
  obtains (kept) "fmlookup (spend_authorizations (fst (wholesale_step payee s op))) k =
        fmlookup (spend_authorizations s) k" "snd (wholesale_step payee s op) \<noteq> Recorded k"
  | (new) "fmlookup (spend_authorizations s) k = None" "snd (wholesale_step payee s op) = Recorded k"
      "fmlookup (spend_authorizations (fst (wholesale_step payee s op))) k \<noteq> None"
      "fmlookup (canceled_admissions s) k = None"
  | (rewritten) a where "fmlookup (spend_authorizations s) k = Some a" "au_State a = AuthorizationAdmitted"
      "fmlookup (spend_authorizations (fst (wholesale_step payee s op))) k \<noteq> None"
      "snd (wholesale_step payee s op) \<noteq> Recorded k"
proof (cases op)
  case (WAdmit seed fw res now)
  show ?thesis
  proof (cases rule: admit_records [of seed fw res now s])
    case unrecorded
    then show ?thesis using WAdmit by (intro kept) simp_all
  next
    case (recorded a opred)
    consider "k = seed_key seed" | pred where "k \<noteq> seed_key seed" "opred = Some (k, pred)"
      | "k \<noteq> seed_key seed" "\<And>pred. opred \<noteq> Some (k, pred)" by blast
    then show ?thesis
    proof cases
      case 1
      then show ?thesis using WAdmit recorded by (intro new) simp_all
    next
      case 2
      then show ?thesis using WAdmit recorded by (intro rewritten) (auto simp: superseded_in_def)
    next
      case 3
      then show ?thesis using WAdmit recorded
        by (intro kept) (auto simp: superseded_in_def split: option.split)
    qed
  qed
next
  case (WAdvance payer ident units target seq fw now acc)
  show ?thesis
  proof (cases rule: advance_cases [of payer payee ident units target seq fw now acc s])
    case same
    then show ?thesis using WAdvance by (intro kept) simp_all
  next
    case (advanced a tg s1 x1 tr s' r)
    from advanced(12) obtain a' where "spend_authorizations s' =
        fmupd (wholesaleAuthorizationKey payer ident acc) a' (spend_authorizations s)"
      by (rule advance_apply_Inr) (use migrate_facts(3) [OF advanced(11)] in simp)
    note s' = this
    show ?thesis
    proof (cases "k = wholesaleAuthorizationKey payer ident acc")
      case True
      show ?thesis by (rule rewritten [of a]) (use True WAdvance s' advanced(5,7,13) in simp_all)
    next
      case False
      show ?thesis by (rule kept) (use False WAdvance s' advanced(5,7,13) in simp_all)
    qed
  qed
next
  case (WSettle payer ident units seq now acc)
  show ?thesis
  proof (cases "fmlookup (spend_authorizations s) (wholesaleAuthorizationKey payer ident acc)")
    case None
    then show ?thesis using WSettle by (intro kept) (simp_all add: SettleWholesale_def db_update_def Let_def)
  next
    case (Some a)
    then show ?thesis
    proof (cases rule: settle_cases [where payee = payee and units = units and seq = seq and now = now])
      case same
      then show ?thesis using WSettle by (intro kept) simp_all
    next
      case (settled billed)
      show ?thesis
      proof (cases "k = wholesaleAuthorizationKey payer ident acc")
        case True
        show ?thesis by (rule rewritten [of a]) (use True WSettle Some settled(1,9) in simp_all)
      next
        case False
        show ?thesis by (rule kept) (use False WSettle Some settled(1,9) in simp_all)
      qed
    qed
  qed
next
  case (WClose payer ident reason acc now)
  show ?thesis
  proof (cases rule: close_cases [of payer payee ident reason acc now s])
    case kept
    then show ?thesis using WClose by (intro that(1)) simp_all
  next
    case (released a x)
    show ?thesis
    proof (cases "k = wholesaleAuthorizationKey payer ident acc")
      case True
      show ?thesis by (rule that(3) [of a]) (use True WClose released(1,2,7) in simp_all)
    next
      case False
      show ?thesis by (rule that(1)) (use False WClose released(1,2,7) in simp_all)
    qed
  qed
next
  case (WCancel payer ident fp acc now)
  then show ?thesis using cancel_frame(3) [OF refl] by (intro kept) simp_all
next
  case (WFund payer acc w fid ts now)
  have "spend_authorizations (fst (ApplyWholesaleFunding payer payee acc w fid ts now s)) = spend_authorizations s"
    by (cases rule: fund_cases [of payer payee acc w fid ts now s])
      (use fund_tickets_frame in \<open>auto simp: Let_def\<close>)
  then show ?thesis using WFund
    by (intro kept) (auto simp: fund_event_def split: sum.split prod.split)
qed (simp add: kept)

section \<open>An authorization is recorded at most once\<close>

definition record_step :: "bytes \<Rightarrow> store \<Rightarrow> wholesale_op \<Rightarrow> store \<times> bytes option" where
  "record_step payee s op =
     (fst (wholesale_step payee s op),
      case snd (wholesale_step payee s op) of Recorded k \<Rightarrow> Some k | _ \<Rightarrow> None)"

lemma record_step_Some [simp]:
  "snd (record_step payee s op) = Some k \<longleftrightarrow> snd (wholesale_step payee s op) = Recorded k"
  by (simp add: record_step_def split: wholesale_event.split)

lemma fst_record_step [simp]: "fst (record_step payee s op) = fst (wholesale_step payee s op)"
  by (simp add: record_step_def)

interpretation admission_ledger: once_only "record_step payee" "\<lambda>_. True"
  "\<lambda>s k. fmlookup (spend_authorizations s) k \<noteq> None" for payee
proof unfold_locales
  fix s op k
  show "\<not> fmlookup (spend_authorizations s) k \<noteq> None" if "snd (record_step payee s op) = Some k"
    using that by (cases rule: step_record [of payee s op k]) simp_all
  show "fmlookup (spend_authorizations (fst (record_step payee s op))) k \<noteq> None"
    if "snd (record_step payee s op) = Some k"
    using that by (cases rule: step_record [of payee s op k]) simp_all
  show "fmlookup (spend_authorizations (fst (record_step payee s op))) k \<noteq> None"
    if "fmlookup (spend_authorizations s) k \<noteq> None"
    using that by (cases rule: step_record [of payee s op k]) simp_all
qed simp

text \<open>C28: an authorization is recorded at most once. Over any interleaving of the ledger's operations,
  no key is given a new authorization record, admitted or expired, twice; every later admission of
  that identity is a replay of the record or an error.\<close>

theorem authorization_recorded_at_most_once:
  "distinct (effects (record_step payee) s ops)"
  by (rule admission_ledger.distinct_effects) simp

section \<open>A settlement is final\<close>

lemma settled_kept:
  "fmlookup (spend_authorizations s) k = Some a \<Longrightarrow> au_State a \<noteq> AuthorizationAdmitted \<Longrightarrow>
   fmlookup (spend_authorizations (run (wholesale_step payee) s ops)) k = Some a"
proof (induction ops arbitrary: s)
  case (Cons op ops)
  have "fmlookup (spend_authorizations (fst (wholesale_step payee s op))) k = Some a"
    using Cons.prems by (cases rule: step_record [of payee s op k]) simp_all
  with Cons show ?case by simp
qed simp

text \<open>C27: a settlement is final. Once an authorization is settled, no history of operations changes
  its record; settling it again with the same units and sequence number returns the recorded
  amounts and changes nothing, and settling it with any others is refused.\<close>

theorem settlement_is_final:
  assumes "fmlookup (spend_authorizations s) (wholesaleAuthorizationKey payer ident acc) = Some a"
    and "au_State a = AuthorizationSettled" "au_Payee a = payee"
  shows "let s' = run (wholesale_step payee) s ops in
    GetWholesaleAuthorization payer ident acc s' = Inr a \<and>
    SettleWholesale payer payee ident units seq now acc s' =
      (s', if units = au_ActualUnits a \<and> seq = au_SettlementSeq a
           then Inr \<lparr>tr_Account = loadWholesaleAccount payer payee acc s', tr_Authorization = a,
                     tr_Billed = parseDecimalBig (au_BilledWei a),
                     tr_Released = parseDecimalBig (au_ReleasedWei a), tr_Replayed = True\<rparr>
           else Inl ErrAuthorizationSettlement)"
  using settled_kept [OF assms(1), of payee ops] assms(2,3)
  by (auto simp: Let_def GetWholesaleAuthorization_def SettleWholesale_def db_update_def)

definition sample_settled :: WholesaleAuthorization where
  "sample_settled = (authorization_of sample_seed AuthorizationSettled 3 ''6'' ''0'' 2 3)\<lparr>au_ReleasedWei := ''1''\<rparr>"

definition sample_settled_ledger :: store where
  "sample_settled_ledger = Open\<lparr>spend_authorizations :=
     fmupd (wholesaleAuthorizationKey sample_payer ''job'' []) sample_settled fmempty\<rparr>"

theorem settlement_is_final_witness:
  "let s' = run (wholesale_step sample_payee) sample_settled_ledger sample_history in
     snd (SettleWholesale sample_payer sample_payee ''job'' 4 2 9 [] s') = Inl ErrAuthorizationSettlement \<and>
     GetWholesaleAuthorization sample_payer ''job'' [] s' = Inr sample_settled"
  using settlement_is_final [of sample_settled_ledger sample_payer "''job''" "[]" sample_settled sample_payee
      sample_history 4 2 9]
  by (simp add: Let_def sample_settled_ledger_def sample_settled_def sample_seed_def authorization_of_def)

section \<open>Cancellation and admission exclude each other\<close>

definition exclusive :: "store \<Rightarrow> bool" where
  "exclusive s \<longleftrightarrow>
     (\<forall>k. fmlookup (canceled_admissions s) k \<noteq> None \<longrightarrow> fmlookup (spend_authorizations s) k = None)"

lemma migrate_frame:
  assumes "migrate_balance payer acc fw x s = Inr (s1, x1, tr)"
  shows "canceled_admissions s1 = canceled_admissions s"
    "wholesale_funding_receipts s1 = wholesale_funding_receipts s"
  using assms by (auto simp: migrate_balance_def Let_def split: if_splits option.splits)

lemma admit_frame:
  "canceled_admissions (fst (AdmitWholesale seed fw res now s)) = canceled_admissions s"
  "wholesale_funding_receipts (fst (AdmitWholesale seed fw res now s)) = wholesale_funding_receipts s"
proof (atomize(full), cases rule: admit_cases [of seed fw res now s])
  case (reserve s1 x1 tr opred s' r)
  note m = migrate_frame [OF reserve(2)]
  from reserve(4) show "canceled_admissions (fst (AdmitWholesale seed fw res now s)) = canceled_admissions s \<and>
      wholesale_funding_receipts (fst (AdmitWholesale seed fw res now s)) = wholesale_funding_receipts s"
    by (cases rule: admit_reserve_cases) (use m reserve(5) in simp_all)
qed simp_all

lemma advance_frame:
  "canceled_admissions (fst (AdvanceWholesale payer payee ident units target seq fw now acc s)) = canceled_admissions s"
  "wholesale_funding_receipts (fst (AdvanceWholesale payer payee ident units target seq fw now acc s)) =
     wholesale_funding_receipts s"
proof (atomize(full), cases rule: advance_cases [of payer payee ident units target seq fw now acc s])
  case (advanced a tg s1 x1 tr s' r)
  from advanced(12) show "canceled_admissions (fst (AdvanceWholesale payer payee ident units target seq fw now acc s)) =
      canceled_admissions s \<and> wholesale_funding_receipts
        (fst (AdvanceWholesale payer payee ident units target seq fw now acc s)) = wholesale_funding_receipts s"
    by (rule advance_apply_Inr) (use advanced(13) migrate_frame [OF advanced(11)] in simp)
qed simp_all

lemma settle_frame:
  "canceled_admissions (fst (SettleWholesale payer payee ident units seq now acc s)) = canceled_admissions s"
  "wholesale_funding_receipts (fst (SettleWholesale payer payee ident units seq now acc s)) =
     wholesale_funding_receipts s"
  by (simp_all add: SettleWholesale_def db_update_def Let_def split: option.split)

lemma close_frame:
  "canceled_admissions (fst (CloseUnexecutedAuthorization payer payee ident reason acc now s)) = canceled_admissions s"
  "wholesale_funding_receipts (fst (CloseUnexecutedAuthorization payer payee ident reason acc now s)) =
     wholesale_funding_receipts s"
  by (simp_all add: CloseUnexecutedAuthorization_def db_update_def Let_def split: option.split)

lemma fund_tickets_canceled:
  "fund_tickets rand c ts s = Inr (s', c') \<Longrightarrow> canceled_admissions s' = canceled_admissions s"
proof (induction ts arbitrary: c s)
  case (Cons t ts)
  from Cons.prems obtain k s1 u where "ft_Credit t = Some k"
    "recordNonce (Some rand) (ft_Nonce t) s = Inr (s1, u)"
    and rest: "\<exists>s2 b. (case ft_Winner t of None \<Rightarrow> Inr (s1, False) | Some w \<Rightarrow> enqueueRedemption (ft_Hash t) w s1) =
      Inr (s2, b) \<and> fund_tickets rand (c + k) ts s2 = Inr (s', c')"
    by (cases "ft_Credit t") (auto split: if_splits)
  then have "canceled_admissions s1 = canceled_admissions s"
    by (auto simp: recordNonce_def Let_def split: if_splits)
  with rest Cons.IH show ?case
    by (auto simp: enqueueRedemption_def Let_def split: option.splits if_splits)
qed simp

lemma fund_frame:
  "canceled_admissions (fst (ApplyWholesaleFunding payer payee acc w fid ts now s)) = canceled_admissions s"
  by (cases rule: fund_cases [of payer payee acc w fid ts now s])
    (use fund_tickets_canceled in \<open>auto simp: Let_def\<close>)

lemma cancel_effect:
  obtains (same) "canceled_admissions (fst (CancelAuthorizationAdmission payer payee ident fp acc now s)) =
      canceled_admissions s"
  | (fenced) f where "canceled_admissions (fst (CancelAuthorizationAdmission payer payee ident fp acc now s)) =
      fmupd (wholesaleAuthorizationKey payer ident acc) f (canceled_admissions s)"
      "fmlookup (spend_authorizations s) (wholesaleAuthorizationKey payer ident acc) = None"
      "fmlookup (canceled_admissions s) (wholesaleAuthorizationKey payer ident acc) = None"
proof (cases "fmlookup (spend_authorizations s) (wholesaleAuthorizationKey payer ident acc) = None \<and>
    fmlookup (canceled_admissions s) (wholesaleAuthorizationKey payer ident acc) = None \<and>
    canceled_admissions (fst (CancelAuthorizationAdmission payer payee ident fp acc now s)) \<noteq> canceled_admissions s")
  case True
  show ?thesis
    by (rule fenced)
      (use True in \<open>simp_all add: CancelAuthorizationAdmission_def db_update_def Let_def canceledAdmissionIn_def
        split: if_splits\<close>)
next
  case False
  show ?thesis
    by (rule same)
      (use False in \<open>auto simp: CancelAuthorizationAdmission_def db_update_def Let_def canceledAdmissionIn_def
        split: option.splits if_splits\<close>)
qed

lemma step_canceled:
  "fmlookup (canceled_admissions s) k = Some f \<Longrightarrow>
   fmlookup (canceled_admissions (fst (wholesale_step payee s op))) k = Some f"
proof (cases op)
  case (WCancel payer ident fp acc now)
  assume "fmlookup (canceled_admissions s) k = Some f"
  then show ?thesis
    by (cases rule: cancel_effect [of payer payee ident fp acc now s]) (use WCancel in auto)
qed (simp_all add: admit_frame advance_frame settle_frame close_frame fund_frame)

lemma step_exclusive:
  assumes "exclusive s"
  shows "exclusive (fst (wholesale_step payee s op))"
proof -
  have "fmlookup (spend_authorizations (fst (wholesale_step payee s op))) k = None"
    if c: "fmlookup (canceled_admissions (fst (wholesale_step payee s op))) k \<noteq> None" for k
  proof (cases "fmlookup (canceled_admissions s) k")
    case (Some f)
    then have "fmlookup (spend_authorizations s) k = None" using assms by (simp add: exclusive_def)
    then show ?thesis by (cases rule: step_record [of payee s op k]) (use Some in simp_all)
  next
    case None
    with c obtain payer ident fp acc now where op: "op = WCancel payer ident fp acc now"
      by (cases op) (auto simp: admit_frame advance_frame settle_frame close_frame fund_frame)
    show ?thesis
      by (cases rule: cancel_effect [of payer payee ident fp acc now s])
        (use c None op cancel_frame(3) [OF refl, of payer payee ident fp acc now s] in \<open>auto split: if_splits\<close>)
  qed
  then show ?thesis by (simp add: exclusive_def)
qed

interpretation exclusion: invariant_machine "wholesale_step payee" exclusive for payee
  by unfold_locales (rule step_exclusive)

lemma canceled_run:
  "fmlookup (canceled_admissions s) k = Some f \<Longrightarrow>
   fmlookup (canceled_admissions (run (wholesale_step payee) s ops)) k = Some f"
  by (induction ops arbitrary: s) (simp_all add: step_canceled)

lemma cancel_fences:
  assumes "CancelAuthorizationAdmission payer payee ident fp acc now s = (s1, Inr (r, True))"
  shows "\<exists>f. fmlookup (canceled_admissions s1) (wholesaleAuthorizationKey payer ident acc) = Some f"
  using assms
  by (auto simp: CancelAuthorizationAdmission_def db_update_def Let_def canceledAdmissionIn_def
      split: if_splits option.splits)

text \<open>C17: a canceled admission never happens. Once a cancellation of an identity has been answered as
  taken, then after any further history of operations no canceled identity has an authorization, the
  identity reads as canceled, and every admission of it, whatever it offers, is refused and changes
  nothing. The ledger in which the cancellation was made is any in which no canceled identity has
  an authorization, which every history from the empty ledger keeps.\<close>

theorem canceled_never_admitted:
  assumes "exclusive s"
    and "CancelAuthorizationAdmission (sd_Payer seed) payee (sd_ID seed) fp (sd_WholesaleAccountID seed) t0 s =
      (s1, Inr (r, True))"
  shows "let s' = run (wholesale_step payee) s1 ops in
    exclusive s' \<and>
    (\<exists>e. AdmitWholesale seed fw res now s' = (s', Inl (e, None))) \<and>
    (\<exists>a. GetWholesaleAuthorization (sd_Payer seed) (sd_ID seed) (sd_WholesaleAccountID seed) s' = Inr a \<and>
      au_State a = AuthorizationCanceledUnused)"
proof -
  have "exclusive s1"
    using step_exclusive [OF assms(1), of payee "WCancel (sd_Payer seed) (sd_ID seed) fp (sd_WholesaleAccountID seed) t0"]
    by (simp add: assms(2))
  then have "exclusive (run (wholesale_step payee) s1 ops)" by (rule exclusion.inv_run)
  moreover obtain f where "fmlookup (canceled_admissions s1)
      (wholesaleAuthorizationKey (sd_Payer seed) (sd_ID seed) (sd_WholesaleAccountID seed)) = Some f"
    using cancel_fences [OF assms(2)] by blast
  moreover note canceled_run [OF this, of payee ops]
  ultimately show ?thesis
    by (auto simp: Let_def exclusive_def AdmitWholesale_def db_update_def admit_body_def canceledAdmissionIn_def
        GetWholesaleAuthorization_def zero_authorization_def)
qed

theorem canceled_never_admitted_witness:
  "let seed = sample_seed\<lparr>sd_WholesaleAccountID := ''acct''\<rparr>;
       c = CancelAuthorizationAdmission sample_payer sample_payee ''job'' (replicate 32 (CHR ''f'')) ''acct'' 1 Open;
       s' = run (wholesale_step sample_payee) (fst c) (WAdmit seed ''w'' None 2 # sample_history)
   in (\<exists>r. snd c = Inr (r, True)) \<and> (\<exists>e. AdmitWholesale seed [] None 5 s' = (s', Inl (e, None)))"
proof -
  let ?seed = "sample_seed\<lparr>sd_WholesaleAccountID := ''acct''\<rparr>"
  let ?c = "CancelAuthorizationAdmission sample_payer sample_payee ''job'' (replicate 32 (CHR ''f'')) ''acct'' 1 Open"
  have x: "exclusive Open" by (simp add: exclusive_def Open_def)
  have "ValidWholesaleAccountID ''acct''" by (simp add: ValidWholesaleAccountID_def byte_in_def)
  then have "\<exists>r. snd ?c = Inr (r, True)"
    by (simp add: CancelAuthorizationAdmission_def db_update_def Let_def canceledAdmissionIn_def Open_def
        sample_payer_def sample_payee_def)
  then obtain r where r: "?c = (fst ?c, Inr (r, True))" by (metis prod.collapse)
  then have "CancelAuthorizationAdmission (sd_Payer ?seed) sample_payee (sd_ID ?seed)
      (replicate 32 (CHR ''f'')) (sd_WholesaleAccountID ?seed) 1 Open = (fst ?c, Inr (r, True))"
    by (simp add: sample_seed_def)
  note canceled_never_admitted [OF x this, of "WAdmit ?seed ''w'' None 2 # sample_history" "[]" None 5]
  moreover have "snd ?c = Inr (r, True)" using r by (metis snd_conv)
  ultimately show ?thesis unfolding Let_def by blast
qed

section \<open>An underfunded admission\<close>

text \<open>C35: an admission refused for lack of funds takes no authority away. Every authorization, the
  predecessor that it would have replaced included, is left as it was, no account's reservations or
  debits change, and no value is lost: a session balance that was moved is now in the account.\<close>

theorem underfunded_admission_keeps_authority:
  assumes "AdmitWholesale seed fw res now s = (s', Inl (ErrInsufficientWholesale, r))" "accounts_keyed s"
  shows "spend_authorizations s' = spend_authorizations s \<and> ledger_value s' = ledger_value s \<and>
    reserved_at k s' = reserved_at k s \<and> debited_at k s' = debited_at k s"
proof -
  have s': "s' = fst (AdmitWholesale seed fw res now s)" using assms(1) by simp
  have u: "spend_authorizations s' = spend_authorizations s"
    unfolding s' by (cases rule: admit_records [of seed fw res now s]) (use assms(1) in \<open>simp_all add: admit_event_def\<close>)
  have "reserved_at k s' = reserved_at k s \<and> debited_at k s' = debited_at k s"
  proof (cases rule: admit_cases [of seed fw res now s])
    case (reserve s1 x1 tr opred t q)
    note m = migrate_facts [OF reserve(2)]
    have x: "account_key x1 = wholesaleAccountKey (sd_Payer seed) (sd_Payee seed) (sd_WholesaleAccountID seed)"
      using m(4) account_key_load [OF assms(2)] by simp
    have amt: "parseDecimalBig (wa_ReservedWei x1) = reserved_at (account_key x1) s"
      "parseDecimalBig (wa_DebitedWei x1) = debited_at (account_key x1) s"
      unfolding x m(5,6) load_amounts by simp_all
    from reserve(4) show ?thesis
    proof (cases rule: admit_reserve_cases)
      case (short x')
      then show ?thesis using reserve(5) m(1) amt s' by simp
    next
      case (granted x' reservation)
      then have "fmlookup (spend_authorizations s') (seed_key seed) \<noteq> None" using reserve(5) s' by simp
      then show ?thesis using u reserve(1) by simp
    qed
  qed (simp_all add: s')
  then show ?thesis using u admit_value [OF assms(2), of seed fw res now] s' by simp
qed

definition poor_ledger :: store where
  "poor_ledger = Open\<lparr>sessions := fmupd (compositeKey sample_payer ''w'')
     (sample_session\<lparr>ss_Sender := sample_payer, ss_BalanceWei := ''7''\<rparr>) fmempty\<rparr>"

lemma poor_admission:
  "\<exists>r. snd (AdmitWholesale sample_seed ''w'' None 1 poor_ledger) = Inl (ErrInsufficientWholesale, r)"
  by (simp add: AdmitWholesale_def admit_body_def db_update_def Let_def sample_seed_def sample_payer_def sample_payee_def
      canceledAdmissionIn_def poor_ledger_def Open_def migrate_balance_def loadWholesaleAccount_def
      admit_predecessor_def admit_reserve_def Account_Available_def)

theorem underfunded_admission_keeps_authority_witness:
  "\<exists>s' r. AdmitWholesale sample_seed ''w'' None 1 poor_ledger = (s', Inl (ErrInsufficientWholesale, r)) \<and>
     accounts_keyed poor_ledger \<and> ledger_value s' = ledger_value poor_ledger \<and> ledger_value poor_ledger = 7"
proof -
  obtain s' r where a: "AdmitWholesale sample_seed ''w'' None 1 poor_ledger = (s', Inl (ErrInsufficientWholesale, r))"
    using poor_admission by (cases "AdmitWholesale sample_seed ''w'' None 1 poor_ledger") auto
  have k: "accounts_keyed poor_ledger" by (simp add: accounts_keyed_def poor_ledger_def Open_def)
  have "ledger_value poor_ledger = 7"
    by (simp add: ledger_value_def session_value_def account_value_def poor_ledger_def Open_def fmsum_upd fmval_def)
  then show ?thesis using a k underfunded_admission_keeps_authority [OF a k, of "[]"] by blast
qed

end
