(* ===== verification/Funding_Laws.thy ===== *)
theory Funding_Laws
  imports Wholesale_Properties
begin

text \<open>
  Laws of the operations that happen once in the life of a ledger: a funding receipt
  (\<open>funding.go\<close>), what a freeze of the source demands (\<open>source_fence.go\<close>), the settlement domain
  (\<open>settlement_domain.go\<close>), and the keys under which authorizations are stored.
\<close>

section \<open>A funding is credited once\<close>

definition fund_step :: "bytes \<Rightarrow> store \<Rightarrow> wholesale_op \<Rightarrow> store \<times> string option" where
  "fund_step payee s op =
     (fst (wholesale_step payee s op),
      case snd (wholesale_step payee s op) of Funded fid c \<Rightarrow> Some fid | _ \<Rightarrow> None)"

lemma fst_fund_step [simp]: "fst (fund_step payee s op) = fst (wholesale_step payee s op)"
  by (simp add: fund_step_def)

lemma cancel_receipts:
  "wholesale_funding_receipts (fst (CancelAuthorizationAdmission payer payee ident fp acc now s)) =
     wholesale_funding_receipts s"
  by (auto simp: CancelAuthorizationAdmission_def db_update_def Let_def split: option.splits)

lemma step_receipts:
  obtains (kept) "wholesale_funding_receipts (fst (wholesale_step payee s op)) = wholesale_funding_receipts s"
      "snd (fund_step payee s op) = None"
  | (new) fid r where "wholesale_funding_receipts (fst (wholesale_step payee s op)) =
        fmupd fid r (wholesale_funding_receipts s)"
      "fmlookup (wholesale_funding_receipts s) fid = None" "snd (fund_step payee s op) = Some fid"
proof (cases op)
  case (WFund payer acc w fid ts now)
  show ?thesis
  proof (cases rule: fund_cases [of payer payee acc w fid ts now s])
    case same
    have "fund_event (snd (ApplyWholesaleFunding payer payee acc w fid ts now s)) = Nothing"
      using same(2) by (cases "snd (ApplyWholesaleFunding payer payee acc w fid ts now s)") (auto simp: fund_event_def)
    with same(1) show ?thesis using WFund by (intro kept) (simp_all add: fund_step_def)
  next
    case (funded sess rand s1 c)
    then show ?thesis using WFund fund_tickets_frame [OF funded(3)]
      by (intro new) (simp_all add: Let_def fund_step_def fund_event_def funding_receipt_def)
  qed
next
  case (WAdmit seed fw res now)
  then show ?thesis
    by (intro kept) (simp_all add: admit_frame fund_step_def admit_event_def split: sum.split)
qed (use kept in \<open>simp_all add: fund_step_def advance_frame settle_frame close_frame cancel_receipts\<close>)

interpretation funding_ledger: once_only "fund_step payee" "\<lambda>_. True"
  "\<lambda>s fid. fmlookup (wholesale_funding_receipts s) fid \<noteq> None" for payee
proof unfold_locales
  fix s op k
  show "\<not> fmlookup (wholesale_funding_receipts s) k \<noteq> None" if "snd (fund_step payee s op) = Some k"
    using that by (cases rule: step_receipts [of payee s op]) simp_all
  show "fmlookup (wholesale_funding_receipts (fst (fund_step payee s op))) k \<noteq> None"
    if "snd (fund_step payee s op) = Some k"
    using that by (cases rule: step_receipts [of payee s op]) simp_all
  show "fmlookup (wholesale_funding_receipts (fst (fund_step payee s op))) k \<noteq> None"
    if "fmlookup (wholesale_funding_receipts s) k \<noteq> None"
    using that by (cases rule: step_receipts [of payee s op]) auto
qed simp

lemma receipt_kept:
  "fmlookup (wholesale_funding_receipts s) fid = Some r \<Longrightarrow>
   fmlookup (wholesale_funding_receipts (run (wholesale_step payee) s ops)) fid = Some r"
proof (induction ops arbitrary: s)
  case (Cons op ops)
  have "fmlookup (wholesale_funding_receipts (fst (wholesale_step payee s op))) fid = Some r"
    using Cons.prems by (cases rule: step_receipts [of payee s op]) auto
  with Cons show ?case by simp
qed simp

text \<open>The row found for an account names that account: no other account shares its key.\<close>

definition account_named :: "bytes \<Rightarrow> bytes \<Rightarrow> string \<Rightarrow> store \<Rightarrow> bool" where
  "account_named payer payee acc s \<longleftrightarrow>
     wa_Payer (loadWholesaleAccount payer payee acc s) = payer \<and>
     wa_Payee (loadWholesaleAccount payer payee acc s) = payee \<and>
     wa_WholesaleAccountID (loadWholesaleAccount payer payee acc s) = acc"

lemma fund_applied:
  assumes "ApplyWholesaleFunding payer payee acc w fid ts now s = (s1, Inr (r, False))" "account_named payer payee acc s"
  shows "fmlookup (wholesale_funding_receipts s1) fid = Some r" "\<not> receipt_mismatch payer payee acc r"
    "ValidWholesaleAccountID acc" "length fid = 64"
    "parseDecimalBig (fr_CreditedWei r) = sum_list (map (\<lambda>t. the (ft_Credit t)) ts)"
proof -
  have v: "ValidWholesaleAccountID acc \<and> length fid = 64"
    using assms(1) by (auto simp: ApplyWholesaleFunding_def split: if_splits)
  show "ValidWholesaleAccountID acc" "length fid = 64" using v by simp_all
  have "fmlookup (wholesale_funding_receipts s1) fid = Some r \<and> \<not> receipt_mismatch payer payee acc r \<and>
    parseDecimalBig (fr_CreditedWei r) = sum_list (map (\<lambda>t. the (ft_Credit t)) ts)"
  proof (cases rule: fund_cases [of payer payee acc w fid ts now s])
    case same
    show ?thesis using same(2) [of r] assms(1) by simp
  next
    case (funded sess rand t c)
    have "loadWholesaleAccount payer payee acc t = loadWholesaleAccount payer payee acc s"
      using fund_tickets_frame [OF funded(3)] by (simp add: loadWholesaleAccount_def)
    then show ?thesis using assms funded(6) fund_tickets_frame [OF funded(3)]
      by (auto simp: Let_def receipt_mismatch_def funding_receipt_def funded_account_def account_named_def)
  qed
  then show "fmlookup (wholesale_funding_receipts s1) fid = Some r" "\<not> receipt_mismatch payer payee acc r"
    "parseDecimalBig (fr_CreditedWei r) = sum_list (map (\<lambda>t. the (ft_Credit t)) ts)" by simp_all
qed

lemma fund_account:
  assumes "ApplyWholesaleFunding payer payee acc w fid ts now s = (s1, Inr (r, False))" "account_named payer payee acc s"
  shows "GetWholesaleAccount payer payee acc s1 =
      funded_account (GetWholesaleAccount payer payee acc s) (sum_list (map (\<lambda>t. the (ft_Credit t)) ts)) now"
    "k \<noteq> wholesaleAccountKey payer payee acc \<Longrightarrow>
      fmlookup (wholesale_accounts s1) k = fmlookup (wholesale_accounts s) k"
proof -
  have "GetWholesaleAccount payer payee acc s1 =
      funded_account (GetWholesaleAccount payer payee acc s) (sum_list (map (\<lambda>t. the (ft_Credit t)) ts)) now \<and>
    (k \<noteq> wholesaleAccountKey payer payee acc \<longrightarrow>
      fmlookup (wholesale_accounts s1) k = fmlookup (wholesale_accounts s) k)"
  proof (cases rule: fund_cases [of payer payee acc w fid ts now s])
    case same
    show ?thesis using same(2) [of r] assms(1) by simp
  next
    case (funded sess rand t c)
    let ?x = "loadWholesaleAccount payer payee acc s"
    note t = fund_tickets_frame [OF funded(3)]
    have "loadWholesaleAccount payer payee acc t = ?x" using t by (simp add: loadWholesaleAccount_def)
    moreover have "account_key (funded_account ?x c now) = wholesaleAccountKey payer payee acc"
      using assms(2) by (simp add: account_key_def funded_account_def account_named_def)
    moreover have "c = sum_list (map (\<lambda>t. the (ft_Credit t)) ts)" using t by simp
    ultimately show ?thesis using assms(1) funded(6) t
      by (auto simp: Let_def putWholesaleAccount_def GetWholesaleAccount_def loadWholesaleAccount_def)
  qed
  then show "GetWholesaleAccount payer payee acc s1 =
      funded_account (GetWholesaleAccount payer payee acc s) (sum_list (map (\<lambda>t. the (ft_Credit t)) ts)) now"
    "k \<noteq> wholesaleAccountKey payer payee acc \<Longrightarrow>
      fmlookup (wholesale_accounts s1) k = fmlookup (wholesale_accounts s) k" by simp_all
qed

text \<open>C26: a funding is credited exactly once. When a funding has been applied, its receipt is for the
  sum of its tickets' credits; the account reads that much more credit than before, with the same
  reservations and debits, and no other account changed. Over any later history of the ledger no
  funding id is credited a second time, this one never again, and a retry, with whatever tickets and
  session, is answered with the same receipt and changes nothing.\<close>

theorem funding_credited_exactly_once:
  assumes "ApplyWholesaleFunding payer payee acc w fid ts now s = (s1, Inr (r, False))"
    and "account_named payer payee acc s" "ts' \<noteq> []"
  shows "let credit = sum_list (map (\<lambda>t. the (ft_Credit t)) ts);
      before = GetWholesaleAccount payer payee acc s; after = GetWholesaleAccount payer payee acc s1 in
    parseDecimalBig (fr_CreditedWei r) = credit \<and>
    parseDecimalBig (wa_CreditedWei after) = parseDecimalBig (wa_CreditedWei before) + credit \<and>
    wa_ReservedWei after = wa_ReservedWei before \<and> wa_DebitedWei after = wa_DebitedWei before \<and>
    (\<forall>k. k \<noteq> wholesaleAccountKey payer payee acc \<longrightarrow>
       fmlookup (wholesale_accounts s1) k = fmlookup (wholesale_accounts s) k) \<and>
    distinct (effects (fund_step payee') s1 ops) \<and> fid \<notin> set (effects (fund_step payee') s1 ops) \<and>
    ApplyWholesaleFunding payer payee acc w' fid ts' now' (run (wholesale_step payee') s1 ops) =
      (run (wholesale_step payee') s1 ops, Inr (r, True))"
proof -
  note f = fund_applied [OF assms(1,2)]
  have "distinct (effects (fund_step payee') s1 ops)" by (rule funding_ledger.distinct_effects) simp
  moreover have "fid \<notin> set (effects (fund_step payee') s1 ops)"
    using funding_ledger.effects_were_unseen [of fid payee' s1 ops] f(1) by auto
  moreover note receipt_kept [OF f(1), of payee' ops]
  moreover note fund_account [OF assms(1,2)]
  ultimately show ?thesis using f assms(3)
    by (simp add: ApplyWholesaleFunding_def db_update_def Let_def funded_account_def)
qed

definition sample_stream_session :: Session where
  "sample_stream_session = sample_session\<lparr>ss_Sender := sample_payer, ss_Recipient := sample_payee,
     ss_WholesaleAccountID := ''acct'', ss_TicketStreamID := ''stream'', ss_RecipientRand := big_String 7, ss_Closed := False\<rparr>"

definition sample_stream :: store where
  "sample_stream = Open\<lparr>sessions := fmupd (compositeKey sample_payer ''w'') sample_stream_session fmempty\<rparr>"

definition sample_ticket :: FundingTicket where
  "sample_ticket = \<lparr>ft_Nonce = 1, ft_Credit = Some 5, ft_Winner = None, ft_Hash = []\<rparr>"

lemma sample_funding:
  "\<exists>s1 r. ApplyWholesaleFunding sample_payer sample_payee ''acct'' ''w'' (replicate 64 (CHR ''a'')) [sample_ticket] 1 sample_stream =
     (s1, Inr (r, False))"
  by (simp add: ApplyWholesaleFunding_def db_update_def ValidWholesaleAccountID_def byte_in_def sample_stream_def
      sample_stream_session_def sample_ticket_def Open_def recordNonce_def scan_prefix_def Let_def)

theorem funding_credited_exactly_once_witness:
  "\<exists>s1 r. ApplyWholesaleFunding sample_payer sample_payee ''acct'' ''w'' (replicate 64 (CHR ''a'')) [sample_ticket] 1 sample_stream =
       (s1, Inr (r, False)) \<and> parseDecimalBig (fr_CreditedWei r) = 5 \<and>
     parseDecimalBig (wa_CreditedWei (GetWholesaleAccount sample_payer sample_payee ''acct'' s1)) = 5 \<and>
     ApplyWholesaleFunding sample_payer sample_payee ''acct'' ''w'' (replicate 64 (CHR ''a'')) [sample_ticket, sample_ticket] 2
       (run (wholesale_step sample_payee) s1 sample_history) =
       (run (wholesale_step sample_payee) s1 sample_history, Inr (r, True))"
proof -
  obtain s1 r where a: "ApplyWholesaleFunding sample_payer sample_payee ''acct'' ''w'' (replicate 64 (CHR ''a'')) [sample_ticket] 1
      sample_stream = (s1, Inr (r, False))" using sample_funding by blast
  have "account_named sample_payer sample_payee ''acct'' sample_stream"
    by (simp add: account_named_def loadWholesaleAccount_def sample_stream_def Open_def)
  moreover have "parseDecimalBig (wa_CreditedWei (GetWholesaleAccount sample_payer sample_payee ''acct'' sample_stream)) = 0"
    by (simp add: GetWholesaleAccount_def loadWholesaleAccount_def sample_stream_def Open_def)
  ultimately show ?thesis
    using funding_credited_exactly_once [OF a, of "[sample_ticket, sample_ticket]" sample_payee sample_history "''w''" 2] a
    by (simp add: sample_ticket_def Let_def)
qed

section \<open>Freezing a source\<close>

lemma activeAuthorizations_count:
  "activeAuthorizations s =
     word_of_int (fmcount (\<lambda>_ a. au_State a = AuthorizationAdmitted) (spend_authorizations s))"
proof -
  have loop: "foldl (\<lambda>n kv. if P (snd kv) then n + 1 else n) (x :: uint64) kvs =
      x + word_of_int (sum_list (map (\<lambda>kv. if P (snd kv) then 1 else 0) kvs))"
    for P x and kvs :: "(bytes \<times> WholesaleAuthorization) list"
    by (induction kvs arbitrary: x) simp_all
  show ?thesis
    unfolding activeAuthorizations_def loop [where P = "\<lambda>a. au_State a = AuthorizationAdmitted"]
    by (simp add: fmcount_def sum_bucket_entries [symmetric])
qed

lemma no_active:
  assumes "activeAuthorizations s = 0"
    and "fmcount (\<lambda>_ a. au_State a = AuthorizationAdmitted) (spend_authorizations s) < 2 ^ 64"
  shows "fmlookup (spend_authorizations s) k = Some a \<Longrightarrow> au_State a \<noteq> AuthorizationAdmitted"
proof -
  let ?n = "fmcount (\<lambda>_ a. au_State a = AuthorizationAdmitted) (spend_authorizations s)"
  have "0 \<le> ?n" unfolding fmcount_def by (intro fmsum_nonneg) simp
  moreover have "uint (word_of_int ?n :: uint64) = 0"
    using assms(1) by (simp add: activeAuthorizations_count)
  ultimately have "?n = 0"
    using assms(2) by (simp add: uint_word_of_int_eq take_bit_int_eq_self)
  then show "fmlookup (spend_authorizations s) k = Some a \<Longrightarrow> au_State a \<noteq> AuthorizationAdmitted"
    by (simp add: fmcount_zero_iff)
qed

lemma drained_accounts:
  assumes "activeAuthorizations s = 0" "ledger_inv payee K s"
    and "fmcount (\<lambda>_ a. au_State a = AuthorizationAdmitted) (spend_authorizations s) < 2 ^ 64"
  shows "reserved_at j s = 0"
proof -
  note none = no_active [OF assms(1,3)]
  have "fmsum (on_account held j) (spend_authorizations s) = fmsum (\<lambda>_ _. 0) (spend_authorizations s)"
    by (rule fmsum_cong) (auto simp: on_account_def held_def dest: none)
  then show ?thesis using books_at(1) [OF assms(2), of j] by (simp add: fmsum_def)
qed

section \<open>The settlement domain\<close>

lemma domain_initialised:
  assumes "InitSettlementDomain c chain payee rnd s = (s1, Inr d)" "payee \<noteq> []"
  shows "case settlement_domain s1 of Some (Some x) \<Rightarrow>
      dom_ID x = d \<and> dom_ChainID x = chain \<and> dom_Payee x = hex_encode payee | _ \<Rightarrow> False"
  using assms
  by (auto simp: InitSettlementDomain_def db_update_def sum_bind_case Let_def split: if_splits option.splits sum.splits)

lemma domain_again:
  assumes "settlement_domain s = Some (Some x)" "ValidSettlementDomainID (dom_ID x)"
    and "dom_Payee x = hex_encode payee" "payee \<noteq> []"
  shows "snd (InitSettlementDomain c chain p rnd s) =
      (if c \<noteq> [] \<and> \<not> ValidSettlementDomainID c then Inl (ErrOther ''invalid settlement-domain-id'')
       else if c \<noteq> [] \<and> c \<noteq> dom_ID x
         then Inl (ErrOther ''configured settlement domain differs from stored ledger identity'')
       else if p \<noteq> payee \<or> chain \<noteq> dom_ChainID x
         then Inl (ErrOther ''settlement ledger chain/payee identity cannot change'')
       else Inr (dom_ID x))"
proof -
  have "hex_encode payee \<noteq> []" using assms(4) by (metis hex_encode.simps(1) hex_encode_inj)
  then show ?thesis using assms(1-3)
    by (simp add: InitSettlementDomain_def db_update_def Let_def hex_encode_inj)
qed

text \<open>A ledger's settlement domain is given once. After it has been initialised for a payee, an
  initialisation succeeds exactly when it names the same payee and chain and no other domain, and it
  then returns the same domain id; nothing re-keys the ledger.\<close>

theorem settlement_domain_immutable:
  assumes "InitSettlementDomain c chain payee rnd s = (s1, Inr d)" "payee \<noteq> []" "ValidSettlementDomainID d"
  shows "(\<exists>s2. InitSettlementDomain c' chain' payee' rnd' s1 = (s2, Inr d')) \<longleftrightarrow>
    d' = d \<and> chain' = chain \<and> payee' = payee \<and> (c' = [] \<or> c' = d)"
proof -
  from domain_initialised [OF assms(1,2)]
  obtain x where x: "settlement_domain s1 = Some (Some x)" "dom_ID x = d" "dom_ChainID x = chain"
    "dom_Payee x = hex_encode payee" by (auto split: option.splits)
  note ans = domain_again [OF x(1) _ x(4) assms(2), unfolded x(2,3), OF assms(3)]
  have "(\<exists>s2. q = (s2, Inr d')) \<longleftrightarrow> snd q = Inr d'" for q :: "store \<times> (store_error + string)"
    by (cases q) auto
  then have "(\<exists>s2. InitSettlementDomain c' chain' payee' rnd' s1 = (s2, Inr d')) \<longleftrightarrow>
      snd (InitSettlementDomain c' chain' payee' rnd' s1) = Inr d'" by blast
  also have "\<dots> \<longleftrightarrow> d' = d \<and> chain' = chain \<and> payee' = payee \<and> (c' = [] \<or> c' = d)"
    unfolding ans using assms(3) by auto
  finally show ?thesis .
qed

definition sample_domain :: string where
  "sample_domain = ''0x'' @ replicate 64 (CHR ''a'')"

theorem settlement_domain_immutable_witness:
  "\<exists>s1. InitSettlementDomain sample_domain 42161 sample_payee [] Open = (s1, Inr sample_domain) \<and>
     (\<exists>s2. InitSettlementDomain [] 42161 sample_payee [] s1 = (s2, Inr sample_domain)) \<and>
     \<not> (\<exists>s2. InitSettlementDomain [] 1 sample_payee [] s1 = (s2, Inr sample_domain))"
proof -
  have v: "ValidSettlementDomainID sample_domain"
    by (simp add: ValidSettlementDomainID_def ValidDomain_def sample_domain_def byte_in_def list_all_iff list_ex_iff)
  have p: "sample_payee \<noteq> []" by (simp add: sample_payee_def)
  obtain s1 where i: "InitSettlementDomain sample_domain 42161 sample_payee [] Open = (s1, Inr sample_domain)"
    using v p by (simp add: InitSettlementDomain_def db_update_def Open_def Let_def sample_domain_def)
  show ?thesis
    using i settlement_domain_immutable [OF i p v, of "[]" 42161 sample_payee "[]" sample_domain]
      settlement_domain_immutable [OF i p v, of "[]" 1 sample_payee "[]" sample_domain] by auto
qed

section \<open>Keys of authorizations\<close>

text \<open>What is hashed into an authorization's key.\<close>

definition key_preimage :: "bytes \<times> string \<times> string \<Rightarrow> bytes" where
  "key_preimage i = (case i of (payer, ident, acc) \<Rightarrow>
     payer @ [NUL] @ ident @ (if acc = [] then [] else [NUL] @ acc))"

definition identity_valid :: "bytes \<times> string \<times> string \<Rightarrow> bool" where
  "identity_valid i \<longleftrightarrow>
     (case i of (payer, ident, acc) \<Rightarrow> length payer = 20 \<and> (acc = [] \<or> ValidWholesaleAccountID acc))"

lemma valid_account_no_nul:
  assumes "ValidWholesaleAccountID acc"
  shows "NUL \<notin> set acc"
proof -
  have "45 \<le> nat_of_byte c" if "c \<in> set acc" for c
    using assms that by (auto simp: ValidWholesaleAccountID_def list_all_iff byte_in_def)
  from this [of NUL] show ?thesis by auto
qed

lemma length_authorization_key:
  "length (wholesaleAuthorizationKey payer ident acc) = (if acc = [] then 32 else 35)"
  by (simp add: wholesaleAuthorizationKey_def)

lemma last_sep_eq:
  assumes "xs @ c # ys = xs' @ c # ys'" "c \<notin> set ys" "c \<notin> set ys'"
  shows "xs = xs' \<and> ys = ys'"
proof -
  have "rev ys @ c # rev xs = rev ys' @ c # rev xs'" using arg_cong [OF assms(1), of rev] by simp
  then show ?thesis using assms(2,3) append_sep_eq_iff [of c "rev ys" "rev ys'" "rev xs" "rev xs'"] by simp
qed

lemma preimage_inj:
  assumes "identity_valid (p1, i1, a1)" "identity_valid (p2, i2, a2)" "a1 = [] \<longleftrightarrow> a2 = []"
    and "key_preimage (p1, i1, a1) = key_preimage (p2, i2, a2)"
  shows "p1 = p2 \<and> i1 = i2 \<and> a1 = a2"
proof -
  have p: "p1 = p2"
    and rest: "i1 @ (if a1 = [] then [] else [NUL] @ a1) = i2 @ (if a2 = [] then [] else [NUL] @ a2)"
    using assms(1,2,4) append_eq_append_conv [of p1 p2] by (simp_all add: key_preimage_def identity_valid_def)
  show ?thesis
  proof (cases "a1 = []")
    case True
    then show ?thesis using p rest assms(3) by simp
  next
    case False
    then have "i1 @ NUL # a1 = i2 @ NUL # a2" using rest assms(3) by simp
    moreover have "NUL \<notin> set a1" "NUL \<notin> set a2"
      using False assms(1-3) by (simp_all add: identity_valid_def valid_account_no_nul)
    ultimately show ?thesis using last_sep_eq [of i1 NUL a1 i2 a2] p by simp
  qed
qed

text \<open>An authorization's key is the hash of an unambiguous encoding of its identity. For 20-byte
  payers and valid or absent account ids, two identities have the same key exactly when both or
  neither carry an account id and their encodings have the same SHA-256 hash, and the encodings
  themselves are then equal only for the same identity: a shared key is a collision of the hash, and
  the separators and the version prefix leave no other way.\<close>

theorem authorization_key_exact:
  assumes "identity_valid (p1, i1, a1)" "identity_valid (p2, i2, a2)"
  shows "(wholesaleAuthorizationKey p1 i1 a1 = wholesaleAuthorizationKey p2 i2 a2 \<longleftrightarrow>
      (a1 = [] \<longleftrightarrow> a2 = []) \<and> sha256 (key_preimage (p1, i1, a1)) = sha256 (key_preimage (p2, i2, a2))) \<and>
    ((a1 = [] \<longleftrightarrow> a2 = []) \<and> key_preimage (p1, i1, a1) = key_preimage (p2, i2, a2) \<longleftrightarrow>
      (p1, i1, a1) = (p2, i2, a2))"
proof -
  have "a1 = [] \<longleftrightarrow> a2 = []" if "wholesaleAuthorizationKey p1 i1 a1 = wholesaleAuthorizationKey p2 i2 a2"
    using arg_cong [OF that, of length] by (simp add: length_authorization_key split: if_splits)
  moreover have "wholesaleAuthorizationKey p1 i1 a1 = wholesaleAuthorizationKey p2 i2 a2 \<longleftrightarrow>
      sha256 (key_preimage (p1, i1, a1)) = sha256 (key_preimage (p2, i2, a2))" if "a1 = [] \<longleftrightarrow> a2 = []"
    using that by (cases "a1 = []") (simp_all add: wholesaleAuthorizationKey_def key_preimage_def)
  ultimately show ?thesis using preimage_inj [OF assms] by blast
qed

theorem authorization_key_exact_witness:
  "(wholesaleAuthorizationKey (replicate 20 (CHR ''p'')) ''job'' ''acct'' =
      wholesaleAuthorizationKey (replicate 20 (CHR ''p'')) ''job'' [] \<longleftrightarrow> False) \<and>
    identity_valid (replicate 20 (CHR ''p''), ''job'', ''acct'')"
proof -
  have "identity_valid (replicate 20 (CHR ''p''), ''job'', ''acct'')"
    "identity_valid (replicate 20 (CHR ''p''), ''job'', [])"
    by (simp_all add: identity_valid_def ValidWholesaleAccountID_def byte_in_def)
  with authorization_key_exact [of "replicate 20 (CHR ''p'')" "''job''" "''acct''" "replicate 20 (CHR ''p'')" "''job''" "[]"]
  show ?thesis by blast
qed

end
