(* ===== verification/Receiver_Ledger.thy ===== *)
theory Receiver_Ledger
  imports Receiver_Laws Funding_Laws
begin

text \<open>
  The payee's service on top of the wholesale ledger. Every call of the service, whatever its request
  and whatever it answers, moves the ledger by a sequence of the ledger's own operations, or does
  not touch it. So what holds of every history of the ledger holds of every history of calls.
  The last part retires a source: once frozen, neither the calls nor the settlement loop change what
  the ledger owes.
\<close>

section \<open>Moves of the ledger\<close>

inductive moves :: "bytes \<Rightarrow> (bytes \<times> string \<times> string) set \<Rightarrow> store \<Rightarrow> store \<Rightarrow> bool" for payee K where
  stay: "wholesale_accounts s' = wholesale_accounts s \<Longrightarrow> wholesale_totals s' = wholesale_totals s \<Longrightarrow>
     spend_authorizations s' = spend_authorizations s \<Longrightarrow> moves payee K s s'"
| move: "op_within payee K op \<Longrightarrow> moves payee K s (fst (wholesale_step payee s op))"
| trans: "moves payee K s s' \<Longrightarrow> moves payee K s' s'' \<Longrightarrow> moves payee K s s''"

lemma moves_refl [simp]: "moves payee K s s"
  by (rule moves.stay) simp_all

lemma moves_keep_books:
  "moves payee K s s' \<Longrightarrow> inj_on identity_key K \<Longrightarrow> ledger_inv payee K s \<Longrightarrow> ledger_inv payee K s'"
proof (induction rule: moves.induct)
  case (stay s' s)
  then show ?case using ledger_inv_frame by blast
next
  case (move op s)
  then show ?case using books.guarded_step by blast
qed blast

lemma moves_session: "moves payee K s (fst (session_step s op))"
  by (rule moves.stay) simp_all

lemmas moves_session_ops =
  moves_session [of _ _ _ "SOpen seed now", simplified] moves_session [of _ _ _ "SGetOrCreate key seed now", simplified]
  moves_session [of _ _ _ "SResetIf key w now", simplified] moves_session [of _ _ _ "SReset key now", simplified]
  moves_session [of _ _ _ "SSeal w a", simplified] moves_session [of _ _ _ "SCredit a w wei", simplified]
  moves_session [of _ _ _ "SClose a w now", simplified] for seed now key w a wei

lemma moves_debit: "moves payee K s (fst (DebitBalance a w u q s))"
  using moves_session [of payee K s "SDebit a w u q"] by (simp split: prod.splits sum.splits)

lemma moves_reject: "(\<And>s. moves payee K s (fst (k s))) \<Longrightarrow> moves payee K s (fst (reject bad e k s))"
  by (simp add: reject_def)

lemma moves_gated: "(\<And>s. moves payee K s (fst (k s))) \<Longrightarrow> moves payee K s (fst (gated k s))"
  by (simp add: gated_def split: sum.split)

section \<open>Funding, admission and advance\<close>

lemma moves_fundWholesale: "moves (recipient svc) K s (fst (fundWholesale E C svc req now s))"
proof -
  have "moves (recipient svc) K s (fst (apply_funding E svc acc fid pay tp now s))" for acc fid pay tp
    using moves.move [of "recipient svc" K "WFund (pb_sender pay) acc (hex_encode (pb_recipient_rand_hash tp)) fid ts now" s for ts]
    by (simp add: apply_funding_def Let_def case_prod_beta split: sum.split option.split)
  then show ?thesis
    by (simp add: fundWholesale_def reject_def Let_def split: option.split sum.split)
qed

lemma moves_inline_funding: "moves (recipient svc) K s (fst (inline_funding E C svc t b now later s))"
  using moves_fundWholesale by (simp add: inline_funding_def Let_def case_prod_beta split: option.split sum.split)

lemma moves_advance_funding: "moves (recipient svc) K s (fst (advance_funding E C svc req replay now s))"
  using moves_fundWholesale by (simp add: advance_funding_def Let_def case_prod_beta split: option.split sum.split)

text \<open>An authorization that passed the checks is for this payee, and its identity is the signed one.\<close>

lemma check_authorization_Inr:
  assumes "check_authorization E C svc b now = Inr t"
  obtains auth where "Unmarshal_SpendAuthorization C b = Some auth" "Verify E C auth = Inr ()"
    "sa_payload auth = Some (tm_payload t)" "pl_payee (tm_payload t) = recipient svc"
    "pl_accepted_price (tm_payload t) = Some (tm_price t)"
    "BillFor (Some (tm_unitPrice t)) (units_per_price (tm_price t)) (pl_max_total_units (tm_payload t)) \<le> tm_maxDebit t"
  using assms
  by (auto simp: check_authorization_def check_identity_def check_terms_def Let_def
      split: if_splits option.splits sum.splits prod.splits)

definition payload_within :: "(bytes \<times> string \<times> string) set \<Rightarrow> SpendAuthorizationPayload \<Rightarrow> bool" where
  "payload_within K p \<longleftrightarrow>
     (pl_payer p, pl_authorization_id p, pl_wholesale_account_id p) \<in> K \<and>
     (pl_predecessor_authorization_id p \<noteq> [] \<longrightarrow>
        (pl_payer p, pl_predecessor_authorization_id p, pl_wholesale_account_id p) \<in> K)"

lemma moves_admit_new:
  assumes "pl_payee (tm_payload t) = recipient svc" "payload_within K (tm_payload t)"
  shows "moves (recipient svc) K s (fst (admit_new E C svc req t fp now later s))"
proof -
  obtain s1 r where f: "inline_funding E C svc t (aq_payment_bytes req) now later s = (s1, r)" by fastforce
  have m1: "moves (recipient svc) K s s1"
    using moves_inline_funding [of svc K s E C t "aq_payment_bytes req" now later] f by simp
  have "op_within (recipient svc) K (WAdmit (seed_of t fp) [] (Some (SetBytes (aq_reservation_value_wei req))) now)"
    using assms by (auto simp: seed_of_def Let_def seed_identity_def predecessor_identity_def payload_within_def)
  from moves.move [OF this, of s1]
  have "moves (recipient svc) K s1 (fst (AdmitWholesale (seed_of t fp) [] (Some (SetBytes (aq_reservation_value_wei req))) now s1))"
    by simp
  with m1 show ?thesis
    by (auto simp: admit_new_def f case_prod_beta Let_def split: sum.split intro: moves.trans)
qed

section \<open>Calls of the service\<close>

datatype service_call =
    Gated gated_call
  | CallSettle string string bytes string uint64 uint64 time
  | CallCancel string string bytes string bytes time
  | CallCloseUnexecuted string string bytes string string time
  | CallFreeze string string time

primrec service_step :: "eth \<Rightarrow> codec \<Rightarrow> Service \<Rightarrow> store \<Rightarrow> service_call \<Rightarrow> store \<times> rpc_error option" where
  "service_step E C svc s (Gated call) = call_result E C svc call s"
| "service_step E C svc s (CallSettle acc d payer ident units seq now) =
     map_prod id (case_sum Some (\<lambda>_. None)) (SettleAuthorization svc acc d payer ident units seq now s)"
| "service_step E C svc s (CallCancel acc d payer ident fp now) =
     map_prod id (case_sum Some (\<lambda>_. None)) (Receiver_CancelAuthorizationAdmission svc acc d payer ident fp now s)"
| "service_step E C svc s (CallCloseUnexecuted acc d payer ident reason now) =
     map_prod id (case_sum Some (\<lambda>_. None)) (Receiver_CloseUnexecutedAuthorization svc acc d payer ident reason now s)"
| "service_step E C svc s (CallFreeze d reason now) =
     map_prod id (case_sum Some (\<lambda>_. None)) (FreezeRevenueSource svc d reason now s)"

text \<open>The authorization identities a call names are among those in play.\<close>

fun call_within :: "codec \<Rightarrow> (bytes \<times> string \<times> string) set \<Rightarrow> service_call \<Rightarrow> bool" where
  "call_within C K (Gated (CallAdmit req now later)) \<longleftrightarrow>
     (case Unmarshal_SpendAuthorization C (aq_authorization_bytes req) of None \<Rightarrow> True
      | Some auth \<Rightarrow> (case sa_payload auth of None \<Rightarrow> True | Some p \<Rightarrow> payload_within K p))"
| "call_within C K (Gated (CallAdvance req now later)) \<longleftrightarrow>
     (vq_payer req, vq_authorization_id req, vq_wholesale_account_id req) \<in> K"
| "call_within C K (CallSettle acc d payer ident units seq now) \<longleftrightarrow> (payer, ident, acc) \<in> K"
| "call_within C K (CallCloseUnexecuted acc d payer ident reason now) \<longleftrightarrow> (payer, ident, acc) \<in> K"
| "call_within C K _ \<longleftrightarrow> True"

section \<open>Every call moves the ledger\<close>

lemma moves_RecordNonce: "moves payee K s (fst (RecordNonce r n s))"
  by (rule moves.stay) (simp_all add: RecordNonce_cases)

lemma moves_Enqueue: "moves payee K s (fst (EnqueueRedemption h t s))"
  by (rule moves.stay) (simp_all add: EnqueueRedemption_def enqueueRedemption_def db_update_def Let_def split: option.split)

lemma moves_credit_loop: "moves payee K s (fst (credit_loop E svc pay tp sess rand now tsps acc s))"
proof (induction tsps arbitrary: acc s)
  case Nil
  then show ?case by simp
next
  case (Cons tsp tsps)
  obtain c w sts where acc: "acc = (c, w, sts)" by (cases acc)
  obtain s1 r where n: "RecordNonce (Some rand) (sp_SenderNonce tsp) s = (s1, r)" by fastforce
  have m1: "moves payee K s s1" using moves_RecordNonce [of payee K s "Some rand" "sp_SenderNonce tsp"] n by simp
  have m2: "moves payee K s (fst (ResetTicketSessionIfCurrent key v now s1))" for key v
    using m1 moves_session_ops(3) by (rule moves.trans)
  have m3: "moves payee K s (fst (EnqueueRedemption h t s1))" for h t
    using m1 moves_Enqueue by (rule moves.trans)
  have m4: "moves payee K s (fst (credit_loop E svc pay tp sess rand now tsps a s1))" for a
    using m1 Cons.IH by (rule moves.trans)
  have m5: "moves payee K s (fst (credit_loop E svc pay tp sess rand now tsps a (fst (EnqueueRedemption h t s1))))" for a h t
    using m3 Cons.IH by (rule moves.trans)
  show ?case
    using m1 m2 m3 m4 m5 Cons.IH
    by (simp add: acc n Let_def case_prod_beta split: option.split sum.split)
qed

lemma moves_processPayment: "moves payee K s (fst (processPayment E C svc w b now s))"
proof -
  have c: "moves payee K s (fst (credit_payment E svc w pay sess rand now s))" for s pay sess rand
  proof (cases "\<exists>r tp. rand = Some r \<and> pb_ticket_params pay = Some tp")
    case True
    then obtain r tp where rt: "rand = Some r" "pb_ticket_params pay = Some tp" by blast
    let ?v = "validateAndCredit E svc pay tp sess r now s"
    have v: "moves payee K s (fst ?v)" by (simp add: validateAndCredit_def moves_credit_loop)
    moreover have "moves payee K s (fst (CreditBalance a w wei (fst ?v)))" for a wei
      using v moves_session_ops(6) by (rule moves.trans)
    ultimately show ?thesis
      by (simp add: credit_payment_def rt Let_def case_prod_beta split: sum.split)
  next
    case False
    then show ?thesis
      using moves_session_ops(6) by (auto simp: credit_payment_def Let_def case_prod_beta split: sum.split option.split)
  qed
  have "moves payee K s (fst (credit_payment E svc w pay sess rand now (fst (SealSender w (pb_sender pay) s))))"
    for pay sess rand
    using moves_session_ops(5) c by (rule moves.trans)
  then show ?thesis
    using moves_session_ops(5)
    by (simp add: processPayment_def reject_def Let_def case_prod_beta split: sum.split option.split)
qed

lemma moves_GetTicketParams: "moves payee K s (fst (GetTicketParams E svc req random now s))"
proof -
  have r: "moves payee K s (fst (rotate_exhausted key now s))" for key s
    using moves_session_ops(3) by (simp add: rotate_exhausted_def case_prod_beta split: option.split sum.split)
  have g: "moves payee K s (fst (GetOrCreateTicketSession key seed now (fst (rotate_exhausted key now s))))" for key seed s
    using r moves_session_ops(2) by (rule moves.trans)
  have i: "fst (issue_params E svc req oev pre sess s) = s" for oev pre sess s
    by (simp add: issue_params_def case_prod_beta Let_def split: option.split)
  show ?thesis
    unfolding GetTicketParams_def Let_def
    by (intro moves_reject moves_gated) (simp add: case_prod_beta i r g split: sum.split)
qed

lemma moves_admitAuthorization:
  assumes "call_within C K (Gated (CallAdmit req now later))"
  shows "moves (recipient svc) K s (fst (admitAuthorization E C svc req now later s))"
proof -
  have "moves (recipient svc) K s (fst (admit_new E C svc req t fp now later s))"
    if t: "check_authorization E C svc (aq_authorization_bytes req) now = Inr t" for t fp s
  proof -
    from t obtain auth where "Unmarshal_SpendAuthorization C (aq_authorization_bytes req) = Some auth"
      "sa_payload auth = Some (tm_payload t)" "pl_payee (tm_payload t) = recipient svc"
      by (rule check_authorization_Inr)
    then show ?thesis using assms by (simp add: moves_admit_new)
  qed
  then show ?thesis
    unfolding admitAuthorization_def by (intro moves_gated) (simp add: Let_def split: sum.split)
qed

lemma moves_AdvanceAuthorization:
  assumes "(vq_payer req, vq_authorization_id req, vq_wholesale_account_id req) \<in> K"
  shows "moves (recipient svc) K s (fst (AdvanceAuthorization E C svc req now later s))"
proof -
  have a: "moves (recipient svc) K s1 (fst (AdvanceWholesale (vq_payer req) (recipient svc) (vq_authorization_id req)
      units target seq [] later (vq_wholesale_account_id req) s1))" for units target seq s1
    using moves.move [of "recipient svc" K "WAdvance (vq_payer req) (vq_authorization_id req) units target seq []
        later (vq_wholesale_account_id req)" s1] assms by simp
  have "moves (recipient svc) K s (fst (AdvanceWholesale (vq_payer req) (recipient svc) (vq_authorization_id req)
      units target seq [] later (vq_wholesale_account_id req) (fst (advance_funding E C svc req replay now s))))"
    for units target seq replay s
    using moves_advance_funding a by (rule moves.trans)
  then show ?thesis
    unfolding AdvanceAuthorization_def
    by (intro moves_reject moves_gated)
      (simp add: moves_advance_funding case_prod_beta split: sum.split)
qed

lemma moves_call:
  assumes "call_within C K (Gated call)"
  shows "moves (recipient svc) K s (fst (call_result E C svc call s))"
proof (cases call)
  case (CallAdmit req now later)
  then show ?thesis using assms moves_admitAuthorization by simp
next
  case (CallAdvance req now later)
  then show ?thesis using assms moves_AdvanceAuthorization by simp
qed (auto simp: Receiver_OpenSession_def ProcessPayment_def Receiver_DebitBalance_def Receiver_CloseSession_def
    ResetSession_def FundWholesaleAccount_def sender_work_checks_def moves_GetTicketParams
    moves_processPayment moves_fundWholesale case_prod_beta moves_session_ops moves_debit
    intro!: moves_reject moves_gated split: sum.split)

lemma moves_service:
  assumes "call_within C K call"
  shows "moves (recipient svc) K s (fst (service_step E C svc s call))"
proof (cases call)
  case (Gated g)
  then show ?thesis using assms moves_call by simp
next
  case (CallSettle acc d payer ident units seq now)
  have "moves (recipient svc) K s (fst (SettleWholesale payer (recipient svc) ident units seq now acc s))" for s
    using moves.move [of "recipient svc" K "WSettle payer ident units seq now acc" s] assms CallSettle by simp
  then show ?thesis
    by (simp add: CallSettle SettleAuthorization_def case_prod_beta moves_reject split: sum.split)
next
  case (CallCancel acc d payer ident fp now)
  have "moves (recipient svc) K s (fst (CancelAuthorizationAdmission payer (recipient svc) ident fp acc now s))" for s
    using moves.move [of "recipient svc" K "WCancel payer ident fp acc now" s] by simp
  then show ?thesis
    by (simp add: CallCancel Receiver_CancelAuthorizationAdmission_def case_prod_beta moves_reject split: sum.split)
next
  case (CallCloseUnexecuted acc d payer ident reason now)
  have "moves (recipient svc) K s (fst (CloseUnexecutedAuthorization payer (recipient svc) ident reason acc now s))" for s
    using moves.move [of "recipient svc" K "WClose payer ident reason acc now" s] assms CallCloseUnexecuted by simp
  then show ?thesis
    by (simp add: CallCloseUnexecuted Receiver_CloseUnexecutedAuthorization_def case_prod_beta moves_reject split: sum.split)
next
  case (CallFreeze d reason now)
  have "moves (recipient svc) K s (fst (FreezeSource reason now s))" for s
    by (rule moves.stay) (simp_all add: FreezeSource_def db_update_def Let_def split: option.split)
  then show ?thesis
    by (simp add: CallFreeze FreezeRevenueSource_def case_prod_beta moves_reject split: sum.split)
qed

interpretation service_books: guarded_machine "service_step E C svc"
  "\<lambda>s. inj_on identity_key K \<and> ledger_inv (recipient svc) K s" "call_within C K" for E C svc K
  by unfold_locales (auto intro: moves_keep_books [OF moves_service])

lemma SetBytes_decimalBytes: "0 \<le> parseDecimalBig v \<Longrightarrow> SetBytes (decimalBytes v) = parseDecimalBig v"
  by (cases v) (auto simp: decimalBytes_def parseDecimalBig_def split: option.split)

lemma amounts_nonneg:
  assumes "ledger_inv payee K s"
  shows "0 \<le> reserved_at k s" "0 \<le> debited_at k s"
proof -
  have a: "auth_ok payee K j a" if "fmlookup (spend_authorizations s) j = Some a" for j a
    using assms that by (auto simp: ledger_inv_def auths_ok_def)
  show "0 \<le> reserved_at k s" "0 \<le> debited_at k s"
    unfolding books_at(1,2) [OF assms]
    by (rule fmsum_nonneg; use a in \<open>force simp: on_account_def held_def charged_def auth_ok_def\<close>)+
qed

text \<open>C2: the service keeps the books. Over any history of calls, with any requests, signatures and
  payments, in any order and with any answers, for authorization identities with different keys, the
  wholesale ledger stays balanced, because every call moves it only by operations of the ledger; and
  what an account query then reports adds up: available, reserved and debited are together exactly
  what was credited, and no amount is lost in its unsigned encoding.\<close>

theorem service_keeps_the_books:
  assumes "ledger_inv (recipient svc) K s" "inj_on identity_key K" "\<forall>call \<in> set calls. call_within C K call"
  shows "ledger_inv (recipient svc) K (run (service_step E C svc) s calls) \<and>
    (Receiver_GetWholesaleAccount svc acc d payer (run (service_step E C svc) s calls) = Inr v \<longrightarrow>
       SetBytes (av_available_value_wei v) + SetBytes (av_reserved_value_wei v) + SetBytes (av_debited_value_wei v) =
         SetBytes (av_credited_value_wei v))"
proof -
  let ?s = "run (service_step E C svc) s calls"
  let ?k = "wholesaleAccountKey payer (recipient svc) acc"
  have inv: "ledger_inv (recipient svc) K ?s"
    using service_books.guarded_run [of K svc s calls C E] assms by blast
  note n = amounts_nonneg [OF inv, of ?k] books_at(3) [OF inv, of ?k]
  have "SetBytes (av_available_value_wei v) + SetBytes (av_reserved_value_wei v) + SetBytes (av_debited_value_wei v) =
      SetBytes (av_credited_value_wei v)"
    if "Receiver_GetWholesaleAccount svc acc d payer ?s = Inr v"
  proof -
    let ?a = "loadWholesaleAccount payer (recipient svc) acc ?s"
    have v: "v = wholesaleAccountView svc ?a"
      using that by (simp add: Receiver_GetWholesaleAccount_def GetWholesaleAccount_def split: if_splits)
    have "0 \<le> parseDecimalBig (wa_ReservedWei ?a)" "0 \<le> parseDecimalBig (wa_DebitedWei ?a)"
      "0 \<le> parseDecimalBig (wa_CreditedWei ?a)" "0 \<le> Account_Available ?a"
      using n by (simp_all add: load_amounts Account_Available_def)
    then show ?thesis by (simp add: v wholesaleAccountView_def SetBytes_decimalBytes) (simp add: Account_Available_def)
  qed
  with inv show ?thesis by blast
qed

section \<open>Retrying an admission\<close>

lemma fund_tickets_fence: "fund_tickets rand c ts s = Inr (s', c') \<Longrightarrow> source_fence s' = source_fence s"
proof (induction ts arbitrary: c s)
  case (Cons t ts)
  from Cons.prems obtain k where k: "ft_Credit t = Some k" "0 < k"
    by (auto split: option.splits if_splits)
  with Cons.prems obtain s1 u s2 b where
        rec: "recordNonce (Some rand) (ft_Nonce t) s = Inr (s1, u)"
    and enq: "(case ft_Winner t of None \<Rightarrow> Inr (s1, False) | Some w \<Rightarrow> enqueueRedemption (ft_Hash t) w s1) = Inr (s2, b)"
    and rest: "fund_tickets rand (c + k) ts s2 = Inr (s', c')"
    by auto
  have "source_fence s1 = source_fence s" using rec by (auto simp: recordNonce_def Let_def split: if_splits)
  moreover have "source_fence s2 = source_fence s1"
    using enq by (auto simp: enqueueRedemption_def Let_def split: option.splits if_splits)
  ultimately show ?case using Cons.IH [OF rest] by simp
qed simp

lemma put_account_frame [simp]:
  "source_fence (putWholesaleAccount x s) = source_fence s"
  "spend_authorizations (putWholesaleAccount x s) = spend_authorizations s"
  "canceled_admissions (putWholesaleAccount x s) = canceled_admissions s"
  by (simp_all add: putWholesaleAccount_def Let_def)

lemma apply_frame:
  "source_fence (fst (ApplyWholesaleFunding payer payee acc w fid ts now s)) = source_fence s"
  "spend_authorizations (fst (ApplyWholesaleFunding payer payee acc w fid ts now s)) = spend_authorizations s"
  by (cases rule: fund_cases [of payer payee acc w fid ts now s];
      auto simp: Let_def dest: fund_tickets_fence fund_tickets_frame)+

lemma inline_funding_frame:
  assumes "inline_funding E C svc t b now later s = (s', r)"
  shows "source_fence s' = source_fence s" "spend_authorizations s' = spend_authorizations s"
proof -
  have a: "source_fence (fst (apply_funding E svc acc fid pay tp n s)) = source_fence s"
    "spend_authorizations (fst (apply_funding E svc acc fid pay tp n s)) = spend_authorizations s" for acc fid pay tp n s
    by (simp_all add: apply_funding_def Let_def case_prod_beta apply_frame split: sum.split option.split)
  have f: "source_fence (fst (fundWholesale E C svc req n s)) = source_fence s"
    "spend_authorizations (fst (fundWholesale E C svc req n s)) = spend_authorizations s" for req n s
    by (simp_all add: fundWholesale_def reject_def Let_def a split: option.split sum.split)
  have "source_fence (fst (inline_funding E C svc t b now later s)) = source_fence s"
    "spend_authorizations (fst (inline_funding E C svc t b now later s)) = spend_authorizations s"
    by (simp_all add: inline_funding_def Let_def case_prod_beta f split: option.split sum.split)
  then show "source_fence s' = source_fence s" "spend_authorizations s' = spend_authorizations s"
    using assms by simp_all
qed

lemma admit_reserve_fence:
  assumes "admit_reserve seed ores now x tr opred s = Inr (s', r)"
  shows "source_fence s' = source_fence s" "ar_Account (fst r) \<noteq> None"
  using assms by (auto simp: admit_reserve_def Let_def split: if_splits option.splits)

lemma AdmitWholesale_Inr:
  assumes "AdmitWholesale seed [] ores now s = (s', Inr r)"
    and "fmlookup (spend_authorizations s) (seed_key seed) = None"
  shows "\<exists>a. ar_Authorization r = Some a \<and> fmlookup (spend_authorizations s') (seed_key seed) = Some a \<and>
    au_Fingerprint a = sd_Fingerprint seed \<and> au_State a \<in> {AuthorizationAdmitted, AuthorizationExpiredUnused} \<and>
    source_fence s' = source_fence s \<and> ar_Account r \<noteq> None"
proof -
  have body: "admit_body seed [] ores now s = Inr (s', (r, False))"
    using assms(1) by (auto simp: AdmitWholesale_def db_update_def split: if_splits sum.splits prod.splits)
  let ?x = "loadWholesaleAccount (sd_Payer seed) (sd_Payee seed) (sd_WholesaleAccountID seed) s"
  consider (late) "\<not> now < sd_ExpiresAt seed"
    | (live) opred where "admit_reserve seed ores now ?x 0 opred s = Inr (s', (r, False))"
    using body assms(2)
    by (auto simp: admit_body_def migrate_balance_def Let_def seed_key_def split: option.splits if_splits)
  then show ?thesis
  proof cases
    case late
    then show ?thesis
      using body assms(2)
      by (auto simp: admit_body_def Let_def seed_key_def authorization_of_def split: option.splits if_splits)
  next
    case live
    note fence = admit_reserve_fence [OF live]
    from live show ?thesis
    proof (cases rule: admit_reserve_cases)
      case (granted x' reservation)
      then show ?thesis using fence by (auto simp: admitted_auth_def authorization_of_def)
    qed simp
  qed
qed

lemma check_authorization_later:
  assumes "check_authorization E C svc b now = Inr t" "now \<le> now2"
  shows "check_authorization E C svc b now2 = Inr t"
proof -
  have "check_terms p price now2 = Inr t" if "check_terms p price now = Inr t" for p price
    using that assms(2) by (auto simp: check_terms_def Let_def split: if_splits option.splits)
  then show ?thesis
    using assms(1) by (auto simp: check_authorization_def split: if_splits option.splits sum.splits prod.splits)
qed

text \<open>What an admission that succeeded leaves behind.\<close>

lemma admitted_record:
  assumes "admitAuthorization E C svc req now later s = (s', Inr r)"
    and "check_authorization E C svc (aq_authorization_bytes req) now = Inr t"
  shows "requireUnfrozenSource s' = Inr () \<and>
    (\<exists>a. GetWholesaleAuthorization (pl_payer (tm_payload t)) (pl_authorization_id (tm_payload t))
        (pl_wholesale_account_id (tm_payload t)) s' = Inr a \<and>
      au_Fingerprint a = sha256 (aq_authorization_bytes req) \<and> au_State a = AuthorizationAdmitted \<and>
      aa_state r = ADMITTED \<and> aa_reserved_value_wei r = decimalBytes (au_ReservedWei a) \<and> aa_account r \<noteq> None)"
proof -
  let ?p = "tm_payload t" and ?fp = "sha256 (aq_authorization_bytes req)"
  have g: "requireUnfrozenSource s = Inr ()" using assms(1) by (simp add: admitAuthorization_def)
  show ?thesis
  proof (cases "GetWholesaleAuthorization (pl_payer ?p) (pl_authorization_id ?p) (pl_wholesale_account_id ?p) s")
    case (Inr a)
    then show ?thesis
      using assms g by (auto simp: admitAuthorization_def authorizationState_def Let_def split: if_splits)
  next
    case (Inl e)
    let ?seed = "seed_of t ?fp"
    have k: "seed_key ?seed = wholesaleAuthorizationKey (pl_payer ?p) (pl_authorization_id ?p) (pl_wholesale_account_id ?p)"
      by (simp add: seed_key_def seed_of_def Let_def)
    have none: "fmlookup (spend_authorizations s) (seed_key ?seed) = None"
      using Inl by (auto simp: GetWholesaleAuthorization_def k Let_def split: option.splits)
    have "admit_new E C svc req t ?fp now later s = (s', Inr r)"
      using assms Inl by (auto simp: admitAuthorization_def Let_def split: if_splits)
    then obtain s1 credit res where f: "inline_funding E C svc t (aq_payment_bytes req) now later s = (s1, Inr credit)"
      and w: "AdmitWholesale ?seed [] (Some (SetBytes (aq_reservation_value_wei req))) now s1 = (s', Inr res)"
      and r: "au_State (the (ar_Authorization res)) \<noteq> AuthorizationExpiredUnused"
        "aa_state r = authorizationState (au_State (the (ar_Authorization res)))"
        "aa_reserved_value_wei r = decimalBytes (au_ReservedWei (the (ar_Authorization res)))"
        "aa_account r = map_option (wholesaleAccountView svc) (ar_Account res)"
      by (auto simp: admit_new_def Let_def split: prod.splits sum.splits if_splits)
    note fr = inline_funding_frame [OF f]
    from AdmitWholesale_Inr [OF w] fr none obtain a where a: "ar_Authorization res = Some a"
      "fmlookup (spend_authorizations s') (seed_key ?seed) = Some a" "au_Fingerprint a = sd_Fingerprint ?seed"
      "au_State a \<in> {AuthorizationAdmitted, AuthorizationExpiredUnused}" "source_fence s' = source_fence s"
      "ar_Account res \<noteq> None" by auto
    have "requireUnfrozenSource s' = Inr ()"
      using g a(5) by (simp add: requireUnfrozenSource_def Store_SourceFence_def)
    then show ?thesis
      using a r by (auto simp: GetWholesaleAuthorization_def k [symmetric] seed_of_def Let_def authorizationState_def)
  qed
qed

text \<open>C15: an admission can be retried. Once an authorization has been admitted, sending the same
  authorization bytes again, at any later time, with whatever payment and reservation, is answered as
  a replay of the same reservation that credits nothing, and changes nothing: no ticket is processed
  twice and no second reservation is made when an answer was lost.\<close>

theorem admission_retry_converges:
  assumes "admitAuthorization E C svc req now later s = (s', Inr r)" "now \<le> now2"
    and "aq_authorization_bytes req2 = aq_authorization_bytes req"
  shows "\<exists>r2. admitAuthorization E C svc req2 now2 later2 s' = (s', Inr r2) \<and> aa_replayed r2 \<and>
    aa_state r = ADMITTED \<and> aa_state r2 = ADMITTED \<and> aa_account r \<noteq> None \<and>
    aa_reserved_value_wei r2 = aa_reserved_value_wei r \<and> SetBytes (aa_credited_value_wei r2) = 0"
proof -
  obtain t where t: "check_authorization E C svc (aq_authorization_bytes req) now = Inr t"
    using assms(1) by (auto simp: admitAuthorization_def split: sum.splits)
  from admitted_record [OF assms(1) t] check_authorization_later [OF t assms(2)] assms(3)
  show ?thesis by (auto simp: admitAuthorization_def gated_def authorizationState_def Let_def)
qed

section \<open>Retiring a source\<close>

text \<open>After a freeze the ledger still sees calls of the service, and the settlement loop that takes
  tickets from the redemption queue; \<open>markRedeemed\<close> is the only write of that loop.\<close>

datatype ledger_event =
    Serve service_call
  | Redeem bytes bytes "StoredTicket option" int "RedemptionInclusion option" string

primrec ledger_event_step :: "eth \<Rightarrow> codec \<Rightarrow> Service \<Rightarrow> store \<Rightarrow> ledger_event \<Rightarrow> store \<times> unit option" where
  "ledger_event_step E C svc s (Serve call) = (fst (service_step E C svc s call), None)"
| "ledger_event_step E C svc s (Redeem h tx t rnd evidence reason) = (fst (markRedeemed h tx t rnd evidence reason s), None)"

text \<open>The part of a ledger that carries work and money owed, and the fence.\<close>

definition same_obligations :: "store \<Rightarrow> store \<Rightarrow> bool" where
  "same_obligations s s' \<longleftrightarrow>
     source_fence s' = source_fence s \<and> spend_authorizations s' = spend_authorizations s \<and>
     wholesale_accounts s' = wholesale_accounts s \<and> wholesale_totals s' = wholesale_totals s \<and>
     wholesale_funding_receipts s' = wholesale_funding_receipts s \<and> sessions s' = sessions s \<and> nonces s' = nonces s"

definition retired :: "store \<Rightarrow> bool" where
  "retired s \<longleftrightarrow> frozen s \<and>
     (\<forall>k a. fmlookup (spend_authorizations s) k = Some a \<longrightarrow> au_State a \<noteq> AuthorizationAdmitted)"

lemma same_obligations_refl [simp]: "same_obligations s s"
  by (simp add: same_obligations_def)

lemma same_obligations_trans: "same_obligations s s' \<Longrightarrow> same_obligations s' s'' \<Longrightarrow> same_obligations s s''"
  by (simp add: same_obligations_def)

lemma retired_same: "retired s \<Longrightarrow> same_obligations s s' \<Longrightarrow> retired s'"
  by (simp add: retired_def frozen_def same_obligations_def)

lemma frozen_call: "frozen s \<Longrightarrow> fst (call_result E C svc call s) = s"
  by (cases call)
    (simp_all add: frozen_gate Receiver_OpenSession_def ProcessPayment_def Receiver_DebitBalance_def Receiver_CloseSession_def
      ResetSession_def GetTicketParams_def FundWholesaleAccount_def admitAuthorization_def AdvanceAuthorization_def
      reject_def)

lemma same_reject: "(\<And>s. P s \<Longrightarrow> same_obligations s (fst (k s))) \<Longrightarrow> P s \<Longrightarrow> same_obligations s (fst (reject bad e k s))"
  by (simp add: reject_def)

lemma retired_settle: "retired s \<Longrightarrow> same_obligations s (fst (SettleWholesale payer payee ident units seq now acc s))"
  by (auto simp: retired_def SettleWholesale_def db_update_def Let_def split: option.split)

lemma retired_close: "retired s \<Longrightarrow> same_obligations s (fst (CloseUnexecutedAuthorization payer payee ident reason acc now s))"
  by (auto simp: retired_def CloseUnexecutedAuthorization_def db_update_def Let_def same_obligations_def split: option.split)

lemma retired_cancel: "retired s \<Longrightarrow> same_obligations s (fst (CancelAuthorizationAdmission payer payee ident fp acc now s))"
  by (auto simp: CancelAuthorizationAdmission_def db_update_def Let_def same_obligations_def split: option.split)

lemma retired_freeze: "retired s \<Longrightarrow> fst (FreezeSource reason now s) = s"
  by (auto simp: retired_def frozen_def FreezeSource_def db_update_def)

lemma retired_service:
  assumes "retired s"
  shows "same_obligations s (fst (service_step E C svc s call))"
proof (cases call)
  case (Gated g)
  then show ?thesis using assms by (simp add: retired_def frozen_call)
next
  case (CallSettle acc d payer ident units seq now)
  then show ?thesis
    by (simp add: SettleAuthorization_def)
      (intro same_reject [where P = retired] assms, simp_all add: case_prod_beta retired_settle split: sum.split)
next
  case (CallCancel acc d payer ident fp now)
  then show ?thesis
    by (simp add: Receiver_CancelAuthorizationAdmission_def)
      (intro same_reject [where P = retired] assms, simp_all add: case_prod_beta retired_cancel split: sum.split)
next
  case (CallCloseUnexecuted acc d payer ident reason now)
  then show ?thesis
    by (simp add: Receiver_CloseUnexecutedAuthorization_def)
      (intro same_reject [where P = retired] assms, simp_all add: case_prod_beta retired_close split: sum.split)
next
  case (CallFreeze d reason now)
  then show ?thesis
    by (simp add: FreezeRevenueSource_def)
      (intro same_reject [where P = retired] assms, simp_all add: case_prod_beta retired_freeze split: sum.split)
qed

lemma same_markRedeemed: "same_obligations s (fst (markRedeemed h tx t rnd evidence reason s))"
  by (auto simp: markRedeemed_def db_update_def Let_def same_obligations_def split: option.split)

lemma retired_event: "retired s \<Longrightarrow> same_obligations s (fst (ledger_event_step E C svc s ev))"
  by (cases ev) (simp_all add: retired_service same_markRedeemed)

interpretation retirement: invariant_machine "ledger_event_step E C svc" "\<lambda>s. retired s0 \<and> same_obligations s0 s"
  for E C svc s0
  by unfold_locales (blast intro: same_obligations_trans retired_event retired_same)

lemma freeze_retires:
  assumes "FreezeRevenueSource svc d reason now s = (s1, Inr st)" "source_fence s = None"
    and "fmcount (\<lambda>_ a. au_State a = AuthorizationAdmitted) (spend_authorizations s) < 2 ^ 64"
  shows "retired s1" "activeAuthorizations s = 0" "spend_authorizations s1 = spend_authorizations s"
    "wholesale_accounts s1 = wholesale_accounts s"
    "source_fence s1 = Some (Some \<lparr>sf_Frozen = True, sf_Reason = reason, sf_FrozenAt = now\<rparr>)"
proof -
  obtain fence where "FreezeSource reason now s = (s1, Inr fence)"
    using assms(1) by (auto simp: FreezeRevenueSource_def split: prod.splits sum.splits)
  then have f: "activeAuthorizations s = 0"
    "s1 = s\<lparr>source_fence := Some (Some \<lparr>sf_Frozen = True, sf_Reason = reason, sf_FrozenAt = now\<rparr>)\<rparr>"
    using assms(2) by (auto simp: FreezeSource_def db_update_def Let_def split: if_splits)
  then show "activeAuthorizations s = 0" "spend_authorizations s1 = spend_authorizations s"
    "wholesale_accounts s1 = wholesale_accounts s"
    "source_fence s1 = Some (Some \<lparr>sf_Frozen = True, sf_Reason = reason, sf_FrozenAt = now\<rparr>)" by simp_all
  show "retired s1"
    using freeze_freezes [OF assms(1)] no_active [OF f(1) assms(3)] f(2) by (simp add: retired_def)
qed

text \<open>C23: a source is frozen only when it is drained, and for good. When a freeze takes effect on a
  ledger that balances, no authorization is admitted and nothing is reserved on any account. After
  any further history of calls of the service and of writes of the settlement loop the fence reads as
  frozen with the reason and time given, still no authorization is admitted and nothing is reserved,
  every authorization, account, total, receipt, session and nonce is what it was at the freeze, and
  a further freeze changes nothing.\<close>

theorem freeze_requires_drained_source:
  assumes "FreezeRevenueSource svc d reason now s = (s1, Inr st)" "source_fence s = None"
    and "ledger_inv (recipient svc) K s"
    and "fmcount (\<lambda>_ a. au_State a = AuthorizationAdmitted) (spend_authorizations s) < 2 ^ 64"
  shows "let s' = run (ledger_event_step E C svc) s1 events in
    (fmlookup (spend_authorizations s') k = Some a \<longrightarrow> au_State a \<noteq> AuthorizationAdmitted) \<and>
    parseDecimalBig (wa_ReservedWei (GetWholesaleAccount payer p acc s')) = 0 \<and>
    Store_SourceFence s' = Inr \<lparr>sf_Frozen = True, sf_Reason = reason, sf_FrozenAt = now\<rparr> \<and>
    same_obligations s1 s' \<and> fst (FreezeRevenueSource svc d' reason' now' s') = s'"
proof -
  let ?s = "run (ledger_event_step E C svc) s1 events"
  note f = freeze_retires [OF assms(1,2,4)]
  have same: "same_obligations s1 ?s"
    using retirement.inv_run [of s1 s1 E C svc events] f(1) by simp
  then have r: "retired ?s" by (rule retired_same [OF f(1)])
  have "wholesale_accounts ?s = wholesale_accounts s" using same f(4) by (simp add: same_obligations_def)
  then have "loadWholesaleAccount payer p acc ?s = loadWholesaleAccount payer p acc s"
    by (simp add: loadWholesaleAccount_def)
  then have "parseDecimalBig (wa_ReservedWei (GetWholesaleAccount payer p acc ?s)) = 0"
    using drained_accounts [OF f(2) assms(3,4)] by (simp add: GetWholesaleAccount_def load_amounts)
  moreover have "Store_SourceFence ?s = Inr \<lparr>sf_Frozen = True, sf_Reason = reason, sf_FrozenAt = now\<rparr>"
    using same f(1,5) by (auto simp: same_obligations_def Store_SourceFence_def retired_def frozen_def)
  moreover have "fst (FreezeRevenueSource svc d' reason' now' ?s) = ?s"
    using retired_freeze [OF r] by (simp add: FreezeRevenueSource_def reject_def case_prod_beta split: sum.split)
  ultimately show ?thesis using same r unfolding Let_def retired_def by blast
qed

section \<open>Sample histories\<close>

definition sample_calls :: "service_call list" where
  "sample_calls =
    [Gated (CallGetTicketParams sample_request ''r'' 1), CallSettle [] ''d'' sample_payer ''job'' 3 2 3,
     CallCloseUnexecuted ''acct'' ''d'' sample_payer ''next'' ''late'' 4]"

theorem service_keeps_the_books_witness:
  "ledger_inv (recipient sample_service) sample_ids (run (service_step sample_eth sample_codec sample_service) Open sample_calls) \<and>
   (\<exists>v. Receiver_GetWholesaleAccount sample_service ''acct'' ''d'' sample_payer
        (run (service_step sample_eth sample_codec sample_service) Open sample_calls) = Inr v \<and>
      SetBytes (av_available_value_wei v) + SetBytes (av_reserved_value_wei v) + SetBytes (av_debited_value_wei v) =
        SetBytes (av_credited_value_wei v))"
proof -
  let ?s = "run (service_step sample_eth sample_codec sample_service) Open sample_calls"
  have w: "\<forall>call \<in> set sample_calls. call_within sample_codec sample_ids call"
    by (simp add: sample_calls_def sample_ids_def)
  obtain v where "Receiver_GetWholesaleAccount sample_service ''acct'' ''d'' sample_payer ?s = Inr v"
    by (simp add: Receiver_GetWholesaleAccount_def sample_service_def domain_mismatch_def sample_payer_def
        ValidWholesaleAccountID_def byte_in_def GetWholesaleAccount_def)
  with service_keeps_the_books [OF ledger_inv_Open sample_ids_inj w] show ?thesis by blast
qed

definition sample_events :: "ledger_event list" where
  "sample_events = map Serve sample_calls @
     [Serve (CallCancel ''acct'' ''d'' sample_payer ''job'' (replicate 32 (CHR ''f'')) 8),
      Redeem (replicate 32 (CHR ''h'')) [] (Some sample_stored) 3 None ''expired'']"

theorem freeze_requires_drained_source_witness:
  "\<exists>s1 st. FreezeRevenueSource sample_service ''d'' ''move'' 7 sample_ledger = (s1, Inr st) \<and>
     (let s' = run (ledger_event_step sample_eth sample_codec sample_service) s1 sample_events in
      Store_SourceFence s' = Inr \<lparr>sf_Frozen = True, sf_Reason = ''move'', sf_FrozenAt = 7\<rparr> \<and>
      fst (FreezeRevenueSource sample_service ''d'' ''again'' 9 s') = s')"
proof -
  have n: "source_fence sample_ledger = None" "spend_authorizations sample_ledger = fmempty"
    by (simp_all add: sample_ledger_def Open_def)
  obtain s1 st where f: "FreezeRevenueSource sample_service ''d'' ''move'' 7 sample_ledger = (s1, Inr st)"
    by (simp add: FreezeRevenueSource_def reject_def domain_mismatch_def sample_service_def FreezeSource_def
        db_update_def sample_ledger_def Open_def activeAuthorizations_def Let_def GetRevenueSourceStatus_def Store_SourceFence_def
        fence_invalid_def RedemptionHistory_def ActiveAuthorizations_def)
  have "fmcount (\<lambda>_ a. au_State a = AuthorizationAdmitted) (spend_authorizations sample_ledger) < 2 ^ 64"
    using n by (simp add: fmcount_def)
  from freeze_requires_drained_source [OF f n(1) sample_ledger_inv [of _ sample_ids] this] f
  show ?thesis unfolding Let_def by blast
qed

definition sample_payload :: SpendAuthorizationPayload where
  "sample_payload = \<lparr>pl_wholesale_account_id = ''acct'', pl_domain = spendauth_Domain, pl_payer = sample_sender,
     pl_payee = recipient sample_service, pl_authorization_id = ''job'', pl_request_id = ''r'', pl_session_id = [],
     pl_protocol = ''paid-job/v1'', pl_capability = ''c'', pl_offering = ''o'',
     pl_accepted_price = Some \<lparr>price_per_unit_wei = Some [CHR 0x02], units_per_price = 1, work_unit_name = ''token'',
       ap_capability = ''c'', ap_offering = ''o'', ap_quote_ref = None\<rparr>,
     pl_max_debit_wei = [CHR 0x09], pl_max_total_units = 4, pl_not_before = ''0001-01-01T00:00:00Z'',
     pl_expires_at = ''1970-01-01T00:00:00Z'', pl_request_digest = replicate 32 (CHR ''d''), pl_caller_public_key = [],
     pl_revision = 0, pl_predecessor_authorization_id = [], pl_broker_uri = ''b'', pl_chain_id = 1,
     pl_denomination = ''wei'', pl_settlement_domain_id = ''d''\<rparr>"

definition admission_codec :: codec where
  "admission_codec = sample_codec\<lparr>Marshal_Payload := \<lambda>_. Some [],
     Unmarshal_SpendAuthorization := \<lambda>_. Some \<lparr>sa_payload = Some sample_payload, sa_signature = sample_sig\<rparr>\<rparr>"

definition sample_admission :: AdmitAuthorizationRequest where
  "sample_admission = \<lparr>aq_authorization_bytes = ''a'', aq_payment_bytes = [], aq_reservation_value_wei = []\<rparr>"

definition sample_funded :: store where
  "sample_funded = Open\<lparr>wholesale_accounts :=
     fmupd (wholesaleAccountKey sample_sender (recipient sample_service) ''acct'')
       \<lparr>wa_WholesaleAccountID = ''acct'', wa_Payer = sample_sender, wa_Payee = recipient sample_service,
        wa_CreditedWei = ''9'', wa_ReservedWei = ''0'', wa_DebitedWei = ''0'', wa_Version = 1, wa_UpdatedAt = 1\<rparr> fmempty\<rparr>"

lemma sample_checks:
  "check_authorization sample_eth admission_codec sample_service ''a'' 5 =
     Inr \<lparr>tm_payload = sample_payload, tm_price = the (pl_accepted_price sample_payload),
          tm_expiresAt = 62135596800 * 1000000000\<rparr>"
proof -
  have "length sample_sig = 65" "sample_sig ! 64 = byte_of_nat 27" "take 20 sample_sig = sample_sender"
    by (simp_all add: sample_sig_def sample_sender_def nth_append)
  then have v: "Verify sample_eth admission_codec \<lparr>sa_payload = Some sample_payload, sa_signature = sample_sig\<rparr> = Inr ()"
    by (simp add: Verify_def Digest_def sample_payload_def admission_codec_def sample_eth_def sample_sender_def Let_def)
  have i: "check_identity sample_service sample_payload = None"
    by (simp add: check_identity_def check_protocol_def sample_payload_def sample_service_def
        ValidWholesaleAccountID_def byte_in_def)
  have t: "check_terms sample_payload (the (pl_accepted_price sample_payload)) 5 =
     Inr \<lparr>tm_payload = sample_payload, tm_price = the (pl_accepted_price sample_payload),
          tm_expiresAt = 62135596800 * 1000000000\<rparr>"
    by (simp add: check_terms_def sample_payload_def time_Parse_examples tm_maxDebit_def tm_unitPrice_def GetValue_def
        SetBytes_def be_value_def BillFor_def ceil_quo_def Let_def)
  have "Unmarshal_SpendAuthorization admission_codec ''a'' = Some \<lparr>sa_payload = Some sample_payload, sa_signature = sample_sig\<rparr>"
    by (simp add: admission_codec_def)
  then show ?thesis using v i t by (simp add: check_authorization_def)
qed

lemma sample_admitted:
  "\<exists>s' r. admitAuthorization sample_eth admission_codec sample_service sample_admission 5 5 sample_funded = (s', Inr r)"
proof -
  have u: "requireUnfrozenSource sample_funded = Inr ()"
    by (simp add: requireUnfrozenSource_def Store_SourceFence_def sample_funded_def Open_def zero_SourceFence_def)
  have f: "spend_authorizations sample_funded = fmempty" "canceled_admissions sample_funded = fmempty"
    "unexecuted_fences sample_funded = fmempty"
    by (simp_all add: sample_funded_def Open_def)
  have l: "loadWholesaleAccount sample_sender (recipient sample_service) ''acct'' sample_funded =
      \<lparr>wa_WholesaleAccountID = ''acct'', wa_Payer = sample_sender, wa_Payee = recipient sample_service,
       wa_CreditedWei = ''9'', wa_ReservedWei = ''0'', wa_DebitedWei = ''0'', wa_Version = 1, wa_UpdatedAt = 1\<rparr>"
    by (simp add: loadWholesaleAccount_def sample_funded_def)
  have p: "pl_payer sample_payload = sample_sender" "pl_payee sample_payload = recipient sample_service"
    "pl_wholesale_account_id sample_payload = ''acct''" "pl_authorization_id sample_payload = ''job''"
    "pl_predecessor_authorization_id sample_payload = []" "SetBytes (pl_max_debit_wei sample_payload) = 9"
    by (simp_all add: sample_payload_def SetBytes_def be_value_def)
  have q: "length sample_sender = 20" "length (recipient sample_service) = 20"
    by (simp_all add: sample_sender_def sample_service_def)
  show ?thesis
    by (simp add: admitAuthorization_def gated_def u sample_admission_def sample_checks GetWholesaleAuthorization_def Let_def
        p q f l admit_new_def inline_funding_def seed_of_def AdmitWholesale_def db_update_def admit_body_def
        canceledAdmissionIn_def migrate_balance_def admit_predecessor_def admit_reserve_def errors_Is_def
        Account_Available_def tm_maxDebit_def authorization_of_def)
qed

theorem admission_retry_converges_witness:
  "\<exists>s' r r2. admitAuthorization sample_eth admission_codec sample_service sample_admission 5 5 sample_funded = (s', Inr r) \<and>
     admitAuthorization sample_eth admission_codec sample_service
       (sample_admission\<lparr>aq_payment_bytes := ''p'', aq_reservation_value_wei := [CHR 0x07]\<rparr>) 8 9 s' = (s', Inr r2) \<and>
     aa_replayed r2 \<and> aa_reserved_value_wei r2 = aa_reserved_value_wei r"
proof -
  obtain s' r where a: "admitAuthorization sample_eth admission_codec sample_service sample_admission 5 5 sample_funded = (s', Inr r)"
    using sample_admitted by blast
  from admission_retry_converges [OF a, of 8
      "sample_admission\<lparr>aq_payment_bytes := ''p'', aq_reservation_value_wei := [CHR 0x07]\<rparr>" 9] a
  show ?thesis by auto
qed

end
