(* ===== verification/Broker_Laws.thy ===== *)
theory Broker_Laws
  imports Ticket_Fetcher Receiver_Ledger Sender_Samples
begin

text \<open>
  What the broker may rely on when it talks to a payee: how it reads a failed admission, that every account it
  is shown is the one it asked for, and that its price rules are those of the payee's ledger.
\<close>

section \<open>Failed admissions\<close>

definition admitted_in :: "store \<Rightarrow> (bytes \<times> WholesaleAuthorization) set" where
  "admitted_in s = {(k, a). fmlookup (spend_authorizations s) k = Some a \<and> au_State a = AuthorizationAdmitted}"

lemma admit_error_records_nothing:
  assumes "AdmitWholesale seed fw res now s = (s', Inl e)"
  shows "spend_authorizations s' = spend_authorizations s"
  using assms by (cases rule: admit_records [of seed fw res now s]) (simp_all add: admit_event_def)

lemma admit_expired_admits_nothing:
  assumes "AdmitWholesale seed fw res now s = (s', Inr r)"
    and "au_State (the (ar_Authorization r)) = AuthorizationExpiredUnused"
  shows "admitted_in s' = admitted_in s"
proof -
  let ?account = "loadWholesaleAccount (sd_Payer seed) (sd_Payee seed) (sd_WholesaleAccountID seed) s"
  have body: "admit_body seed fw res now s = Inr (s', r, False)"
    using assms(1) by (auto simp: AdmitWholesale_def db_update_def split: if_splits sum.splits prod.splits)
  show ?thesis
  proof (cases "fmlookup (spend_authorizations s) (seed_key seed)")
    case (Some a)
    then have "s' = s" using body by (auto simp: admit_body_def Let_def seed_key_def split: option.splits if_splits)
    then show ?thesis by simp
  next
    case None
    note fresh = body None
    show ?thesis
    proof (cases "now < sd_ExpiresAt seed")
      case False
      then have "spend_authorizations s' = fmupd (seed_key seed)
          (authorization_of seed AuthorizationExpiredUnused 0 [] [] 0 now) (spend_authorizations s)"
        using fresh by (auto simp: admit_body_def Let_def seed_key_def split: option.splits if_splits)
      then show ?thesis using None by (auto simp: admitted_in_def authorization_of_def split: if_splits)
    next
      case True
      then obtain s1 x tr opred where "admit_reserve seed res now x tr opred s1 = Inr (s', r, False)"
        using fresh by (auto simp: admit_body_def Let_def seed_key_def sum_bind_Inr_iff split: option.splits if_splits)
      then show ?thesis
        using assms(2) by (cases rule: admit_reserve_cases) (auto simp: admitted_auth_def authorization_of_def)
    qed
  qed
qed

lemma admitted_eqI: "spend_authorizations s' = spend_authorizations s \<Longrightarrow> admitted_in s' = admitted_in s"
  by (simp add: admitted_in_def)

lemma admitAuthorization_error:
  assumes "admitAuthorization E C svc req now later s = (s', Inl e)"
  shows "admitted_in s' = admitted_in s"
proof -
  have new: "admitted_in s' = admitted_in s" if a: "admit_new E C svc req t fp now later s = (s', Inl e)" for t fp
  proof -
    obtain s1 r where i: "inline_funding E C svc t (aq_payment_bytes req) now later s = (s1, r)" by fastforce
    note frame = admitted_eqI [OF inline_funding_frame(2) [OF i]]
    show ?thesis
    proof (cases r)
      case (Inl x)
      then show ?thesis using a i frame by (simp add: admit_new_def)
    next
      case (Inr credit)
      obtain q where q: "AdmitWholesale (seed_of t fp) [] (Some (SetBytes (aq_reservation_value_wei req))) now s1 = (s', q)"
        using a i Inr by (auto simp: admit_new_def Let_def split: prod.splits sum.splits if_splits)
      show ?thesis
      proof (cases q)
        case (Inl x)
        then show ?thesis using admitted_eqI [OF admit_error_records_nothing] q frame by metis
      next
        case (Inr res)
        then have "au_State (the (ar_Authorization res)) = AuthorizationExpiredUnused"
          using a i \<open>r = Inr credit\<close> q by (auto simp: admit_new_def Let_def split: if_splits)
        then show ?thesis using admit_expired_admits_nothing q Inr frame by metis
      qed
    qed
  qed
  show ?thesis
    using assms new
    by (auto simp: admitAuthorization_def gated_def Let_def split: sum.splits if_splits)
qed

text \<open>The broker's reading of a refusal agrees with the errors the payee gives.\<close>

definition well_classified :: "rpc_error \<Rightarrow> bool" where
  "well_classified e \<longleftrightarrow>
     (AdmissionRefused (Receiver e) \<longleftrightarrow> rpc_Reason e \<noteq> [] \<and> rpc_Reason e \<noteq> ''AUTHORIZATION_NOT_ACTIVE'')"

lemma refusing_reasons_proper: "r \<in> set refusing_reasons \<Longrightarrow> r \<noteq> [] \<and> r \<noteq> ''AUTHORIZATION_NOT_ACTIVE''"
  by (auto simp: refusing_reasons_def)

lemma classified_plain: "well_classified (status_Error c m)"
  using refusing_reasons_proper
  by (auto simp: well_classified_def AdmissionRefused_def AdmissionFailureReason_def knownAdmissionReason_def status_Error_def)

lemma classified_status:
  "r \<in> set refusing_reasons \<Longrightarrow> c \<in> {FailedPrecondition, InvalidArgument, PermissionDenied} \<Longrightarrow>
     well_classified (admissionStatus c r m)"
  using refusing_reasons_proper
  by (auto simp: well_classified_def AdmissionRefused_def AdmissionFailureReason_def knownAdmissionReason_def admissionStatus_def)

lemma classified_failure: "r \<in> set refusing_reasons \<Longrightarrow> well_classified (admissionFailure r m)"
  by (simp add: admissionFailure_def classified_status)

lemma classified_not_active: "well_classified (admissionFailure ''AUTHORIZATION_NOT_ACTIVE'' m)"
  by (simp add: well_classified_def AdmissionRefused_def AdmissionFailureReason_def knownAdmissionReason_def
      admissionFailure_def admissionStatus_def)

lemmas classified = classified_plain classified_status classified_failure classified_not_active

lemma reasons [simp]:
  "''AUTHORIZATION_MALFORMED'' \<in> set refusing_reasons" "''AUTHORIZATION_SIGNATURE_INVALID'' \<in> set refusing_reasons"
  "''SETTLEMENT_DOMAIN_MISMATCH'' \<in> set refusing_reasons" "''PAYEE_MISMATCH'' \<in> set refusing_reasons"
  "''CHAIN_OR_DENOMINATION_MISMATCH'' \<in> set refusing_reasons" "''AUTHORIZATION_IDENTITY_INVALID'' \<in> set refusing_reasons"
  "''AUTHORIZATION_REQUEST_BINDING_INVALID'' \<in> set refusing_reasons" "''CALLER_KEY_INVALID'' \<in> set refusing_reasons"
  "''REVISION_FIELDS_INVALID'' \<in> set refusing_reasons" "''PROTOCOL_UNSUPPORTED'' \<in> set refusing_reasons"
  "''PRICE_SCOPE_MISMATCH'' \<in> set refusing_reasons" "''PRICE_INVALID'' \<in> set refusing_reasons"
  "''AUTHORIZATION_TIME_INVALID'' \<in> set refusing_reasons" "''AUTHORIZATION_LIMITS_INVALID'' \<in> set refusing_reasons"
  "''DEBIT_CAP_BELOW_PRICE'' \<in> set refusing_reasons" "''AUTHORIZATION_ID_REUSED'' \<in> set refusing_reasons"
  "''FUNDING_MALFORMED'' \<in> set refusing_reasons" "''FUNDING_PAYER_MISMATCH'' \<in> set refusing_reasons"
  "''FUNDING_VALIDATION_FAILED'' \<in> set refusing_reasons" "''RECEIVER_SOURCE_FROZEN'' \<in> set refusing_reasons"
  "''INSUFFICIENT_WHOLESALE_CREDIT'' \<in> set refusing_reasons" "''RESERVATION_EXCEEDS_REMAINING_DEBIT'' \<in> set refusing_reasons"
  "''REVISION_PREDECESSOR_INVALID'' \<in> set refusing_reasons" "''REVISION_LIMITS_BELOW_USAGE'' \<in> set refusing_reasons"
  "''AUTHORIZATION_ADMISSION_CANCELED'' \<in> set refusing_reasons" "''AUTHORIZATION_STATE_INVALID'' \<in> set refusing_reasons"
  "''AUTHORIZATION_EXPIRED_UNUSED'' \<in> set refusing_reasons" "''AUTHORIZATION_NOT_ADMITTED'' \<in> set refusing_reasons"
  by (simp_all add: refusing_reasons_def)

lemma check_protocol_classified: "check_protocol p = Some e \<Longrightarrow> well_classified e"
  by (auto simp: check_protocol_def classified split: if_splits)

lemma check_identity_classified: "check_identity svc p = Some e \<Longrightarrow> well_classified e"
  by (auto simp: check_identity_def classified check_protocol_classified split: if_splits)

lemma check_terms_classified: "check_terms p price now = Inl e \<Longrightarrow> well_classified e"
  by (auto simp: check_terms_def Let_def classified split: if_splits option.splits)

lemma check_authorization_classified: "check_authorization E C svc b now = Inl e \<Longrightarrow> well_classified e"
  by (auto simp: check_authorization_def classified check_identity_classified check_terms_classified
      split: if_splits option.splits sum.splits prod.splits)

lemma admission_error_classified: "well_classified (admission_error err)"
  by (simp add: admission_error_def classified)

lemma fundWholesale_codes:
  assumes "fundWholesale E C svc req now s = (s', Inl e)"
  shows "rpc_Code e = FailedPrecondition \<or> (\<exists>c m. e = status_Error c m)"
proof -
  have batch: "funding_batch E svc pay tp rand ts = Inl e \<Longrightarrow> rpc_Code e = FailedPrecondition" for pay tp rand ts e
    by (induction ts) (auto simp: status_Error_def sum_bind_Inl_iff split: option.splits)
  have price: "checkSignedPrice pay sess = Some e \<Longrightarrow> \<exists>c m. e = status_Error c m" for pay sess e
    by (auto simp: checkSignedPrice_def Let_def split: option.splits if_splits)
  have "rpc_Code e = FailedPrecondition \<or> (\<exists>c m. e = status_Error c m)"
    if "apply_funding E svc acc fid pay tp now s = (s', Inl e)" for acc fid pay tp
    using that batch price
    by (auto simp: apply_funding_def Let_def admissionStatus_def status_Error_def
        split: sum.splits option.splits prod.splits if_splits)
  then show ?thesis
    using assms
    by (auto simp: fundWholesale_def reject_def Let_def split: if_splits option.splits sum.splits)
qed

lemma inline_funding_classified:
  assumes "inline_funding E C svc t b now later s = (s', Inl e)"
  shows "well_classified e"
proof -
  have "well_classified x" if "fundWholesale E C svc q later s = (s1, Inl x)" "rpc_Code x \<noteq> FailedPrecondition" for q s1 x
    using fundWholesale_codes [OF that(1)] that(2) by (auto simp: classified)
  then show ?thesis
    using assms
    by (auto simp: inline_funding_def Let_def classified split: if_splits option.splits sum.splits prod.splits)
qed

lemma admitAuthorization_classified:
  assumes "admitAuthorization E C svc req now later s = (s', Inl e)"
  shows "well_classified e"
proof -
  have gate: "requireUnfrozenSource s = Inl x \<Longrightarrow> well_classified x" for x
    by (auto simp: requireUnfrozenSource_def classified split: sum.splits if_splits)
  have "well_classified x" if "admit_new E C svc req t fp now later s = (s', Inl x)" for t fp x
    using that
    by (auto simp: admit_new_def Let_def classified admission_error_classified dest: inline_funding_classified
        split: sum.splits prod.splits if_splits)
  then show ?thesis
    using assms gate
    by (auto simp: admitAuthorization_def gated_def Let_def classified dest: check_authorization_classified
        split: sum.splits if_splits)
qed

text \<open>C8: the broker gives up an admission only when the payee holds nothing for it. When an admission
  through the broker's client fails with an error that the broker counts as a refusal, the payee's
  admitted authorizations are the ones it had before the call. Conversely, every refusal of the payee's
  service that carries a reason is counted as one, except that the authorization is not active yet.\<close>

theorem refused_admission_left_nothing:
  assumes "g_client g = payee_client E C svc I"
    and "Broker_AdmitAuthorization C g req (s, n) = ((s', n'), Inl e)"
  shows "(AdmissionRefused (Receiver e) \<longrightarrow> admitted_in s' = admitted_in s) \<and>
    (admitAuthorization E C svc \<lparr>aq_authorization_bytes = bm_AuthorizationBytes req, aq_payment_bytes = bm_PaymentBytes req,
        aq_reservation_value_wei = Bytes_or_nil (bm_Reservation req)\<rparr> (pi_now I (Suc n)) (pi_later I (Suc n)) s = (s', Inl e) \<longrightarrow>
      (AdmissionRefused (Receiver e) \<longleftrightarrow> rpc_Reason e \<noteq> [] \<and> rpc_Reason e \<noteq> ''AUTHORIZATION_NOT_ACTIVE''))"
proof -
  let ?req = "\<lparr>aq_authorization_bytes = bm_AuthorizationBytes req, aq_payment_bytes = bm_PaymentBytes req,
    aq_reservation_value_wei = Bytes_or_nil (bm_Reservation req)\<rparr>"
  have local: "\<not> AdmissionRefused (Receiver (plain m))" "\<not> AdmissionRefused (Receiver mismatch)" for m
    using classified_plain by (auto simp: well_classified_def plain_def mismatch_def status_Error_def)
  have "admitted_in s' = admitted_in s" if refused: "AdmissionRefused (Receiver e)"
  proof (cases "SettlementDomain g (s, n)")
    case (Pair w d)
    have w: "w = (s, Suc n)"
      using Pair assms(1) by (auto simp: SettlementDomain_def perform_def payee_client_def serve_query_def serve_def reject_def
          yield_def split: sum.splits if_splits)
    obtain r sx where call: "admitAuthorization E C svc ?req (pi_now I (Suc n)) (pi_later I (Suc n)) s = (sx, r)" by fastforce
    show ?thesis
    proof (cases d)
      case (Inl x)
      then show ?thesis using assms(2) Pair w by (simp add: Broker_AdmitAuthorization_def perform_def)
    next
      case (Inr y)
      show ?thesis
      proof (cases r)
        case (Inl x)
        then have "s' = sx"
          using assms Pair w Inr call by (simp add: Broker_AdmitAuthorization_def perform_def payee_client_def serve_def)
        then show ?thesis using admitAuthorization_error call Inl by simp
      next
        case (Inr res)
        then show ?thesis
          using assms Pair w \<open>d = Inr y\<close> call refused local
          by (auto simp: Broker_AdmitAuthorization_def perform_def payee_client_def serve_def reject_def fail_def yield_def
              split: option.splits if_splits)
      qed
    qed
  qed
  then show ?thesis using admitAuthorization_classified by (auto simp: well_classified_def)
qed

section \<open>The account that was asked for\<close>

text \<open>An account of the ledger that the broker connected to, under the account id that was asked for and
  of the payer that was named, unless none was named.\<close>

definition is_account :: "'w GRPC \<Rightarrow> bytes \<Rightarrow> string \<Rightarrow> Broker_WholesaleAccount option \<Rightarrow> bool" where
  "is_account g payer account a \<longleftrightarrow>
     (\<exists>v. a = Some v \<and> bw_WholesaleAccountID v = account \<and> bw_SettlementDomainID v = g_settlementDomainID g \<and>
        (payer = [] \<or> bw_Payer v = payer))"

lemma validated_is_account:
  "validateAccount g a (payer_or_nil payer) account \<Longrightarrow> is_account g payer account (map_option accountFromProto a)"
  by (auto simp: validateAccount_def is_account_def accountFromProto_def payer_or_nil_def split: option.splits if_splits)

lemma validated_payee:
  assumes "validateAccount g a (payer_or_nil payer) account"
  shows "\<exists>v. a = Some v \<and> is_account g payer account (Some (accountFromProto v)) \<and>
    bw_Payee (accountFromProto v) = account_payee a"
  using assms validated_is_account [OF assms]
  by (auto simp: validateAccount_def accountFromProto_def account_payee_def split: option.splits)

lemma perform_Inr': "perform m k w = (w', Inr r) \<longleftrightarrow> (\<exists>w1 x. m w = (w1, Inr x) \<and> k x w1 = (w', Inr r))"
  by (auto simp: perform_def split: prod.splits sum.splits)

lemma reject_Inr': "reject bad e k w = (w', Inr r) \<longleftrightarrow> \<not> bad \<and> k w = (w', Inr r)"
  by (auto simp: reject_def)

lemmas call_runs = perform_Inr' reject_Inr' yield_def fail_def

lemma SettlementDomain_answer:
  "SettlementDomain g w = (w', Inr domain) \<Longrightarrow> domain = g_settlementDomainID g"
  by (auto simp: SettlementDomain_def call_runs)

lemma canceled_scope:
  assumes "Broker_CancelAuthorizationAdmission C g wire w = (w', Inr canceled)"
  shows "\<exists>auth p. Unmarshal_SpendAuthorization C wire = Some auth \<and> sa_payload auth = Some p \<and>
    is_account g (pl_payer p) (pl_wholesale_account_id p) (bc_Account canceled) \<and>
    (\<forall>a. bc_Authorization canceled = Some a \<longrightarrow> ba_WholesaleAccountID a = pl_wholesale_account_id p \<and>
       ba_SettlementDomainID a = g_settlementDomainID g \<and> ba_Payee a = pl_payee p)"
proof -
  obtain w1 domain where d: "SettlementDomain g w = (w1, Inr domain)"
    and "(case Unmarshal_SpendAuthorization C wire of None \<Rightarrow> None | Some auth \<Rightarrow> sa_payload auth) \<noteq> None"
    using assms by (auto simp: Broker_CancelAuthorizationAdmission_def call_runs split: option.splits)
  then obtain auth p where "Unmarshal_SpendAuthorization C wire = Some auth" "sa_payload auth = Some p"
    by (auto split: option.splits)
  then show ?thesis
    using assms SettlementDomain_answer [OF d] d
    by (auto simp: Broker_CancelAuthorizationAdmission_def call_runs Let_def validated_is_account
        authorizationStatusFromProto_def split: option.splits)
qed

text \<open>C18: the broker never takes an answer about another account or ledger. Whatever the other end of its
  connection answers, an advance, a settlement or an account query that succeeds shows the account that
  was asked for, under the settlement domain the broker connected to and of the payer it named, if it
  named one. A funding or a funding receipt shows that account for the sender and the recipient of the
  payment, and a receipt is for the payment that was asked about. An admission shows the account,
  payer, payee, chain and denomination that the payer signed. A cancellation shows the account and
  payer that were signed, and if it shows an authorization, one of that account, ledger and payee.\<close>

theorem broker_sees_the_account_it_asked_for:
  "(Broker_FundWholesaleAccount C g wire account w = (w1, Inr funded) \<longrightarrow>
      (\<exists>pay. Unmarshal_Payment C wire = Some pay \<and> is_account g (pb_sender pay) account (bf_Account funded) \<and>
         map_option bw_Payee (bf_Account funded) = Some (payment_recipient pay))) \<and>
   (Broker_GetWholesaleFundingReceipt C g wire account w = (w2, Inr receipt) \<longrightarrow>
      (\<exists>pay. Unmarshal_Payment C wire = Some pay \<and> is_account g (pb_sender pay) account (bf_Account receipt) \<and>
         map_option bw_Payee (bf_Account receipt) = Some (payment_recipient pay) \<and>
         bf_FundingID receipt = hex_encode (sha256 wire))) \<and>
   (Broker_AdvanceAuthorization g advance w = (w3, Inr advanced) \<longrightarrow>
      is_account g (bv_Payer advance) (bv_WholesaleAccountID advance) (bx_Account advanced)) \<and>
   (Broker_SettleAuthorization g settle w = (w4, Inr settled) \<longrightarrow>
      is_account g (by_Payer settle) (by_WholesaleAccountID settle) (bz_Account settled)) \<and>
   (Broker_GetWholesaleAccount g payer account w = (w5, Inr shown) \<longrightarrow> is_account g payer account shown) \<and>
   (Broker_AdmitAuthorization C g admit w = (w6, Inr admitted) \<longrightarrow>
      (\<exists>auth p a. Unmarshal_SpendAuthorization C (bm_AuthorizationBytes admit) = Some auth \<and> sa_payload auth = Some p \<and>
         bd_Account admitted = Some a \<and> is_account g (pl_payer p) (pl_wholesale_account_id p) (Some a) \<and>
         bw_Payee a = pl_payee p \<and> bw_ChainID a = pl_chain_id p \<and> bw_Denomination a = pl_denomination p)) \<and>
   (Broker_CancelAuthorizationAdmission C g wire w = (w7, Inr canceled) \<longrightarrow>
      (\<exists>auth p. Unmarshal_SpendAuthorization C wire = Some auth \<and> sa_payload auth = Some p \<and>
         is_account g (pl_payer p) (pl_wholesale_account_id p) (bc_Account canceled) \<and>
         (\<forall>a. bc_Authorization canceled = Some a \<longrightarrow> ba_WholesaleAccountID a = pl_wholesale_account_id p \<and>
            ba_SettlementDomainID a = g_settlementDomainID g \<and> ba_Payee a = pl_payee p)))"
proof (intro conjI impI)
  assume "Broker_FundWholesaleAccount C g wire account w = (w1, Inr funded)"
  then show "\<exists>pay. Unmarshal_Payment C wire = Some pay \<and> is_account g (pb_sender pay) account (bf_Account funded) \<and>
      map_option bw_Payee (bf_Account funded) = Some (payment_recipient pay)"
    by (cases "Unmarshal_Payment C wire")
      (auto simp: Broker_FundWholesaleAccount_def call_runs dest!: validated_payee)
next
  assume "Broker_GetWholesaleFundingReceipt C g wire account w = (w2, Inr receipt)"
  then show "\<exists>pay. Unmarshal_Payment C wire = Some pay \<and> is_account g (pb_sender pay) account (bf_Account receipt) \<and>
      map_option bw_Payee (bf_Account receipt) = Some (payment_recipient pay) \<and>
      bf_FundingID receipt = hex_encode (sha256 wire)"
    by (cases "Unmarshal_Payment C wire")
      (auto simp: Broker_GetWholesaleFundingReceipt_def Let_def call_runs dest!: validated_payee)
next
  assume "Broker_AdvanceAuthorization g advance w = (w3, Inr advanced)"
  then show "is_account g (bv_Payer advance) (bv_WholesaleAccountID advance) (bx_Account advanced)"
    by (auto simp: Broker_AdvanceAuthorization_def call_runs validated_is_account)
next
  assume "Broker_SettleAuthorization g settle w = (w4, Inr settled)"
  then show "is_account g (by_Payer settle) (by_WholesaleAccountID settle) (bz_Account settled)"
    by (auto simp: Broker_SettleAuthorization_def call_runs validated_is_account)
next
  assume "Broker_GetWholesaleAccount g payer account w = (w5, Inr shown)"
  then show "is_account g payer account shown"
    by (auto simp: Broker_GetWholesaleAccount_def call_runs validated_is_account)
next
  assume "Broker_AdmitAuthorization C g admit w = (w6, Inr admitted)"
  then show "\<exists>auth p a. Unmarshal_SpendAuthorization C (bm_AuthorizationBytes admit) = Some auth \<and> sa_payload auth = Some p \<and>
         bd_Account admitted = Some a \<and> is_account g (pl_payer p) (pl_wholesale_account_id p) (Some a) \<and>
         bw_Payee a = pl_payee p \<and> bw_ChainID a = pl_chain_id p \<and> bw_Denomination a = pl_denomination p"
    using validated_is_account [of g "Some v" for v]
    by (fastforce simp: Broker_AdmitAuthorization_def call_runs accountFromProto_def split: option.splits)
next
  assume "Broker_CancelAuthorizationAdmission C g wire w = (w7, Inr canceled)"
  then show "\<exists>auth p. Unmarshal_SpendAuthorization C wire = Some auth \<and> sa_payload auth = Some p \<and>
         is_account g (pl_payer p) (pl_wholesale_account_id p) (bc_Account canceled) \<and>
         (\<forall>a. bc_Authorization canceled = Some a \<longrightarrow> ba_WholesaleAccountID a = pl_wholesale_account_id p \<and>
            ba_SettlementDomainID a = g_settlementDomainID g \<and> ba_Payee a = pl_payee p)"
    by (rule canceled_scope)
qed

section \<open>Prices\<close>

lemma BillFor_le_iff:
  assumes "0 \<le> p"
  shows "BillFor (Some p) q u \<le> b \<longleftrightarrow> p * uint u \<le> b * uint (if q = 0 then 1 else q)"
proof -
  show ?thesis using assms denom_pos [of q] by (simp add: BillFor_bill bill_def ceil_quo_le_iff)
qed

text \<open>C22: the broker's runway is what the payee's ledger would let the balance buy. The bill the broker
  computes is the ledger's bill. For a positive price and balance, every number of units up to the
  runway is billed at most the balance, and as long as the runway is below the largest 64-bit integer
  every affordable number of units is within it.\<close>

theorem runway_is_what_the_balance_buys:
  assumes "0 < p" "0 < b"
  shows "Broker_BillFor price q u = BillFor price q u \<and>
    (uint u \<le> RunwayUnits (Some b) (Some p) q \<longrightarrow> BillFor (Some p) q u \<le> b) \<and>
    (BillFor (Some p) q u \<le> b \<longrightarrow> RunwayUnits (Some b) (Some p) q < 2 ^ 63 - 1 \<longrightarrow> uint u \<le> RunwayUnits (Some b) (Some p) q)"
proof -
  let ?d = "uint (if q = 0 then 1 else q)"
  let ?n = "(b * ?d) div p"
  have n: "0 \<le> ?n" using assms denom_pos [of q] by (simp add: pos_imp_zdiv_nonneg_iff)
  have run: "RunwayUnits (Some b) (Some p) q = (if ?n < 2 ^ 63 then ?n else 2 ^ 63 - 1)"
    using assms n by (auto simp: RunwayUnits_def IsInt64_def Let_def)
  have "BillFor (Some p) q u \<le> b \<longleftrightarrow> uint u \<le> ?n"
    using assms by (simp add: BillFor_le_iff le_div_iff_int mult.commute)
  moreover have "Broker_BillFor price q u = BillFor price q u"
    by (simp add: Broker_BillFor_def BillFor_def Let_def split: option.split)
  ultimately show ?thesis by (auto simp: run split: if_splits)
qed

section \<open>Examples\<close>

definition sample_broker :: "codec \<Rightarrow> payee_state GRPC" where
  "sample_broker C = \<lparr>g_client = payee_client sample_eth C sample_service \<lparr>pi_random = (\<lambda>_. ''r''), pi_now = (\<lambda>_. 1), pi_later = (\<lambda>_. 1)\<rparr>,
     g_settlementDomainID = ''d''\<rparr>"

lemma sample_broker_domain: "SettlementDomain (sample_broker C) (s, n) = ((s, Suc n), Inr ''d'')"
  by (simp add: sample_broker_def SettlementDomain_def payee_client_def serve_query_def serve_def Health_def sample_service_def
      perform_def reject_def yield_def)

lemma sample_unfrozen: "requireUnfrozenSource Open = Inr ()"
  by (simp add: requireUnfrozenSource_def Store_SourceFence_def zero_SourceFence_def Open_def)

theorem refused_admission_left_nothing_witness:
  "\<exists>s e. Broker_AdmitAuthorization sample_wire (sample_broker sample_wire)
       \<lparr>bm_AuthorizationBytes = [], bm_PaymentBytes = [], bm_Reservation = None\<rparr> (Open, 0) = ((s, 2), Inl e) \<and>
     AdmissionRefused (Receiver e) \<and> admitted_in s = admitted_in Open"
proof -
  let ?req = "\<lparr>bm_AuthorizationBytes = [], bm_PaymentBytes = [], bm_Reservation = None\<rparr>"
  let ?e = "admissionStatus InvalidArgument ''AUTHORIZATION_MALFORMED'' ''authorization_bytes is required''"
  have a: "Broker_AdmitAuthorization sample_wire (sample_broker sample_wire) ?req (Open, 0) = ((Open, 2), Inl ?e)"
    by (simp add: Broker_AdmitAuthorization_def perform_def sample_broker_domain)
      (simp add: sample_broker_def payee_client_def serve_def admitAuthorization_def gated_def sample_unfrozen
        check_authorization_def numeral_2_eq_2)
  have "AdmissionRefused (Receiver ?e)"
    using classified_status [of "''AUTHORIZATION_MALFORMED''" InvalidArgument]
    by (simp add: well_classified_def admissionStatus_def)
  then show ?thesis
    using a refused_admission_left_nothing [OF _ a, of sample_eth sample_service] by (auto simp: sample_broker_def)
qed

theorem broker_sees_the_account_it_asked_for_witness:
  "\<exists>w a. Broker_GetWholesaleAccount (sample_broker sample_wire) (replicate 20 (CHR ''s'')) ''acct'' (Open, 0) = (w, Inr a) \<and>
     is_account (sample_broker sample_wire) (replicate 20 (CHR ''s'')) ''acct'' a"
proof -
  have v: "ValidWholesaleAccountID ''acct''" by (simp add: ValidWholesaleAccountID_def byte_in_def)
  have "\<exists>w a. Broker_GetWholesaleAccount (sample_broker sample_wire) (replicate 20 (CHR ''s'')) ''acct'' (Open, 0) = (w, Inr a)"
    by (simp add: Broker_GetWholesaleAccount_def perform_def sample_broker_domain v reject_def)
      (simp add: sample_broker_def payee_client_def serve_query_def serve_def Receiver_GetWholesaleAccount_def v
        domain_mismatch_def sample_service_def validateAccount_def wholesaleAccountView_def payer_or_nil_def yield_def
        GetWholesaleAccount_def loadWholesaleAccount_def Open_def)
  then show ?thesis using broker_sees_the_account_it_asked_for by metis
qed

theorem runway_is_what_the_balance_buys_witness:
  "RunwayUnits (Some 10) (Some 3) 2 = 6 \<and> BillFor (Some 3) 2 6 \<le> 10 \<and> \<not> BillFor (Some 3) 2 7 \<le> 10"
  using runway_is_what_the_balance_buys [of 3 10 None 2 6] runway_is_what_the_balance_buys [of 3 10 None 2 7]
  by (simp add: RunwayUnits_def IsInt64_def)

end
