(* ===== verification/Spec2Isabelle.thy ===== *)
theory Spec2Isabelle
  imports Session_Laws Mint_Store Settlement Ticket_Path Authorization_Path Broker_Laws
begin

text \<open>
  \<^bold>\<open>Verification of the Livepeer network modules: tickets, payment daemons and the broker between them.\<close>

  The repository builds a network in which customers pay for media and AI work with probabilistic
  tickets. The payment daemon (\<open>src/payment-daemon\<close>) is the part that holds the money, and it runs at both
  ends. The payer's process mints signed tickets and signs spend authorizations. The payee's process
  credits tickets, bills work against the credit, and redeems the winning tickets on chain. Each is a gRPC
  service over one bbolt file. The capability broker (\<open>src/capability-broker\<close>) stands between them: the payer
  fetches ticket parameters from it over HTTP, and it is the gRPC client of the payee. This development models
  both processes, the file, every operation on it, the loop that redeems, and the broker's side of payment.

  \<^bold>\<open>How the parts correspond.\<close> Paths are under \<open>src/payment-daemon/internal\<close> unless they start with \<open>src\<close>.

  What the code uses of Go:

  \<^item> \<open>Go_Prelude\<close>: byte strings, hexadecimal and decimal text, \<open>math/big\<close> conversions, truncating division,
    buckets walked in key order, transactions with rollback. \<open>Go_Strings\<close>: the \<open>strings\<close> package.
    \<open>Go_Time\<close>: printing and parsing of RFC 3339 times, and that parsing undoes printing.
    \<open>Sha256\<close>: SHA-256, executable.

  The file:

  \<^item> \<open>Payment_Types\<close>: \<open>types/types.go\<close>, \<open>types/ticket.go\<close>, \<open>service/receiver/validator\<close>: tickets, their
    expected value, hash layout, validation and the winning predicate.
  \<^item> \<open>Store_Types\<close>: the record \<open>store\<close>, one field per bucket of the file, and the errors of \<open>store/\<close>.
  \<^item> \<open>Nonce_Store\<close>: \<open>store/nonces.go\<close>, \<open>store/noncewatermark.go\<close>: the payee's replay ledger and the
    payer's counter.
  \<^item> \<open>Session_Store\<close>, \<open>Session_Laws\<close>: \<open>store/store.go\<close>: sessions, their indexes, rotation, sealing,
    balances and debits.
  \<^item> \<open>Redemption_Store\<close>: \<open>store/redemptions.go\<close>: the queue of winning tickets and its history.
  \<^item> \<open>Mint_Store\<close>: \<open>store/mints.go\<close>: idempotent minting.
  \<^item> \<open>Wholesale_Store\<close>, \<open>Wholesale_Laws\<close>, \<open>Wholesale_Properties\<close>: \<open>store/wholesale.go\<close>,
    \<open>store/admission_recovery.go\<close>, \<open>store/unexecuted.go\<close>: accounts and spend authorizations.
  \<^item> \<open>Funding_Store\<close>, \<open>Funding_Laws\<close>: \<open>store/funding.go\<close>, \<open>store/source_fence.go\<close>,
    \<open>store/settlement_domain.go\<close>, \<open>store/isolation.go\<close>: funding receipts, the freeze, identities.
  \<^item> \<open>Ledger_Laws\<close>: the contracts shared by the components, as locales: machines with an invariant,
    effects that happen at most once, billing curves. Each is interpreted on the operations above.

  The payee:

  \<^item> \<open>Chain_Errors\<close>: \<open>src/chain-commons/errors\<close>: classes of chain errors.
  \<^item> \<open>Escrow\<close>: \<open>service/escrow\<close>. \<open>Settlement\<close>: \<open>service/settlement\<close>: one pass of the redemption loop.
  \<^item> \<open>Receiver_Types\<close>, \<open>Receiver_Sessions\<close>, \<open>Receiver_Wholesale\<close>: \<open>service/receiver\<close> and \<open>spendauth\<close>:
    the handlers of the gRPC service. \<open>Receiver_Laws\<close>, \<open>Receiver_Ledger\<close>: their theorems.

  The payer:

  \<^item> \<open>Identity\<close>: \<open>src/livepeer-network-protocol/proto-go/identity\<close>: canonical broker addresses.
    \<open>Identity_Laws\<close>: a canonical address is its own canonical form.
  \<^item> \<open>Sender_Types\<close>, \<open>Sender\<close>, \<open>Sender_Payments\<close>: \<open>service/sender\<close> and \<open>providers/devclock\<close>: the session
    cache, its rotation, signing, spend limits, \<open>CreatePayment\<close>, \<open>CreateSpendAuthorization\<close> and the other
    handlers. \<open>Sender_Laws\<close>, \<open>Sender_Mints\<close>: their theorems, and \<open>Sender_World\<close>: how the outside world moves on
    while a handler runs. \<open>Sender_Samples\<close> and \<open>Wire_Format\<close> hold a concrete
    payer and a concrete encoding of payments and authorizations, on which the theorems are tried out.

  Between them:

  \<^item> \<open>Broker_Client\<close>: \<open>src/capability-broker/internal/payment\<close>: every call of the broker's gRPC client with its
    checks of the answer, the price rules, and how it reads a failed admission. \<open>Broker_Laws\<close>: its theorems.
  \<^item> \<open>Ticket_Fetcher\<close>: the payer's HTTP client (\<open>service/sender/ticketparams_fetcher.go\<close>), the broker's handler
    (\<open>src/capability-broker/internal/server/payment_ticket_params.go\<close>) and the payee as the other end of the
    broker's stub. \<open>Ticket_Path\<close>: the three put together.
  \<^item> \<open>Authorization_Path\<close>: the payer's \<open>CreateSpendAuthorization\<close> and the payee's checks of what it signs, put together.

  \<^bold>\<open>State and operations.\<close> A store operation takes the store to the store and an error or an answer;
  \<open>db_update\<close> restores the store when the transaction function fails, as bbolt does. A handler of the payee's
  service is a function on the store as well, and each store call it makes commits on its own, so an
  error later in the handler leaves what was committed. Time, random bytes and the answers of the
  chain are arguments. A handler of the payer's service is a step on the record \<open>payer\<close>: the file, the
  session cache, and the outside world, whose state every clock reading, signature, chain query and fetch may
  change. A call of the broker's client is a function on the state of the other end. Histories are lists of operations
  run from a state; the theorems about histories hold for every interleaving, because the code takes one lock
  or one transaction per step.

  \<^bold>\<open>Numbers.\<close> Counters stay at the code's width (64 and 32 bit words), so that overflow is visible; wei
  amounts are unbounded, as in \<open>math/big\<close>, and are kept in the store as the decimal text the code
  writes. No definition needs fuel: every loop of the code walks a list or a bucket.

  \<^bold>\<open>What is shown.\<close> The wholesale ledger balances over every history of its operations and of service
  calls, and value moves between sessions and accounts without being made or lost. A nonce, a debit,
  a funding, an authorization, a mint and a redemption each take effect at most once. A payment is
  credited exactly its acceptable tickets; issued parameters are worth exactly the requested value. A new mint
  is worth exactly the shortfall it funds, and every later call with its id returns the same payment.
  Parameters reach the payer through the broker as the payee issued them, and when no round is initialised during
  the call a payment minted on them passes the payee's validation for exactly that amount. The payee accepts the
  payer's authorizations exactly when they have started, the capability and offering carry no surrounding spaces and
  the predecessor and session ids are not blank, and then for exactly what was asked. When the broker gives up an admission, the payee holds
  nothing for it; no answer about another account gets past the broker. Retries
  converge; cancellations, settlements and freezes are final, a freeze over every later history of calls and of
  writes of the settlement loop. The redemption queue refines a first-in first-out queue. A pass of the settlement
  loop looks at its head only: a ticket that the chain shows can never pay leaves with a terminal error, one whose
  redemption the chain vouches for leaves with its revenue, and any other stays.
  Several theorems describe behaviour that differs from what the comments promise: the index entry
  that sealing leaves behind, the second seal that replaces a paid session, the seed that is the secret, the rebuilt pending amounts that are never
  released, the debit total that wraps, and the negated terms that escape the payer's limit on face values.

  \<^bold>\<open>Parameters.\<close> Keccak, key recovery and padding of go-ethereum are the record \<open>eth\<close>; protobuf encoding
  and decoding are the records \<open>codec\<close> and \<open>payer_codec\<close>; the broker contract's answers are the record \<open>chain\<close>; the
  payer's keystore, clock, chain view and fetcher are the record \<open>payer_env\<close>; \<open>net/url\<close> is the record \<open>urllib\<close>; the
  HTTP exchange and JSON text are the records \<open>http\<close> and \<open>json\<close>; the broker's generated stub is the record
  \<open>PayeeDaemonClient\<close>. Where a theorem needs a law of them it is a named premise.

  \<^bold>\<open>Not modelled.\<close> Goroutines, locks and the ticker of the loop; gRPC transport; metrics and logging; the
  JSON-RPC clients behind the chain's answers; the simulator of payouts. Of the other modules of the
  repository the error classes of \<open>chain-commons\<close>, the identity checks and the payment messages of
  \<open>livepeer-network-protocol\<close> and the broker's payment client and ticket parameter endpoint are modelled. The rest
  of the broker, the pool controller, the registry and the consoles are services over SQL and HTTP whose rules
  are mostly in the statements they send to a database.
\<close>

end
